(* ===== verification/Prelude.thy ===== *)
theory Prelude
  imports Main "HOL-Library.Word" "HOL-Library.AList"
begin

text \<open>
  The prelude of the development: the monad in which the Go code is written, its reasoning
  rules, and the generic lemmas the components share.

  A Go function that touches the outside world is a state transformer
  \<open>'s \<Rightarrow> ('a, 's) outcome\<close>: it either returns a value and a new state, or panics (a nil
  dereference, an index out of range). The state at the panic is kept, so that what a function did
  before it panicked can still be reasoned about. The Go error return \<open>err != nil\<close> is a value,
  never a panic.
\<close>

named_theorems wp \<open>weakest-precondition equations of the monad and of the operations\<close>
named_theorems go_run \<open>equations that execute a program one step\<close>
named_theorems emits_intros \<open>compositional rules for the effects a program may have\<close>
named_theorems total_intros \<open>operations that never panic\<close>
named_theorems frame_intros \<open>operations that leave a field of the state alone\<close>
named_theorems label_simps \<open>facts about label keys and label maps\<close>

type_synonym int32 = "32 word"
type_synonym int64 = "64 word"
type_synonym time = int  \<comment> \<open>nanoseconds since the epoch\<close>
type_synonym smap = "(string \<times> string) list"

section \<open>Programs\<close>

datatype ('a, 's) outcome = Ret 'a 's | Panic string 's

type_synonym ('s, 'a) go = "'s \<Rightarrow> ('a, 's) outcome"

primrec final_state :: "('a, 's) outcome \<Rightarrow> 's" where
  "final_state (Ret a s) = s"
| "final_state (Panic p s) = s"

primrec panics :: "('a, 's) outcome \<Rightarrow> bool" where
  "panics (Ret a s) = False"
| "panics (Panic p s) = True"

definition go_return :: "'a \<Rightarrow> ('s, 'a) go" where
  "go_return a = (\<lambda>s. Ret a s)"

definition go_panic :: "string \<Rightarrow> ('s, 'a) go" where
  "go_panic p = (\<lambda>s. Panic p s)"

definition go_bind :: "('s, 'a) go \<Rightarrow> ('a \<Rightarrow> ('s, 'b) go) \<Rightarrow> ('s, 'b) go" where
  "go_bind m f = (\<lambda>s. case m s of Ret a s' \<Rightarrow> f a s' | Panic p s' \<Rightarrow> Panic p s')"

definition go_seq :: "('s, 'a) go \<Rightarrow> ('s, 'b) go \<Rightarrow> ('s, 'b) go" where
  "go_seq m n = go_bind m (\<lambda>_. n)"

definition go_gets :: "('s \<Rightarrow> 'a) \<Rightarrow> ('s, 'a) go" where
  "go_gets f = (\<lambda>s. Ret (f s) s)"

definition go_modify :: "('s \<Rightarrow> 's) \<Rightarrow> ('s, unit) go" where
  "go_modify f = (\<lambda>s. Ret () (f s))"

text \<open>A pure computation that may panic is a sum, with the panic message on the left.\<close>

definition go_lift :: "string + 'a \<Rightarrow> ('s, 'a) go" where
  "go_lift r = (case r of Inl p \<Rightarrow> go_panic p | Inr a \<Rightarrow> go_return a)"

text \<open>\<open>if err := m; err != nil { return err }; k\<close>.\<close>

definition go_try :: "('s, 'e option) go \<Rightarrow> ('s, 'e option) go \<Rightarrow> ('s, 'e option) go" where
  "go_try m k = go_bind m (\<lambda>r. case r of Some e \<Rightarrow> go_return (Some e) | None \<Rightarrow> k)"

text \<open>\<open>x, err := m; if err != nil { return err }; k x\<close>.\<close>

definition go_try_val :: "('s, 'e + 'a) go \<Rightarrow> ('a \<Rightarrow> ('s, 'e option) go) \<Rightarrow> ('s, 'e option) go" where
  "go_try_val m k = go_bind m (\<lambda>r. case r of Inl e \<Rightarrow> go_return (Some e) | Inr a \<Rightarrow> k a)"

text \<open>A \<open>for _, x := range xs\<close> loop whose body may return an error out of the function, and one
  whose body never leaves the loop.\<close>

fun go_forE :: "('x \<Rightarrow> ('s, 'e option) go) \<Rightarrow> 'x list \<Rightarrow> ('s, 'e option) go" where
  "go_forE f [] = go_return None"
| "go_forE f (x # xs) = go_try (f x) (go_forE f xs)"

fun go_for :: "('x \<Rightarrow> ('s, unit) go) \<Rightarrow> 'x list \<Rightarrow> ('s, unit) go" where
  "go_for f [] = go_return ()"
| "go_for f (x # xs) = go_seq (f x) (go_for f xs)"

lemmas go_defs = go_return_def go_panic_def go_bind_def go_seq_def go_gets_def go_modify_def
  go_lift_def go_try_def go_try_val_def

lemma go_bind_assoc: "go_bind (go_bind m f) g = go_bind m (\<lambda>a. go_bind (f a) g)"
  by (rule ext) (simp add: go_bind_def split: outcome.splits)

lemma run_return [go_run]: "go_return a s = Ret a s"
  by (simp add: go_return_def)

lemma run_panic [go_run]: "go_panic p s = Panic p s"
  by (simp add: go_panic_def)

lemma run_gets [go_run]: "go_gets f s = Ret (f s) s"
  by (simp add: go_gets_def)

lemma run_modify [go_run]: "go_modify f s = Ret () (f s)"
  by (simp add: go_modify_def)

lemma run_bind [go_run]:
  "go_bind m f s = (case m s of Ret a s' \<Rightarrow> f a s' | Panic p s' \<Rightarrow> Panic p s')"
  by (simp add: go_bind_def)

lemma run_seq [go_run]:
  "go_seq m n s = (case m s of Ret a s' \<Rightarrow> n s' | Panic p s' \<Rightarrow> Panic p s')"
  by (simp add: go_seq_def go_bind_def)

lemma run_lift [go_run]:
  "go_lift r s = (case r of Inl p \<Rightarrow> Panic p s | Inr a \<Rightarrow> Ret a s)"
  by (simp add: go_lift_def go_panic_def go_return_def split: sum.splits)

lemma run_try [go_run]:
  "go_try m k s = (case m s of Ret r s' \<Rightarrow> (case r of Some e \<Rightarrow> Ret (Some e) s' | None \<Rightarrow> k s')
                             | Panic p s' \<Rightarrow> Panic p s')"
  by (simp add: go_try_def go_bind_def go_return_def split: outcome.splits option.splits)

lemma run_try_val [go_run]:
  "go_try_val m k s = (case m s of Ret r s' \<Rightarrow> (case r of Inl e \<Rightarrow> Ret (Some e) s' | Inr a \<Rightarrow> k a s')
                                 | Panic p s' \<Rightarrow> Panic p s')"
  by (simp add: go_try_val_def go_bind_def go_return_def split: outcome.splits sum.splits)

section \<open>Weakest preconditions\<close>

text \<open>\<open>wp m Q s\<close>: from \<open>s\<close> the program does not panic and its result satisfies \<open>Q\<close>.\<close>

definition wp :: "('s, 'a) go \<Rightarrow> ('a \<Rightarrow> 's \<Rightarrow> bool) \<Rightarrow> 's \<Rightarrow> bool" where
  "wp m Q s = (case m s of Ret a s' \<Rightarrow> Q a s' | Panic _ _ \<Rightarrow> False)"

lemma wp_return [wp]: "wp (go_return a) Q s = Q a s"
  by (simp add: wp_def go_return_def)

lemma wp_panic [wp]: "wp (go_panic p) Q s = False"
  by (simp add: wp_def go_panic_def)

lemma wp_gets [wp]: "wp (go_gets f) Q s = Q (f s) s"
  by (simp add: wp_def go_gets_def)

lemma wp_modify [wp]: "wp (go_modify f) Q s = Q () (f s)"
  by (simp add: wp_def go_modify_def)

lemma wp_bind [wp]: "wp (go_bind m f) Q s = wp m (\<lambda>a. wp (f a) Q) s"
  by (simp add: wp_def go_bind_def split: outcome.splits)

lemma wp_seq [wp]: "wp (go_seq m n) Q s = wp m (\<lambda>_. wp n Q) s"
  by (simp add: go_seq_def wp_bind)

lemma wp_lift [wp]: "wp (go_lift r) Q s = (case r of Inl _ \<Rightarrow> False | Inr a \<Rightarrow> Q a s)"
  by (simp add: go_lift_def wp_return wp_panic split: sum.splits)

lemma wp_try [wp]:
  "wp (go_try m k) Q s = wp m (\<lambda>r s'. case r of Some e \<Rightarrow> Q (Some e) s' | None \<Rightarrow> wp k Q s') s"
  by (simp add: wp_def run_try split: outcome.splits option.splits)

lemma wp_try_val [wp]:
  "wp (go_try_val m k) Q s = wp m (\<lambda>r s'. case r of Inl e \<Rightarrow> Q (Some e) s' | Inr a \<Rightarrow> wp (k a) Q s') s"
  by (simp add: wp_def run_try_val split: outcome.splits sum.splits)

lemma wp_mono: "wp m Q s \<Longrightarrow> (\<And>a s'. Q a s' \<Longrightarrow> R a s') \<Longrightarrow> wp m R s"
  by (auto simp: wp_def split: outcome.splits)

lemma wp_conj: "wp m Q s \<Longrightarrow> wp m R s \<Longrightarrow> wp m (\<lambda>a s'. Q a s' \<and> R a s') s"
  by (auto simp: wp_def split: outcome.splits)

lemma wp_iff_Ret: "wp m Q s \<longleftrightarrow> (\<exists>a s'. m s = Ret a s' \<and> Q a s')"
  by (auto simp: wp_def split: outcome.splits)

lemma wp_not_panics: "wp m Q s \<Longrightarrow> \<not> panics (m s)"
  by (auto simp: wp_iff_Ret)

text \<open>The loop rule: an invariant over the elements still to come, kept by every iteration that
  returns no error.\<close>

lemma wp_forE:
  assumes "I xs s"
    and step: "\<And>y ys t. I (y # ys) t \<Longrightarrow> wp (f y) (\<lambda>r t'. case r of None \<Rightarrow> I ys t' | Some e \<Rightarrow> Q (Some e) t') t"
    and fin: "\<And>t. I [] t \<Longrightarrow> Q None t"
  shows "wp (go_forE f xs) Q s"
  using assms(1)
proof (induction xs arbitrary: s)
  case Nil
  then show ?case by (simp add: wp fin)
next
  case (Cons y ys)
  show ?case
    unfolding go_forE.simps wp_try
    by (rule wp_mono [OF step [OF Cons.prems]]) (auto split: option.splits intro: Cons.IH)
qed

lemma wp_for:
  assumes "I xs s"
    and step: "\<And>y ys t. I (y # ys) t \<Longrightarrow> wp (f y) (\<lambda>_ t'. I ys t') t"
    and fin: "\<And>t. I [] t \<Longrightarrow> Q () t"
  shows "wp (go_for f xs) Q s"
  using assms(1)
proof (induction xs arbitrary: s)
  case Nil
  then show ?case by (simp add: wp fin)
next
  case (Cons y ys)
  show ?case
    unfolding go_for.simps wp_seq
    by (rule wp_mono [OF step [OF Cons.prems]]) (auto intro: Cons.IH)
qed

section \<open>What a program can return\<close>

text \<open>Facts about the value a program returns, when it returns.\<close>

definition returns :: "('a \<Rightarrow> bool) \<Rightarrow> ('s, 'a) go \<Rightarrow> bool" where
  "returns A m \<longleftrightarrow> (\<forall>s a s'. m s = Ret a s' \<longrightarrow> A a)"

lemma returns_return: "A a \<Longrightarrow> returns A (go_return a)"
  by (simp add: returns_def go_run)

lemma returns_panic: "returns A (go_panic p)"
  by (simp add: returns_def go_run)

lemma returns_bind: "returns B m \<Longrightarrow> (\<And>b. B b \<Longrightarrow> returns A (f b)) \<Longrightarrow> returns A (go_bind m f)"
  by (fastforce simp: returns_def go_run split: outcome.splits)

lemma go_bind_lift: "go_bind (go_lift (Inr a)) f = f a"
  by (rule ext) (simp add: go_run)

lemma returns_any: "returns (\<lambda>_. True) m"
  by (simp add: returns_def)

lemma returns_seq: "returns A n \<Longrightarrow> returns A (go_seq m n)"
  unfolding go_seq_def by (rule returns_bind [OF returns_any])

lemma returns_case_sum:
  "(\<And>e. x = Inl e \<Longrightarrow> returns A (g e)) \<Longrightarrow> (\<And>b. x = Inr b \<Longrightarrow> returns A (f b)) \<Longrightarrow> returns A (case x of Inl e \<Rightarrow> g e | Inr b \<Rightarrow> f b)"
  by (cases x) auto

lemma returns_case_option:
  "(x = None \<Longrightarrow> returns A m) \<Longrightarrow> (\<And>b. x = Some b \<Longrightarrow> returns A (f b)) \<Longrightarrow> returns A (case x of None \<Rightarrow> m | Some b \<Rightarrow> f b)"
  by (cases x) auto

section \<open>Effects as an invariant relation\<close>

text \<open>
  \<open>keeps R m\<close>: whatever the program does, even when it panics, its first and last state are
  related by \<open>R\<close>. For a reflexive and transitive \<open>R\<close> the rule for a compound program needs only
  the rules for its parts; every frame property of the development (what is never written, which
  calls are never made) is an instance.
\<close>

definition keeps :: "('s \<Rightarrow> 's \<Rightarrow> bool) \<Rightarrow> ('s, 'a) go \<Rightarrow> bool" where
  "keeps R m \<longleftrightarrow> (\<forall>s. R s (final_state (m s)))"

locale frame =
  fixes R :: "'s \<Rightarrow> 's \<Rightarrow> bool"
  assumes refl: "R s s"
    and trans: "R s t \<Longrightarrow> R t u \<Longrightarrow> R s u"
begin

lemma keeps_return [intro, simp]: "keeps R (go_return a)"
  by (simp add: keeps_def go_return_def refl)

lemma keeps_panic [intro, simp]: "keeps R (go_panic p)"
  by (simp add: keeps_def go_panic_def refl)

lemma keeps_gets [intro, simp]: "keeps R (go_gets f)"
  by (simp add: keeps_def go_gets_def refl)

lemma keeps_lift [intro, simp]: "keeps R (go_lift r)"
  by (simp add: go_lift_def split: sum.splits)

lemma keeps_modify: "(\<And>s. R s (f s)) \<Longrightarrow> keeps R (go_modify f)"
  by (simp add: keeps_def go_modify_def)

lemma keeps_bind [intro]:
  assumes "keeps R m" and "\<And>a. keeps R (f a)"
  shows "keeps R (go_bind m f)"
  using assms by (auto simp: keeps_def go_bind_def split: outcome.splits)
    (metis final_state.simps trans)+

lemma keeps_seq [intro]: "keeps R m \<Longrightarrow> keeps R n \<Longrightarrow> keeps R (go_seq m n)"
  by (simp add: go_seq_def keeps_bind)

lemma keeps_try [intro]: "keeps R m \<Longrightarrow> keeps R k \<Longrightarrow> keeps R (go_try m k)"
  by (auto simp: go_try_def intro!: keeps_bind split: option.splits)

lemma keeps_try_val [intro]: "keeps R m \<Longrightarrow> (\<And>a. keeps R (k a)) \<Longrightarrow> keeps R (go_try_val m k)"
  by (auto simp: go_try_val_def intro!: keeps_bind split: sum.splits)

lemma keeps_forE [intro]: "(\<And>x. x \<in> set xs \<Longrightarrow> keeps R (f x)) \<Longrightarrow> keeps R (go_forE f xs)"
  by (induction xs) auto

lemma keeps_for [intro]: "(\<And>x. x \<in> set xs \<Longrightarrow> keeps R (f x)) \<Longrightarrow> keeps R (go_for f xs)"
  by (induction xs) auto

lemma keeps_if [intro]: "(b \<Longrightarrow> keeps R m) \<Longrightarrow> (\<not> b \<Longrightarrow> keeps R n) \<Longrightarrow> keeps R (if b then m else n)"
  by simp

lemma keeps_let [intro]: "(\<And>x. keeps R (f x)) \<Longrightarrow> keeps R (let x = t in f x)"
  by simp

lemma keeps_case_option [intro]:
  "(x = None \<Longrightarrow> keeps R m) \<Longrightarrow> (\<And>a. x = Some a \<Longrightarrow> keeps R (f a)) \<Longrightarrow>
   keeps R (case x of None \<Rightarrow> m | Some a \<Rightarrow> f a)"
  by (cases x) auto

lemma keeps_case_sum [intro]:
  "(\<And>e. x = Inl e \<Longrightarrow> keeps R (g e)) \<Longrightarrow> (\<And>a. x = Inr a \<Longrightarrow> keeps R (f a)) \<Longrightarrow>
   keeps R (case x of Inl e \<Rightarrow> g e | Inr a \<Rightarrow> f a)"
  by (cases x) auto

lemma keeps_case_prod [intro]:
  "(\<And>a b. x = (a, b) \<Longrightarrow> keeps R (f a b)) \<Longrightarrow> keeps R (case x of (a, b) \<Rightarrow> f a b)"
  by (cases x) auto

lemma keeps_case_list [intro]:
  "(x = [] \<Longrightarrow> keeps R m) \<Longrightarrow> (\<And>a b. x = a # b \<Longrightarrow> keeps R (f a b)) \<Longrightarrow>
   keeps R (case x of [] \<Rightarrow> m | a # b \<Rightarrow> f a b)"
  by (cases x) auto

lemma keeps_bind_returns:
  assumes "keeps R m" "returns A m" "\<And>a. A a \<Longrightarrow> keeps R (f a)"
  shows "keeps R (go_bind m f)"
  unfolding keeps_def
proof
  fix s
  show "R s (final_state (go_bind m f s))"
  proof (cases "m s")
    case (Ret a s')
    then have "A a" "R s s'" using assms(1,2) by (auto simp: returns_def keeps_def) (metis final_state.simps(1))
    with Ret assms(3) show ?thesis by (auto simp: go_run keeps_def intro: trans)
  next
    case (Panic p s')
    with assms(1) show ?thesis by (auto simp: go_run keeps_def) (metis final_state.simps(2))
  qed
qed

lemma keepsD: "keeps R m \<Longrightarrow> m s = Ret a s' \<Longrightarrow> R s s'"
  by (metis keeps_def final_state.simps(1))

end

text \<open>Two frames every component uses: a field is never written, and a list field is only
  appended to with elements that satisfy a predicate.\<close>

definition unchanged :: "('s \<Rightarrow> 'f) \<Rightarrow> 's \<Rightarrow> 's \<Rightarrow> bool" where
  "unchanged f s t \<longleftrightarrow> f t = f s"

definition appends :: "('s \<Rightarrow> 'x list) \<Rightarrow> ('x \<Rightarrow> bool) \<Rightarrow> 's \<Rightarrow> 's \<Rightarrow> bool" where
  "appends f P s t \<longleftrightarrow> (\<exists>xs. f t = f s @ xs \<and> list_all P xs)"

interpretation unchanged: frame "unchanged f"
  by unfold_locales (simp_all add: unchanged_def)

interpretation appends: frame "appends f P"
proof
  show "appends f P s s" for s by (simp add: appends_def)
  show "appends f P s t \<Longrightarrow> appends f P t u \<Longrightarrow> appends f P s u" for s t u
    unfolding appends_def by (metis append_assoc list_all_append)
qed

lemmas unchanged_rules = unchanged.keeps_return unchanged.keeps_panic unchanged.keeps_gets
  unchanged.keeps_lift unchanged.keeps_bind unchanged.keeps_seq unchanged.keeps_try
  unchanged.keeps_try_val unchanged.keeps_forE unchanged.keeps_for unchanged.keeps_if
  unchanged.keeps_let unchanged.keeps_case_option unchanged.keeps_case_sum
  unchanged.keeps_case_prod unchanged.keeps_case_list

lemma appends_mono: "appends f P s t \<Longrightarrow> (\<And>x. P x \<Longrightarrow> Q x) \<Longrightarrow> appends f Q s t"
  by (auto simp: appends_def list_all_iff)

lemma appends_filter: "appends f P s t \<Longrightarrow> (\<And>x. P x \<Longrightarrow> \<not> Q x) \<Longrightarrow> filter Q (f t) = filter Q (f s)"
  by (auto simp: appends_def list_all_iff filter_empty_conv)

section \<open>Programs that never panic\<close>

definition total :: "('s, 'a) go \<Rightarrow> bool" where
  "total m \<longleftrightarrow> (\<forall>s. \<not> panics (m s))"

lemma total_return: "total (go_return a)"
  by (simp add: total_def go_return_def)

lemma total_gets: "total (go_gets f)"
  by (simp add: total_def go_gets_def)

lemma total_modify: "total (go_modify f)"
  by (simp add: total_def go_modify_def)

lemma total_bind: "total m \<Longrightarrow> (\<And>a. total (f a)) \<Longrightarrow> total (go_bind m f)"
  by (auto simp: total_def go_bind_def split: outcome.splits) (metis panics.simps(2))

lemma total_seq: "total m \<Longrightarrow> total n \<Longrightarrow> total (go_seq m n)"
  by (simp add: go_seq_def total_bind)

lemma total_try: "total m \<Longrightarrow> total k \<Longrightarrow> total (go_try m k)"
  by (auto simp: go_try_def intro!: total_bind total_return split: option.splits)

lemma total_try_val: "total m \<Longrightarrow> (\<And>a. total (k a)) \<Longrightarrow> total (go_try_val m k)"
  by (auto simp: go_try_val_def intro!: total_bind total_return split: sum.splits)

lemma total_forE: "(\<And>x. x \<in> set xs \<Longrightarrow> total (f x)) \<Longrightarrow> total (go_forE f xs)"
  by (induction xs) (auto intro!: total_return total_try)

lemma total_for: "(\<And>x. x \<in> set xs \<Longrightarrow> total (f x)) \<Longrightarrow> total (go_for f xs)"
  by (induction xs) (auto intro!: total_return total_seq)

lemma total_if: "(b \<Longrightarrow> total m) \<Longrightarrow> (\<not> b \<Longrightarrow> total n) \<Longrightarrow> total (if b then m else n)"
  by simp

lemma total_let: "(\<And>x. total (f x)) \<Longrightarrow> total (let x = t in f x)"
  by simp

lemma total_case_option:
  "(x = None \<Longrightarrow> total m) \<Longrightarrow> (\<And>a. x = Some a \<Longrightarrow> total (f a)) \<Longrightarrow> total (case x of None \<Rightarrow> m | Some a \<Rightarrow> f a)"
  by (cases x) auto

lemma total_case_sum:
  "(\<And>e. x = Inl e \<Longrightarrow> total (g e)) \<Longrightarrow> (\<And>a. x = Inr a \<Longrightarrow> total (f a)) \<Longrightarrow>
   total (case x of Inl e \<Rightarrow> g e | Inr a \<Rightarrow> f a)"
  by (cases x) auto

lemma total_case_prod:
  "(\<And>a b. x = (a, b) \<Longrightarrow> total (f a b)) \<Longrightarrow> total (case x of (a, b) \<Rightarrow> f a b)"
  by (cases x) auto

lemmas total_rules = total_return total_gets total_modify total_bind total_seq total_try
  total_try_val total_forE total_for total_if total_let total_case_option total_case_sum
  total_case_prod

lemma total_Ret: "total m \<Longrightarrow> \<exists>a s'. m s = Ret a s'"
  unfolding total_def by (metis outcome.exhaust panics.simps(2))

lemma total_keeps: "total m \<Longrightarrow> keeps R m \<Longrightarrow> \<exists>a s'. m s = Ret a s' \<and> R s s'"
  unfolding keeps_def by (metis final_state.simps(1) total_Ret)

section \<open>Association lists as Go maps\<close>

text \<open>
  A Go map is an association list whose keys are distinct; \<open>map_of\<close> reads it, \<open>AList.update\<close>
  writes it, \<open>AList.delete\<close> removes a key, and a \<open>range\<close> loop visits it in list order. Go leaves
  the order of a \<open>range\<close> open: the theorems hold for every list, so for every order.
\<close>

lemma map_of_fst_distinct: "distinct (map fst m) \<Longrightarrow> (k, v) \<in> set m \<Longrightarrow> map_of m k = Some v"
  by simp

lemmas smap_simps [simp] = update_conv' distinct_update delete_conv' distinct_delete

lemma map_of_rev_distinct:
  assumes "distinct (map fst m)" shows "map_of (rev m) = map_of m"
proof (rule ext)
  fix k
  show "map_of (rev m) k = map_of m k"
  proof (cases "map_of m k")
    case None
    then show ?thesis by (metis map_of_eq_None_iff rev_map set_map set_rev)
  next
    case (Some v)
    then have "(k, v) \<in> set (rev m)" by (simp add: map_of_SomeD)
    moreover have "distinct (map fst (rev m))" using assms by (simp flip: rev_map)
    ultimately show ?thesis using Some by (simp add: map_of_is_SomeI)
  qed
qed

lemma map_of_foldl_update:
  "map_of (foldl (\<lambda>m (k, v). AList.update k v m) m kvs) = map_of m ++ map_of (rev kvs)"
  by (induction kvs arbitrary: m) (auto simp: update_conv' map_add_def fun_eq_iff split: option.splits)

end
