(* ===== verification/GoStrings.thy ===== *)
theory GoStrings
  imports Prelude
begin

text \<open>
  The parts of Go's \<open>strings\<close>, \<open>strconv\<close> and \<open>fmt\<close> packages that the operator calls, on
  byte strings. Case conversion and white space are those of ASCII: the strings of the operator
  that are converted are label values, replica types and numbers.
\<close>

section \<open>Errors\<close>

text \<open>
  An error is either an API status error, which carries the reason that \<open>errors.IsNotFound\<close>,
  \<open>errors.IsTimeout\<close> and their kin read, or a plain error built by \<open>fmt.Errorf\<close> or
  \<open>errors.New\<close>. \<open>fmt.Errorf("...: %v", err)\<close> keeps only the text of \<open>err\<close>: the reason is gone.
\<close>

datatype status_reason = NotFound | AlreadyExists | Conflict | Invalid | Timeout | OtherReason string

datatype gerr = StatusErr status_reason string | PlainErr string

fun err_text :: "gerr \<Rightarrow> string" where
  "err_text (StatusErr r m) = m"
| "err_text (PlainErr m) = m"

fun err_reason :: "gerr \<Rightarrow> status_reason option" where
  "err_reason (StatusErr r m) = Some r"
| "err_reason (PlainErr m) = None"

definition IsNotFound :: "gerr \<Rightarrow> bool" where "IsNotFound e \<longleftrightarrow> err_reason e = Some NotFound"
definition IsTimeout :: "gerr \<Rightarrow> bool" where "IsTimeout e \<longleftrightarrow> err_reason e = Some Timeout"
definition IsInvalid :: "gerr \<Rightarrow> bool" where "IsInvalid e \<longleftrightarrow> err_reason e = Some Invalid"

text \<open>\<open>fmt.Errorf(prefix + "%v", err)\<close> and \<open>client.IgnoreNotFound\<close>.\<close>

definition errorf_v :: "string \<Rightarrow> gerr \<Rightarrow> gerr" where
  "errorf_v pre e = PlainErr (pre @ err_text e)"

definition IgnoreNotFound :: "gerr \<Rightarrow> gerr option" where
  "IgnoreNotFound e = (if IsNotFound e then None else Some e)"

lemma errorf_v_reason [simp]: "err_reason (errorf_v p e) = None"
  by (simp add: errorf_v_def)

lemma errorf_v_class [simp]:
  "\<not> IsNotFound (errorf_v p e)" "\<not> IsTimeout (errorf_v p e)" "\<not> IsInvalid (errorf_v p e)"
  by (simp_all add: IsNotFound_def IsTimeout_def IsInvalid_def)

lemma plain_class [simp]:
  "\<not> IsNotFound (PlainErr m)" "\<not> IsTimeout (PlainErr m)" "\<not> IsInvalid (PlainErr m)"
  by (simp_all add: IsNotFound_def IsTimeout_def IsInvalid_def)

section \<open>The strings package\<close>

definition lower_char :: "char \<Rightarrow> char" where
  "lower_char c = (let n = of_char c :: nat in if 65 \<le> n \<and> n \<le> 90 then char_of (n + 32) else c)"

definition ToLower :: "string \<Rightarrow> string" where
  "ToLower s = map lower_char s"

definition EqualFold :: "string \<Rightarrow> string \<Rightarrow> bool" where
  "EqualFold s t \<longleftrightarrow> ToLower s = ToLower t"

definition HasPrefix :: "string \<Rightarrow> string \<Rightarrow> bool" where
  "HasPrefix s p \<longleftrightarrow> take (length p) s = p"

definition TrimPrefix :: "string \<Rightarrow> string \<Rightarrow> string" where
  "TrimPrefix s p = (if HasPrefix s p then drop (length p) s else s)"

definition is_space :: "char \<Rightarrow> bool" where
  "is_space c \<longleftrightarrow> c \<in> set [CHR '' '', CHR 0x09, CHR 0x0A, CHR 0x0B, CHR 0x0C, CHR 0x0D]"

definition TrimSpace :: "string \<Rightarrow> string" where
  "TrimSpace s = rev (dropWhile is_space (rev (dropWhile is_space s)))"

fun Contains :: "string \<Rightarrow> string \<Rightarrow> bool" where
  "Contains [] t = (t = [])"
| "Contains (c # s) t = (HasPrefix (c # s) t \<or> Contains s t)"

text \<open>\<open>strings.Split(s, sep)\<close> for a one-byte separator, and \<open>strings.Join\<close>.\<close>

fun Split :: "string \<Rightarrow> char \<Rightarrow> string list" where
  "Split [] c = [[]]"
| "Split (x # xs) c =
     (if x = c then [] # Split xs c
      else (case Split xs c of [] \<Rightarrow> [[x]] | y # ys \<Rightarrow> (x # y) # ys))"

fun Join :: "string list \<Rightarrow> string \<Rightarrow> string" where
  "Join [] sep = []"
| "Join [x] sep = x"
| "Join (x # y # ys) sep = x @ sep @ Join (y # ys) sep"

text \<open>\<open>strings.Replace(s, old, new, n)\<close> for a non-empty \<open>old\<close>: at most \<open>n\<close> replacements, and
  all of them for \<open>n = -1\<close>.\<close>

fun Replace :: "nat \<Rightarrow> string \<Rightarrow> string \<Rightarrow> string \<Rightarrow> string" where
  "Replace 0 old new s = s"
| "Replace (Suc n) old new [] = []"
| "Replace (Suc n) old new (c # s) =
     (if HasPrefix (c # s) old then new @ Replace n old new (drop (length old) (c # s))
      else c # Replace (Suc n) old new s)"

fun ReplaceAll :: "string \<Rightarrow> string \<Rightarrow> string \<Rightarrow> string" where
  "ReplaceAll old new [] = []"
| "ReplaceAll old new (c # s) =
     (if old \<noteq> [] \<and> HasPrefix (c # s) old then new @ ReplaceAll old new (drop (length old - 1) s)
      else c # ReplaceAll old new s)"

section \<open>The strconv package\<close>

definition digit_char :: "nat \<Rightarrow> char" where
  "digit_char d = char_of (48 + d)"

fun itoa_nat :: "nat \<Rightarrow> string" where
  "itoa_nat n = (if n < 10 then [digit_char n] else itoa_nat (n div 10) @ [digit_char (n mod 10)])"

declare itoa_nat.simps [simp del]

definition Itoa :: "int \<Rightarrow> string" where
  "Itoa i = (if i < 0 then CHR ''-'' # itoa_nat (nat (- i)) else itoa_nat (nat i))"

definition digit_val :: "char \<Rightarrow> nat option" where
  "digit_val c = (let n = of_char c :: nat in if 48 \<le> n \<and> n \<le> 57 then Some (n - 48) else None)"

fun parse_digits :: "nat \<Rightarrow> string \<Rightarrow> nat option" where
  "parse_digits acc [] = Some acc"
| "parse_digits acc (c # cs) =
     (case digit_val c of None \<Rightarrow> None | Some d \<Rightarrow> parse_digits (10 * acc + d) cs)"

definition parse_unsigned :: "string \<Rightarrow> nat option" where
  "parse_unsigned s = (if s = [] then None else parse_digits 0 s)"

definition in_int64 :: "int \<Rightarrow> bool" where
  "in_int64 i \<longleftrightarrow> - (2 ^ 63) \<le> i \<and> i < 2 ^ 63"

text \<open>\<open>strconv.Atoi\<close>: an optional sign, decimal digits, and the range of a 64-bit \<open>int\<close>.\<close>

fun split_sign :: "string \<Rightarrow> bool \<times> string" where
  "split_sign [] = (False, [])"
| "split_sign (c # cs) =
     (if c = CHR ''-'' then (True, cs) else if c = CHR ''+'' then (False, cs) else (False, c # cs))"

definition Atoi :: "string \<Rightarrow> gerr + int" where
  "Atoi s =
     (case parse_unsigned (snd (split_sign s)) of
        None \<Rightarrow> Inl (PlainErr ''strconv.Atoi: invalid syntax'')
      | Some n \<Rightarrow> (let i = (if fst (split_sign s) then - int n else int n)
          in if in_int64 i then Inr i else Inl (PlainErr ''strconv.Atoi: value out of range'')))"

section \<open>Lemmas: decimal numbers\<close>

lemma of_char_char_of_small [simp]: "n < 256 \<Longrightarrow> (of_char (char_of n :: char) :: nat) = n"
  by simp

lemma digit_val_char [simp]: "d < 10 \<Longrightarrow> digit_val (digit_char d) = Some d"
  by (simp add: digit_val_def digit_char_def)

lemma parse_digits_append:
  "parse_digits acc (xs @ ys) = (case parse_digits acc xs of None \<Rightarrow> None | Some a \<Rightarrow> parse_digits a ys)"
  by (induction xs arbitrary: acc) (auto split: option.splits)

lemma itoa_nat_ne [simp]: "itoa_nat n \<noteq> []"
  by (subst itoa_nat.simps) simp

lemma parse_itoa_nat: "parse_digits 0 (itoa_nat n) = Some n"
proof (induction n rule: itoa_nat.induct)
  case (1 n)
  show ?case
    using 1 by (subst itoa_nat.simps) (auto simp: parse_digits_append)
qed

definition is_digit :: "char \<Rightarrow> bool" where
  "is_digit c \<longleftrightarrow> digit_val c \<noteq> None"

lemma digit_char_is_digit [simp]: "d < 10 \<Longrightarrow> is_digit (digit_char d)"
  by (simp add: is_digit_def)

lemma itoa_nat_digits: "list_all is_digit (itoa_nat n)"
proof (induction n rule: itoa_nat.induct)
  case (1 n)
  show ?case
    using 1 by (subst itoa_nat.simps) auto
qed

lemma is_digit_not [simp]:
  "\<not> is_digit CHR ''-''" "\<not> is_digit CHR ''+''" "\<not> is_digit CHR ''/''" "\<not> is_digit CHR '' ''"
  "\<not> is_digit CHR 0x0A" "\<not> is_digit CHR 0x09" "\<not> is_digit CHR 0x0B" "\<not> is_digit CHR 0x0C"
  "\<not> is_digit CHR 0x0D" "\<not> is_digit CHR ''$''" "\<not> is_digit CHR '',''"
  by (simp_all add: is_digit_def digit_val_def)

lemma is_digit_not_space: "is_digit c \<Longrightarrow> \<not> is_space c"
  by (auto simp: is_space_def)

lemma itoa_nat_hd: "c # cs = itoa_nat n \<Longrightarrow> is_digit c"
  using itoa_nat_digits [of n] by (metis list.pred_inject(2))

text \<open>Reading back a printed number gives the number: \<open>Atoi\<close> inverts \<open>Itoa\<close> on the range of
  \<open>int\<close>.\<close>

lemma Atoi_itoa_nat:
  assumes "in_int64 (int n)"
  shows "Atoi (itoa_nat n) = Inr (int n)"
proof -
  obtain c cs where c: "itoa_nat n = c # cs" by (cases "itoa_nat n") auto
  then have "is_digit c" using itoa_nat_hd by metis
  then have "c \<noteq> CHR ''-''" "c \<noteq> CHR ''+''" by auto
  moreover have "parse_unsigned (c # cs) = Some n"
    using parse_itoa_nat [of n] c by (simp add: parse_unsigned_def)
  ultimately show ?thesis using assms c by (simp add: Atoi_def)
qed

lemma Atoi_Itoa [simp]: "in_int64 i \<Longrightarrow> Atoi (Itoa i) = Inr i"
proof (cases "i < 0")
  case True
  assume "in_int64 i"
  with True show ?thesis
    by (simp add: Itoa_def Atoi_def parse_unsigned_def parse_itoa_nat)
next
  case False
  assume "in_int64 i"
  with False show ?thesis
    using Atoi_itoa_nat [of "nat i"] by (simp add: Itoa_def)
qed

lemma Atoi_in_int64: "Atoi s = Inr i \<Longrightarrow> in_int64 i"
  unfolding Atoi_def Let_def
  by (cases "parse_unsigned (snd (split_sign s))") (simp_all split: if_split_asm)

lemma Itoa_inj_nonneg: "0 \<le> i \<Longrightarrow> 0 \<le> j \<Longrightarrow> Itoa i = Itoa j \<Longrightarrow> i = j"
  unfolding Itoa_def by (metis parse_itoa_nat option.inject eq_nat_nat_iff linorder_not_less)

lemma Itoa_digits: "0 \<le> i \<Longrightarrow> list_all is_digit (Itoa i)"
  by (simp add: Itoa_def itoa_nat_digits)

lemma Itoa_no_char: "0 \<le> i \<Longrightarrow> \<not> is_digit c \<Longrightarrow> c \<notin> set (Itoa i)"
  using Itoa_digits [of i] by (auto simp: list_all_iff)

lemma Itoa_ne [simp]: "Itoa i \<noteq> []"
  by (simp add: Itoa_def)

section \<open>Lemmas: splitting, joining, replacing\<close>

lemma Split_ne [simp]: "Split s c \<noteq> []"
  by (induction s) (auto split: list.splits)

lemma Split_notin: "c \<notin> set s \<Longrightarrow> Split s c = [s]"
  by (induction s) auto

lemma Split_append_sep: "c \<notin> set s \<Longrightarrow> Split (s @ c # t) c = s # Split t c"
  by (induction s) auto

lemma Split_lines: "c \<notin> set s \<Longrightarrow> Split (s @ [c] @ t) c = s # Split t c"
  by (simp add: Split_append_sep)

lemma Join_Cons: "ys \<noteq> [] \<Longrightarrow> Join (x # ys) sep = x @ sep @ Join ys sep"
  by (cases ys) auto

text \<open>Splitting what was joined with a separator that occurs in no element gives the elements
  back.\<close>

lemma Split_Join:
  assumes "xs \<noteq> []" and "\<forall>x \<in> set xs. c \<notin> set x"
  shows "Split (Join xs [c]) c = xs"
  using assms
proof (induction xs)
  case Nil
  then show ?case by simp
next
  case (Cons x xs)
  show ?case
  proof (cases "xs = []")
    case True
    with Cons.prems show ?thesis by (simp add: Split_notin)
  next
    case False
    with Cons have "Split (Join xs [c]) c = xs" by simp
    with False Cons.prems show ?thesis by (simp add: Join_Cons Split_append_sep)
  qed
qed

lemma ToLower_idem [simp]: "ToLower (ToLower s) = ToLower s"
proof -
  have "lower_char (lower_char c) = lower_char c" for c
    by (auto simp: lower_char_def Let_def)
  then show ?thesis by (simp add: ToLower_def)
qed

lemma ToLower_length [simp]: "length (ToLower s) = length s"
  by (simp add: ToLower_def)

lemma ToLower_Nil_iff [simp]: "ToLower s = [] \<longleftrightarrow> s = []"
  by (simp add: ToLower_def)

lemma HasPrefix_Nil [simp]: "HasPrefix s []"
  by (simp add: HasPrefix_def)

lemma HasPrefix_append [simp]: "HasPrefix (p @ s) p"
  by (simp add: HasPrefix_def)

lemma HasPrefix_Cons [simp]: "HasPrefix (c # s) (d # p) \<longleftrightarrow> c = d \<and> HasPrefix s p"
  by (auto simp: HasPrefix_def)

lemma HasPrefix_Nil_Cons [simp]: "\<not> HasPrefix [] (d # p)"
  by (simp add: HasPrefix_def)

lemma HasPrefix_exact [simp]: "HasPrefix p p"
  by (simp add: HasPrefix_def)

text \<open>Replacing a one-byte string everywhere is a \<open>map\<close>.\<close>

lemma ReplaceAll_char: "ReplaceAll [c] [d] s = map (\<lambda>x. if x = c then d else x) s"
  by (induction s) auto

text \<open>A replacement passes over text that does not contain the first byte of the searched
  string.\<close>

lemma Replace_skip:
  "c \<notin> set s \<Longrightarrow> Replace (Suc n) (c # old) new (s @ t) = s @ Replace (Suc n) (c # old) new t"
  by (induction s) auto

lemma Replace_none: "c \<notin> set s \<Longrightarrow> Replace (Suc n) (c # old) new s = s"
  using Replace_skip [of c s n old new "[]"] by simp

lemma Replace_hit: "old \<noteq> [] \<Longrightarrow> Replace (Suc n) old new (old @ t) = new @ Replace n old new t"
  by (cases old) auto

lemma TrimSpace_trailing:
  assumes "s \<noteq> []" and "\<not> is_space (hd s)" and "\<not> is_space (last s)" and "list_all is_space t"
  shows "TrimSpace (s @ t) = s"
proof -
  obtain c cs where s: "s = c # cs" using assms(1) by (cases s) auto
  have "dropWhile is_space (s @ t) = s @ t" using assms(2) s by simp
  moreover have "dropWhile is_space (rev t @ rev s) = dropWhile is_space (rev s)"
    using assms(4) by (subst dropWhile_append2) (auto simp: list_all_iff)
  moreover have "dropWhile is_space (rev s) = rev s"
    using assms(1,3) by (cases s rule: rev_cases) auto
  ultimately show ?thesis by (simp add: TrimSpace_def)
qed

end
