(* ===== verification/ApiTypes.thy ===== *)
theory ApiTypes
  imports GoStrings
begin

text \<open>
  The data of the operator: the Kubernetes API objects it reads and writes, with the fields it
  uses, and the \<open>KubeCluster\<close> resource of \<open>apis/kubecluster.org/v1alpha1\<close>.

  A pointer field that may be \<open>nil\<close> is an \<open>option\<close>; a Go map is an association list; a quantity is
  its exact value in nano-units; a time is in nanoseconds. Label and annotation maps do not
  distinguish \<open>nil\<close> from empty (the code never does); the data of a config map does.
\<close>

section \<open>Kubernetes objects\<close>

record OwnerReference =
  or_APIVersion :: string
  or_Kind :: string
  or_Name :: string
  or_UID :: string
  or_BlockOwnerDeletion :: "bool option"
  or_Controller :: "bool option"

record ObjectMeta =
  om_Name :: string
  om_Namespace :: string
  om_UID :: string
  om_ResourceVersion :: string
  om_Labels :: smap
  om_Annotations :: smap
  om_Finalizers :: "string list"
  om_OwnerReferences :: "OwnerReference list"
  om_CreationTimestamp :: "time option"
  om_DeletionTimestamp :: "time option"

type_synonym Quantity = int
type_synonym ResourceList = "(string \<times> Quantity) list"

record ContainerPort =
  cp_Name :: string
  cp_ContainerPort :: int32

record EnvVar =
  ev_Name :: string
  ev_Value :: string
  ev_FieldPath :: "string option"

record VolumeMount =
  vm_Name :: string
  vm_MountPath :: string
  vm_SubPath :: string
  vm_ReadOnly :: bool

record SecurityContext =
  sc_RunAsUser :: "int64 option"
  sc_Privileged :: "bool option"

record Container =
  c_Name :: string
  c_Image :: string
  c_Command :: "string list"
  c_Ports :: "ContainerPort list"
  c_Env :: "EnvVar list"
  c_Requests :: "ResourceList option"
  c_Limits :: "ResourceList option"
  c_VolumeMounts :: "VolumeMount list"
  c_SecurityContext :: "SecurityContext option"

datatype VolumeSource = ConfigMapVolume string int32 | EmptyDirVolume | OtherVolume string

record Volume =
  v_Name :: string
  v_Source :: VolumeSource

record PodSpec =
  ps_InitContainers :: "Container list"
  ps_Containers :: "Container list"
  ps_Volumes :: "Volume list"
  ps_RestartPolicy :: string
  ps_SchedulerName :: string
  ps_PriorityClassName :: string
  ps_NodeName :: string
  ps_Hostname :: string
  ps_HostNetwork :: bool
  ps_DNSPolicy :: string
  ps_Overhead :: "ResourceList option"

record PodTemplateSpec =
  pt_Meta :: ObjectMeta
  pt_Spec :: PodSpec

record ContainerStateTerminated =
  term_ExitCode :: int32
  term_Reason :: string
  term_Message :: string

record ContainerStateWaiting =
  wait_Reason :: string
  wait_Message :: string

record ContainerStatus =
  cs_Name :: string
  cs_Terminated :: "ContainerStateTerminated option"
  cs_Waiting :: "ContainerStateWaiting option"
  cs_RestartCount :: int32

record PodCondition =
  pc_Type :: string
  pc_Status :: string
  pc_Reason :: string
  pc_Message :: string
  pc_LastTransitionTime :: time

record PodStatus =
  pst_Phase :: string
  pst_Conditions :: "PodCondition list"
  pst_InitContainerStatuses :: "ContainerStatus list"
  pst_ContainerStatuses :: "ContainerStatus list"

record Pod =
  pod_Meta :: ObjectMeta
  pod_Spec :: PodSpec
  pod_Status :: PodStatus

record ServicePort =
  sp_Name :: string
  sp_Port :: int32

record Service =
  svc_Meta :: ObjectMeta
  svc_ClusterIP :: string
  svc_Selector :: smap
  svc_Ports :: "ServicePort list"

record ConfigMap =
  cm_Meta :: ObjectMeta
  cm_Kind :: string
  cm_Data :: "smap option"
  cm_BinaryData :: "smap option"

record VolcanoPodGroupSpec =
  vpg_MinMember :: int32
  vpg_Queue :: string
  vpg_PriorityClassName :: string
  vpg_MinResources :: "ResourceList option"

record SchedulerPluginsPodGroupSpec =
  spg_MinMember :: int32
  spg_MinResources :: ResourceList
  spg_ScheduleTimeoutSeconds :: "int32 option"

text \<open>The two concrete types behind the \<open>metav1.Object\<close> of a pod group: volcano's, with its
  status phase, and scheduler-plugins'.\<close>

datatype PodGroup =
    VolcanoPodGroup ObjectMeta VolcanoPodGroupSpec string
  | SchedulerPluginsPodGroup ObjectMeta SchedulerPluginsPodGroupSpec

section \<open>The KubeCluster resource\<close>

definition KubeClusterKind :: string where "KubeClusterKind = ''KubeCluster''"
definition ControllerNameLabel :: string where
  "ControllerNameLabel = ''kubeclusetr.org/controller-name''"
definition ClusterNameLabel :: string where "ClusterNameLabel = ''kubeclusetr.org/clusetr-name''"
definition ClusterDefaultContainerName :: string where "ClusterDefaultContainerName = ''kubenode''"
definition ClusterTypeLabel :: string where "ClusterTypeLabel = ''kubeclusetr.org/clusetr-type''"
definition ReplicaIndexLabel :: string where "ReplicaIndexLabel = ''kubeclusetr.org/replica-index''"
definition ReplicaTypeLabel :: string where "ReplicaTypeLabel = ''kubeclusetr.org/replica-type''"
definition ClusterRoleLabel :: string where "ClusterRoleLabel = ''kubeclusetr.org/clusetr-role''"

lemmas label_key_defs = ControllerNameLabel_def ClusterNameLabel_def ClusterTypeLabel_def
  ReplicaIndexLabel_def ReplicaTypeLabel_def ClusterRoleLabel_def

lemma label_keys_distinct [label_simps, simp]:
  "distinct [ControllerNameLabel, ClusterNameLabel, ClusterTypeLabel, ReplicaIndexLabel,
     ReplicaTypeLabel, ClusterRoleLabel]"
  by (simp add: label_key_defs)

lemma label_keys_neq [label_simps, simp]:
  "ReplicaIndexLabel \<noteq> ReplicaTypeLabel" "ReplicaTypeLabel \<noteq> ReplicaIndexLabel"
  "ReplicaIndexLabel \<noteq> ClusterTypeLabel" "ClusterTypeLabel \<noteq> ReplicaIndexLabel"
  "ReplicaTypeLabel \<noteq> ClusterTypeLabel" "ClusterTypeLabel \<noteq> ReplicaTypeLabel"
  "ClusterRoleLabel \<noteq> ReplicaTypeLabel" "ReplicaTypeLabel \<noteq> ClusterRoleLabel"
  "ClusterRoleLabel \<noteq> ReplicaIndexLabel" "ReplicaIndexLabel \<noteq> ClusterRoleLabel"
  "ClusterRoleLabel \<noteq> ClusterTypeLabel" "ClusterTypeLabel \<noteq> ClusterRoleLabel"
  "ClusterNameLabel \<noteq> ReplicaTypeLabel" "ReplicaTypeLabel \<noteq> ClusterNameLabel"
  "ClusterNameLabel \<noteq> ReplicaIndexLabel" "ReplicaIndexLabel \<noteq> ClusterNameLabel"
  "ClusterNameLabel \<noteq> ClusterTypeLabel" "ClusterTypeLabel \<noteq> ClusterNameLabel"
  "ClusterNameLabel \<noteq> ClusterRoleLabel" "ClusterRoleLabel \<noteq> ClusterNameLabel"
  "ControllerNameLabel \<noteq> ReplicaTypeLabel" "ReplicaTypeLabel \<noteq> ControllerNameLabel"
  "ControllerNameLabel \<noteq> ReplicaIndexLabel" "ReplicaIndexLabel \<noteq> ControllerNameLabel"
  "ControllerNameLabel \<noteq> ClusterTypeLabel" "ClusterTypeLabel \<noteq> ControllerNameLabel"
  "ControllerNameLabel \<noteq> ClusterRoleLabel" "ClusterRoleLabel \<noteq> ControllerNameLabel"
  "ControllerNameLabel \<noteq> ClusterNameLabel" "ClusterNameLabel \<noteq> ControllerNameLabel"
  by (simp_all add: label_key_defs)

text \<open>The string enumerations of \<open>common_types.go\<close> and of the core API.\<close>

definition ClusterCreated :: string where "ClusterCreated = ''Created''"
definition ClusterRunning :: string where "ClusterRunning = ''Running''"
definition ClusterRestarting :: string where "ClusterRestarting = ''Restarting''"
definition ClusterSuspended :: string where "ClusterSuspended = ''Suspended''"
definition ClusterFailed :: string where "ClusterFailed = ''Failed''"

definition ConditionTrue :: string where "ConditionTrue = ''True''"
definition ConditionFalse :: string where "ConditionFalse = ''False''"

definition PodPending :: string where "PodPending = ''Pending''"
definition PodRunning :: string where "PodRunning = ''Running''"
definition PodSucceeded :: string where "PodSucceeded = ''Succeeded''"
definition PodFailed :: string where "PodFailed = ''Failed''"

definition CleanKubeNodePolicyAll :: string where "CleanKubeNodePolicyAll = ''All''"
definition CleanKubeNodePolicyRunning :: string where "CleanKubeNodePolicyRunning = ''Running''"
definition CleanKubeNodePolicyNone :: string where "CleanKubeNodePolicyNone = ''None''"

definition RestartPolicyAlways :: string where "RestartPolicyAlways = ''Always''"
definition RestartPolicyOnFailure :: string where "RestartPolicyOnFailure = ''OnFailure''"
definition RestartPolicyNever :: string where "RestartPolicyNever = ''Never''"
definition RestartPolicyExitCode :: string where "RestartPolicyExitCode = ''ExitCode''"

lemmas condition_type_defs = ClusterCreated_def ClusterRunning_def ClusterRestarting_def
  ClusterSuspended_def ClusterFailed_def
lemmas condition_status_defs = ConditionTrue_def ConditionFalse_def
lemmas phase_defs = PodPending_def PodRunning_def PodSucceeded_def PodFailed_def
lemmas clean_policy_defs = CleanKubeNodePolicyAll_def CleanKubeNodePolicyRunning_def
  CleanKubeNodePolicyNone_def
lemmas restart_policy_defs = RestartPolicyAlways_def RestartPolicyOnFailure_def
  RestartPolicyNever_def RestartPolicyExitCode_def

lemma condition_types_neq [simp]:
  "ClusterFailed \<noteq> ClusterRunning" "ClusterRunning \<noteq> ClusterFailed"
  "ClusterFailed \<noteq> ClusterRestarting" "ClusterRestarting \<noteq> ClusterFailed"
  "ClusterFailed \<noteq> ClusterSuspended" "ClusterSuspended \<noteq> ClusterFailed"
  "ClusterFailed \<noteq> ClusterCreated" "ClusterCreated \<noteq> ClusterFailed"
  "ClusterRunning \<noteq> ClusterRestarting" "ClusterRestarting \<noteq> ClusterRunning"
  "ClusterRunning \<noteq> ClusterSuspended" "ClusterSuspended \<noteq> ClusterRunning"
  "ClusterRunning \<noteq> ClusterCreated" "ClusterCreated \<noteq> ClusterRunning"
  "ClusterRestarting \<noteq> ClusterSuspended" "ClusterSuspended \<noteq> ClusterRestarting"
  "ClusterRestarting \<noteq> ClusterCreated" "ClusterCreated \<noteq> ClusterRestarting"
  "ClusterSuspended \<noteq> ClusterCreated" "ClusterCreated \<noteq> ClusterSuspended"
  by (simp_all add: condition_type_defs)

lemma condition_status_neq [simp]: "ConditionTrue \<noteq> ConditionFalse" "ConditionFalse \<noteq> ConditionTrue"
  by (simp_all add: condition_status_defs)

lemma phases_neq [simp]:
  "PodRunning \<noteq> PodFailed" "PodFailed \<noteq> PodRunning" "PodPending \<noteq> PodFailed" "PodFailed \<noteq> PodPending"
  "PodSucceeded \<noteq> PodFailed" "PodFailed \<noteq> PodSucceeded" "PodSucceeded \<noteq> PodRunning"
  "PodRunning \<noteq> PodSucceeded" "PodPending \<noteq> PodRunning" "PodRunning \<noteq> PodPending"
  "PodPending \<noteq> PodSucceeded" "PodSucceeded \<noteq> PodPending"
  by (simp_all add: phase_defs)

lemma clean_policies_neq [simp]:
  "CleanKubeNodePolicyAll \<noteq> CleanKubeNodePolicyNone" "CleanKubeNodePolicyNone \<noteq> CleanKubeNodePolicyAll"
  "CleanKubeNodePolicyAll \<noteq> CleanKubeNodePolicyRunning"
  "CleanKubeNodePolicyRunning \<noteq> CleanKubeNodePolicyAll"
  "CleanKubeNodePolicyNone \<noteq> CleanKubeNodePolicyRunning"
  "CleanKubeNodePolicyRunning \<noteq> CleanKubeNodePolicyNone"
  by (simp_all add: clean_policy_defs)

record ReplicaStatus =
  rs_Active :: int32
  rs_Activating :: int32
  rs_Failed :: int32
  rs_Selector :: string

record ReplicaSpec =
  r_Replicas :: "int32 option"
  r_Template :: PodTemplateSpec
  r_RestartPolicy :: string

record ClusterCondition =
  cc_Type :: string
  cc_Status :: string
  cc_Reason :: string
  cc_Message :: string
  cc_LastUpdateTime :: time
  cc_LastTransitionTime :: time

record SchedulingPolicy =
  sch_MinAvailable :: "int32 option"
  sch_Queue :: string
  sch_MinResources :: "ResourceList option"
  sch_PriorityClass :: string
  sch_ScheduleTimeoutSeconds :: "int32 option"

record RunPolicy =
  rp_CleanKubeNodePolicy :: "string option"
  rp_TTLSecondsAfterFinished :: "int32 option"
  rp_ActiveDeadlineSeconds :: "int64 option"
  rp_BackoffLimit :: "int32 option"
  rp_SchedulingPolicy :: "SchedulingPolicy option"
  rp_Suspend :: "bool option"

text \<open>The map from replica types to (pointers to) replica specs, and the one to replica statuses,
  which may be a nil map.\<close>

type_synonym ReplicaSpecs = "(string \<times> ReplicaSpec option) list"
type_synonym ReplicaStatuses = "(string \<times> ReplicaStatus) list"

record ClusterSpec =
  s_ClusterType :: string
  s_ClusterReplicaSpec :: ReplicaSpecs
  s_MainContainer :: string
  s_RunPolicy :: RunPolicy

record ClusterStatus =
  st_Conditions :: "ClusterCondition list"
  st_ReplicaStatuses :: "ReplicaStatuses option"
  st_StartTime :: "time option"
  st_LastReconcileTime :: "time option"
  st_CompletionTime :: "time option"

record KubeCluster =
  kc_Meta :: ObjectMeta
  kc_Spec :: ClusterSpec
  kc_Status :: ClusterStatus

abbreviation kc_Name :: "KubeCluster \<Rightarrow> string" where "kc_Name k \<equiv> om_Name (kc_Meta k)"
abbreviation kc_Namespace :: "KubeCluster \<Rightarrow> string" where "kc_Namespace k \<equiv> om_Namespace (kc_Meta k)"
abbreviation kc_RunPolicy :: "KubeCluster \<Rightarrow> RunPolicy" where "kc_RunPolicy k \<equiv> s_RunPolicy (kc_Spec k)"
abbreviation kc_Specs :: "KubeCluster \<Rightarrow> ReplicaSpecs" where
  "kc_Specs k \<equiv> s_ClusterReplicaSpec (kc_Spec k)"

section \<open>Zero values\<close>

definition empty_meta :: ObjectMeta where
  "empty_meta = \<lparr> om_Name = [], om_Namespace = [], om_UID = [], om_ResourceVersion = [],
     om_Labels = [], om_Annotations = [], om_Finalizers = [], om_OwnerReferences = [],
     om_CreationTimestamp = None, om_DeletionTimestamp = None \<rparr>"

definition empty_pod_spec :: PodSpec where
  "empty_pod_spec = \<lparr> ps_InitContainers = [], ps_Containers = [], ps_Volumes = [],
     ps_RestartPolicy = [], ps_SchedulerName = [], ps_PriorityClassName = [], ps_NodeName = [],
     ps_Hostname = [], ps_HostNetwork = False, ps_DNSPolicy = [], ps_Overhead = None \<rparr>"

definition empty_pod_status :: PodStatus where
  "empty_pod_status = \<lparr> pst_Phase = [], pst_Conditions = [], pst_InitContainerStatuses = [],
     pst_ContainerStatuses = [] \<rparr>"

definition empty_container :: Container where
  "empty_container = \<lparr> c_Name = [], c_Image = [], c_Command = [], c_Ports = [], c_Env = [],
     c_Requests = None, c_Limits = None, c_VolumeMounts = [], c_SecurityContext = None \<rparr>"

definition empty_run_policy :: RunPolicy where
  "empty_run_policy = \<lparr> rp_CleanKubeNodePolicy = None, rp_TTLSecondsAfterFinished = None,
     rp_ActiveDeadlineSeconds = None, rp_BackoffLimit = None, rp_SchedulingPolicy = None,
     rp_Suspend = None \<rparr>"

definition empty_status :: ClusterStatus where
  "empty_status = \<lparr> st_Conditions = [], st_ReplicaStatuses = None, st_StartTime = None,
     st_LastReconcileTime = None, st_CompletionTime = None \<rparr>"

definition zero_replica_status :: ReplicaStatus where
  "zero_replica_status = \<lparr> rs_Active = 0, rs_Activating = 0, rs_Failed = 0, rs_Selector = [] \<rparr>"

lemmas zero_value_defs = empty_meta_def empty_pod_spec_def empty_pod_status_def
  empty_container_def empty_run_policy_def empty_status_def zero_replica_status_def

end
