(* ===== verification/Status.thy ===== *)
theory Status
  imports ApiTypes
begin

text \<open>
  \<open>pkg/util/status.go\<close> and \<open>pkg/core/status.go\<close>: the condition list of a cluster's status, the
  operations that update it, and the per-replica counters. The conditions are a small state
  machine; its invariant (one condition per type, Running and Restarting never together, a failed
  cluster is not running) is proved for every status reachable by \<open>UpdateClusterConditions\<close>.
\<close>

section \<open>Reading and updating the conditions\<close>

definition ClusterCreatedReason :: string where "ClusterCreatedReason = ''Created''"
definition ClusterRunningReason :: string where "ClusterRunningReason = ''Running''"
definition ClusterFailedReason :: string where "ClusterFailedReason = ''Failed''"
definition ClusterRestartingReason :: string where "ClusterRestartingReason = ''Restarting''"
definition ClusterFailedValidationReason :: string where
  "ClusterFailedValidationReason = ''FailedValidation''"
definition ClusterSuspendedReason :: string where "ClusterSuspendedReason = ''Suspended''"
definition ClusterResumedReason :: string where "ClusterResumedReason = ''Resumed''"

definition NewReason :: "string \<Rightarrow> string \<Rightarrow> string" where
  "NewReason kind reason = kind @ reason"

definition isStatusConditionTrue :: "ClusterStatus \<Rightarrow> string \<Rightarrow> bool" where
  "isStatusConditionTrue status condType =
     list_ex (\<lambda>c. cc_Type c = condType \<and> cc_Status c = ConditionTrue) (st_Conditions status)"

definition IsFailed :: "ClusterStatus \<Rightarrow> bool" where
  "IsFailed status = isStatusConditionTrue status ClusterFailed"

definition IsFinished :: "ClusterStatus \<Rightarrow> bool" where
  "IsFinished status = IsFailed status"

definition IsRunning :: "ClusterStatus \<Rightarrow> bool" where
  "IsRunning status = isStatusConditionTrue status ClusterRunning"

definition IsSuspended :: "ClusterStatus \<Rightarrow> bool" where
  "IsSuspended status = isStatusConditionTrue status ClusterSuspended"

text \<open>\<open>newCondition\<close> reads the clock twice, once per time stamp.\<close>

definition newCondition :: "time \<Rightarrow> time \<Rightarrow> string \<Rightarrow> string \<Rightarrow> string \<Rightarrow> string \<Rightarrow> ClusterCondition" where
  "newCondition now1 now2 conditionType conditionStatus reason message =
     \<lparr> cc_Type = conditionType, cc_Status = conditionStatus, cc_Reason = reason,
       cc_Message = message, cc_LastUpdateTime = now1, cc_LastTransitionTime = now2 \<rparr>"

definition getCondition :: "ClusterStatus \<Rightarrow> string \<Rightarrow> ClusterCondition option" where
  "getCondition status condType = List.find (\<lambda>c. cc_Type c = condType) (st_Conditions status)"

fun filterOutCondition :: "ClusterCondition list \<Rightarrow> string \<Rightarrow> ClusterCondition list" where
  "filterOutCondition [] condType = []"
| "filterOutCondition (c # cs) condType =
     (if condType = ClusterRestarting \<and> cc_Type c = ClusterRunning then filterOutCondition cs condType
      else if condType = ClusterRunning \<and> cc_Type c = ClusterRestarting then filterOutCondition cs condType
      else if cc_Type c = condType then filterOutCondition cs condType
      else (if condType = ClusterFailed \<and> cc_Type c = ClusterRunning
            then c\<lparr>cc_Status := ConditionFalse\<rparr> else c) # filterOutCondition cs condType)"

definition setCondition :: "ClusterStatus \<Rightarrow> ClusterCondition \<Rightarrow> ClusterStatus" where
  "setCondition status condition =
     (if IsFailed status then status
      else case getCondition status (cc_Type condition) of
        None \<Rightarrow>
          status\<lparr>st_Conditions := filterOutCondition (st_Conditions status) (cc_Type condition) @ [condition]\<rparr>
      | Some cur \<Rightarrow>
          if cc_Status cur = cc_Status condition \<and> cc_Reason cur = cc_Reason condition then status
          else let condition' =
                 (if cc_Status cur = cc_Status condition
                  then condition\<lparr>cc_LastTransitionTime := cc_LastTransitionTime cur\<rparr> else condition)
               in status\<lparr>st_Conditions :=
                    filterOutCondition (st_Conditions status) (cc_Type condition') @ [condition']\<rparr>)"

definition UpdateClusterConditions ::
  "time \<Rightarrow> time \<Rightarrow> ClusterStatus \<Rightarrow> string \<Rightarrow> string \<Rightarrow> string \<Rightarrow> string \<Rightarrow> ClusterStatus" where
  "UpdateClusterConditions now1 now2 status conditionType conditionStatus reason message =
     setCondition status (newCondition now1 now2 conditionType conditionStatus reason message)"

section \<open>Replica counters\<close>

text \<open>\<open>InitializeReplicaStatuses\<close> allocates the map when it is nil and resets the counters of one
  replica type; \<open>UpdateClusterReplicaStatuses\<close> counts one pod. It dereferences the entry of the
  replica type, so a missing entry panics.\<close>

definition InitializeReplicaStatuses :: "ClusterStatus \<Rightarrow> string \<Rightarrow> ClusterStatus" where
  "InitializeReplicaStatuses status rtype =
     status\<lparr>st_ReplicaStatuses :=
       Some (AList.update rtype zero_replica_status
         (case st_ReplicaStatuses status of None \<Rightarrow> [] | Some m \<Rightarrow> m))\<rparr>"

definition replica_status :: "ClusterStatus \<Rightarrow> string \<Rightarrow> ReplicaStatus option" where
  "replica_status status rtype =
     (case st_ReplicaStatuses status of None \<Rightarrow> None | Some m \<Rightarrow> map_of m rtype)"

definition set_replica_status :: "string \<Rightarrow> ReplicaStatus \<Rightarrow> ClusterStatus \<Rightarrow> ClusterStatus" where
  "set_replica_status rtype rs status =
     status\<lparr>st_ReplicaStatuses := map_option (AList.update rtype rs) (st_ReplicaStatuses status)\<rparr>"

definition UpdateClusterReplicaStatuses :: "ClusterStatus \<Rightarrow> string \<Rightarrow> Pod \<Rightarrow> string + ClusterStatus" where
  "UpdateClusterReplicaStatuses status rtype pod =
     (if pst_Phase (pod_Status pod) = PodRunning then
        (case replica_status status rtype of
           None \<Rightarrow> Inl ''nil ReplicaStatus''
         | Some rs \<Rightarrow>
             if om_DeletionTimestamp (pod_Meta pod) \<noteq> None
             then Inr (set_replica_status rtype (rs\<lparr>rs_Failed := rs_Failed rs + 1\<rparr>) status)
             else Inr (set_replica_status rtype (rs\<lparr>rs_Active := rs_Active rs + 1\<rparr>) status))
      else if pst_Phase (pod_Status pod) = PodFailed then
        (case replica_status status rtype of
           None \<Rightarrow> Inl ''nil ReplicaStatus''
         | Some rs \<Rightarrow> Inr (set_replica_status rtype (rs\<lparr>rs_Failed := rs_Failed rs + 1\<rparr>) status))
      else Inr status)"

section \<open>The condition state machine\<close>

text \<open>What the condition list keeps: at most one condition per type, never both Running and
  Restarting, and no true Running condition beside a true Failed one.\<close>

definition cond_types :: "ClusterCondition list \<Rightarrow> string list" where
  "cond_types cs = map cc_Type cs"

definition conditions_ok :: "ClusterStatus \<Rightarrow> bool" where
  "conditions_ok status \<longleftrightarrow>
     distinct (cond_types (st_Conditions status)) \<and>
     \<not> (ClusterRunning \<in> set (cond_types (st_Conditions status)) \<and>
        ClusterRestarting \<in> set (cond_types (st_Conditions status))) \<and>
     \<not> (IsFailed status \<and> IsRunning status)"

inductive cond_step :: "ClusterStatus \<Rightarrow> ClusterStatus \<Rightarrow> bool" where
  update: "cond_step s (UpdateClusterConditions n1 n2 s typ stat reason msg)"

inductive_cases cond_stepE: "cond_step s t"

inductive cond_reachable :: "ClusterStatus \<Rightarrow> bool" where
  init: "cond_reachable s" if "st_Conditions s = []"
| step: "cond_reachable t" if "cond_reachable s" and "cond_step s t"

lemma filter_type_in:
  "c \<in> set (filterOutCondition cs ty) \<Longrightarrow> cc_Type c \<in> cc_Type ` set cs \<and> cc_Type c \<noteq> ty"
  by (induction cs ty rule: filterOutCondition.induct) (auto split: if_splits)

lemma filter_types_subset: "set (cond_types (filterOutCondition cs ty)) \<subseteq> set (cond_types cs) - {ty}"
  using filter_type_in [of _ cs ty] by (auto simp: cond_types_def)

lemma filter_types_distinct:
  "distinct (cond_types cs) \<Longrightarrow> distinct (cond_types (filterOutCondition cs ty))"
proof (induction cs ty rule: filterOutCondition.induct)
  case (2 c cs ty)
  have "cc_Type c \<notin> set (cond_types (filterOutCondition cs ty))"
    using filter_types_subset [of cs ty] 2(5) by (auto simp: cond_types_def)
  with 2 show ?case by (auto simp: cond_types_def)
qed (simp add: cond_types_def)

lemma filter_excludes:
  "ClusterRunning \<notin> set (cond_types (filterOutCondition cs ClusterRestarting))"
  "ClusterRestarting \<notin> set (cond_types (filterOutCondition cs ClusterRunning))"
  by (induction cs) (auto simp: cond_types_def)

lemma filter_keeps_other:
  "c \<in> set (filterOutCondition cs ty) \<Longrightarrow> ty \<noteq> ClusterFailed \<Longrightarrow> c \<in> set cs"
  by (induction cs ty rule: filterOutCondition.induct) (auto split: if_splits)

lemma filter_failed_running:
  "c \<in> set (filterOutCondition cs ClusterFailed) \<Longrightarrow> cc_Type c = ClusterRunning \<Longrightarrow>
   cc_Status c = ConditionFalse"
  by (induction cs) (auto split: if_splits)

lemma filter_types_eq:
  "ty \<noteq> ClusterRunning \<Longrightarrow> ty \<noteq> ClusterRestarting \<Longrightarrow>
   cond_types (filterOutCondition cs ty) = filter (\<lambda>t. t \<noteq> ty) (cond_types cs)"
  by (induction cs ty rule: filterOutCondition.induct) (auto simp: cond_types_def)

lemma getCondition_Some_type: "getCondition s ty = Some c \<Longrightarrow> cc_Type c = ty \<and> c \<in> set (st_Conditions s)"
  unfolding getCondition_def by (induction "st_Conditions s" arbitrary: s rule: list.induct)
    (auto simp: find_Some_iff)

lemma isStatusConditionTrue_iff:
  "isStatusConditionTrue s ty \<longleftrightarrow>
     (\<exists>c \<in> set (st_Conditions s). cc_Type c = ty \<and> cc_Status c = ConditionTrue)"
  by (auto simp: isStatusConditionTrue_def list_ex_iff)

lemmas status_true_simps = IsFailed_def IsRunning_def IsSuspended_def IsFinished_def
  isStatusConditionTrue_iff

text \<open>Every write of the condition list appends one condition of the updated type to the filtered
  old list; everything else leaves the status alone.\<close>

lemma setCondition_cases:
  obtains (same) "setCondition s c = s"
  | (written) c' where "\<not> IsFailed s" "cc_Type c' = cc_Type c" "cc_Status c' = cc_Status c"
      "cc_Reason c' = cc_Reason c" "cc_Message c' = cc_Message c"
      "setCondition s c = s\<lparr>st_Conditions := filterOutCondition (st_Conditions s) (cc_Type c) @ [c']\<rparr>"
proof (cases "IsFailed s")
  case True
  then have "setCondition s c = s" by (simp add: setCondition_def)
  then show ?thesis by (rule same)
next
  case nf: False
  show ?thesis
  proof (cases "getCondition s (cc_Type c)")
    case None
    with nf show ?thesis by (intro written [of c]) (simp_all add: setCondition_def)
  next
    case (Some cur)
    show ?thesis
    proof (cases "cc_Status cur = cc_Status c \<and> cc_Reason cur = cc_Reason c")
      case True
      with nf Some have "setCondition s c = s" by (simp add: setCondition_def)
      then show ?thesis by (rule same)
    next
      case False
      let ?c = "if cc_Status cur = cc_Status c
                then c\<lparr>cc_LastTransitionTime := cc_LastTransitionTime cur\<rparr> else c"
      from False nf Some show ?thesis
        by (intro written [of ?c]) (auto simp: setCondition_def Let_def)
    qed
  qed
qed

lemma write_conditions_ok:
  assumes ok: "conditions_ok s" and nf: "\<not> IsFailed s"
  shows "conditions_ok (s\<lparr>st_Conditions := filterOutCondition (st_Conditions s) (cc_Type c) @ [c]\<rparr>)"
    (is "conditions_ok ?t")
proof -
  let ?f = "filterOutCondition (st_Conditions s) (cc_Type c)"
  have types: "set (cond_types ?f) \<subseteq> set (cond_types (st_Conditions s)) - {cc_Type c}"
    by (rule filter_types_subset)
  have distinct: "distinct (cond_types (st_Conditions ?t))"
    using filter_types_distinct [of "st_Conditions s" "cc_Type c"] types ok
    by (auto simp: conditions_ok_def cond_types_def)
  have excl: "\<not> (ClusterRunning \<in> set (cond_types (st_Conditions ?t)) \<and>
                 ClusterRestarting \<in> set (cond_types (st_Conditions ?t)))"
    using types ok filter_excludes [of "st_Conditions s"]
    by (auto simp: conditions_ok_def cond_types_def)
  have "\<not> (IsFailed ?t \<and> IsRunning ?t)"
  proof (cases "cc_Type c = ClusterFailed")
    case True
    then show ?thesis
      using filter_failed_running [of _ "st_Conditions s"] by (auto simp: status_true_simps)
  next
    case False
    then have "\<not> IsFailed ?t"
      using nf filter_keeps_other [of _ "st_Conditions s" "cc_Type c"]
      by (auto simp: status_true_simps)
    then show ?thesis by simp
  qed
  with distinct excl show ?thesis by (simp add: conditions_ok_def)
qed

lemma setCondition_ok:
  assumes "conditions_ok s" shows "conditions_ok (setCondition s c)"
proof (cases rule: setCondition_cases [of s c])
  case same
  with assms show ?thesis by simp
next
  case (written c')
  with write_conditions_ok [OF assms, of c'] show ?thesis by simp
qed

lemma UpdateClusterConditions_ok:
  "conditions_ok s \<Longrightarrow> conditions_ok (UpdateClusterConditions n1 n2 s ty st r m)"
  by (simp add: UpdateClusterConditions_def setCondition_ok)

lemma UpdateClusterConditions_failed [simp]:
  "IsFailed s \<Longrightarrow> UpdateClusterConditions n1 n2 s ty st r m = s"
  by (simp add: UpdateClusterConditions_def setCondition_def)

lemma UpdateClusterConditions_frame [simp]:
  "st_ReplicaStatuses (UpdateClusterConditions n1 n2 s ty st r m) = st_ReplicaStatuses s"
  "st_StartTime (UpdateClusterConditions n1 n2 s ty st r m) = st_StartTime s"
  "st_LastReconcileTime (UpdateClusterConditions n1 n2 s ty st r m) = st_LastReconcileTime s"
  "st_CompletionTime (UpdateClusterConditions n1 n2 s ty st r m) = st_CompletionTime s"
  by (auto simp: UpdateClusterConditions_def setCondition_def Let_def split: option.splits)

text \<open>After an update of a cluster that has not failed, the condition of that type has the given
  status.\<close>

lemma UpdateClusterConditions_sets:
  assumes "\<not> IsFailed s"
  shows "\<exists>c \<in> set (st_Conditions (UpdateClusterConditions n1 n2 s ty st r m)).
           cc_Type c = ty \<and> cc_Status c = st \<and> cc_Reason c = r"
proof (cases "getCondition s ty")
  case None
  with assms show ?thesis
    by (simp add: UpdateClusterConditions_def setCondition_def newCondition_def)
next
  case (Some cur)
  with getCondition_Some_type [OF Some] assms show ?thesis
    by (auto simp: UpdateClusterConditions_def setCondition_def newCondition_def Let_def)
qed

lemma IsFailed_UpdateClusterConditions:
  "IsFailed (UpdateClusterConditions n1 n2 s ClusterFailed ConditionTrue r m)"
  using UpdateClusterConditions_sets [of s n1 n2 ClusterFailed ConditionTrue r m]
  by (cases "IsFailed s") (auto simp: status_true_simps)

text \<open>An update of another type neither sets nor clears a condition, but for the two pairs that
  exclude each other.\<close>

lemma UpdateClusterConditions_other:
  assumes "ty \<noteq> ty'" and "ty \<noteq> ClusterFailed"
    and "\<not> (ty = ClusterRestarting \<and> ty' = ClusterRunning)"
    and "\<not> (ty = ClusterRunning \<and> ty' = ClusterRestarting)"
  shows "isStatusConditionTrue (UpdateClusterConditions n1 n2 s ty st r m) ty' = isStatusConditionTrue s ty'"
proof -
  have keep: "c \<in> set cs \<Longrightarrow> cc_Type c = ty' \<Longrightarrow> c \<in> set (filterOutCondition cs ty)" for c cs
    using assms by (induction cs ty rule: filterOutCondition.induct) auto
  let ?c = "newCondition n1 n2 ty st r m"
  show ?thesis
  proof (cases rule: setCondition_cases [of s ?c])
    case same
    then show ?thesis by (simp add: UpdateClusterConditions_def)
  next
    case (written c')
    then show ?thesis
      using assms keep filter_keeps_other [of _ "st_Conditions s" ty]
      by (auto simp: UpdateClusterConditions_def isStatusConditionTrue_iff newCondition_def)
  qed
qed

text \<open>C13: every status the condition updates can reach, from a status without conditions, has at
  most one condition per type, never both a Running and a Restarting condition, and is not both
  failed and running. The statuses are those reachable by any sequence of calls of
  \<open>UpdateClusterConditions\<close>, with any types, statuses, reasons and times.\<close>

theorem reachable_conditions_ok: "cond_reachable s \<Longrightarrow> conditions_ok s"
proof (induction rule: cond_reachable.induct)
  case (init s)
  then show ?case by (simp add: conditions_ok_def cond_types_def status_true_simps)
next
  case (step s t)
  then show ?case by (auto elim: cond_stepE intro: UpdateClusterConditions_ok)
qed

theorem reachable_conditions_ok_witness:
  "cond_reachable (UpdateClusterConditions 1 2 empty_status ClusterRunning ConditionTrue ''r'' ''m'') \<and>
   conditions_ok (UpdateClusterConditions 1 2 empty_status ClusterRunning ConditionTrue ''r'' ''m'')"
proof -
  have "cond_reachable empty_status" by (rule cond_reachable.init) (simp add: empty_status_def)
  then have r: "cond_reachable (UpdateClusterConditions 1 2 empty_status ClusterRunning ConditionTrue ''r'' ''m'')"
    by (rule cond_reachable.step) (rule cond_step.update)
  with reachable_conditions_ok [OF r] show ?thesis by blast
qed

text \<open>C12: Failed is terminal. From a failed status no sequence of condition updates changes the
  conditions any more.\<close>

theorem failed_is_terminal:
  assumes "IsFailed s" and "cond_step\<^sup>*\<^sup>* s t"
  shows "t = s"
  using assms(2,1)
proof (induction rule: rtranclp_induct)
  case base
  then show ?case by simp
next
  case (step t u)
  from step.hyps(2) obtain n1 n2 ty st r m where "u = UpdateClusterConditions n1 n2 t ty st r m"
    by (auto elim: cond_stepE)
  with step show ?case by simp
qed

theorem failed_is_terminal_witness:
  "UpdateClusterConditions 3 4
     (UpdateClusterConditions 1 2 empty_status ClusterFailed ConditionTrue ''r'' ''m'')
     ClusterRunning ConditionTrue ''r2'' ''m2''
   = UpdateClusterConditions 1 2 empty_status ClusterFailed ConditionTrue ''r'' ''m''"
  by (rule failed_is_terminal [OF IsFailed_UpdateClusterConditions])
    (rule r_into_rtranclp, rule cond_step.update)

section \<open>Counting pods\<close>

text \<open>Counting a list of pods, as \<open>ReconcilePods\<close> does pod by pod after it has reset the
  counters.\<close>

fun count_pods :: "ClusterStatus \<Rightarrow> string \<Rightarrow> Pod list \<Rightarrow> string + ClusterStatus" where
  "count_pods status rtype [] = Inr status"
| "count_pods status rtype (p # ps) =
     (case UpdateClusterReplicaStatuses status rtype p of
        Inl e \<Rightarrow> Inl e | Inr s \<Rightarrow> count_pods s rtype ps)"

definition counts_active :: "Pod \<Rightarrow> bool" where
  "counts_active p \<longleftrightarrow> pst_Phase (pod_Status p) = PodRunning \<and> om_DeletionTimestamp (pod_Meta p) = None"

definition counts_failed :: "Pod \<Rightarrow> bool" where
  "counts_failed p \<longleftrightarrow> pst_Phase (pod_Status p) = PodFailed \<or>
     (pst_Phase (pod_Status p) = PodRunning \<and> om_DeletionTimestamp (pod_Meta p) \<noteq> None)"

lemma replica_status_set:
  "replica_status s rt = Some old \<Longrightarrow> replica_status (set_replica_status rt rs s) rt = Some rs"
  by (auto simp: replica_status_def set_replica_status_def split: option.splits)

lemma replica_status_set_other:
  "rt \<noteq> rt' \<Longrightarrow> replica_status (set_replica_status rt rs s) rt' = replica_status s rt'"
  by (auto simp: replica_status_def set_replica_status_def split: option.splits)

lemma replica_status_init [simp]:
  "replica_status (InitializeReplicaStatuses s rt) rt' =
     (if rt' = rt then Some zero_replica_status else replica_status s rt')"
  by (auto simp: replica_status_def InitializeReplicaStatuses_def split: option.splits)

lemma UpdateClusterReplicaStatuses_counts:
  assumes "replica_status s rt = Some rs"
  shows "\<exists>s'. UpdateClusterReplicaStatuses s rt p = Inr s' \<and>
     replica_status s' rt = Some (rs\<lparr>rs_Active := rs_Active rs + of_bool (counts_active p),
                                     rs_Failed := rs_Failed rs + of_bool (counts_failed p)\<rparr>) \<and>
     (\<forall>rt'. rt' \<noteq> rt \<longrightarrow> replica_status s' rt' = replica_status s rt')"
  using assms
  by (auto simp: UpdateClusterReplicaStatuses_def counts_active_def counts_failed_def
      replica_status_set replica_status_set_other)

text \<open>Counting the pods of a replica type after resetting its counters never panics, and gives
  the number of running pods that are not being deleted and the number of failed or terminating
  running pods, each modulo the 32 bits of the counters; the counters of other types stay.\<close>

lemma count_pods_correct:
  "\<exists>s'. count_pods (InitializeReplicaStatuses s rt) rt ps = Inr s' \<and>
     replica_status s' = (replica_status s)(rt \<mapsto>
       zero_replica_status\<lparr>rs_Active := of_nat (length (filter counts_active ps)),
                            rs_Failed := of_nat (length (filter counts_failed ps))\<rparr>)"
proof -
  have "\<exists>s'. count_pods t rt ps = Inr s' \<and>
     replica_status s' rt =
       Some (rs\<lparr>rs_Active := rs_Active rs + of_nat (length (filter counts_active ps)),
                rs_Failed := rs_Failed rs + of_nat (length (filter counts_failed ps))\<rparr>) \<and>
     (\<forall>rt'. rt' \<noteq> rt \<longrightarrow> replica_status s' rt' = replica_status t rt')"
    if "replica_status t rt = Some rs" for t rs
    using that
  proof (induction ps arbitrary: t rs)
    case Nil
    then show ?case by simp
  next
    case (Cons p ps)
    from UpdateClusterReplicaStatuses_counts [OF Cons.prems, of p] obtain t' where
      t': "UpdateClusterReplicaStatuses t rt p = Inr t'"
      "replica_status t' rt = Some (rs\<lparr>rs_Active := rs_Active rs + of_bool (counts_active p),
         rs_Failed := rs_Failed rs + of_bool (counts_failed p)\<rparr>)"
      "\<forall>rt'. rt' \<noteq> rt \<longrightarrow> replica_status t' rt' = replica_status t rt'" by blast
    from Cons.IH [OF t'(2)] t'(1,3) show ?case by (auto simp: add.assoc)
  qed
  from this [of "InitializeReplicaStatuses s rt" zero_replica_status] show ?thesis
    by (auto simp: zero_replica_status_def fun_eq_iff)
qed

end
