(* ===== verification/ClusterDefaults.thy ===== *)
theory ClusterDefaults
  imports ApiTypes
begin

text \<open>
  \<open>apis/kubecluster.org/v1alpha1\<close>: the defaulting functions of \<open>cluster_defaults.go\<close> and
  \<open>defauting_utils.go\<close> and the validation of \<open>cluster_validation.go\<close>. The name checks of
  apimachinery (\<open>NameIsDNS1035Label\<close>, \<open>IsDNS1035Label\<close>) are parameters: they return the list of
  error messages, empty for a valid name.
\<close>

section \<open>Defaulting\<close>

definition setDefaultReplicas :: "ReplicaSpec option \<Rightarrow> int32 \<Rightarrow> ReplicaSpec option" where
  "setDefaultReplicas replicaSpec replicas =
     (case replicaSpec of
        None \<Rightarrow> None
      | Some r \<Rightarrow> if r_Replicas r = None then Some (r\<lparr>r_Replicas := Some replicas\<rparr>) else Some r)"

definition SetDefaultRestartPolicy :: "ReplicaSpec option \<Rightarrow> string \<Rightarrow> ReplicaSpec option" where
  "SetDefaultRestartPolicy replicaSpec policy =
     (case replicaSpec of
        None \<Rightarrow> None
      | Some r \<Rightarrow> if r_RestartPolicy r = [] then Some (r\<lparr>r_RestartPolicy := policy\<rparr>) else Some r)"

definition SetDefaults_KubeCluster :: "KubeCluster \<Rightarrow> KubeCluster" where
  "SetDefaults_KubeCluster kcluster =
     (let spec = kc_Spec kcluster;
          spec = (if length (s_MainContainer spec) = 0
                  then spec\<lparr>s_MainContainer := ClusterDefaultContainerName\<rparr> else spec);
          spec = (if rp_CleanKubeNodePolicy (s_RunPolicy spec) = None
                  then spec\<lparr>s_RunPolicy := (s_RunPolicy spec)\<lparr>rp_CleanKubeNodePolicy := Some CleanKubeNodePolicyAll\<rparr>\<rparr>
                  else spec);
          spec = spec\<lparr>s_ClusterReplicaSpec :=
                   map (\<lambda>(t, r). (t, setDefaultReplicas r 1)) (s_ClusterReplicaSpec spec)\<rparr>
      in kcluster\<lparr>kc_Spec := spec\<rparr>)"

definition SetDefaults_KubeClusterList :: "KubeCluster list \<Rightarrow> KubeCluster list" where
  "SetDefaults_KubeClusterList items = map SetDefaults_KubeCluster items"

fun GetDefaultContainerIndex_from :: "nat \<Rightarrow> Container list \<Rightarrow> string \<Rightarrow> nat" where
  "GetDefaultContainerIndex_from i [] name = 0"
| "GetDefaultContainerIndex_from i (c # cs) name =
     (if c_Name c = name then i else GetDefaultContainerIndex_from (Suc i) cs name)"

definition GetDefaultContainerIndex :: "PodSpec \<Rightarrow> string \<Rightarrow> nat" where
  "GetDefaultContainerIndex spec defaultContainerName =
     GetDefaultContainerIndex_from 0 (ps_Containers spec) defaultContainerName"

definition HasDefaultPort :: "PodSpec \<Rightarrow> nat \<Rightarrow> string \<Rightarrow> string + bool" where
  "HasDefaultPort spec containerIndex defaultPortName =
     (if containerIndex < length (ps_Containers spec)
      then Inr (list_ex (\<lambda>p. cp_Name p = defaultPortName) (c_Ports (ps_Containers spec ! containerIndex)))
      else Inl ''index out of range'')"

definition SetDefaultPort :: "PodSpec \<Rightarrow> string \<Rightarrow> int32 \<Rightarrow> nat \<Rightarrow> string + PodSpec" where
  "SetDefaultPort spec defaultPortName defaultPort i =
     (if i < length (ps_Containers spec)
      then let c = ps_Containers spec ! i
           in Inr (spec\<lparr>ps_Containers := (ps_Containers spec)[i :=
                c\<lparr>c_Ports := c_Ports c @ [\<lparr>cp_Name = defaultPortName, cp_ContainerPort = defaultPort\<rparr>]\<rparr>]\<rparr>)
      else Inl ''index out of range'')"

text \<open>\<open>if ok := HasDefaultPort(...); !ok { SetDefaultPort(...) }\<close>, the idiom of both schemas.\<close>

definition EnsureDefaultPort :: "PodSpec \<Rightarrow> string \<Rightarrow> int32 \<Rightarrow> nat \<Rightarrow> string + PodSpec" where
  "EnsureDefaultPort spec portName port i =
     (case HasDefaultPort spec i portName of
        Inl p \<Rightarrow> Inl p
      | Inr True \<Rightarrow> Inr spec
      | Inr False \<Rightarrow> SetDefaultPort spec portName port i)"

definition SetTypeNameToCamelCase :: "ReplicaSpecs \<Rightarrow> string \<Rightarrow> ReplicaSpecs" where
  "SetTypeNameToCamelCase specs typ =
     (case List.find (\<lambda>(t, _). EqualFold t typ \<and> t \<noteq> typ) specs of
        None \<Rightarrow> specs
      | Some (t, spec) \<Rightarrow> AList.update typ spec (AList.delete t specs))"

section \<open>Validation\<close>

definition show_strings :: "string list \<Rightarrow> string" where
  "show_strings xs = ''['' @ Join xs '' '' @ '']''"

definition validateReplica :: "(string \<Rightarrow> string list) \<Rightarrow> string \<Rightarrow> string \<times> ReplicaSpec option \<Rightarrow> gerr option" where
  "validateReplica IsDNS1035Label defaultContainerName rv =
     (let (rType, value) = rv; errs = IsDNS1035Label (ToLower rType) in
      if length errs \<noteq> 0 then Some (PlainErr (Join errs '';''))
      else case value of
        None \<Rightarrow> Some (PlainErr (''KubeCluster is not valid: containers definition expected in '' @ rType))
      | Some r \<Rightarrow>
          let cs = ps_Containers (pt_Spec (r_Template r)) in
          if length cs = 0
          then Some (PlainErr (''KubeCluster is not valid: containers definition expected in '' @ rType))
          else if list_ex (\<lambda>c. c_Image c = []) cs
          then Some (PlainErr (''KubeCluster is not valid: Image is undefined in the container of '' @ rType))
          else if length (filter (\<lambda>c. c_Name c = defaultContainerName) cs) = 0
          then Some (PlainErr (''KubeClusterSpec is not valid: There is no container named '' @
                 ClusterDefaultContainerName @ '' in '' @ rType))
          else None)"

fun validateReplicas ::
  "(string \<Rightarrow> string list) \<Rightarrow> string \<Rightarrow> ReplicaSpecs \<Rightarrow> gerr option" where
  "validateReplicas lbl name [] = None"
| "validateReplicas lbl name (rv # rvs) =
     (case validateReplica lbl name rv of Some e \<Rightarrow> Some e | None \<Rightarrow> validateReplicas lbl name rvs)"

definition validateV1alphaClusterSpecs :: "(string \<Rightarrow> string list) \<Rightarrow> ClusterSpec \<Rightarrow> gerr option" where
  "validateV1alphaClusterSpecs IsDNS1035Label spec =
     (if length (s_ClusterType spec) = 0
      then Some (PlainErr ''KubeCluster is not valid: cluster type expected'')
      else if length (s_ClusterReplicaSpec spec) = 0 then Some (PlainErr ''KubeCluster is not valid'')
      else validateReplicas IsDNS1035Label
             (if length (s_MainContainer spec) \<noteq> 0 then s_MainContainer spec else ClusterDefaultContainerName)
             (s_ClusterReplicaSpec spec))"

definition ValidateV1alphaCluster ::
  "(string \<Rightarrow> string list) \<Rightarrow> (string \<Rightarrow> string list) \<Rightarrow> KubeCluster \<Rightarrow> gerr option" where
  "ValidateV1alphaCluster NameIsDNS1035Label IsDNS1035Label cluster =
     (let errs = NameIsDNS1035Label (kc_Name cluster) in
      if errs \<noteq> [] then Some (PlainErr (''TFCluster name is invalid: '' @ show_strings errs))
      else validateV1alphaClusterSpecs IsDNS1035Label (kc_Spec cluster))"

section \<open>What validation accepts\<close>

definition main_container :: "ClusterSpec \<Rightarrow> string" where
  "main_container spec =
     (if s_MainContainer spec \<noteq> [] then s_MainContainer spec else ClusterDefaultContainerName)"

text \<open>The reading of a valid specification, as the API documents it.\<close>

definition valid_replica :: "(string \<Rightarrow> string list) \<Rightarrow> string \<Rightarrow> string \<Rightarrow> ReplicaSpec option \<Rightarrow> bool" where
  "valid_replica lbl main rtype value \<longleftrightarrow>
     lbl (ToLower rtype) = [] \<and>
     (\<exists>r. value = Some r \<and>
        (\<forall>c \<in> set (ps_Containers (pt_Spec (r_Template r))). c_Image c \<noteq> []) \<and>
        (\<exists>c \<in> set (ps_Containers (pt_Spec (r_Template r))). c_Name c = main))"

lemma validateReplica_None:
  "validateReplica lbl main (rtype, value) = None \<longleftrightarrow> valid_replica lbl main rtype value"
  by (cases "value") (auto simp: validateReplica_def valid_replica_def Let_def list_ex_iff filter_empty_conv)

lemma validateReplicas_None:
  "validateReplicas lbl main specs = None \<longleftrightarrow>
     (\<forall>(rtype, value) \<in> set specs. valid_replica lbl main rtype value)"
proof (induction specs)
  case (Cons rv specs)
  then show ?case
    by (cases rv) (auto simp flip: validateReplica_None split: option.splits)
qed simp

text \<open>C35: \<open>ValidateV1alphaCluster\<close> accepts a cluster exactly when its name passes the DNS-1035
  check, its type and its replica map are not empty, and every replica has a DNS-1035 type, a
  non-nil spec, an image in every container and at least one container with the main container's
  name (\<open>kubenode\<close> when none is given).\<close>

theorem ValidateV1alphaCluster_iff:
  "ValidateV1alphaCluster nam lbl kcluster = None \<longleftrightarrow>
     nam (kc_Name kcluster) = [] \<and> s_ClusterType (kc_Spec kcluster) \<noteq> [] \<and> kc_Specs kcluster \<noteq> [] \<and>
     list_all (\<lambda>(rtype, value). valid_replica lbl (main_container (kc_Spec kcluster)) rtype value)
       (kc_Specs kcluster)"
  by (auto simp: ValidateV1alphaCluster_def validateV1alphaClusterSpecs_def Let_def
      validateReplicas_None main_container_def list_all_iff)

section \<open>What defaulting establishes\<close>

definition defaulted :: "KubeCluster \<Rightarrow> bool" where
  "defaulted k \<longleftrightarrow> s_MainContainer (kc_Spec k) \<noteq> [] \<and>
     rp_CleanKubeNodePolicy (kc_RunPolicy k) \<noteq> None \<and>
     list_all (\<lambda>(t, v). case v of None \<Rightarrow> True | Some r \<Rightarrow> r_Replicas r \<noteq> None) (kc_Specs k)"

lemma setDefaultReplicas_Some: "setDefaultReplicas v n = Some r \<Longrightarrow> r_Replicas r \<noteq> None"
  by (auto simp: setDefaultReplicas_def split: option.splits if_splits)

lemma setDefaultReplicas_id: "(\<And>r. v = Some r \<Longrightarrow> r_Replicas r \<noteq> None) \<Longrightarrow> setDefaultReplicas v n = v"
  by (auto simp: setDefaultReplicas_def split: option.splits)

lemma SetDefaults_defaulted: "defaulted (SetDefaults_KubeCluster k)"
  using setDefaultReplicas_Some
  by (auto simp: defaulted_def SetDefaults_KubeCluster_def Let_def list_all_iff
      ClusterDefaultContainerName_def split: option.splits)

lemma SetDefaults_id:
  assumes "defaulted k" shows "SetDefaults_KubeCluster k = k"
proof -
  have "map (\<lambda>(t, r). (t, setDefaultReplicas r 1)) (kc_Specs k) = kc_Specs k"
    using assms by (intro map_idI) (auto simp: defaulted_def list_all_iff intro!: setDefaultReplicas_id)
  with assms show ?thesis by (simp add: SetDefaults_KubeCluster_def defaulted_def Let_def)
qed


section \<open>Ports and replica type names\<close>

lemma GetDefaultContainerIndex_bound:
  "ps_Containers spec \<noteq> [] \<Longrightarrow> GetDefaultContainerIndex spec name < length (ps_Containers spec)"
proof -
  have "GetDefaultContainerIndex_from i cs name < i + length cs \<or> GetDefaultContainerIndex_from i cs name = 0"
    for i cs
  proof (induction cs arbitrary: i)
    case (Cons c cs)
    from Cons [of "Suc i"] show ?case by auto
  qed simp
  from this [of 0 "ps_Containers spec"] show "ps_Containers spec \<noteq> [] \<Longrightarrow> ?thesis"
    by (auto simp: GetDefaultContainerIndex_def)
qed

lemma EnsureDefaultPort_ok:
  assumes "i < length (ps_Containers spec)"
  shows "\<exists>spec'. EnsureDefaultPort spec name port i = Inr spec' \<and>
     length (ps_Containers spec') = length (ps_Containers spec) \<and>
     (\<exists>p \<in> set (c_Ports (ps_Containers spec' ! i)). cp_Name p = name) \<and>
     set (c_Ports (ps_Containers spec ! i)) \<subseteq> set (c_Ports (ps_Containers spec' ! i))"
  using assms
  by (auto simp: EnsureDefaultPort_def HasDefaultPort_def SetDefaultPort_def Let_def list_ex_iff
      split: bool.splits)

text \<open>When the map has the canonical key and no other spelling of it, renaming does nothing.\<close>

lemma SetTypeName_id:
  "(\<And>t v. (t, v) \<in> set specs \<Longrightarrow> EqualFold t typ \<Longrightarrow> t = typ) \<Longrightarrow> SetTypeNameToCamelCase specs typ = specs"
  by (auto simp: SetTypeNameToCamelCase_def find_Some_iff split: option.splits dest!: nth_mem)

lemma SetTypeName_distinct:
  "distinct (map fst specs) \<Longrightarrow> distinct (map fst (SetTypeNameToCamelCase specs typ))"
  by (auto simp: SetTypeNameToCamelCase_def split: option.splits)

end
