(* ===== verification/Labels.thy ===== *)
theory Labels
  imports ApiTypes
begin

text \<open>
  \<open>pkg/util/labels/labels.go\<close>, the names of \<open>pkg/common/controller.go\<close> and the expectation keys
  of \<open>pkg/controller/expectation/util.go\<close>: the strings by which the operator finds its objects
  again. The lemmas show that what is written can be read back and that different replicas get
  different names and keys.
\<close>

section \<open>Labels\<close>

definition ReplicaIndex :: "smap \<Rightarrow> gerr + int" where
  "ReplicaIndex labels =
     (case map_of labels ReplicaIndexLabel of
        None \<Rightarrow> Inl (PlainErr ''replica index label not found'')
      | Some v \<Rightarrow> Atoi v)"

definition SetReplicaIndexStr :: "smap \<Rightarrow> string \<Rightarrow> smap" where
  "SetReplicaIndexStr labels idx = AList.update ReplicaIndexLabel idx labels"

definition SetReplicaIndex :: "smap \<Rightarrow> int \<Rightarrow> smap" where
  "SetReplicaIndex labels idx = SetReplicaIndexStr labels (Itoa idx)"

definition GenReplicaTypeLabel :: "string \<Rightarrow> string" where
  "GenReplicaTypeLabel rtype = ToLower rtype"

definition SetReplicaType :: "smap \<Rightarrow> string \<Rightarrow> smap" where
  "SetReplicaType labels rt = AList.update ReplicaTypeLabel rt labels"

definition SetClusterRole :: "smap \<Rightarrow> string \<Rightarrow> smap" where
  "SetClusterRole labels role = AList.update ClusterRoleLabel role labels"

definition SetClusterType :: "smap \<Rightarrow> string \<Rightarrow> smap" where
  "SetClusterType labels clusterType = AList.update ClusterTypeLabel clusterType labels"

definition GenLabels :: "string \<Rightarrow> string \<Rightarrow> smap" where
  "GenLabels controllerName clusterType =
     [(ControllerNameLabel, controllerName), (ClusterNameLabel, ReplaceAll ''/'' ''-'' clusterType)]"

lemmas label_defs = SetReplicaIndexStr_def SetReplicaIndex_def SetReplicaType_def
  SetClusterRole_def SetClusterType_def GenLabels_def

section \<open>Names and keys\<close>

definition ControllerName :: string where "ControllerName = ''kubecluster-controller''"

definition GenGeneralName :: "string \<Rightarrow> string \<Rightarrow> string \<Rightarrow> string" where
  "GenGeneralName clusterName rtype index =
     ReplaceAll ''/'' ''-'' (clusterName @ ''-'' @ ToLower rtype @ ''-'' @ index)"

definition GenExpectationPodsKey :: "string \<Rightarrow> string \<Rightarrow> string" where
  "GenExpectationPodsKey clusterKey replicaType = clusterKey @ ''/'' @ ToLower replicaType @ ''/pods''"

definition GenExpectationServicesKey :: "string \<Rightarrow> string \<Rightarrow> string" where
  "GenExpectationServicesKey clusterKey replicaType =
     clusterKey @ ''/'' @ ToLower replicaType @ ''/services''"

definition GenExpectationConfigMapKey :: "string \<Rightarrow> string" where
  "GenExpectationConfigMapKey clusterKey = clusterKey @ ''/configmap''"

definition GenPreSatisfiedKey :: "string \<Rightarrow> string" where
  "GenPreSatisfiedKey clusterKey = clusterKey @ ''/presatisfied''"

definition GenExpectationGenericKey :: "string \<Rightarrow> string \<Rightarrow> string \<Rightarrow> string" where
  "GenExpectationGenericKey clusterKey replicaType pl = clusterKey @ ''/'' @ ToLower replicaType @ ''/'' @ pl"

section \<open>Reading labels back\<close>

lemma ReplicaIndex_Set [label_simps, simp]:
  "in_int64 idx \<Longrightarrow> ReplicaIndex (SetReplicaIndex labels idx) = Inr idx"
  by (simp add: ReplicaIndex_def label_defs)

lemma ReplicaIndex_SetStr [label_simps, simp]: "ReplicaIndex (SetReplicaIndexStr labels s) = Atoi s"
  by (simp add: ReplicaIndex_def label_defs)

lemma ReplicaIndex_other [label_simps, simp]:
  "ReplicaIndex (SetReplicaType l rt) = ReplicaIndex l"
  "ReplicaIndex (SetClusterRole l r) = ReplicaIndex l"
  "ReplicaIndex (SetClusterType l t) = ReplicaIndex l"
  by (simp_all add: ReplicaIndex_def label_defs)

lemma get_SetReplicaType [label_simps, simp]:
  "map_of (SetReplicaType l rt) ReplicaTypeLabel = Some rt"
  "map_of (SetReplicaIndexStr l i) ReplicaTypeLabel = map_of l ReplicaTypeLabel"
  "map_of (SetReplicaIndex l j) ReplicaTypeLabel = map_of l ReplicaTypeLabel"
  "map_of (SetClusterRole l r) ReplicaTypeLabel = map_of l ReplicaTypeLabel"
  "map_of (SetClusterType l t) ReplicaTypeLabel = map_of l ReplicaTypeLabel"
  by (simp_all add: label_defs)

lemma get_SetClusterType [label_simps, simp]:
  "map_of (SetClusterType l t) ClusterTypeLabel = Some t"
  "map_of (SetReplicaIndexStr l i) ClusterTypeLabel = map_of l ClusterTypeLabel"
  "map_of (SetReplicaIndex l j) ClusterTypeLabel = map_of l ClusterTypeLabel"
  "map_of (SetClusterRole l r) ClusterTypeLabel = map_of l ClusterTypeLabel"
  "map_of (SetReplicaType l rt) ClusterTypeLabel = map_of l ClusterTypeLabel"
  by (simp_all add: label_defs)

lemma get_name_labels [label_simps, simp]:
  "map_of (SetClusterType l t) ClusterNameLabel = map_of l ClusterNameLabel"
  "map_of (SetReplicaIndexStr l i) ClusterNameLabel = map_of l ClusterNameLabel"
  "map_of (SetReplicaIndex l j) ClusterNameLabel = map_of l ClusterNameLabel"
  "map_of (SetClusterRole l r) ClusterNameLabel = map_of l ClusterNameLabel"
  "map_of (SetReplicaType l rt) ClusterNameLabel = map_of l ClusterNameLabel"
  "map_of (SetClusterType l t) ControllerNameLabel = map_of l ControllerNameLabel"
  "map_of (SetReplicaIndexStr l i) ControllerNameLabel = map_of l ControllerNameLabel"
  "map_of (SetReplicaIndex l j) ControllerNameLabel = map_of l ControllerNameLabel"
  "map_of (SetClusterRole l r) ControllerNameLabel = map_of l ControllerNameLabel"
  "map_of (SetReplicaType l rt) ControllerNameLabel = map_of l ControllerNameLabel"
  by (simp_all add: label_defs)

lemma labels_ne [label_simps, simp]:
  "SetReplicaType l rt \<noteq> []" "SetReplicaIndexStr l i \<noteq> []" "SetReplicaIndex l j \<noteq> []"
  "SetClusterRole l r \<noteq> []" "SetClusterType l t \<noteq> []" "GenLabels cn ct \<noteq> []"
  by (simp_all add: label_defs update_nonempty)

section \<open>Names are unique within a cluster\<close>

definition slash_to_dash :: "string \<Rightarrow> string" where
  "slash_to_dash s = map (\<lambda>x. if x = CHR ''/'' then CHR ''-'' else x) s"

lemma GenGeneralName_eq:
  "GenGeneralName cn rt idx = slash_to_dash cn @ ''-'' @ slash_to_dash (ToLower rt) @ ''-'' @ slash_to_dash idx"
  by (simp add: GenGeneralName_def ReplaceAll_char slash_to_dash_def)

lemma slash_to_dash_id: "CHR ''/'' \<notin> set s \<Longrightarrow> slash_to_dash s = s"
  by (induction s) (auto simp: slash_to_dash_def)

text \<open>Cutting a string at the last occurrence of a byte.\<close>

lemma append_last_sep_inj:
  assumes "x @ c # y = x' @ c # y'" and "c \<notin> set y" and "c \<notin> set y'"
  shows "x = x' \<and> y = y'"
proof -
  have "takeWhile (\<lambda>d. d \<noteq> c) (rev (x @ c # y)) = rev y"
    "takeWhile (\<lambda>d. d \<noteq> c) (rev (x' @ c # y')) = rev y'"
    using assms(2,3) by (auto simp: takeWhile_tail)
  with assms(1) have "rev y = rev y'" by metis
  then have "y = y'" by simp
  with assms(1) show ?thesis by simp
qed

lemma index_no_dash: "0 \<le> i \<Longrightarrow> CHR ''-'' \<notin> set (slash_to_dash (Itoa i))"
  using Itoa_no_char [of i "CHR ''-''"] Itoa_no_char [of i "CHR ''/''"]
  by (simp add: slash_to_dash_id)

text \<open>Two replicas of one cluster get the same object name only if they have the same index
  and their types are equal up to case, when no type contains a slash.\<close>

lemma GenGeneralName_inj:
  assumes "GenGeneralName cn rt (Itoa i) = GenGeneralName cn rt' (Itoa j)"
    and "0 \<le> i" and "0 \<le> j" and "CHR ''/'' \<notin> set (ToLower rt)" and "CHR ''/'' \<notin> set (ToLower rt')"
  shows "i = j \<and> GenReplicaTypeLabel rt = GenReplicaTypeLabel rt'"
proof -
  have eq: "(''-'' @ ToLower rt) @ CHR ''-'' # slash_to_dash (Itoa i) =
            (''-'' @ ToLower rt') @ CHR ''-'' # slash_to_dash (Itoa j)"
    using assms by (simp add: GenGeneralName_eq slash_to_dash_id)
  from append_last_sep_inj [OF eq] assms(2,3) index_no_dash
  have "ToLower rt = ToLower rt'" and "slash_to_dash (Itoa i) = slash_to_dash (Itoa j)" by auto
  moreover from this(2) have "Itoa i = Itoa j"
    using assms(2,3) Itoa_no_char [of _ "CHR ''/''"] by (simp add: slash_to_dash_id)
  ultimately show ?thesis
    using Itoa_inj_nonneg assms(2,3) by (simp add: GenReplicaTypeLabel_def)
qed

section \<open>Keys are unique\<close>

lemma pods_services_key_neq [simp]:
  "GenExpectationPodsKey k rt \<noteq> GenExpectationServicesKey k' rt'"
  "GenExpectationServicesKey k' rt' \<noteq> GenExpectationPodsKey k rt"
proof -
  have "hd (tl (rev (GenExpectationPodsKey k rt))) = CHR ''d''"
    "hd (tl (rev (GenExpectationServicesKey k' rt'))) = CHR ''e''"
    by (simp_all add: GenExpectationPodsKey_def GenExpectationServicesKey_def)
  then show "GenExpectationPodsKey k rt \<noteq> GenExpectationServicesKey k' rt'"
    "GenExpectationServicesKey k' rt' \<noteq> GenExpectationPodsKey k rt" by auto
qed

lemma pods_key_inj:
  assumes "GenExpectationPodsKey k rt = GenExpectationPodsKey k' rt'"
    and "CHR ''/'' \<notin> set (ToLower rt)" and "CHR ''/'' \<notin> set (ToLower rt')"
  shows "k = k' \<and> ToLower rt = ToLower rt'"
proof -
  from assms(1) have "k @ CHR ''/'' # ToLower rt = k' @ CHR ''/'' # ToLower rt'"
    by (simp add: GenExpectationPodsKey_def)
  from append_last_sep_inj [OF this assms(2,3)] show ?thesis .
qed

lemma generic_key_pods: "GenExpectationGenericKey k rt ''pods'' = GenExpectationPodsKey k rt"
  by (simp add: GenExpectationGenericKey_def GenExpectationPodsKey_def)

lemma pods_key_ToLower [simp]:
  "GenExpectationPodsKey k (ToLower rt) = GenExpectationPodsKey k rt"
  "GenExpectationServicesKey k (ToLower rt) = GenExpectationServicesKey k rt"
  by (simp_all add: GenExpectationPodsKey_def GenExpectationServicesKey_def)

end
