(* ===== verification/Expectation.thy ===== *)
theory Expectation
  imports Labels
begin

text \<open>
  \<open>pkg/controller/expectation/expectation.go\<close>: the counters of pod and service creations and
  deletions a controller still waits for, and \<open>SatisfiedExpectations\<close> of
  \<open>pkg/common/util/reconciler.go\<close>, which reads them.

  The entries are shared: \<open>Add\<close> changes a \<open>ControlleeExpectations\<close> through the pointer the store
  holds. The model keeps an explicit heap of entries, and the store holds interface values that
  are pointers into it (or, for the type assertion to \<open>bool\<close> in \<open>PreSatisfiedExpectations\<close>,
  booleans). The store itself, client-go's \<open>cache.Store\<close>, is a parameter: a record of its three
  operations, whose documented behaviour is the locale \<open>thread_safe_store\<close>. The counters are
  64-bit words and wrap as \<open>atomic.AddInt64\<close> does.
\<close>

record ControlleeExpectations =
  ex_add :: int64
  ex_del :: int64
  ex_key :: string
  ex_timestamp :: time

text \<open>The dynamic values behind \<open>interface{}\<close> that the code distinguishes.\<close>

datatype iface = PtrExp nat | BoolVal bool | OtherVal

record 'st cache_store =
  GetByKey :: "'st \<Rightarrow> string \<Rightarrow> gerr + iface option"
  StoreAdd :: "(iface \<Rightarrow> gerr + string) \<Rightarrow> iface \<Rightarrow> 'st \<Rightarrow> 'st \<times> gerr option"
  StoreDelete :: "(iface \<Rightarrow> gerr + string) \<Rightarrow> iface \<Rightarrow> 'st \<Rightarrow> 'st \<times> gerr option"
  EmptyStore :: 'st

record 'st expectations =
  ex_heap :: "ControlleeExpectations list"
  ex_store :: 'st

definition ExpectationsTimeout :: time where
  "ExpectationsTimeout = 5 * 60 * 1000000000"

definition ExpKeyFunc :: "ControlleeExpectations list \<Rightarrow> iface \<Rightarrow> gerr + string" where
  "ExpKeyFunc h obj =
     (case obj of
        PtrExp p \<Rightarrow> if p < length h then Inr (ex_key (h ! p)) else Inl (PlainErr ''nil pointer'')
      | _ \<Rightarrow> Inl (PlainErr ''could not find key for obj''))"

definition NewControllerExpectations :: "'st cache_store \<Rightarrow> 'st expectations" where
  "NewControllerExpectations S = \<lparr> ex_heap = [], ex_store = EmptyStore S \<rparr>"

section \<open>One entry\<close>

definition Fulfilled :: "ControlleeExpectations \<Rightarrow> bool" where
  "Fulfilled e \<longleftrightarrow> sint (ex_add e) \<le> 0 \<and> sint (ex_del e) \<le> 0"

definition isExpired :: "time \<Rightarrow> ControlleeExpectations \<Rightarrow> bool" where
  "isExpired now e \<longleftrightarrow> now - ex_timestamp e > ExpectationsTimeout"

definition ControlleeAdd :: "ControlleeExpectations \<Rightarrow> int64 \<Rightarrow> int64 \<Rightarrow> ControlleeExpectations" where
  "ControlleeAdd e add del = e\<lparr>ex_add := ex_add e + add, ex_del := ex_del e + del\<rparr>"

definition ControlleeGetExpectations :: "ControlleeExpectations \<Rightarrow> int64 \<times> int64" where
  "ControlleeGetExpectations e = (ex_add e, ex_del e)"

definition deref :: "nat \<Rightarrow> ('st expectations, ControlleeExpectations) go" where
  "deref p = (\<lambda>s. if p < length (ex_heap s) then Ret (ex_heap s ! p) s
                  else Panic ''nil pointer dereference'' s)"

section \<open>The interface\<close>

definition GetExpectations :: "'st cache_store \<Rightarrow> string \<Rightarrow> ('st expectations, gerr + nat option) go" where
  "GetExpectations S controllerKey =
     go_bind (go_gets (\<lambda>s. GetByKey S (ex_store s) controllerKey)) (\<lambda>r.
     case r of
       Inl err \<Rightarrow> go_return (Inl err)
     | Inr None \<Rightarrow> go_return (Inr None)
     | Inr (Some (PtrExp p)) \<Rightarrow> go_return (Inr (Some p))
     | Inr (Some _) \<Rightarrow> go_panic ''interface conversion'')"

definition DeleteExpectations :: "'st cache_store \<Rightarrow> string \<Rightarrow> ('st expectations, unit) go" where
  "DeleteExpectations S controllerKey =
     go_bind (go_gets (\<lambda>s. GetByKey S (ex_store s) controllerKey)) (\<lambda>r.
     case r of
       Inr (Some exp) \<Rightarrow>
         go_modify (\<lambda>s. s\<lparr>ex_store := fst (StoreDelete S (ExpKeyFunc (ex_heap s)) exp (ex_store s))\<rparr>)
     | _ \<Rightarrow> go_return ())"

definition SatisfiedExpectations :: "'st cache_store \<Rightarrow> time \<Rightarrow> string \<Rightarrow> ('st expectations, bool) go" where
  "SatisfiedExpectations S now controllerKey =
     go_bind (GetExpectations S controllerKey) (\<lambda>r.
     case r of
       Inr (Some p) \<Rightarrow> go_bind (deref p) (\<lambda>e.
         if Fulfilled e then go_return True
         else if isExpired now e then go_return True
         else go_return False)
     | _ \<Rightarrow> go_return True)"

definition SetExpectations ::
  "'st cache_store \<Rightarrow> time \<Rightarrow> string \<Rightarrow> int64 \<Rightarrow> int64 \<Rightarrow> ('st expectations, gerr option) go" where
  "SetExpectations S now controllerKey add del = (\<lambda>s.
     let exp = \<lparr> ex_add = add, ex_del = del, ex_key = controllerKey, ex_timestamp = now \<rparr>;
         h = ex_heap s @ [exp];
         (st, err) = StoreAdd S (ExpKeyFunc h) (PtrExp (length (ex_heap s))) (ex_store s)
     in Ret err (s\<lparr>ex_heap := h, ex_store := st\<rparr>))"

definition ExpectCreations ::
  "'st cache_store \<Rightarrow> time \<Rightarrow> string \<Rightarrow> int64 \<Rightarrow> ('st expectations, gerr option) go" where
  "ExpectCreations S now controllerKey adds = SetExpectations S now controllerKey adds 0"

definition ExpectDeletions ::
  "'st cache_store \<Rightarrow> time \<Rightarrow> string \<Rightarrow> int64 \<Rightarrow> ('st expectations, gerr option) go" where
  "ExpectDeletions S now controllerKey dels = SetExpectations S now controllerKey 0 dels"

text \<open>\<open>exp.Add(add, del)\<close> on the entry of a key, when there is one.\<close>

definition AddToEntry :: "'st cache_store \<Rightarrow> string \<Rightarrow> int64 \<Rightarrow> int64 \<Rightarrow> ('st expectations, unit) go" where
  "AddToEntry S controllerKey add del =
     go_bind (GetExpectations S controllerKey) (\<lambda>r.
     case r of
       Inr (Some p) \<Rightarrow> go_bind (deref p) (\<lambda>e.
         go_modify (\<lambda>s. s\<lparr>ex_heap := (ex_heap s)[p := ControlleeAdd e add del]\<rparr>))
     | _ \<Rightarrow> go_return ())"

definition LowerExpectations ::
  "'st cache_store \<Rightarrow> string \<Rightarrow> int64 \<Rightarrow> int64 \<Rightarrow> ('st expectations, unit) go" where
  "LowerExpectations S controllerKey add del = AddToEntry S controllerKey (- add) (- del)"

definition RaiseExpectations ::
  "'st cache_store \<Rightarrow> string \<Rightarrow> int64 \<Rightarrow> int64 \<Rightarrow> ('st expectations, unit) go" where
  "RaiseExpectations S controllerKey add del = AddToEntry S controllerKey add del"

definition CreationObserved :: "'st cache_store \<Rightarrow> string \<Rightarrow> ('st expectations, unit) go" where
  "CreationObserved S controllerKey = LowerExpectations S controllerKey 1 0"

definition DeletionObserved :: "'st cache_store \<Rightarrow> string \<Rightarrow> ('st expectations, unit) go" where
  "DeletionObserved S controllerKey = LowerExpectations S controllerKey 0 1"

definition SetPreSatisfiedExpectations ::
  "'st cache_store \<Rightarrow> string \<Rightarrow> bool \<Rightarrow> ('st expectations, unit) go" where
  "SetPreSatisfiedExpectations S controllerKey satisfied = go_return ()"

definition PreSatisfiedExpectations :: "'st cache_store \<Rightarrow> string \<Rightarrow> ('st expectations, bool) go" where
  "PreSatisfiedExpectations S controllerKey =
     go_gets (\<lambda>s. case GetByKey S (ex_store s) controllerKey of
        Inr (Some (BoolVal preSatisfied)) \<Rightarrow> preSatisfied
      | _ \<Rightarrow> False)"

text \<open>\<open>util.SatisfiedExpectations\<close>: all the expectations of a cluster.\<close>

fun SatisfiedTypes :: "'st cache_store \<Rightarrow> time \<Rightarrow> string \<Rightarrow> string list \<Rightarrow> ('st expectations, bool) go" where
  "SatisfiedTypes S now clusterKey [] = go_return True"
| "SatisfiedTypes S now clusterKey (rtype # rtypes) =
     go_bind (SatisfiedExpectations S now (GenExpectationPodsKey clusterKey rtype)) (\<lambda>pods.
     if \<not> pods then go_return False else
     go_bind (SatisfiedExpectations S now (GenExpectationServicesKey clusterKey rtype)) (\<lambda>svcs.
     if \<not> svcs then go_return False else SatisfiedTypes S now clusterKey rtypes))"

definition ClusterSatisfiedExpectations ::
  "'st cache_store \<Rightarrow> time \<Rightarrow> string \<Rightarrow> string list \<Rightarrow> ('st expectations, bool) go" where
  "ClusterSatisfiedExpectations S now clusterKey replicaTypes =
     go_bind (PreSatisfiedExpectations S (GenPreSatisfiedKey clusterKey)) (\<lambda>pre.
     if \<not> pre then go_return False else SatisfiedTypes S now clusterKey replicaTypes)"

section \<open>What the store promises\<close>

text \<open>The documented behaviour of \<open>cache.NewStore(keyFunc)\<close>: a map from the keys the key function
  computes to the objects added last; reading never fails, and \<open>Add\<close> and \<open>Delete\<close> fail only when
  the key function does, leaving the store as it is.\<close>

locale thread_safe_store =
  fixes S :: "'st cache_store"
  assumes get_total: "\<exists>r. GetByKey S st k = Inr r"
    and get_empty: "GetByKey S (EmptyStore S) k = Inr None"
    and add_ok: "kf v = Inr k \<Longrightarrow> snd (StoreAdd S kf v st) = None"
    and get_add: "kf v = Inr k \<Longrightarrow>
        GetByKey S (fst (StoreAdd S kf v st)) k' = (if k' = k then Inr (Some v) else GetByKey S st k')"
    and delete_ok: "kf v = Inr k \<Longrightarrow> snd (StoreDelete S kf v st) = None"
    and get_delete: "kf v = Inr k \<Longrightarrow>
        GetByKey S (fst (StoreDelete S kf v st)) k' = (if k' = k then Inr None else GetByKey S st k')"

section \<open>The contract of the interface\<close>

text \<open>The abstract reading of the expectations: for every key the pair of counters with the time
  they were set, if there is an entry.\<close>

definition entry_of :: "'st cache_store \<Rightarrow> 'st expectations \<Rightarrow> string \<Rightarrow> ControlleeExpectations option" where
  "entry_of S s k =
     (case GetByKey S (ex_store s) k of
        Inr (Some (PtrExp p)) \<Rightarrow> if p < length (ex_heap s) then Some (ex_heap s ! p) else None
      | _ \<Rightarrow> None)"

text \<open>The invariant: the store holds only pointers to live entries filed under their own key.\<close>

definition exps_ok :: "'st cache_store \<Rightarrow> 'st expectations \<Rightarrow> bool" where
  "exps_ok S s \<longleftrightarrow>
     (\<forall>k v. GetByKey S (ex_store s) k = Inr (Some v) \<longrightarrow>
        (\<exists>p < length (ex_heap s). v = PtrExp p \<and> ex_key (ex_heap s ! p) = k))"

text \<open>\<open>ControllerExpectationsInterface\<close> as its clients rely on it: an operation never panics, keeps
  the invariant, and changes the entry of its own key only.\<close>

locale controller_expectations =
  fixes inv :: "'e \<Rightarrow> bool"
    and look :: "'e \<Rightarrow> string \<Rightarrow> ControlleeExpectations option"
    and set_exp :: "time \<Rightarrow> string \<Rightarrow> int64 \<Rightarrow> int64 \<Rightarrow> ('e, gerr option) go"
    and raise :: "string \<Rightarrow> int64 \<Rightarrow> int64 \<Rightarrow> ('e, unit) go"
    and lower :: "string \<Rightarrow> int64 \<Rightarrow> int64 \<Rightarrow> ('e, unit) go"
    and del_exp :: "string \<Rightarrow> ('e, unit) go"
    and satisfied :: "time \<Rightarrow> string \<Rightarrow> ('e, bool) go"
  assumes set_spec: "inv s \<Longrightarrow> \<exists>s'. set_exp now k a d s = Ret None s' \<and> inv s' \<and>
        look s' = (look s)(k \<mapsto> \<lparr> ex_add = a, ex_del = d, ex_key = k, ex_timestamp = now \<rparr>)"
    and raise_spec: "inv s \<Longrightarrow> \<exists>s'. raise k a d s = Ret () s' \<and> inv s' \<and>
        look s' = (look s)(k := map_option (\<lambda>e. ControlleeAdd e a d) (look s k))"
    and lower_spec: "inv s \<Longrightarrow> \<exists>s'. lower k a d s = Ret () s' \<and> inv s' \<and>
        look s' = (look s)(k := map_option (\<lambda>e. ControlleeAdd e (- a) (- d)) (look s k))"
    and del_spec: "inv s \<Longrightarrow> \<exists>s'. del_exp k s = Ret () s' \<and> inv s' \<and> look s' = (look s)(k := None)"
    and satisfied_spec: "inv s \<Longrightarrow> satisfied now k s =
        Ret (case look s k of None \<Rightarrow> True | Some e \<Rightarrow> Fulfilled e \<or> isExpired now e) s"
begin

lemma raise_lower:
  assumes "inv s"
  shows "\<exists>s' s''. raise k a d s = Ret () s' \<and> lower k a d s' = Ret () s'' \<and> inv s'' \<and> look s'' = look s"
proof -
  obtain s' where s': "raise k a d s = Ret () s'" "inv s'"
      "look s' = (look s)(k := map_option (\<lambda>e. ControlleeAdd e a d) (look s k))"
    using raise_spec [OF assms] by blast
  obtain s'' where s'': "lower k a d s' = Ret () s''" "inv s''"
      "look s'' = (look s')(k := map_option (\<lambda>e. ControlleeAdd e (- a) (- d)) (look s' k))"
    using lower_spec [OF s'(2)] by blast
  have "look s'' = look s"
    by (auto simp: s' s'' ControlleeAdd_def fun_eq_iff option.map_comp comp_def option.map_ident)
  with s' s'' show ?thesis by blast
qed

text \<open>What one raise or one lowering does to the counters of a key, in one equation.\<close>

lemma raise_look: "inv s \<Longrightarrow> raise k a d s = Ret () s' \<Longrightarrow>
    inv s' \<and> look s' k' = (if k' = k then map_option (\<lambda>e. ControlleeAdd e a d) (look s k) else look s k')"
  using raise_spec [of s k a d] by auto

lemma lower_look: "inv s \<Longrightarrow> lower k a d s = Ret () s' \<Longrightarrow>
    inv s' \<and> look s' k' = (if k' = k then map_option (\<lambda>e. ControlleeAdd e (- a) (- d)) (look s k) else look s k')"
  using lower_spec [of s k a d] by auto

end

section \<open>ControllerExpectations implements the contract\<close>

context thread_safe_store
begin

lemma exps_ok_get:
  assumes "exps_ok S s"
  obtains "GetByKey S (ex_store s) k = Inr None" "entry_of S s k = None"
  | p where "GetByKey S (ex_store s) k = Inr (Some (PtrExp p))" "p < length (ex_heap s)"
      "entry_of S s k = Some (ex_heap s ! p)" "ex_key (ex_heap s ! p) = k"
proof -
  obtain r where "GetByKey S (ex_store s) k = Inr r" using get_total by blast
  then show thesis
    using assms that by (cases r) (auto simp: exps_ok_def entry_of_def)
qed

lemma new_ok: "exps_ok S (NewControllerExpectations S)"
  "entry_of S (NewControllerExpectations S) = Map.empty"
  by (auto simp: exps_ok_def NewControllerExpectations_def entry_of_def get_empty)

lemma set_ok:
  assumes "exps_ok S s"
  shows "\<exists>s'. SetExpectations S now k a d s = Ret None s' \<and> exps_ok S s' \<and>
     entry_of S s' = (entry_of S s)(k \<mapsto> \<lparr> ex_add = a, ex_del = d, ex_key = k, ex_timestamp = now \<rparr>)"
proof -
  let ?exp = "\<lparr> ex_add = a, ex_del = d, ex_key = k, ex_timestamp = now \<rparr>"
  let ?h = "ex_heap s @ [?exp]"
  let ?v = "PtrExp (length (ex_heap s))"
  have key: "ExpKeyFunc ?h ?v = Inr k" by (simp add: ExpKeyFunc_def)
  let ?s' = "s\<lparr>ex_heap := ?h, ex_store := fst (StoreAdd S (ExpKeyFunc ?h) ?v (ex_store s))\<rparr>"
  have run: "SetExpectations S now k a d s = Ret None ?s'"
    using add_ok [of "ExpKeyFunc ?h" ?v, OF key] by (simp add: SetExpectations_def Let_def case_prod_unfold)
  have ok: "exps_ok S ?s'"
    using assms unfolding exps_ok_def
    by (auto simp: get_add [of "ExpKeyFunc ?h" ?v, OF key] nth_append split: if_splits)
  have "entry_of S ?s' k' = ((entry_of S s)(k \<mapsto> ?exp)) k'" for k'
  proof (cases "k' = k")
    case True
    then show ?thesis by (simp add: entry_of_def get_add [of "ExpKeyFunc ?h" ?v, OF key])
  next
    case False
    show ?thesis
      by (rule exps_ok_get [OF assms, of k'])
        (auto simp: False entry_of_def get_add [of "ExpKeyFunc ?h" ?v, OF key] nth_append)
  qed
  with run ok show ?thesis by blast
qed

lemma add_entry_ok:
  assumes "exps_ok S s"
  shows "\<exists>s'. AddToEntry S k a d s = Ret () s' \<and> exps_ok S s' \<and>
     entry_of S s' = (entry_of S s)(k := map_option (\<lambda>e. ControlleeAdd e a d) (entry_of S s k))"
proof (cases rule: exps_ok_get [OF assms, of k])
  case 1
  with assms show ?thesis by (auto simp: AddToEntry_def GetExpectations_def go_run fun_eq_iff)
next
  case (2 p)
  let ?s' = "s\<lparr>ex_heap := (ex_heap s)[p := ControlleeAdd (ex_heap s ! p) a d]\<rparr>"
  have run: "AddToEntry S k a d s = Ret () ?s'"
    using 2 by (simp add: AddToEntry_def GetExpectations_def go_run deref_def)
  have ok: "exps_ok S ?s'"
    unfolding exps_ok_def
  proof (intro allI impI)
    fix k' v
    assume "GetByKey S (ex_store ?s') k' = Inr (Some v)"
    then show "\<exists>q < length (ex_heap ?s'). v = PtrExp q \<and> ex_key (ex_heap ?s' ! q) = k'"
      using 2(2) by (cases rule: exps_ok_get [OF assms, of k']) (auto simp: nth_list_update ControlleeAdd_def)
  qed
  have "entry_of S ?s' k' = ((entry_of S s)(k := map_option (\<lambda>e. ControlleeAdd e a d) (entry_of S s k))) k'" for k'
    using 2 by (cases rule: exps_ok_get [OF assms, of k']) (auto simp: entry_of_def nth_list_update)
  with run ok show ?thesis by blast
qed

lemma delete_ok_exp:
  assumes "exps_ok S s"
  shows "\<exists>s'. DeleteExpectations S k s = Ret () s' \<and> exps_ok S s' \<and> entry_of S s' = (entry_of S s)(k := None)"
proof (cases rule: exps_ok_get [OF assms, of k])
  case 1
  with assms show ?thesis by (auto simp: DeleteExpectations_def go_run fun_eq_iff)
next
  case (2 p)
  then have key: "ExpKeyFunc (ex_heap s) (PtrExp p) = Inr k" by (simp add: ExpKeyFunc_def)
  let ?s' = "s\<lparr>ex_store := fst (StoreDelete S (ExpKeyFunc (ex_heap s)) (PtrExp p) (ex_store s))\<rparr>"
  have "DeleteExpectations S k s = Ret () ?s'" using 2 by (simp add: DeleteExpectations_def go_run)
  moreover have "exps_ok S ?s'"
    using assms by (auto simp: exps_ok_def get_delete [of "ExpKeyFunc (ex_heap s)", OF key] split: if_splits)
  moreover have "entry_of S ?s' = (entry_of S s)(k := None)"
    by (auto simp: entry_of_def fun_eq_iff get_delete [of "ExpKeyFunc (ex_heap s)", OF key]
        split: sum.splits option.splits iface.splits)
  ultimately show ?thesis by blast
qed

lemma satisfied_ok:
  assumes "exps_ok S s"
  shows "SatisfiedExpectations S now k s =
     Ret (case entry_of S s k of None \<Rightarrow> True | Some e \<Rightarrow> Fulfilled e \<or> isExpired now e) s"
  by (cases rule: exps_ok_get [OF assms, of k])
    (auto simp: SatisfiedExpectations_def GetExpectations_def deref_def go_run)

lemma pre_satisfied_never:
  assumes "exps_ok S s" shows "PreSatisfiedExpectations S k s = Ret False s"
  by (cases rule: exps_ok_get [OF assms, of k]) (auto simp: PreSatisfiedExpectations_def go_run)

end

sublocale thread_safe_store \<subseteq> exp: controller_expectations
  "exps_ok S" "entry_of S" "SetExpectations S" "RaiseExpectations S" "LowerExpectations S"
  "DeleteExpectations S" "SatisfiedExpectations S"
  by unfold_locales
    (auto simp: RaiseExpectations_def LowerExpectations_def
      intro!: set_ok add_entry_ok delete_ok_exp satisfied_ok)

text \<open>An association list is such a store; it is the one the concrete executions use.\<close>

definition map_store :: "(string \<times> iface) list cache_store" where
  "map_store = \<lparr>
     GetByKey = (\<lambda>st k. Inr (map_of st k)),
     StoreAdd = (\<lambda>kf v st. case kf v of Inl e \<Rightarrow> (st, Some e) | Inr k \<Rightarrow> (AList.update k v st, None)),
     StoreDelete = (\<lambda>kf v st. case kf v of Inl e \<Rightarrow> (st, Some e) | Inr k \<Rightarrow> (AList.delete k st, None)),
     EmptyStore = [] \<rparr>"

interpretation mstore: thread_safe_store map_store
  by unfold_locales (auto simp: map_store_def)

section \<open>Interleavings of raises and observations\<close>

text \<open>The controller raises expectations while the event handlers lower them; the two interleave
  in any order. An event of such a history, and the change it makes to the counters of a key.\<close>

datatype exp_event = Raised string int64 int64 | CreationSeen string | DeletionSeen string

fun exp_step :: "'st cache_store \<Rightarrow> exp_event \<Rightarrow> ('st expectations, unit) go" where
  "exp_step S (Raised k a d) = RaiseExpectations S k a d"
| "exp_step S (CreationSeen k) = CreationObserved S k"
| "exp_step S (DeletionSeen k) = DeletionObserved S k"

definition exp_run :: "'st cache_store \<Rightarrow> exp_event list \<Rightarrow> ('st expectations, unit) go" where
  "exp_run S evs = go_for (exp_step S) evs"

fun ev_key :: "exp_event \<Rightarrow> string" where
  "ev_key (Raised k a d) = k"
| "ev_key (CreationSeen k) = k"
| "ev_key (DeletionSeen k) = k"

fun ev_add :: "exp_event \<Rightarrow> int64" where
  "ev_add (Raised k a d) = a"
| "ev_add (CreationSeen k) = - 1"
| "ev_add (DeletionSeen k) = 0"

fun ev_del :: "exp_event \<Rightarrow> int64" where
  "ev_del (Raised k a d) = d"
| "ev_del (CreationSeen k) = 0"
| "ev_del (DeletionSeen k) = - 1"

context thread_safe_store
begin

lemma exp_step_ok:
  assumes "exps_ok S s"
  shows "\<exists>s'. exp_step S ev s = Ret () s' \<and> exps_ok S s' \<and> entry_of S s' =
    (entry_of S s)(ev_key ev := map_option (\<lambda>e. ControlleeAdd e (ev_add ev) (ev_del ev)) (entry_of S s (ev_key ev)))"
  using exp.raise_spec [OF assms] exp.lower_spec [OF assms, of "ev_key ev" 1 0]
    exp.lower_spec [OF assms, of "ev_key ev" 0 1]
  by (cases ev) (auto simp: CreationObserved_def DeletionObserved_def)

lemma exp_run_ok:
  assumes "exps_ok S s"
  shows "\<exists>s'. exp_run S evs s = Ret () s' \<and> exps_ok S s' \<and> entry_of S s' k =
    map_option (\<lambda>e. ControlleeAdd e (sum_list (map ev_add (filter (\<lambda>ev. ev_key ev = k) evs)))
      (sum_list (map ev_del (filter (\<lambda>ev. ev_key ev = k) evs)))) (entry_of S s k)"
  using assms unfolding exp_run_def
proof (induction evs arbitrary: s)
  case Nil
  then show ?case by (simp add: go_run ControlleeAdd_def option.map_ident)
next
  case (Cons ev evs)
  obtain s1 where s1: "exp_step S ev s = Ret () s1" "exps_ok S s1" "entry_of S s1 =
      (entry_of S s)(ev_key ev := map_option (\<lambda>e. ControlleeAdd e (ev_add ev) (ev_del ev)) (entry_of S s (ev_key ev)))"
    using exp_step_ok [OF Cons.prems] by blast
  from Cons.IH [OF s1(2)] show ?case
    by (auto simp: go_run s1 ControlleeAdd_def option.map_comp comp_def algebra_simps)
qed

end

lemma sint_diff_le_0:
  assumes "n < 2 ^ 62" "m < 2 ^ 62"
  shows "sint (of_nat n - of_nat m :: int64) \<le> 0 \<longleftrightarrow> n \<le> m"
proof -
  have "of_nat n - of_nat m = (word_of_int (int n - int m) :: int64)" by simp
  moreover have "sint (word_of_int (int n - int m) :: int64) = int n - int m"
    using assms unfolding sint_sbintrunc' by (subst signed_take_bit_int_eq_self) auto
  ultimately show ?thesis by simp
qed

definition creation_events :: "string \<Rightarrow> exp_event list \<Rightarrow> bool" where
  "creation_events k evs \<longleftrightarrow> list_all (\<lambda>ev. ev = Raised k 1 0 \<or> ev = CreationSeen k) evs"

lemma creation_events_sums:
  assumes "creation_events k evs"
  shows "filter (\<lambda>ev. ev_key ev = k) evs = evs" "sum_list (map ev_del evs) = 0"
    "sum_list (map ev_add evs) = of_nat (count_list evs (Raised k 1 0)) - of_nat (count_list evs (CreationSeen k))"
  using assms by (induction evs) (auto simp: creation_events_def)

text \<open>The expectations of a key wait for as many observed creations as were raised. After
  \<open>SetExpectations(k, 0, 0)\<close>, raises by one and observations of a creation, in every interleaving
  of the two, no call fails and \<open>SatisfiedExpectations\<close> is true exactly when at least as many
  creations were observed as raised, or the expectations are older than five minutes.\<close>

lemma creations_satisfied:
  assumes "thread_safe_store S" "exps_ok S s" "creation_events k evs" "length evs < 2 ^ 62"
  shows "\<exists>s'. go_seq (SetExpectations S t0 k 0 0) (go_seq (exp_run S evs) (SatisfiedExpectations S now k)) s =
    Ret (count_list evs (Raised k 1 0) \<le> count_list evs (CreationSeen k) \<or> now - t0 > ExpectationsTimeout) s'"
proof -
  obtain s1 where s1: "SetExpectations S t0 k 0 0 s = Ret None s1" "exps_ok S s1"
      "entry_of S s1 k = Some \<lparr> ex_add = 0, ex_del = 0, ex_key = k, ex_timestamp = t0 \<rparr>"
    using thread_safe_store.set_ok [OF assms(1,2), of t0 k 0 0] by auto
  let ?n = "count_list evs (Raised k 1 0)" and ?m = "count_list evs (CreationSeen k)"
  obtain s2 where s2: "exp_run S evs s1 = Ret () s2" "exps_ok S s2" "entry_of S s2 k =
      Some \<lparr> ex_add = of_nat ?n - of_nat ?m, ex_del = 0, ex_key = k, ex_timestamp = t0 \<rparr>"
    using thread_safe_store.exp_run_ok [OF assms(1) s1(2), of evs k]
    by (auto simp: s1 creation_events_sums [OF assms(3)] ControlleeAdd_def)
  have "?n < 2 ^ 62" "?m < 2 ^ 62"
    using assms(4) count_le_length [of evs "Raised k 1 0"] count_le_length [of evs "CreationSeen k"] by linarith+
  then show ?thesis
    by (simp add: go_run s1 s2 thread_safe_store.satisfied_ok [OF assms(1) s2(2)] Fulfilled_def
        isExpired_def sint_diff_le_0)
qed

text \<open>No cluster is ever found to have satisfied expectations. \<open>SetPreSatisfiedExpectations\<close>
  stores nothing and the store only ever holds pointers, so the type assertion to \<open>bool\<close> of
  \<open>PreSatisfiedExpectations\<close> fails and \<open>util.SatisfiedExpectations\<close> is false for every key and
  every list of replica types.\<close>

lemma cluster_expectations_never_satisfied:
  assumes "thread_safe_store S" "exps_ok S s"
  shows "ClusterSatisfiedExpectations S now clusterKey rtypes s = Ret False s \<and>
    SetPreSatisfiedExpectations S k b s = Ret () s"
  using thread_safe_store.pre_satisfied_never [OF assms]
  by (simp add: ClusterSatisfiedExpectations_def SetPreSatisfiedExpectations_def go_run)

end
