(* ===== verification/Kenv.thy ===== *)
theory Kenv
  imports Expectation
begin

text \<open>
  The environment of the controller and the state it threads.

  The API server and its clients are not part of the program: they are the parameter record
  \<open>'w kenv\<close>, whose functions read and change an abstract world \<open>'w\<close>. Every call may change the
  world, a read too, since time passes and other clients act between two calls of the controller;
  its result is a value or an API error. The clock, the random source, the label selectors and the
  owner-reference helpers of apimachinery are parameters for the same reason.

  The state \<open>cstate\<close> holds the world, the trace of the calls that change something outside the
  controller, the expectations of each registered schema (keyed by the cluster type) and the one
  \<open>KubeCluster\<close> object a reconciliation works on: the code passes a pointer to it, and \<open>runPolicy\<close>,
  \<open>metaObject\<close> and \<open>&kcluster.Status\<close> all point into it, so it is one mutable cell of the state.
\<close>

section \<open>Clients\<close>

record ('w, 'o) client =
  cl_Create :: "string \<Rightarrow> 'o \<Rightarrow> 'w \<Rightarrow> (gerr + 'o) \<times> 'w"
  cl_Get :: "string \<Rightarrow> string \<Rightarrow> 'w \<Rightarrow> (gerr + 'o) \<times> 'w"
  cl_Update :: "string \<Rightarrow> 'o \<Rightarrow> 'w \<Rightarrow> (gerr + 'o) \<times> 'w"
  cl_Delete :: "string \<Rightarrow> string \<Rightarrow> 'w \<Rightarrow> gerr option \<times> 'w"
  cl_Patch :: "string \<Rightarrow> string \<Rightarrow> string \<Rightarrow> 'w \<Rightarrow> gerr option \<times> 'w"
  cl_List :: "string \<Rightarrow> smap \<Rightarrow> 'w \<Rightarrow> (gerr + 'o list) \<times> 'w"

record PodDisruptionBudget =
  pdb_Meta :: ObjectMeta
  pdb_MinAvailable :: int32
  pdb_MatchLabels :: smap

text \<open>\<open>LabelSelectorAsSelector\<close> either rejects a label set or gives the selector that the list call
  uses; the selector is represented by its label set. \<open>SelectorMatches ls set\<close> is
  \<open>SelectorFromValidatedSet(ls).Matches(set)\<close> and \<open>SelectorEmpty ls\<close> is
  \<open>Set(ls).AsSelectorPreValidated().Empty()\<close>. The annotation keys, the label key and the pending
  phase of the pod group APIs are constants of the volcano and scheduler-plugins packages. \<open>Int63\<close>
  gives the sequence of the values the random source will return, \<open>InitContainer\<close> the containers that
  the template engine and the YAML parser make of an init-container template, the master's address,
  the image and the number of tries, and the three last
  fields are methods of \<open>resource.Quantity\<close>.\<close>

record 'w kenv =
  ke_pods :: "('w, Pod) client"
  ke_services :: "('w, Service) client"
  ke_configmaps :: "('w, ConfigMap) client"
  ke_volcano :: "('w, PodGroup) client"
  ke_schedplugins :: "('w, PodGroup) client"
  ke_pdbs :: "('w, PodDisruptionBudget) client"
  ke_clusters :: "('w, KubeCluster) client"
  ke_cached_configmaps :: "('w, ConfigMap) client"
  ke_PriorityClass :: "string \<Rightarrow> 'w \<Rightarrow> (gerr + int32 option) \<times> 'w"
  ke_Now :: "'w \<Rightarrow> time \<times> 'w"
  ke_Intn :: "int \<Rightarrow> 'w \<Rightarrow> int \<times> 'w"
  ke_Int63 :: "'w \<Rightarrow> (nat \<Rightarrow> int64) \<times> 'w"
  ke_KeyFunc :: "ObjectMeta \<Rightarrow> gerr + string"
  ke_GetControllerOf :: "ObjectMeta \<Rightarrow> OwnerReference option"
  ke_IsControlledBy :: "ObjectMeta \<Rightarrow> ObjectMeta \<Rightarrow> bool"
  ke_LabelSelectorAsSelector :: "smap \<Rightarrow> gerr option"
  ke_SelectorMatches :: "smap \<Rightarrow> smap \<Rightarrow> bool"
  ke_SelectorEmpty :: "smap \<Rightarrow> bool"
  ke_KubeGroupNameAnnotationKey :: string
  ke_TaskSpecKey :: string
  ke_PodGroupPending :: string
  ke_PodGroupLabel :: string
  ke_GroupVersion :: string
  ke_NameIsDNS1035Label :: "string \<Rightarrow> string list"
  ke_IsDNS1035Label :: "string \<Rightarrow> string list"
  ke_sortPriority :: "(int32 \<times> ReplicaSpec) list \<Rightarrow> (int32 \<times> ReplicaSpec) list"
  ke_sortConditions :: "PodCondition list \<Rightarrow> PodCondition list"
  ke_InitContainer :: "string \<Rightarrow> string \<Rightarrow> string \<Rightarrow> int \<Rightarrow> gerr + Container list"
  ke_QuantityString :: "Quantity \<Rightarrow> string"
  ke_AsInt64 :: "Quantity \<Rightarrow> int option"
  ke_MilliValue :: "Quantity \<Rightarrow> int"

section \<open>Effects and state\<close>

datatype effect =
    CreatePodCall string Pod "gerr option"
  | DeletePodCall string string "gerr option"
  | PatchPodCall string string string "gerr option"
  | CreateServiceCall string Service "gerr option"
  | DeleteServiceCall string string "gerr option"
  | PatchServiceCall string string string "gerr option"
  | CreateConfigMapCall string ConfigMap "gerr option"
  | UpdateConfigMapCall string ConfigMap "gerr option"
  | DeleteConfigMapCall string string "gerr option"
  | CreatePodGroupCall string PodGroup "gerr option"
  | UpdatePodGroupCall string PodGroup "gerr option"
  | DeletePodGroupCall string string "gerr option"
  | CreatePdbCall string PodDisruptionBudget "gerr option"
  | DeletePdbCall string string "gerr option"
  | DeleteClusterCall string string "gerr option"
  | UpdateStatusCall KubeCluster "gerr option"
  | EventCall string string string
  | MetricInc string

record ('w, 'st) cstate =
  world :: 'w
  trace :: "effect list"
  exps :: "string \<Rightarrow> 'st expectations"
  kcl :: KubeCluster

type_synonym ('w, 'st, 'a) ctl = "(('w, 'st) cstate, 'a) go"

definition err_of :: "gerr + 'a \<Rightarrow> gerr option" where
  "err_of r = (case r of Inl e \<Rightarrow> Some e | Inr _ \<Rightarrow> None)"

lemma err_of_simps [simp]: "err_of (Inl e) = Some e" "err_of (Inr a) = None"
  by (simp_all add: err_of_def)

lemma err_of_None_iff: "err_of r = None \<longleftrightarrow> (\<exists>a. r = Inr a)"
  by (cases r) auto

definition call :: "('w \<Rightarrow> 'a \<times> 'w) \<Rightarrow> ('w, 'st, 'a) ctl" where
  "call f = (\<lambda>s. case f (world s) of (r, w) \<Rightarrow> Ret r (s\<lparr>world := w\<rparr>))"

definition emit :: "effect \<Rightarrow> ('w, 'st, unit) ctl" where
  "emit e = go_modify (\<lambda>s. s\<lparr>trace := trace s @ [e]\<rparr>)"

text \<open>A call that changes something outside, recorded with its result.\<close>

definition api :: "('w \<Rightarrow> 'a \<times> 'w) \<Rightarrow> ('a \<Rightarrow> effect) \<Rightarrow> ('w, 'st, 'a) ctl" where
  "api f eff = go_bind (call f) (\<lambda>r. go_seq (emit (eff r)) (go_return r))"

definition with_exp :: "string \<Rightarrow> ('st expectations, 'a) go \<Rightarrow> ('w, 'st, 'a) ctl" where
  "with_exp ctype m = (\<lambda>s. case m (exps s ctype) of
       Ret a e \<Rightarrow> Ret a (s\<lparr>exps := (exps s)(ctype := e)\<rparr>)
     | Panic p e \<Rightarrow> Panic p (s\<lparr>exps := (exps s)(ctype := e)\<rparr>))"

definition Event :: "string \<Rightarrow> string \<Rightarrow> string \<Rightarrow> ('w, 'st, unit) ctl" where
  "Event etype reason msg = emit (EventCall etype reason msg)"

definition EventTypeNormal :: string where "EventTypeNormal = ''Normal''"
definition EventTypeWarning :: string where "EventTypeWarning = ''Warning''"

definition Inc :: "string \<Rightarrow> ('w, 'st, unit) ctl" where
  "Inc metric = emit (MetricInc metric)"

definition get_cluster :: "('w, 'st, KubeCluster) ctl" where
  "get_cluster = go_gets kcl"

definition update_status :: "(ClusterStatus \<Rightarrow> ClusterStatus) \<Rightarrow> ('w, 'st, unit) ctl" where
  "update_status f = go_modify (\<lambda>s. s\<lparr>kcl := (kcl s)\<lparr>kc_Status := f (kc_Status (kcl s))\<rparr>\<rparr>)"

lemmas ctl_defs = call_def emit_def api_def with_exp_def Event_def Inc_def get_cluster_def
  update_status_def

section \<open>Rules\<close>

lemma wp_call [wp]: "wp (call f) Q s = (case f (world s) of (r, w) \<Rightarrow> Q r (s\<lparr>world := w\<rparr>))"
  by (simp add: wp_def call_def split: prod.splits)

lemma wp_emit [wp]: "wp (emit e) Q s = Q () (s\<lparr>trace := trace s @ [e]\<rparr>)"
  by (simp add: emit_def wp)

lemma wp_api [wp]: "wp (api f eff) Q s =
    (case f (world s) of (r, w) \<Rightarrow> Q r (s\<lparr>world := w, trace := trace s @ [eff r]\<rparr>))"
  by (simp add: api_def wp split: prod.splits)

lemma wp_with_exp [wp]: "wp (with_exp c m) Q s =
    wp m (\<lambda>a e. Q a (s\<lparr>exps := (exps s)(c := e)\<rparr>)) (exps s c)"
  by (simp add: wp_def with_exp_def split: outcome.splits)

lemma wp_Event [wp]: "wp (Event t r m) Q s = Q () (s\<lparr>trace := trace s @ [EventCall t r m]\<rparr>)"
  by (simp add: Event_def wp)

lemma wp_Inc [wp]: "wp (Inc m) Q s = Q () (s\<lparr>trace := trace s @ [MetricInc m]\<rparr>)"
  by (simp add: Inc_def wp)

lemma wp_get_cluster [wp]: "wp get_cluster Q s = Q (kcl s) s"
  by (simp add: get_cluster_def wp)

lemma wp_update_status [wp]:
  "wp (update_status f) Q s = Q () (s\<lparr>kcl := (kcl s)\<lparr>kc_Status := f (kc_Status (kcl s))\<rparr>\<rparr>)"
  by (simp add: update_status_def wp)

text \<open>What the primitive steps do to the trace, as a frame.\<close>

abbreviation emits :: "(effect \<Rightarrow> bool) \<Rightarrow> ('w, 'st, 'a) ctl \<Rightarrow> bool" where
  "emits P m \<equiv> keeps (appends trace P) m"

lemma emits_call [emits_intros]: "emits P (call f)"
  by (auto simp: keeps_def call_def appends_def split: prod.splits)

lemma emits_emit [emits_intros]: "P e \<Longrightarrow> emits P (emit e)"
  by (auto simp: keeps_def emit_def go_modify_def appends_def)

lemma emits_api [emits_intros]: "(\<And>r. P (eff r)) \<Longrightarrow> emits P (api f eff)"
  by (auto simp: api_def intro!: appends.keeps_bind appends.keeps_seq emits_call emits_emit)

lemma emits_with_exp [emits_intros]: "emits P (with_exp c m)"
  by (auto simp: keeps_def with_exp_def appends_def split: outcome.splits)

lemma emits_Event [emits_intros]: "P (EventCall t r m) \<Longrightarrow> emits P (Event t r m)"
  by (auto simp: Event_def intro: emits_emit)

lemma emits_Inc [emits_intros]: "P (MetricInc m) \<Longrightarrow> emits P (Inc m)"
  by (auto simp: Inc_def intro: emits_emit)

lemma emits_get_cluster [emits_intros]: "emits P get_cluster"
  by (simp add: get_cluster_def)

lemma emits_update_status [emits_intros]: "emits P (update_status f)"
  by (auto simp: keeps_def update_status_def go_modify_def appends_def)

lemma total_ctl [total_intros]:
  "total (call f)" "total (emit e)" "total (api f eff)" "total (Event t r m)" "total (Inc n)"
  "total get_cluster" "total (update_status g)"
  by (auto simp: total_def ctl_defs go_run split: prod.splits outcome.splits)

lemma kcl_ctl [frame_intros]:
  "keeps (unchanged kcl) (call f)" "keeps (unchanged kcl) (emit e)" "keeps (unchanged kcl) (api f eff)"
  "keeps (unchanged kcl) (Event t r m)" "keeps (unchanged kcl) (Inc n)"
  "keeps (unchanged kcl) (with_exp c x)" "keeps (unchanged kcl) get_cluster"
  by (auto simp: keeps_def unchanged_def ctl_defs go_run split: prod.splits outcome.splits)

lemma exps_ctl [frame_intros]:
  "keeps (unchanged exps) (call f)" "keeps (unchanged exps) (emit e)" "keeps (unchanged exps) (api f eff)"
  "keeps (unchanged exps) (Event t r m)" "keeps (unchanged exps) (Inc n)"
  "keeps (unchanged exps) get_cluster" "keeps (unchanged exps) (update_status g)"
  by (auto simp: keeps_def unchanged_def ctl_defs go_run split: prod.splits outcome.splits)

lemmas emits_rules = appends.keeps_return appends.keeps_panic appends.keeps_gets appends.keeps_lift
  appends.keeps_bind appends.keeps_seq appends.keeps_try appends.keeps_try_val appends.keeps_forE
  appends.keeps_for appends.keeps_if appends.keeps_let appends.keeps_case_option
  appends.keeps_case_sum appends.keeps_case_prod appends.keeps_case_list

lemma emits_mono: "emits P m \<Longrightarrow> (\<And>e. P e \<Longrightarrow> Q e) \<Longrightarrow> emits Q m"
  unfolding keeps_def by (blast intro: appends_mono)

lemma emits_Ret:
  "emits P m \<Longrightarrow> m s = Ret a s' \<Longrightarrow> \<exists>es. trace s' = trace s @ es \<and> list_all P es"
  using appends.keepsD [of trace P m s a s'] by (auto simp: appends_def)

lemma emits_final:
  "emits P m \<Longrightarrow> \<exists>es. trace (final_state (m s)) = trace s @ es \<and> list_all P es"
  by (auto simp: keeps_def appends_def)

section \<open>Classes of effects\<close>

fun is_create :: "effect \<Rightarrow> bool" where
  "is_create (CreatePodCall _ _ _) = True"
| "is_create (CreateServiceCall _ _ _) = True"
| "is_create (CreateConfigMapCall _ _ _) = True"
| "is_create (CreatePodGroupCall _ _ _) = True"
| "is_create (CreatePdbCall _ _ _) = True"
| "is_create _ = False"

fun is_pod_delete :: "effect \<Rightarrow> bool" where
  "is_pod_delete (DeletePodCall _ _ _) = True"
| "is_pod_delete _ = False"

fun is_pod_create :: "effect \<Rightarrow> bool" where
  "is_pod_create (CreatePodCall _ _ _) = True"
| "is_pod_create _ = False"

fun is_note :: "effect \<Rightarrow> bool" where
  "is_note (EventCall _ _ _) = True"
| "is_note (MetricInc _) = True"
| "is_note _ = False"

end
