(* ===== verification/SampleEnv.thy ===== *)
theory SampleEnv
  imports Kenv
begin

text \<open>
  A concrete environment: an in-memory API server, on which the theorems that speak of an arbitrary
  environment are run. It is an instance for concrete executions, not a model of the real server.
\<close>

record sworld =
  w_pods :: "Pod list"
  w_services :: "Service list"
  w_cms :: "ConfigMap list"
  w_pgs :: "PodGroup list"
  w_pdbs :: "PodDisruptionBudget list"
  w_clusters :: "KubeCluster list"
  w_now :: time
  w_rand :: int

definition key_is :: "string \<Rightarrow> string \<Rightarrow> ObjectMeta \<Rightarrow> bool" where
  "key_is ns nm m \<longleftrightarrow> om_Namespace m = ns \<and> om_Name m = nm"

definition labels_match :: "smap \<Rightarrow> smap \<Rightarrow> bool" where
  "labels_match sel ls \<longleftrightarrow> list_all (\<lambda>(k, v). map_of ls k = Some v) sel"

definition mem_client ::
  "(sworld \<Rightarrow> 'o list) \<Rightarrow> (('o list \<Rightarrow> 'o list) \<Rightarrow> sworld \<Rightarrow> sworld) \<Rightarrow> ('o \<Rightarrow> ObjectMeta)
     \<Rightarrow> (string \<Rightarrow> 'o \<Rightarrow> 'o) \<Rightarrow> (sworld, 'o) client" where
  "mem_client items upd meta set_ns = \<lparr>
     cl_Create = (\<lambda>ns x w. if list_ex (\<lambda>y. key_is ns (om_Name (meta x)) (meta y)) (items w)
        then (Inl (StatusErr AlreadyExists ''already exists''), w)
        else (Inr (set_ns ns x), upd (\<lambda>l. l @ [set_ns ns x]) w)),
     cl_Get = (\<lambda>ns nm w. (case List.find (\<lambda>y. key_is ns nm (meta y)) (items w) of
        None \<Rightarrow> Inl (StatusErr NotFound ''not found'') | Some y \<Rightarrow> Inr y, w)),
     cl_Update = (\<lambda>ns x w. if list_ex (\<lambda>y. key_is ns (om_Name (meta x)) (meta y)) (items w)
        then (Inr x, upd (map (\<lambda>y. if key_is ns (om_Name (meta x)) (meta y) then x else y)) w)
        else (Inl (StatusErr NotFound ''not found''), w)),
     cl_Delete = (\<lambda>ns nm w. if list_ex (\<lambda>y. key_is ns nm (meta y)) (items w)
        then (None, upd (filter (\<lambda>y. \<not> key_is ns nm (meta y))) w)
        else (Some (StatusErr NotFound ''not found''), w)),
     cl_Patch = (\<lambda>ns nm data w. (None, w)),
     cl_List = (\<lambda>ns sel w. (Inr (filter (\<lambda>y. om_Namespace (meta y) = ns \<and> labels_match sel (om_Labels (meta y)))
        (items w)), w)) \<rparr>"

definition with_ns :: "string \<Rightarrow> ObjectMeta \<Rightarrow> ObjectMeta" where
  "with_ns ns m = m\<lparr>om_Namespace := ns\<rparr>"

definition pg_meta_of :: "PodGroup \<Rightarrow> ObjectMeta" where
  "pg_meta_of g = (case g of VolcanoPodGroup m _ _ \<Rightarrow> m | SchedulerPluginsPodGroup m _ \<Rightarrow> m)"

definition pg_with_ns :: "string \<Rightarrow> PodGroup \<Rightarrow> PodGroup" where
  "pg_with_ns ns g = (case g of VolcanoPodGroup m sp ph \<Rightarrow> VolcanoPodGroup (with_ns ns m) sp ph
     | SchedulerPluginsPodGroup m sp \<Rightarrow> SchedulerPluginsPodGroup (with_ns ns m) sp)"

definition controller_of :: "ObjectMeta \<Rightarrow> OwnerReference option" where
  "controller_of m = List.find (\<lambda>r. or_Controller r = Some True) (om_OwnerReferences m)"

definition sample_env :: "sworld kenv" where
  "sample_env = \<lparr>
     ke_pods = mem_client w_pods w_pods_update pod_Meta (\<lambda>ns p. p\<lparr>pod_Meta := with_ns ns (pod_Meta p)\<rparr>),
     ke_services = mem_client w_services w_services_update svc_Meta (\<lambda>ns p. p\<lparr>svc_Meta := with_ns ns (svc_Meta p)\<rparr>),
     ke_configmaps = mem_client w_cms w_cms_update cm_Meta (\<lambda>ns p. p\<lparr>cm_Meta := with_ns ns (cm_Meta p)\<rparr>),
     ke_volcano = mem_client w_pgs w_pgs_update pg_meta_of pg_with_ns,
     ke_schedplugins = mem_client w_pgs w_pgs_update pg_meta_of pg_with_ns,
     ke_pdbs = mem_client w_pdbs w_pdbs_update pdb_Meta (\<lambda>ns p. p\<lparr>pdb_Meta := with_ns ns (pdb_Meta p)\<rparr>),
     ke_clusters = mem_client w_clusters w_clusters_update kc_Meta (\<lambda>ns p. p\<lparr>kc_Meta := with_ns ns (kc_Meta p)\<rparr>),
     ke_cached_configmaps = mem_client w_cms w_cms_update cm_Meta (\<lambda>ns p. p\<lparr>cm_Meta := with_ns ns (cm_Meta p)\<rparr>),
     ke_PriorityClass = (\<lambda>pc w. (Inr None, w)),
     ke_Now = (\<lambda>w. (w_now w, w)),
     ke_Intn = (\<lambda>n w. (w_rand w mod n, w\<lparr>w_rand := w_rand w + 1\<rparr>)),
     ke_Int63 = (\<lambda>w. (\<lambda>n. 0, w)),
     ke_KeyFunc = (\<lambda>m. Inr (om_Namespace m @ ''/'' @ om_Name m)),
     ke_GetControllerOf = controller_of,
     ke_IsControlledBy = (\<lambda>m o1. case controller_of m of None \<Rightarrow> False | Some r \<Rightarrow> or_UID r = om_UID o1),
     ke_LabelSelectorAsSelector = (\<lambda>ls. None),
     ke_SelectorMatches = labels_match,
     ke_SelectorEmpty = (\<lambda>ls. ls = []),
     ke_KubeGroupNameAnnotationKey = ''scheduling.k8s.io/group-name'',
     ke_TaskSpecKey = ''volcano.sh/task-spec'',
     ke_PodGroupPending = ''Pending'',
     ke_PodGroupLabel = ''scheduling.x-k8s.io/pod-group'',
     ke_GroupVersion = ''kubecluster.org/v1alpha1'',
     ke_NameIsDNS1035Label = (\<lambda>s. if s = [] then [''empty''] else []),
     ke_IsDNS1035Label = (\<lambda>s. if s = [] then [''empty''] else []),
     ke_sortPriority = sort_key (\<lambda>p. - sint (fst p)),
     ke_sortConditions = sort_key (\<lambda>c. - pc_LastTransitionTime c),
     ke_InitContainer = (\<lambda>template addr image tries. Inr [empty_container\<lparr>c_Name := ''init'', c_Image := image,
        c_Command := [''nslookup'', addr]\<rparr>]),
     ke_QuantityString = (\<lambda>q. Itoa (q div 1000000000)),
     ke_AsInt64 = (\<lambda>q. Some (q div 1000000000)),
     ke_MilliValue = (\<lambda>q. q div 1000000) \<rparr>"

definition empty_world :: sworld where
  "empty_world = \<lparr> w_pods = [], w_services = [], w_cms = [], w_pgs = [], w_pdbs = [], w_clusters = [],
     w_now = 1000, w_rand = 0 \<rparr>"

section \<open>A sample cluster\<close>

definition sample_meta :: "string \<Rightarrow> ObjectMeta" where
  "sample_meta nm = empty_meta\<lparr>om_Name := nm, om_Namespace := ''ns'', om_UID := ''u1''\<rparr>"

definition sample_container :: Container where
  "sample_container = empty_container\<lparr>c_Name := ClusterDefaultContainerName, c_Image := ''img'',
     c_Requests := Some [(''cpu'', 2000000000)]\<rparr>"

definition sample_template :: PodTemplateSpec where
  "sample_template = \<lparr> pt_Meta = empty_meta, pt_Spec = empty_pod_spec\<lparr>ps_Containers := [sample_container]\<rparr> \<rparr>"

definition sample_replica :: "int32 \<Rightarrow> ReplicaSpec" where
  "sample_replica n = \<lparr> r_Replicas = Some n, r_Template = sample_template, r_RestartPolicy = RestartPolicyAlways \<rparr>"

definition sample_cluster :: "string \<Rightarrow> KubeCluster" where
  "sample_cluster typ = \<lparr> kc_Meta = sample_meta ''demo'',
     kc_Spec = \<lparr> s_ClusterType = typ,
        s_ClusterReplicaSpec = [(''Controller'', Some (sample_replica 1)), (''Worker'', Some (sample_replica 2))],
        s_MainContainer = ClusterDefaultContainerName,
        s_RunPolicy = empty_run_policy\<lparr>rp_CleanKubeNodePolicy := Some CleanKubeNodePolicyAll\<rparr> \<rparr>,
     kc_Status = empty_status \<rparr>"

definition sample_state :: "sworld \<Rightarrow> KubeCluster \<Rightarrow> (sworld, (string \<times> iface) list) cstate" where
  "sample_state w k = \<lparr> world = w, trace = [], exps = (\<lambda>_. NewControllerExpectations map_store), kcl = k \<rparr>"

definition sample_pod :: "string \<Rightarrow> string \<Rightarrow> string \<Rightarrow> string \<Rightarrow> Pod" where
  "sample_pod nm rt idx phase = \<lparr> pod_Meta = (sample_meta nm)\<lparr>om_UID := ''p-'' @ nm,
        om_Labels := [(ReplicaTypeLabel, rt), (ReplicaIndexLabel, idx)],
        om_OwnerReferences := [\<lparr> or_APIVersion = ''kubecluster.org/v1alpha1'', or_Kind = KubeClusterKind,
          or_Name = ''demo'', or_UID = ''u1'', or_BlockOwnerDeletion = Some True, or_Controller = Some True \<rparr>]\<rparr>,
     pod_Spec = empty_pod_spec, pod_Status = empty_pod_status\<lparr>pst_Phase := phase\<rparr> \<rparr>"

lemmas sample_defs = sample_env_def mem_client_def key_is_def labels_match_def with_ns_def
  controller_of_def empty_world_def sample_meta_def sample_container_def sample_template_def
  sample_replica_def sample_cluster_def sample_state_def sample_pod_def

lemma sample_exps_ok: "exps_ok map_store (exps (sample_state w k) c)"
  by (simp add: sample_state_def mstore.new_ok)

end
