(* ===== verification/Core.thy ===== *)
theory Core
  imports SampleEnv
begin

text \<open>
  \<open>pkg/core\<close> and the pod helpers of \<open>pkg/util/k8sutil/k8sutil.go\<close>: which pods and services belong to
  a replica type, how they are sorted into slices by their replica index, how many there are, and
  whether a cluster is past its deadline or its back-off limit.

  An index out of range, a nil replica spec and a slice longer than the runtime allows are panics
  (the left side of a sum). The counters are 32-bit words and wrap; durations are 64-bit: a product
  wraps and a difference of times saturates. The largest slice the runtime can make is the
  parameter \<open>maxlen\<close>.
\<close>

section \<open>utils.go\<close>

definition MaxInt :: "int \<Rightarrow> int \<Rightarrow> int" where
  "MaxInt x y = (if x < y then y else x)"

definition core_GenGeneralName :: "string \<Rightarrow> string \<Rightarrow> string \<Rightarrow> string" where
  "core_GenGeneralName clusterName rtype index =
     ReplaceAll ''/'' ''-'' (clusterName @ ''-'' @ ToLower rtype @ ''-'' @ index)"

definition wrap64 :: "int \<Rightarrow> int" where
  "wrap64 i = sint (word_of_int i :: int64)"

section \<open>Slices\<close>

text \<open>Pods and services are treated alike; \<open>lab\<close> reads the labels of an object.\<close>

fun slice_max :: "('o \<Rightarrow> smap) \<Rightarrow> int \<Rightarrow> 'o list \<Rightarrow> int" where
  "slice_max lab sz [] = sz"
| "slice_max lab sz (x # xs) =
     (case ReplicaIndex (lab x) of
        Inl err \<Rightarrow> slice_max lab sz xs
      | Inr index \<Rightarrow> slice_max lab (MaxInt sz index) xs)"

definition slice_size :: "('o \<Rightarrow> smap) \<Rightarrow> 'o list \<Rightarrow> int \<Rightarrow> int" where
  "slice_size lab objs replicas = MaxInt (wrap64 (slice_max lab 0 objs + 1)) replicas"

fun place :: "('o \<Rightarrow> smap) \<Rightarrow> 'o list \<Rightarrow> 'o list list \<Rightarrow> string + 'o list list" where
  "place lab [] slices = Inr slices"
| "place lab (x # xs) slices =
     (case ReplicaIndex (lab x) of
        Inl err \<Rightarrow> place lab xs slices
      | Inr index \<Rightarrow>
          if index < 0 \<or> index \<ge> int (length slices) then Inl ''index out of range''
          else place lab xs (slices[nat index := slices ! nat index @ [x]]))"

definition slices_of :: "('o \<Rightarrow> smap) \<Rightarrow> int \<Rightarrow> 'o list \<Rightarrow> int \<Rightarrow> string + 'o list list" where
  "slices_of lab maxlen objs replicas =
     (let n = slice_size lab objs replicas in
      if n < 0 \<or> n > maxlen then Inl ''makeslice: len out of range''
      else place lab objs (replicate (nat n) []))"

section \<open>pod.go and service.go\<close>

definition FilterPodsForReplicaType :: "'w kenv \<Rightarrow> Pod list \<Rightarrow> string \<Rightarrow> Pod list" where
  "FilterPodsForReplicaType E pods replicaType =
     filter (\<lambda>pod. ke_SelectorMatches E [(ReplicaTypeLabel, replicaType)] (om_Labels (pod_Meta pod))) pods"

definition CalculatePodSliceSize :: "Pod list \<Rightarrow> int \<Rightarrow> int" where
  "CalculatePodSliceSize pods replicas = slice_size (\<lambda>p. om_Labels (pod_Meta p)) pods replicas"

definition GetPodSlices :: "int \<Rightarrow> Pod list \<Rightarrow> int \<Rightarrow> string + Pod list list" where
  "GetPodSlices maxlen pods replicas = slices_of (\<lambda>p. om_Labels (pod_Meta p)) maxlen pods replicas"

definition SetRestartPolicy :: "PodTemplateSpec \<Rightarrow> ReplicaSpec \<Rightarrow> PodTemplateSpec" where
  "SetRestartPolicy podTemplateSpec spec =
     (if r_RestartPolicy spec = RestartPolicyExitCode
      then podTemplateSpec\<lparr>pt_Spec := (pt_Spec podTemplateSpec)\<lparr>ps_RestartPolicy := RestartPolicyNever\<rparr>\<rparr>
      else podTemplateSpec\<lparr>pt_Spec := (pt_Spec podTemplateSpec)\<lparr>ps_RestartPolicy := r_RestartPolicy spec\<rparr>\<rparr>)"

definition FilterServicesForReplicaType :: "'w kenv \<Rightarrow> Service list \<Rightarrow> string \<Rightarrow> Service list" where
  "FilterServicesForReplicaType E services replicaType =
     filter (\<lambda>svc. ke_SelectorMatches E [(ReplicaTypeLabel, replicaType)] (om_Labels (svc_Meta svc))) services"

definition CalculateServiceSliceSize :: "Service list \<Rightarrow> int \<Rightarrow> int" where
  "CalculateServiceSliceSize services replicas = slice_size (\<lambda>p. om_Labels (svc_Meta p)) services replicas"

definition GetServiceSlices :: "int \<Rightarrow> Service list \<Rightarrow> int \<Rightarrow> string + Service list list" where
  "GetServiceSlices maxlen services replicas = slices_of (\<lambda>p. om_Labels (svc_Meta p)) maxlen services replicas"

fun GetPortsFromContainers :: "Container list \<Rightarrow> string \<Rightarrow> gerr + (string \<times> int32) list" where
  "GetPortsFromContainers [] name = Inl (PlainErr ''failed to find the port'')"
| "GetPortsFromContainers (c # cs) name =
     (if c_Name c = name
      then Inr (foldl (\<lambda>ports p. AList.update (cp_Name p) (cp_ContainerPort p) ports) [] (c_Ports c))
      else GetPortsFromContainers cs name)"

definition GetPortsFromCluster :: "ReplicaSpec \<Rightarrow> string \<Rightarrow> gerr + (string \<times> int32) list" where
  "GetPortsFromCluster spec defaultContainerName =
     GetPortsFromContainers (ps_Containers (pt_Spec (r_Template spec))) defaultContainerName"

section \<open>k8sutil.go\<close>

definition IsPodActive :: "Pod \<Rightarrow> bool" where
  "IsPodActive p \<longleftrightarrow> PodSucceeded \<noteq> pst_Phase (pod_Status p) \<and> PodFailed \<noteq> pst_Phase (pod_Status p) \<and>
     om_DeletionTimestamp (pod_Meta p) = None"

definition FilterActivePods :: "Pod list \<Rightarrow> Pod list" where
  "FilterActivePods pods = filter IsPodActive pods"

fun FilterPodCount_from :: "int32 \<Rightarrow> Pod list \<Rightarrow> string \<Rightarrow> int32" where
  "FilterPodCount_from result [] phase = result"
| "FilterPodCount_from result (p # ps) phase =
     FilterPodCount_from (if phase = pst_Phase (pod_Status p) then result + 1 else result) ps phase"

definition FilterPodCount :: "Pod list \<Rightarrow> string \<Rightarrow> int32" where
  "FilterPodCount pods phase = FilterPodCount_from 0 pods phase"

fun GetTotalReplicas_from :: "int32 \<Rightarrow> ReplicaSpecs \<Rightarrow> string + int32" where
  "GetTotalReplicas_from n [] = Inr n"
| "GetTotalReplicas_from n ((t, None) # rs) = Inl ''nil pointer dereference''"
| "GetTotalReplicas_from n ((t, Some r) # rs) =
     GetTotalReplicas_from (case r_Replicas r of Some m \<Rightarrow> n + m | None \<Rightarrow> n + 1) rs"

definition GetTotalReplicas :: "ReplicaSpecs \<Rightarrow> string + int32" where
  "GetTotalReplicas replicas = GetTotalReplicas_from 0 replicas"

definition GetTotalFailedReplicas :: "ReplicaStatuses \<Rightarrow> int32" where
  "GetTotalFailedReplicas replicas = foldl (\<lambda>n (t, st). n + rs_Failed st) 0 replicas"

section \<open>cluster.go\<close>

definition recordContainerStatus :: "Pod \<Rightarrow> ContainerStatus \<Rightarrow> ('w, 'st, unit) ctl" where
  "recordContainerStatus pod status =
     go_seq
       (case cs_Terminated status of
          Some t \<Rightarrow> if term_ExitCode t \<noteq> 0
            then Event EventTypeWarning (term_Reason t) (''Error pod '' @ om_Name (pod_Meta pod) @ '' container '' @
                   cs_Name status @ '' exitCode: '' @ Itoa (sint (term_ExitCode t)) @
                   '' terminated message: '' @ term_Message t)
            else go_return ()
        | None \<Rightarrow> go_return ())
       (case cs_Waiting status of
          Some wt \<Rightarrow> if wait_Message wt \<noteq> []
            then Event EventTypeWarning (wait_Reason wt) (''Error pod '' @ om_Name (pod_Meta pod) @ '' container '' @
                   cs_Name status @ '' waiting message: '' @ wait_Message wt)
            else go_return ()
        | None \<Rightarrow> go_return ())"

definition RecordAbnormalPod :: "'w kenv \<Rightarrow> Pod \<Rightarrow> ('w, 'st, unit) ctl" where
  "RecordAbnormalPod E pod =
     (let st = pod_Status pod in
      if length (pst_ContainerStatuses st) \<noteq> 0 then go_for (recordContainerStatus pod) (pst_ContainerStatuses st)
      else if length (pst_InitContainerStatuses st) \<noteq> 0
      then go_for (recordContainerStatus pod) (pst_InitContainerStatuses st)
      else if length (pst_Conditions st) = 0 then go_return ()
      else case ke_sortConditions E (pst_Conditions st) of
             [] \<Rightarrow> go_panic ''index out of range''
           | condition # _ \<Rightarrow>
               if pc_Status condition = ConditionTrue then go_return ()
               else Event EventTypeWarning (pc_Reason condition)
                 (''Error pod '' @ om_Name (pod_Meta pod) @ '' condition message: '' @ pc_Message condition))"

definition RecordAbnormalPods :: "'w kenv \<Rightarrow> Pod list \<Rightarrow> ('w, 'st, unit) ctl" where
  "RecordAbnormalPods E activePods = go_for (RecordAbnormalPod E) activePods"

definition sat64 :: "int \<Rightarrow> int" where
  "sat64 d = max (- (2 ^ 63)) (min (2 ^ 63 - 1) d)"

definition PastActiveDeadline :: "time \<Rightarrow> RunPolicy \<Rightarrow> ClusterStatus \<Rightarrow> bool" where
  "PastActiveDeadline now runPolicy clusterStatus =
     (case (rp_ActiveDeadlineSeconds runPolicy, st_StartTime clusterStatus) of
        (Some secs, Some start) \<Rightarrow>
          (let duration = sat64 (now - start); allowedDuration = secs * (1000000000 :: int64)
           in duration \<ge> sint allowedDuration)
      | _ \<Rightarrow> False)"

definition restarts :: "int32 \<Rightarrow> Pod list \<Rightarrow> int32" where
  "restarts result pods = foldl (\<lambda>n po.
     if pst_Phase (pod_Status po) \<noteq> PodRunning then n
     else foldl (\<lambda>m stat. m + cs_RestartCount stat)
            (foldl (\<lambda>m stat. m + cs_RestartCount stat) n (pst_InitContainerStatuses (pod_Status po)))
            (pst_ContainerStatuses (pod_Status po))) result pods"

fun PastBackoffLimit_sum :: "'w kenv \<Rightarrow> int32 \<Rightarrow> ReplicaSpecs \<Rightarrow> Pod list \<Rightarrow> string + int32" where
  "PastBackoffLimit_sum E result [] pods = Inr result"
| "PastBackoffLimit_sum E result ((rtype, None) # rs) pods = Inl ''nil pointer dereference''"
| "PastBackoffLimit_sum E result ((rtype, Some spec) # rs) pods =
     (if r_RestartPolicy spec \<noteq> RestartPolicyOnFailure \<and> r_RestartPolicy spec \<noteq> RestartPolicyAlways \<and>
         r_RestartPolicy spec \<noteq> RestartPolicyExitCode
      then PastBackoffLimit_sum E result rs pods
      else PastBackoffLimit_sum E (restarts result (FilterPodsForReplicaType E pods (ToLower rtype))) rs pods)"

definition PastBackoffLimit :: "'w kenv \<Rightarrow> RunPolicy \<Rightarrow> ReplicaSpecs \<Rightarrow> Pod list \<Rightarrow> string + bool" where
  "PastBackoffLimit E runPolicy replicas pods =
     (case rp_BackoffLimit runPolicy of
        None \<Rightarrow> Inr False
      | Some limit \<Rightarrow>
          (case PastBackoffLimit_sum E 0 replicas pods of
             Inl p \<Rightarrow> Inl p
           | Inr result \<Rightarrow>
               if limit = 0 then Inr (sint result > 0) else Inr (sint result \<ge> sint limit)))"

section \<open>Slices hold the right objects\<close>

lemma slice_max_ge: "sz \<le> slice_max lab sz xs"
proof (induction xs arbitrary: sz)
  case (Cons x xs)
  show ?case
    using Cons.IH [of sz] Cons.IH [of "MaxInt sz (projr (ReplicaIndex (lab x)))"]
    by (auto simp: MaxInt_def split: sum.splits if_splits)
qed simp

lemma slice_max_upper: "x \<in> set xs \<Longrightarrow> ReplicaIndex (lab x) = Inr i \<Longrightarrow> i \<le> slice_max lab sz xs"
proof (induction xs arbitrary: sz)
  case (Cons y ys)
  then show ?case
    using slice_max_ge [of "MaxInt sz i" lab ys] by (auto simp: MaxInt_def split: sum.splits if_splits)
qed simp

lemma slice_max_attained:
  "slice_max lab sz xs = sz \<or> (\<exists>x \<in> set xs. ReplicaIndex (lab x) = Inr (slice_max lab sz xs))"
proof (induction xs arbitrary: sz)
  case (Cons y ys)
  show ?case
  proof (cases "ReplicaIndex (lab y)")
    case (Inr i)
    then show ?thesis using Cons [of "MaxInt sz i"] by (auto simp: MaxInt_def)
  qed (use Cons [of sz] in auto)
qed simp

definition indexed :: "('o \<Rightarrow> smap) \<Rightarrow> nat \<Rightarrow> 'o list \<Rightarrow> 'o list" where
  "indexed lab i xs = filter (\<lambda>x. ReplicaIndex (lab x) = Inr (int i)) xs"

lemma place_ok:
  assumes "\<forall>x \<in> set xs. \<forall>i. ReplicaIndex (lab x) = Inr i \<longrightarrow> 0 \<le> i \<and> i < int (length slices)"
  shows "\<exists>r. place lab xs slices = Inr r \<and> length r = length slices \<and>
    (\<forall>i < length slices. r ! i = slices ! i @ indexed lab i xs)"
  using assms
proof (induction xs arbitrary: slices)
  case Nil
  then show ?case by (simp add: indexed_def)
next
  case (Cons x xs)
  show ?case
  proof (cases "ReplicaIndex (lab x)")
    case (Inl e)
    with Cons show ?thesis by (auto simp: indexed_def)
  next
    case (Inr j)
    with Cons.prems have j: "0 \<le> j" "j < int (length slices)" by auto
    let ?sl = "slices[nat j := slices ! nat j @ [x]]"
    obtain r where "place lab xs ?sl = Inr r" "length r = length slices"
      "\<forall>i < length slices. r ! i = ?sl ! i @ indexed lab i xs"
      using Cons.IH [of ?sl] Cons.prems by auto
    with j Inr show ?thesis by (auto simp: indexed_def nth_list_update)
  qed
qed

lemma place_negative:
  "x \<in> set xs \<Longrightarrow> ReplicaIndex (lab x) = Inr i \<Longrightarrow> i < 0 \<Longrightarrow> place lab xs slices = Inl ''index out of range''"
  by (induction xs arbitrary: slices) (auto split: sum.splits)

lemma wrap64_id: "in_int64 i \<Longrightarrow> wrap64 i = i"
  unfolding wrap64_def sint_sbintrunc' in_int64_def by (subst signed_take_bit_int_eq_self) auto

definition indices_ok :: "('o \<Rightarrow> smap) \<Rightarrow> int \<Rightarrow> 'o list \<Rightarrow> bool" where
  "indices_ok lab maxlen xs \<longleftrightarrow>
     list_all (\<lambda>x. case ReplicaIndex (lab x) of Inl _ \<Rightarrow> True | Inr i \<Rightarrow> 0 \<le> i \<and> i < maxlen) xs"

lemma slices_of_ok:
  assumes ok: "indices_ok lab maxlen xs" and n: "n \<le> maxlen" and mx: "0 < maxlen" "maxlen < 2 ^ 63"
  shows "\<exists>slices. slices_of lab maxlen xs n = Inr slices \<and> n \<le> int (length slices) \<and>
     (\<forall>i < length slices. slices ! i = indexed lab i xs) \<and>
     (\<forall>x \<in> set xs. \<forall>i. ReplicaIndex (lab x) = Inr i \<longrightarrow> 0 \<le> i \<and> i < int (length slices)) \<and>
     (int (length slices) = max n 1 \<or> (\<exists>x \<in> set xs. ReplicaIndex (lab x) = Inr (int (length slices) - 1)))"
proof -
  let ?m = "slice_max lab 0 xs"
  have idx: "0 \<le> i \<and> i < maxlen" if "x \<in> set xs" "ReplicaIndex (lab x) = Inr i" for x i
    using ok that by (auto simp: indices_ok_def list_all_iff split: sum.splits)
  have m: "0 \<le> ?m" "?m < maxlen"
    using slice_max_ge [of 0 lab xs] slice_max_attained [of lab 0 xs] idx mx by auto
  have sz: "slice_size lab xs n = max (?m + 1) n"
    using m mx by (simp add: slice_size_def MaxInt_def wrap64_id in_int64_def max_def)
  let ?sl = "replicate (nat (max (?m + 1) n)) []"
  have "0 \<le> i \<and> i < int (length ?sl)" if "x \<in> set xs" "ReplicaIndex (lab x) = Inr i" for x i
    using idx [OF that] slice_max_upper [of x xs lab i 0] that m by auto
  then have all: "\<forall>x \<in> set xs. \<forall>i. ReplicaIndex (lab x) = Inr i \<longrightarrow> 0 \<le> i \<and> i < int (length ?sl)" by blast
  from place_ok [OF all] obtain r where "place lab xs ?sl = Inr r" "length r = length ?sl"
      "\<forall>i < length ?sl. r ! i = indexed lab i xs" by auto
  with sz m n all slice_max_attained [of lab 0 xs] show ?thesis
    by (intro exI [of _ r]) (auto simp: slices_of_def Let_def max_def)
qed

text \<open>C29: \<open>GetPodSlices\<close> sorts the pods by their replica index. When the index labels are in the
  range of slices the runtime can make, it returns one slice per replica at least; slice \<open>i\<close> holds
  exactly the pods with index \<open>i\<close>, in the order given; every pod whose index label parses is in a
  slice; and there are more slices than replicas (or than the one made for no pods) only when the
  last one holds a pod.\<close>

theorem GetPodSlices_correct:
  assumes "indices_ok (\<lambda>p. om_Labels (pod_Meta p)) maxlen pods" "replicas \<le> maxlen" "0 < maxlen" "maxlen < 2 ^ 63"
  shows "\<exists>slices. GetPodSlices maxlen pods replicas = Inr slices \<and> replicas \<le> int (length slices) \<and>
     (\<forall>i < length slices. slices ! i = filter (\<lambda>p. ReplicaIndex (om_Labels (pod_Meta p)) = Inr (int i)) pods) \<and>
     (\<forall>p \<in> set pods. \<forall>i. ReplicaIndex (om_Labels (pod_Meta p)) = Inr i \<longrightarrow> 0 \<le> i \<and> i < int (length slices)) \<and>
     (int (length slices) = max replicas 1 \<or>
        (\<exists>p \<in> set pods. ReplicaIndex (om_Labels (pod_Meta p)) = Inr (int (length slices) - 1)))"
  using slices_of_ok [OF assms] by (simp add: GetPodSlices_def indexed_def)

lemma GetPodSlices_correct_witness:
  "\<exists>slices. GetPodSlices 100 [] 3 = Inr slices \<and> length slices = 3"
  using GetPodSlices_correct [of 100 "[]" 3] by (auto simp: indices_ok_def)

text \<open>A pod whose replica index label is a negative number makes the slice
  function panic with an index out of range, or earlier on the size: the code logs such an index
  and then uses it.\<close>

lemma negative_index_panics:
  assumes "p \<in> set pods" "ReplicaIndex (om_Labels (pod_Meta p)) = Inr i" "i < 0"
  shows "\<exists>msg. GetPodSlices maxlen pods replicas = Inl msg"
  using place_negative [of p pods "\<lambda>p. om_Labels (pod_Meta p)" i] assms
  by (auto simp: GetPodSlices_def slices_of_def Let_def)

section \<open>Deadline and back-off limit\<close>

lemma sat64_ge: "- (2 ^ 63) < x \<Longrightarrow> x \<le> 2 ^ 63 - 1 \<Longrightarrow> sat64 d \<ge> x \<longleftrightarrow> d \<ge> x \<or> (d > 2 ^ 63 - 1)"
  by (auto simp: sat64_def max_def min_def)

lemma deadline_product:
  fixes secs :: int64
  assumes "0 \<le> sint secs" "sint secs \<le> 9223372036"
  shows "sint (secs * 1000000000) = sint secs * 1000000000"
proof -
  have "secs * 1000000000 = (word_of_int (sint secs * 1000000000) :: int64)" by simp
  moreover have "sint (word_of_int (sint secs * 1000000000) :: int64) = sint secs * 1000000000"
    using assms unfolding sint_sbintrunc' by (subst signed_take_bit_int_eq_self) auto
  ultimately show ?thesis by simp
qed



definition counted_policy :: "ReplicaSpec \<Rightarrow> bool" where
  "counted_policy spec \<longleftrightarrow> r_RestartPolicy spec \<in> {RestartPolicyOnFailure, RestartPolicyAlways, RestartPolicyExitCode}"

definition status_restarts :: "ContainerStatus list \<Rightarrow> int" where
  "status_restarts sts = (\<Sum>st \<leftarrow> sts. sint (cs_RestartCount st))"

definition pod_restarts :: "Pod list \<Rightarrow> int" where
  "pod_restarts pods = (\<Sum>po \<leftarrow> pods. if pst_Phase (pod_Status po) = PodRunning
     then status_restarts (pst_InitContainerStatuses (pod_Status po)) +
          status_restarts (pst_ContainerStatuses (pod_Status po)) else 0)"

text \<open>The restarts a back-off limit is compared with: those of the running pods of every replica type
  whose restart policy restarts containers.\<close>

definition total_restarts :: "'w kenv \<Rightarrow> ReplicaSpecs \<Rightarrow> Pod list \<Rightarrow> int" where
  "total_restarts E replicas pods = (\<Sum>(t, v) \<leftarrow> replicas. case v of None \<Rightarrow> 0
     | Some spec \<Rightarrow> if counted_policy spec then pod_restarts (FilterPodsForReplicaType E pods (ToLower t)) else 0)"

lemma foldl_restarts: "foldl (\<lambda>m st. m + cs_RestartCount st) n sts = n + word_of_int (status_restarts sts)"
  by (induction sts arbitrary: n) (simp_all add: status_restarts_def)

lemma restarts_eq: "restarts n pods = n + word_of_int (pod_restarts pods)"
  by (induction pods arbitrary: n) (simp_all add: restarts_def pod_restarts_def foldl_restarts)

lemma PastBackoffLimit_sum_eq:
  "\<forall>(t, v) \<in> set replicas. v \<noteq> None \<Longrightarrow>
     PastBackoffLimit_sum E n replicas pods = Inr (n + word_of_int (total_restarts E replicas pods))"
proof (induction E n replicas pods rule: PastBackoffLimit_sum.induct)
  case (3 E result rtype spec rs pods)
  then show ?case by (auto simp: total_restarts_def counted_policy_def restarts_eq)
qed (auto simp: total_restarts_def)

lemma sint32_id:
  assumes "- (2 ^ 31) \<le> i" "i < 2 ^ 31" shows "sint (word_of_int i :: int32) = i"
  using assms unfolding sint_sbintrunc' by (subst signed_take_bit_int_eq_self) auto



section \<open>Frames\<close>

lemma emits_RecordAbnormalPods [emits_intros]:
  "(\<And>t r m. P (EventCall t r m)) \<Longrightarrow> emits P (RecordAbnormalPods E pods)"
  unfolding RecordAbnormalPods_def RecordAbnormalPod_def recordContainerStatus_def Let_def
  by (intro emits_rules emits_intros) auto

lemma RecordAbnormalPods_frames [frame_intros]:
  "keeps (unchanged kcl) (RecordAbnormalPods E pods)" "keeps (unchanged exps) (RecordAbnormalPods E pods)"
  unfolding RecordAbnormalPods_def RecordAbnormalPod_def recordContainerStatus_def Let_def
  by (intro unchanged_rules frame_intros)+

end
