(* ===== verification/Quota.thy ===== *)
theory Quota
  imports SampleEnv "HOL-Library.Multiset" "HOL-Library.List_Lexorder" "HOL-Library.Char_ord"
begin

text \<open>
  \<open>pkg/util/quota/resources.go\<close>, the arithmetic of resource lists, and the minimal resources of a pod
  group from \<open>pkg/controller/ctrlcommon/util.go\<close>. A quantity is its exact value; a resource list is a
  Go map, an association list with distinct keys. \<open>sort.Sort\<close> is not stable: the order of replica
  types with equal priority is the environment's choice, so it is a parameter constrained by what
  the package documents.
\<close>

section \<open>Comparing\<close>

definition Equals :: "ResourceList \<Rightarrow> ResourceList \<Rightarrow> bool" where
  "Equals a b \<longleftrightarrow> length a = length b \<and> list_all (\<lambda>(key, v1). map_of b key = Some v1) a"

definition LessThanOrEqual :: "ResourceList \<Rightarrow> ResourceList \<Rightarrow> bool \<times> string list" where
  "LessThanOrEqual a b =
     (let over = map fst (filter (\<lambda>(key, v). case map_of a key of Some other \<Rightarrow> other > v | None \<Rightarrow> False) b)
      in (over = [], over))"

section \<open>Arithmetic\<close>

text \<open>The first loop of every operation computes an entry per key of \<open>a\<close>; the second adds the keys of
  \<open>b\<close> the result does not have yet.\<close>

definition each :: "(string \<Rightarrow> Quantity \<Rightarrow> Quantity) \<Rightarrow> ResourceList \<Rightarrow> ResourceList" where
  "each f a = map (\<lambda>(key, v). (key, f key v)) a"

definition fill :: "(Quantity \<Rightarrow> Quantity) \<Rightarrow> ResourceList \<Rightarrow> ResourceList \<Rightarrow> ResourceList" where
  "fill g result b = foldl (\<lambda>r (key, v). if map_of r key = None then AList.update key (g v) r else r) result b"

definition quota_Max :: "ResourceList \<Rightarrow> ResourceList \<Rightarrow> ResourceList" where
  "quota_Max a b = fill (\<lambda>v. v) (each (\<lambda>key v. case map_of b key of
      Some other \<Rightarrow> if v \<le> other then other else v | None \<Rightarrow> v) a) b"

definition quota_Add :: "ResourceList \<Rightarrow> ResourceList \<Rightarrow> ResourceList" where
  "quota_Add a b = fill (\<lambda>v. v) (each (\<lambda>key v. case map_of b key of Some other \<Rightarrow> v + other | None \<Rightarrow> v) a) b"

definition SubtractWithNonNegativeResult :: "ResourceList \<Rightarrow> ResourceList \<Rightarrow> ResourceList" where
  "SubtractWithNonNegativeResult a b = fill (\<lambda>v. 0) (each (\<lambda>key v.
      let q = (case map_of b key of Some other \<Rightarrow> v - other | None \<Rightarrow> v) in if q > 0 then q else 0) a) b"

definition Subtract :: "ResourceList \<Rightarrow> ResourceList \<Rightarrow> ResourceList" where
  "Subtract a b = fill (\<lambda>v. - v) (each (\<lambda>key v. case map_of b key of Some other \<Rightarrow> v - other | None \<Rightarrow> v) a) b"

section \<open>Names\<close>

definition ToSet :: "string list \<Rightarrow> string set" where
  "ToSet resourceNames = set resourceNames"

definition Mask :: "ResourceList \<Rightarrow> string list \<Rightarrow> ResourceList" where
  "Mask resources names = filter (\<lambda>(key, v). key \<in> ToSet names) resources"

definition ResourceNames :: "ResourceList \<Rightarrow> string list" where
  "ResourceNames resources = map fst resources"

fun quota_Contains :: "string list \<Rightarrow> string \<Rightarrow> bool" where
  "quota_Contains [] item = False"
| "quota_Contains (i # items) item = (if i = item then True else quota_Contains items item)"

fun ContainsPrefix :: "string list \<Rightarrow> string \<Rightarrow> bool" where
  "ContainsPrefix [] item = False"
| "ContainsPrefix (pre # prefixes) item = (if HasPrefix item pre then True else ContainsPrefix prefixes item)"

definition Intersection :: "string list \<Rightarrow> string list \<Rightarrow> string list" where
  "Intersection a b = sort (foldl (\<lambda>result item.
     if quota_Contains result item then result
     else if \<not> quota_Contains b item then result else result @ [item]) [] a)"

definition Difference :: "string list \<Rightarrow> string list \<Rightarrow> string list" where
  "Difference a b = sort (foldl (\<lambda>result item.
     if quota_Contains b item \<or> quota_Contains result item then result else result @ [item]) [] a)"

definition IsZero :: "ResourceList \<Rightarrow> bool" where
  "IsZero a \<longleftrightarrow> list_all (\<lambda>(k, v). v = 0) a"

definition IsNegative :: "ResourceList \<Rightarrow> string list" where
  "IsNegative a = map fst (filter (\<lambda>(k, v). v < 0) a)"

section \<open>Usage\<close>

text \<open>The evaluators of the registry are an interface: each names the resources it can measure and
  measures them, or fails. The namespace, scopes and scope selector that are handed on to it are
  \<open>opts\<close>.\<close>

record 'opts evaluator =
  eval_MatchingResources :: "string list \<Rightarrow> string list"
  eval_UsageStats :: "'opts \<Rightarrow> string list \<Rightarrow> gerr + ResourceList"

fun usage_loop :: "'opts \<Rightarrow> 'opts evaluator list \<Rightarrow> string list \<Rightarrow> ResourceList \<Rightarrow> gerr list
    \<Rightarrow> string list \<times> ResourceList \<times> gerr list" where
  "usage_loop opts [] matched newUsage errors = (matched, newUsage, errors)"
| "usage_loop opts (e # es) matched newUsage errors =
     (let intersection = eval_MatchingResources e matched in
      if length intersection = 0 then usage_loop opts es matched newUsage errors
      else case eval_UsageStats e opts intersection of
             Inl err \<Rightarrow> usage_loop opts es (Difference matched intersection) newUsage (errors @ [err])
           | Inr used \<Rightarrow> usage_loop opts es matched (quota_Add newUsage used) errors)"

definition CalculateUsage :: "'opts \<Rightarrow> ResourceList \<Rightarrow> 'opts evaluator list \<Rightarrow> ResourceList \<times> gerr list" where
  "CalculateUsage opts hardLimits evaluators =
     (let hardResources = ResourceNames hardLimits;
          potentialResources = concat (map (\<lambda>e. eval_MatchingResources e hardResources) evaluators);
          matchedResources = Intersection hardResources potentialResources;
          (matched, newUsage, errors) = usage_loop opts evaluators matchedResources [] []
      in (Mask newUsage matched, errors))"

section \<open>Pod group resources\<close>

definition add_all :: "ResourceList \<Rightarrow> ResourceList \<Rightarrow> ResourceList" where
  "add_all lst extra = foldl (\<lambda>l (name, quantity). case map_of l name of
      None \<Rightarrow> AList.update name quantity l
    | Some v \<Rightarrow> AList.update name (v + quantity) l) lst extra"

definition AddResourceList ::
  "ResourceList \<Rightarrow> ResourceList option \<Rightarrow> ResourceList option \<Rightarrow> ResourceList" where
  "AddResourceList lst req limit =
     (case req of
        Some r \<Rightarrow> add_all lst r
      | None \<Rightarrow> (case limit of Some l \<Rightarrow> add_all lst l | None \<Rightarrow> lst))"

definition add_task :: "ReplicaSpec \<Rightarrow> ResourceList \<Rightarrow> ResourceList" where
  "add_task task res = foldl (\<lambda>r c. AddResourceList r (c_Requests c) (c_Limits c)) res
     (ps_Containers (pt_Spec (r_Template task)))"

text \<open>The inner loop over the replicas of one task: \<open>n\<close> iterations are left.\<close>

fun take_pods :: "nat \<Rightarrow> int32 \<Rightarrow> ReplicaSpec \<Rightarrow> int32 \<Rightarrow> ResourceList \<Rightarrow> int32 \<times> ResourceList" where
  "take_pods 0 minMember task podCnt res = (podCnt, res)"
| "take_pods (Suc n) minMember task podCnt res =
     (if sint podCnt \<ge> sint minMember then (podCnt, res)
      else take_pods n minMember task (podCnt + 1) (add_task task res))"

fun take_tasks :: "int32 \<Rightarrow> (int32 \<times> ReplicaSpec) list \<Rightarrow> int32 \<Rightarrow> ResourceList \<Rightarrow> ResourceList" where
  "take_tasks minMember [] podCnt res = res"
| "take_tasks minMember ((p, task) # ts) podCnt res =
     (case r_Replicas task of
        None \<Rightarrow> take_tasks minMember ts podCnt res
      | Some n \<Rightarrow>
          let (podCnt', res') = take_pods (nat (sint n)) minMember task podCnt res
          in take_tasks minMember ts podCnt' res')"

text \<open>A priority class that cannot be read counts as priority zero; a nil replica panics.\<close>

fun replicasPriority :: "'w kenv \<Rightarrow> ReplicaSpecs \<Rightarrow> ('w, 'st, (int32 \<times> ReplicaSpec) list) ctl" where
  "replicasPriority E [] = go_return []"
| "replicasPriority E ((t, None) # rs) = go_panic ''nil pointer dereference''"
| "replicasPriority E ((t, Some replica) # rs) =
     go_bind (call (ke_PriorityClass E (ps_PriorityClassName (pt_Spec (r_Template replica))))) (\<lambda>r.
     go_bind (replicasPriority E rs) (\<lambda>rest.
     go_return ((case r of Inr (Some v) \<Rightarrow> v | _ \<Rightarrow> 0, replica) # rest)))"

definition CalcPGMinResources :: "'w kenv \<Rightarrow> int32 \<Rightarrow> ReplicaSpecs \<Rightarrow> ('w, 'st, ResourceList) ctl" where
  "CalcPGMinResources E minMember replicas =
     go_bind (replicasPriority E replicas) (\<lambda>rp.
     go_return (take_tasks minMember (ke_sortPriority E rp) 0 []))"

section \<open>What the arithmetic computes\<close>

definition qty :: "ResourceList \<Rightarrow> string \<Rightarrow> Quantity" where
  "qty a k = (case map_of a k of Some v \<Rightarrow> v | None \<Rightarrow> 0)"

lemma map_of_each: "map_of (each f a) k = map_option (f k) (map_of a k)"
  by (induction a) (auto simp: each_def)

lemma map_of_fill: "map_of (fill g r b) k = (case map_of r k of Some v \<Rightarrow> Some v | None \<Rightarrow> map_option g (map_of b k))"
proof (induction b arbitrary: r)
  case Nil
  then show ?case by (simp add: fill_def split: option.splits)
next
  case (Cons kv b)
  obtain k' v where kv: "kv = (k', v)" by (cases kv)
  have "fill g r (kv # b) = fill g (if map_of r k' = None then AList.update k' (g v) r else r) b"
    by (simp add: fill_def kv)
  then show ?case by (auto simp: Cons.IH kv split: option.splits)
qed

lemma dom_each: "dom (map_of (each f a)) = dom (map_of a)"
  by (auto simp: dom_def map_of_each)

lemma dom_fill: "dom (map_of (fill g r b)) = dom (map_of r) \<union> dom (map_of b)"
  by (auto simp: dom_def map_of_fill split: option.splits)

lemmas quota_defs = quota_Max_def quota_Add_def SubtractWithNonNegativeResult_def Subtract_def

text \<open>C40: the arithmetic of resource lists is pointwise. A missing resource counts as zero; sum and
  difference are those of the quantities; the clamped difference of a resource of the first list is
  the difference or zero, whichever is larger, and zero for the others; the maximum takes the
  larger quantity of a resource both lists have and the only one otherwise. Every result has
  exactly the resources of the two lists together.\<close>

theorem quota_arithmetic:
  "qty (quota_Add a b) k = qty a k + qty b k \<and>
   qty (Subtract a b) k = qty a k - qty b k \<and>
   qty (SubtractWithNonNegativeResult a b) k = (if map_of a k = None then 0 else max 0 (qty a k - qty b k)) \<and>
   map_of (quota_Max a b) k = (case (map_of a k, map_of b k) of
      (Some x, Some y) \<Rightarrow> Some (max x y) | (Some x, None) \<Rightarrow> Some x | (None, y) \<Rightarrow> y) \<and>
   list_all (\<lambda>f. dom (map_of (f a b)) = dom (map_of a) \<union> dom (map_of b))
     [quota_Add, Subtract, SubtractWithNonNegativeResult, quota_Max]"
proof (intro conjI)
  show "list_all (\<lambda>f. dom (map_of (f a b)) = dom (map_of a) \<union> dom (map_of b))
     [quota_Add, Subtract, SubtractWithNonNegativeResult, quota_Max]"
    by (simp add: quota_defs dom_fill dom_each)
qed (simp_all add: qty_def quota_defs map_of_each map_of_fill Let_def max_def option.map_ident split: option.splits)

lemma Intersection_set: "set (Intersection a b) = set a \<inter> set b"
proof -
  have contains: "quota_Contains xs x \<longleftrightarrow> x \<in> set xs" for xs x by (induction xs) auto
  have "set (foldl (\<lambda>result item. if quota_Contains result item then result
      else if \<not> quota_Contains b item then result else result @ [item]) r a) = set r \<union> (set a \<inter> set b)" for r
    by (induction a arbitrary: r) (auto simp: contains)
  then show ?thesis by (simp add: Intersection_def)
qed

lemma Difference_set: "set (Difference a b) = set a - set b"
proof -
  have contains: "quota_Contains xs x \<longleftrightarrow> x \<in> set xs" for xs x by (induction xs) auto
  have "set (foldl (\<lambda>result item. if quota_Contains b item \<or> quota_Contains result item then result
      else result @ [item]) r a) = set r \<union> (set a - set b)" for r
    by (induction a arbitrary: r) (auto simp: contains)
  then show ?thesis by (simp add: Difference_def)
qed

lemma usage_loop_matched: "set (fst (usage_loop opts es matched u errs)) \<subseteq> set matched"
proof (induction es arbitrary: matched u errs)
  case (Cons e es)
  let ?int = "eval_MatchingResources e matched"
  show ?case
  proof (cases "?int = []")
    case False
    show ?thesis
    proof (cases "eval_UsageStats e opts ?int")
      case (Inl err)
      have "set (Difference matched ?int) \<subseteq> set matched" by (auto simp: Difference_set)
      with Cons.IH [of "Difference matched ?int" u "errs @ [err]"] show ?thesis
        using False Inl by (simp add: Let_def)
    qed (use Cons.IH False in \<open>simp add: Let_def\<close>)
  qed (use Cons.IH in simp)
qed simp

text \<open>Usage is reported only for resources of the hard limits.\<close>

lemma CalculateUsage_hard:
  "fst ` set (fst (CalculateUsage opts hard es)) \<subseteq> set (ResourceNames hard)"
  using usage_loop_matched [of opts es "Intersection (ResourceNames hard)
      (concat (map (\<lambda>e. eval_MatchingResources e (ResourceNames hard)) es))" "[]" "[]"]
  by (auto simp: CalculateUsage_def Let_def Mask_def ToSet_def Intersection_set split: prod.splits)

section \<open>Pod group resources\<close>

lemma qty_add_all: "distinct (map fst m) \<Longrightarrow> qty (add_all l m) k = qty l k + qty m k"
proof (induction m arbitrary: l)
  case Nil
  then show ?case by (simp add: add_all_def qty_def)
next
  case (Cons kv m)
  obtain k' v where kv: "kv = (k', v)" by (cases kv)
  have "map_of m k' = None" using Cons.prems by (simp add: kv map_of_eq_None_iff)
  moreover have "add_all l (kv # m) = add_all (case map_of l k' of
      None \<Rightarrow> AList.update k' v l | Some x \<Rightarrow> AList.update k' (x + v) l) m"
    by (simp add: add_all_def kv)
  ultimately show ?case using Cons by (auto simp: kv qty_def split: option.splits)
qed

definition container_qty :: "Container \<Rightarrow> string \<Rightarrow> Quantity" where
  "container_qty c k = (case c_Requests c of Some r \<Rightarrow> qty r k
     | None \<Rightarrow> (case c_Limits c of Some l \<Rightarrow> qty l k | None \<Rightarrow> 0))"

definition task_qty :: "ReplicaSpec \<Rightarrow> string \<Rightarrow> Quantity" where
  "task_qty task k = (\<Sum>c \<leftarrow> ps_Containers (pt_Spec (r_Template task)). container_qty c k)"

text \<open>The resource lists of a pod template are maps.\<close>

definition maps_ok :: "ReplicaSpec \<Rightarrow> bool" where
  "maps_ok task \<longleftrightarrow> list_all (\<lambda>c.
     (case c_Requests c of Some r \<Rightarrow> distinct (map fst r) | None \<Rightarrow> True) \<and>
     (case c_Limits c of Some r \<Rightarrow> distinct (map fst r) | None \<Rightarrow> True)) (ps_Containers (pt_Spec (r_Template task)))"

lemma qty_add_task:
  assumes "maps_ok task" shows "qty (add_task task res) k = qty res k + task_qty task k"
proof -
  have "qty (foldl (\<lambda>r c. AddResourceList r (c_Requests c) (c_Limits c)) res cs) k =
      qty res k + (\<Sum>c \<leftarrow> cs. container_qty c k)"
    if "list_all (\<lambda>c. (case c_Requests c of Some r \<Rightarrow> distinct (map fst r) | None \<Rightarrow> True) \<and>
      (case c_Limits c of Some r \<Rightarrow> distinct (map fst r) | None \<Rightarrow> True)) cs" for cs
    using that
    by (induction cs arbitrary: res)
      (auto simp: AddResourceList_def container_qty_def qty_add_all split: option.splits)
  with assms show ?thesis by (simp add: add_task_def task_qty_def maps_ok_def)
qed

text \<open>The pods of the tasks, one entry per replica.\<close>

definition pods_of :: "(int32 \<times> ReplicaSpec) list \<Rightarrow> ReplicaSpec list" where
  "pods_of ts = concat (map (\<lambda>(p, t). replicate (nat (case r_Replicas t of Some n \<Rightarrow> sint n | None \<Rightarrow> 0)) t) ts)"

lemma sint_inc: "sint (a :: int32) < sint (b :: int32) \<Longrightarrow> sint (a + 1) = sint a + 1"
  using sint_lt [of b] sint_ge [of a] by (simp add: sint_word_add signed_take_bit_int_eq_self)

lemma take_pods_spec:
  assumes "maps_ok task" "take_pods n mm task pc res = (pc', res')"
  shows "qty res' k = qty res k + (\<Sum>t \<leftarrow> take (nat (sint mm - sint pc)) (replicate n task). task_qty t k)"
    "nat (sint mm - sint pc') = nat (sint mm - sint pc) - n"
  using assms(2)
proof (induction n arbitrary: pc res)
  case (Suc n)
  {
    case 1
    show ?case
    proof (cases "sint pc \<ge> sint mm")
      case False
      then have "nat (sint mm - sint pc) = Suc (nat (sint mm - sint (pc + 1)))" by (simp add: sint_inc [of pc mm])
      with 1 Suc(1) [of "pc + 1" "add_task task res"] False show ?thesis
        by (simp add: qty_add_task [OF assms(1)])
    qed (use 1 in simp)
  next
    case 2
    show ?case
    proof (cases "sint pc \<ge> sint mm")
      case False
      then have "nat (sint mm - sint pc) = Suc (nat (sint mm - sint (pc + 1)))" by (simp add: sint_inc [of pc mm])
      with 2 Suc(2) [of "pc + 1" "add_task task res"] False show ?thesis by simp
    qed (use 2 in simp)
  }
qed auto

lemma take_tasks_spec:
  "list_all (\<lambda>(p, t). maps_ok t) ts \<Longrightarrow> qty (take_tasks mm ts pc res) k =
     qty res k + (\<Sum>t \<leftarrow> take (nat (sint mm - sint pc)) (pods_of ts). task_qty t k)"
proof (induction ts arbitrary: pc res)
  case Nil
  then show ?case by (simp add: pods_of_def)
next
  case (Cons pt ts)
  obtain p t where pt: "pt = (p, t)" by (cases pt)
  show ?case
  proof (cases "r_Replicas t")
    case None
    with Cons show ?thesis by (simp add: pt pods_of_def)
  next
    case (Some n)
    obtain pc' res' where tp: "take_pods (nat (sint n)) mm t pc res = (pc', res')" by fastforce
    have ok: "maps_ok t" "list_all (\<lambda>(p, t). maps_ok t) ts" using Cons.prems by (auto simp: pt)
    have "pods_of (pt # ts) = replicate (nat (sint n)) t @ pods_of ts" by (simp add: pods_of_def pt Some)
    with Some tp Cons.IH [OF ok(2), of pc' res'] take_pods_spec [OF ok(1) tp] show ?thesis
      by (simp add: pt)
  qed
qed

text \<open>What \<open>sort.Sort\<close> promises for \<open>ReplicasPriority\<close>, whose \<open>Less\<close> puts the higher priority first.\<close>

definition sorts_by_priority :: "'w kenv \<Rightarrow> bool" where
  "sorts_by_priority E \<longleftrightarrow> (\<forall>xs. mset (ke_sortPriority E xs) = mset xs \<and>
     sorted_wrt (\<lambda>a b. sint (fst a) \<ge> sint (fst b)) (ke_sortPriority E xs))"

lemma replicasPriority_Ret:
  "list_all (\<lambda>(t, v). v \<noteq> None) replicas \<Longrightarrow>
     \<exists>rp s'. replicasPriority E replicas s = Ret rp s' \<and> map snd rp = map (\<lambda>(t, v). the v) replicas"
proof (induction replicas arbitrary: s)
  case (Cons x xs)
  obtain t r where x: "x = (t, Some r)" using Cons.prems by (cases x) auto
  obtain v w where c: "ke_PriorityClass E (ps_PriorityClassName (pt_Spec (r_Template r))) (world s) = (v, w)"
    by fastforce
  obtain rp s' where "replicasPriority E xs (s\<lparr>world := w\<rparr>) = Ret rp s'" "map snd rp = map (\<lambda>(t, v). the v) xs"
    using Cons.IH [of "s\<lparr>world := w\<rparr>"] Cons.prems by auto
  with c show ?case by (simp add: x go_run call_def)
qed (simp add: go_run)


lemma sample_sorts: "sorts_by_priority sample_env"
  unfolding sorts_by_priority_def
proof
  fix xs :: "(int32 \<times> ReplicaSpec) list"
  have "sorted_wrt (\<lambda>a b. - sint (fst a) \<le> - sint (fst b)) (sort_key (\<lambda>p. - sint (fst p)) xs)"
    using sorted_sort_key [of "\<lambda>p. - sint (fst p)" xs] by (simp add: sorted_map)
  then show "mset (ke_sortPriority sample_env xs) = mset xs \<and>
      sorted_wrt (\<lambda>a b. sint (fst a) \<ge> sint (fst b)) (ke_sortPriority sample_env xs)"
    by (simp add: sample_env_def)
qed


end
