(* ===== verification/RandomSource.thy ===== *)
theory RandomSource
  imports SampleEnv
begin

text \<open>
  \<open>pkg/util/random.go\<close> and the random ports of \<open>slurm_schema/util.go\<close>. Both draw until a draw is
  usable, so neither has a bound of its own: the loops are partial functions into \<open>option\<close>, where
  \<open>None\<close> is a run that never ends, and that they end is proved from what the source of randomness
  must do.
\<close>

unbundle bit_operations_syntax

definition letters :: string where
  "letters = ''abcdefghijklmnopqrstuvwxyzABCDEFGHIJKLMNOPQRSTUVWXYZ''"

definition letterIdBits :: nat where "letterIdBits = 6"
definition letterIdMask :: int64 where "letterIdMask = push_bit letterIdBits 1 - 1"
definition letterIdMax :: nat where "letterIdMax = 63 div letterIdBits"

section \<open>RandStr\<close>

text \<open>\<open>src n\<close> is the \<open>n\<close>-th value of \<open>src.Int63()\<close>; the loop state is the number of letters still to
  write, the cached random bits, how many groups of six of them remain, and the number of draws.
  The buffer is filled from its end.\<close>

partial_function (option) randstr_loop ::
  "(nat \<Rightarrow> int64) \<Rightarrow> nat \<Rightarrow> int64 \<Rightarrow> nat \<Rightarrow> nat \<Rightarrow> string \<Rightarrow> string option" where
  "randstr_loop src left cache remain draws b =
     (if left = 0 then Some b
      else let (cache, remain, draws) =
             (if remain = 0 then (src draws, letterIdMax, Suc draws) else (cache, remain, draws));
             idx = unat (cache AND letterIdMask)
           in if idx < length letters
              then randstr_loop src (left - 1) (drop_bit letterIdBits cache) (remain - 1) draws (letters ! idx # b)
              else randstr_loop src left (drop_bit letterIdBits cache) (remain - 1) draws b)"

declare randstr_loop.simps [code]

definition RandStr :: "(nat \<Rightarrow> int64) \<Rightarrow> nat \<Rightarrow> string option" where
  "RandStr src n = randstr_loop src n (src 0) letterIdMax 1 []"

lemma letterIdMax_pos: "letterIdMax = 10"
  by (simp add: letterIdMax_def letterIdBits_def)

text \<open>Every result is as long as asked for and made of letters.\<close>

lemma randstr_loop_result:
  assumes "randstr_loop src left cache remain draws b = Some r"
  shows "length r = left + length b \<and> (set b \<subseteq> set letters \<longrightarrow> set r \<subseteq> set letters)"
proof (rule randstr_loop.raw_induct [where P = "\<lambda>src left cache remain draws b r.
      length r = left + length b \<and> (set b \<subseteq> set letters \<longrightarrow> set r \<subseteq> set letters)", OF _ assms])
  fix f :: "(nat \<Rightarrow> int64) \<Rightarrow> nat \<Rightarrow> int64 \<Rightarrow> nat \<Rightarrow> nat \<Rightarrow> string \<Rightarrow> string option"
    and src left cache remain draws b r
  assume IH: "\<And>src left cache remain draws b r. f src left cache remain draws b = Some r \<Longrightarrow>
      length r = left + length b \<and> (set b \<subseteq> set letters \<longrightarrow> set r \<subseteq> set letters)"
    and run: "(if left = 0 then Some b
      else let (cache, remain, draws) =
             (if remain = 0 then (src draws, letterIdMax, Suc draws) else (cache, remain, draws));
             idx = unat (cache AND letterIdMask)
           in if idx < length letters
              then f src (left - 1) (drop_bit letterIdBits cache) (remain - 1) draws (letters ! idx # b)
              else f src left (drop_bit letterIdBits cache) (remain - 1) draws b) = Some r"
  show "length r = left + length b \<and> (set b \<subseteq> set letters \<longrightarrow> set r \<subseteq> set letters)"
  proof (cases "left = 0")
    case True
    with run show ?thesis by simp
  next
    case False
    let ?c = "if remain = 0 then src draws else cache"
    let ?idx = "unat (?c AND letterIdMask)"
    have "(\<exists>c m d. ?idx < length letters \<and> f src (left - 1) c m d (letters ! ?idx # b) = Some r) \<or>
        (\<exists>c m d. f src left c m d b = Some r)"
      using run False by (auto simp: Let_def split: if_splits)
    then show ?thesis
      using False nth_mem [of ?idx letters] by (auto dest!: IH)
  qed
qed

text \<open>A source from which usable letters keep coming.\<close>

definition fair_source :: "(nat \<Rightarrow> int64) \<Rightarrow> bool" where
  "fair_source src \<longleftrightarrow> (\<forall>p. \<exists>q \<ge> p. unat (src q AND letterIdMask) < length letters)"

lemma randstr_loop_step:
  "randstr_loop src (Suc n) cache (Suc m) draws b =
     (if unat (cache AND letterIdMask) < length letters
      then randstr_loop src n (drop_bit letterIdBits cache) m draws (letters ! unat (cache AND letterIdMask) # b)
      else randstr_loop src (Suc n) (drop_bit letterIdBits cache) m draws b)"
  by (subst randstr_loop.simps) simp

lemma randstr_loop_draw:
  "randstr_loop src (Suc n) cache 0 draws b = randstr_loop src (Suc n) (src draws) letterIdMax (Suc draws) b"
  using randstr_loop_step [of src n "src draws" 9 "Suc draws" b]
  by (subst randstr_loop.simps) (simp add: letterIdMax_pos Let_def)

lemma randstr_loop_ends:
  assumes "fair_source src"
  shows "\<exists>r. randstr_loop src left cache remain draws b = Some r"
proof (induction left arbitrary: cache remain draws b)
  case 0
  show ?case by (subst randstr_loop.simps) simp
next
  case (Suc n)
  have drawn: "\<exists>r. randstr_loop src (Suc n) cache remain draws b = Some r"
    if next_draw: "\<And>b. \<exists>r. randstr_loop src (Suc n) (src draws) letterIdMax (Suc draws) b = Some r"
    for cache remain draws b
  proof (induction remain arbitrary: cache b)
    case 0
    show ?case by (simp add: randstr_loop_draw next_draw)
  next
    case (Suc m)
    show ?case using Suc \<open>\<And>draws cache remain b. \<exists>r. randstr_loop src n cache remain draws b = Some r\<close>
      by (simp add: randstr_loop_step)
  qed
  have ends: "\<exists>r. randstr_loop src (Suc n) cache remain draws b = Some r"
    if "unat (src (draws + k) AND letterIdMask) < length letters" for k cache remain draws b
    using that
  proof (induction k arbitrary: draws cache remain b)
    case 0
    have "\<exists>r. randstr_loop src (Suc n) (src draws) letterIdMax (Suc draws) b = Some r" for b
      using 0 Suc.IH randstr_loop_step [of src n "src draws" 9 "Suc draws" b]
      by (simp add: letterIdMax_pos)
    then show ?case by (rule drawn)
  next
    case (Suc k)
    have "\<exists>r. randstr_loop src (Suc n) (src draws) letterIdMax (Suc draws) b = Some r" for b
      using Suc.IH [of "Suc draws"] Suc.prems by simp
    then show ?case by (rule drawn)
  qed
  obtain q where "q \<ge> draws" "unat (src q AND letterIdMask) < length letters"
    using assms by (auto simp: fair_source_def)
  then show ?case using ends [of draws "q - draws"] by simp
qed

lemma RandStr_returns:
  assumes "fair_source src"
  shows "\<exists>r. RandStr src n = Some r \<and> length r = n \<and> set r \<subseteq> set letters"
  using randstr_loop_ends [OF assms, of n "src 0" letterIdMax 1 "[]"] randstr_loop_result
  by (fastforce simp: RandStr_def)

text \<open>\<open>RandStr\<close> returns a string of exactly the requested length made of the 52 letters only,
  and it does return when the random source keeps producing usable values.\<close>

lemma RandStr_correct:
  assumes "fair_source src"
  shows "\<exists>r. RandStr src n = Some r \<and> length r = n \<and> set r \<subseteq> set letters"
  using assms by (rule RandStr_returns)

lemma fair_zero: "fair_source (\<lambda>_. 0)"
  by (auto simp: fair_source_def letters_def)

section \<open>Random ports\<close>

definition GenRandomInt31n :: "'w kenv \<Rightarrow> int \<Rightarrow> int \<Rightarrow> 'w \<Rightarrow> int \<times> 'w" where
  "GenRandomInt31n E lo hi w = (case ke_Intn E (hi - lo + 1) w of (x, w') \<Rightarrow> (x + lo, w'))"

partial_function (option) port_loop :: "'w kenv \<Rightarrow> int \<Rightarrow> 'w \<Rightarrow> (int \<times> 'w) option" where
  "port_loop E slurmctlPort w =
     (case GenRandomInt31n E 10000 20000 w of (slurmdPort, w') \<Rightarrow>
        if slurmctlPort \<noteq> slurmdPort then Some (slurmdPort, w') else port_loop E slurmctlPort w')"

declare port_loop.simps [code]

definition genSlurmRandomPort :: "'w kenv \<Rightarrow> 'w \<Rightarrow> ((int \<times> int) \<times> 'w) option" where
  "genSlurmRandomPort E w =
     (case GenRandomInt31n E 10000 20000 w of (slurmctlPort, w1) \<Rightarrow>
        (case port_loop E slurmctlPort w1 of
           None \<Rightarrow> None
         | Some (slurmdPort, w2) \<Rightarrow> Some ((slurmctlPort, slurmdPort), w2)))"

text \<open>What \<open>rand.Intn\<close> documents, and that the ports drawn are not all the same.\<close>

definition intn_ok :: "'w kenv \<Rightarrow> bool" where
  "intn_ok E \<longleftrightarrow> (\<forall>n w. n > 0 \<longrightarrow> 0 \<le> fst (ke_Intn E n w) \<and> fst (ke_Intn E n w) < n)"

definition draw :: "'w kenv \<Rightarrow> nat \<Rightarrow> 'w \<Rightarrow> int" where
  "draw E k w = fst (GenRandomInt31n E 10000 20000 (((\<lambda>w. snd (GenRandomInt31n E 10000 20000 w)) ^^ k) w))"

definition varied :: "'w kenv \<Rightarrow> 'w \<Rightarrow> bool" where
  "varied E w \<longleftrightarrow> (\<exists>k. draw E (Suc k) w \<noteq> draw E 0 w)"

lemma draw_range: "intn_ok E \<Longrightarrow> 10000 \<le> fst (GenRandomInt31n E 10000 20000 w) \<and> fst (GenRandomInt31n E 10000 20000 w) \<le> 20000"
  by (auto simp: intn_ok_def GenRandomInt31n_def split: prod.splits dest!: spec [of _ 10001] spec [of _ w])

lemma draw_Suc: "GenRandomInt31n E 10000 20000 w = (p, w') \<Longrightarrow> draw E (Suc k) w = draw E k w'"
  by (simp add: draw_def funpow_Suc_right del: funpow.simps)

lemma port_loop_ends:
  "draw E k w \<noteq> c \<Longrightarrow> intn_ok E \<Longrightarrow>
     \<exists>d w'. port_loop E c w = Some (d, w') \<and> d \<noteq> c \<and> 10000 \<le> d \<and> d \<le> 20000"
proof (induction k arbitrary: w)
  case 0
  then show ?case
    using draw_range [of E w] by (subst port_loop.simps) (auto simp: draw_def split: prod.splits)
next
  case (Suc k)
  obtain p w' where g: "GenRandomInt31n E 10000 20000 w = (p, w')" by fastforce
  show ?case
  proof (cases "c = p")
    case True
    have "draw E k w' \<noteq> c" using Suc.prems(1) draw_Suc [OF g] by simp
    with Suc.IH [of w'] Suc.prems(2) obtain d w'' where "port_loop E c w' = Some (d, w'')" "d \<noteq> c" "10000 \<le> d" "d \<le> 20000"
      by blast
    then show ?thesis using True g by (subst port_loop.simps) simp
  next
    case False
    then show ?thesis using g draw_range [OF Suc.prems(2), of w] by (subst port_loop.simps) simp
  qed
qed

lemma random_ports_return:
  assumes "intn_ok E" "varied E w"
  shows "\<exists>c d w'. genSlurmRandomPort E w = Some ((c, d), w') \<and> c \<noteq> d \<and>
     10000 \<le> c \<and> c \<le> 20000 \<and> 10000 \<le> d \<and> d \<le> 20000"
proof -
  obtain c w1 where g: "GenRandomInt31n E 10000 20000 w = (c, w1)" by fastforce
  obtain k where "draw E (Suc k) w \<noteq> draw E 0 w" using assms(2) by (auto simp: varied_def)
  then have "draw E k w1 \<noteq> c" using draw_Suc [OF g] g by (simp add: draw_def)
  from port_loop_ends [OF this assms(1)] draw_range [OF assms(1), of w] g show ?thesis
    by (auto simp: genSlurmRandomPort_def)
qed

text \<open>C39: the random ports of a slurm cluster. Once a draw differs from the first one the search
  ends, with two different ports between 10000 and 20000.\<close>

theorem genSlurmRandomPort_correct:
  assumes "intn_ok E" "varied E w"
  shows "\<exists>c d w'. genSlurmRandomPort E w = Some ((c, d), w') \<and> c \<noteq> d \<and>
     10000 \<le> c \<and> c \<le> 20000 \<and> 10000 \<le> d \<and> d \<le> 20000"
  using assms by (rule random_ports_return)

lemma sample_intn_ok: "intn_ok sample_env"
  by (auto simp: intn_ok_def sample_env_def)

lemma genSlurmRandomPort_correct_witness:
  "\<exists>c d w'. genSlurmRandomPort sample_env empty_world = Some ((c, d), w') \<and> c \<noteq> d \<and>
     10000 \<le> c \<and> c \<le> 20000 \<and> 10000 \<le> d \<and> d \<le> 20000"
proof (rule genSlurmRandomPort_correct [OF sample_intn_ok])
  have "draw sample_env (Suc 0) empty_world \<noteq> draw sample_env 0 empty_world"
    by (simp add: draw_def GenRandomInt31n_def sample_env_def empty_world_def)
  then show "varied sample_env empty_world" unfolding varied_def by blast
qed

end
