(* ===== verification/SchemaCommon.thy ===== *)
theory SchemaCommon
  imports Status ClusterDefaults Core Quota RandomSource
begin

text \<open>
  What the two cluster schemas share: the cluster metrics of \<open>pkg/common/metric.go\<close>, condition
  updates on the cluster being reconciled, the init-container generator, and the loops over replica
  specs and over the main containers of a template, which \<open>slurm_schema\<close> and \<open>pbspro_schema\<close> write
  in the same way.
\<close>

section \<open>Metrics\<close>

text \<open>A counter is identified by its name and its label values.\<close>

definition counter :: "string \<Rightarrow> string \<Rightarrow> string \<Rightarrow> string" where
  "counter name ns ctype = name @ ''{'' @ ns @ '','' @ ctype @ ''}''"

definition CreatedClustersCounterInc :: "string \<Rightarrow> string \<Rightarrow> ('w, 'st, unit) ctl" where
  "CreatedClustersCounterInc clusterNamespace clusterType =
     Inc (counter ''training_operator_clusters_created_total'' clusterNamespace clusterType)"

definition DeletedClustersCounterInc :: "string \<Rightarrow> string \<Rightarrow> ('w, 'st, unit) ctl" where
  "DeletedClustersCounterInc clusterNamespace clusterType =
     Inc (counter ''training_operator_clusters_deleted_total'' clusterNamespace clusterType)"

definition FailedClustersCounterInc :: "string \<Rightarrow> string \<Rightarrow> ('w, 'st, unit) ctl" where
  "FailedClustersCounterInc clusterNamespace clusterType =
     Inc (counter ''training_operator_clusters_failed_total'' clusterNamespace clusterType)"

definition RestartedClustersCounterInc :: "string \<Rightarrow> string \<Rightarrow> ('w, 'st, unit) ctl" where
  "RestartedClustersCounterInc clusterNamespace clusterType =
     Inc (counter ''training_operator_clusters_restarted_total'' clusterNamespace clusterType)"

lemmas metric_defs = CreatedClustersCounterInc_def DeletedClustersCounterInc_def
  FailedClustersCounterInc_def RestartedClustersCounterInc_def

section \<open>Conditions of the cluster being reconciled\<close>

text \<open>\<open>util.UpdateClusterConditions(&kcluster.Status, ...)\<close>; \<open>newCondition\<close> reads the clock twice.\<close>

definition set_condition :: "'w kenv \<Rightarrow> string \<Rightarrow> string \<Rightarrow> string \<Rightarrow> string \<Rightarrow> ('w, 'st, unit) ctl" where
  "set_condition E ctype status reason msg =
     go_bind (call (ke_Now E)) (\<lambda>t1. go_bind (call (ke_Now E)) (\<lambda>t2.
     update_status (\<lambda>s. UpdateClusterConditions t1 t2 s ctype status reason msg)))"

text \<open>The loop that remembers the Restarting condition runs to the end: the last one counts.\<close>

definition existingRestartingCondition :: "ClusterStatus \<Rightarrow> ClusterCondition option" where
  "existingRestartingCondition status =
     foldl (\<lambda>found condition. if cc_Type condition = ClusterRestarting then Some condition else found)
       None (st_Conditions status)"

definition set_completion_time :: "'w kenv \<Rightarrow> ('w, 'st, unit) ctl" where
  "set_completion_time E = go_bind get_cluster (\<lambda>k.
     if st_CompletionTime (kc_Status k) = None
     then go_bind (call (ke_Now E)) (\<lambda>now. update_status (\<lambda>s. s\<lparr>st_CompletionTime := Some now\<rparr>))
     else go_return ())"

section \<open>Init containers\<close>

record initContainerGenerator =
  icg_template :: string
  icg_image :: string
  icg_maxTries :: int

definition GetInitContainer :: "'w kenv \<Rightarrow> initContainerGenerator \<Rightarrow> string \<Rightarrow> gerr + Container list" where
  "GetInitContainer E g masterAddr =
     (case ke_InitContainer E (icg_template g) masterAddr (icg_image g) (icg_maxTries g) of
        Inl err \<Rightarrow> Inl err
      | Inr result \<Rightarrow> Inr (if length result > 1 then take 1 result else result))"

text \<open>\<open>initContainers[0].Command = ...; append(podTemplate.Spec.InitContainers, initContainers...)\<close>.\<close>

definition append_init :: "(string list \<Rightarrow> string list) \<Rightarrow> Container list \<Rightarrow> PodTemplateSpec \<Rightarrow> string + PodTemplateSpec" where
  "append_init cmd initContainers t =
     (case initContainers of
        [] \<Rightarrow> Inl ''index out of range''
      | c # cs \<Rightarrow> Inr (t\<lparr>pt_Spec := (pt_Spec t)\<lparr>ps_InitContainers :=
          ps_InitContainers (pt_Spec t) @ (c\<lparr>c_Command := cmd (c_Command c)\<rparr> # cs)\<rparr>\<rparr>))"

section \<open>Loops over a pod template and over the replica specs\<close>

definition on_containers :: "string \<Rightarrow> (Container \<Rightarrow> Container) \<Rightarrow> PodTemplateSpec \<Rightarrow> PodTemplateSpec" where
  "on_containers name f t = t\<lparr>pt_Spec := (pt_Spec t)\<lparr>ps_Containers :=
     map (\<lambda>c. if c_Name c \<noteq> name then c else f c) (ps_Containers (pt_Spec t))\<rparr>\<rparr>"

definition on_init_containers :: "(Container \<Rightarrow> Container) \<Rightarrow> PodTemplateSpec \<Rightarrow> PodTemplateSpec" where
  "on_init_containers f t = t\<lparr>pt_Spec := (pt_Spec t)\<lparr>ps_InitContainers := map f (ps_InitContainers (pt_Spec t))\<rparr>\<rparr>"

definition add_env :: "EnvVar list \<Rightarrow> Container \<Rightarrow> Container" where
  "add_env env c = c\<lparr>c_Env := c_Env c @ env\<rparr>"

definition add_mounts :: "VolumeMount list \<Rightarrow> Container \<Rightarrow> Container" where
  "add_mounts vs c = c\<lparr>c_VolumeMounts := c_VolumeMounts c @ vs\<rparr>"

definition add_volumes :: "Volume list \<Rightarrow> PodTemplateSpec \<Rightarrow> PodTemplateSpec" where
  "add_volumes vs t = t\<lparr>pt_Spec := (pt_Spec t)\<lparr>ps_Volumes := ps_Volumes (pt_Spec t) @ vs\<rparr>\<rparr>"

definition DNSClusterFirstWithHostNet :: string where
  "DNSClusterFirstWithHostNet = ''ClusterFirstWithHostNet''"

definition set_dns :: "PodTemplateSpec \<Rightarrow> PodTemplateSpec" where
  "set_dns t = t\<lparr>pt_Spec := (pt_Spec t)\<lparr>ps_DNSPolicy := DNSClusterFirstWithHostNet\<rparr>\<rparr>"

definition run_as_root :: "Container \<Rightarrow> Container" where
  "run_as_root c = c\<lparr>c_SecurityContext := Some \<lparr> sc_RunAsUser = Some 0, sc_Privileged = None \<rparr>\<rparr>"

text \<open>\<open>for _, spec := range kcluster.Spec.ClusterReplicaSpec { f(&spec.Template.Spec) }\<close>: the map holds
  pointers, so the pod specs of the cluster itself change.\<close>

definition put_pod_spec :: "string \<Rightarrow> PodSpec \<Rightarrow> KubeCluster \<Rightarrow> KubeCluster" where
  "put_pod_spec rt ps k = k\<lparr>kc_Spec := (kc_Spec k)\<lparr>s_ClusterReplicaSpec := map (\<lambda>(t, v). (t,
     if t = rt then map_option (\<lambda>r. r\<lparr>r_Template := (r_Template r)\<lparr>pt_Spec := ps\<rparr>\<rparr>) v else v)) (kc_Specs k)\<rparr>\<rparr>"

definition each_pod_spec :: "(PodSpec \<Rightarrow> string + PodSpec) \<Rightarrow> ('w, 'st, unit) ctl" where
  "each_pod_spec f = go_bind get_cluster (\<lambda>k. go_for (\<lambda>(rt, spec). case spec of
       None \<Rightarrow> go_panic ''nil pointer dereference''
     | Some r \<Rightarrow> go_bind (go_lift (f (pt_Spec (r_Template r)))) (\<lambda>ps.
         go_modify (\<lambda>s. s\<lparr>kcl := put_pod_spec rt ps (kcl s)\<rparr>))) (kc_Specs k))"

text \<open>The names of the pods of one replica type: \<open>for i := 0; i < int(*spec.Replicas); i++\<close>.\<close>

definition pod_names :: "string \<Rightarrow> string \<Rightarrow> int32 \<Rightarrow> string list" where
  "pod_names clusterName rtype n = map (\<lambda>i. GenGeneralName clusterName rtype (Itoa (int i))) [0..<nat (sint n)]"

definition nl :: string where "nl = [CHR 0x0A]"

text \<open>Environment variables, mounts and map look-ups.\<close>

definition env_val :: "string \<Rightarrow> string \<Rightarrow> EnvVar" where
  "env_val n v = \<lparr> ev_Name = n, ev_Value = v, ev_FieldPath = None \<rparr>"

definition env_field :: "string \<Rightarrow> string \<Rightarrow> EnvVar" where
  "env_field n p = \<lparr> ev_Name = n, ev_Value = [], ev_FieldPath = Some p \<rparr>"

definition mount :: "string \<Rightarrow> string \<Rightarrow> string \<Rightarrow> bool \<Rightarrow> VolumeMount" where
  "mount n path sub ro = \<lparr> vm_Name = n, vm_MountPath = path, vm_SubPath = sub, vm_ReadOnly = ro \<rparr>"

text \<open>\<open>kcluster.Spec.ClusterReplicaSpec[rt]\<close> with the dereference that follows it.\<close>

definition replica_spec :: "KubeCluster \<Rightarrow> string \<Rightarrow> string + ReplicaSpec" where
  "replica_spec k rt = (case map_of (kc_Specs k) rt of
       Some (Some r) \<Rightarrow> Inr r
     | _ \<Rightarrow> Inl ''nil pointer dereference'')"

section \<open>Conditions derived from the pod counters\<close>

text \<open>The end of \<open>UpdateClusterStatus\<close>, for a replica type with failed pods.\<close>

definition mark_failed :: "'w kenv \<Rightarrow> KubeCluster \<Rightarrow> string \<Rightarrow> ('w, 'st, unit) ctl" where
  "mark_failed E kcluster msg =
     go_seq (Event EventTypeNormal (NewReason KubeClusterKind ClusterFailedReason) msg) (
     go_seq (set_completion_time E) (
     go_seq (set_condition E ClusterFailed ConditionTrue (NewReason KubeClusterKind ClusterFailedReason) msg)
       (FailedClustersCounterInc (kc_Namespace kcluster) (s_ClusterType (kc_Spec kcluster)))))"

definition mark_restarting :: "'w kenv \<Rightarrow> KubeCluster \<Rightarrow> ClusterCondition \<Rightarrow> ('w, 'st, unit) ctl" where
  "mark_restarting E kcluster existing =
     go_seq (set_condition E ClusterRestarting ConditionTrue (cc_Reason existing) (cc_Message existing))
       (RestartedClustersCounterInc (kc_Namespace kcluster) (s_ClusterType (kc_Spec kcluster)))"

definition mark_running :: "'w kenv \<Rightarrow> KubeCluster \<Rightarrow> ('w, 'st, unit) ctl" where
  "mark_running E kcluster = set_condition E ClusterRunning ConditionTrue
     (NewReason KubeClusterKind ClusterRunningReason) (''KubeCLuster '' @ kc_Name kcluster @ '' is avtivating.'')"

section \<open>Config map entries\<close>

definition cm_data :: "ConfigMap \<Rightarrow> smap" where
  "cm_data cm = (case cm_Data cm of None \<Rightarrow> [] | Some d \<Rightarrow> d)"

definition cm_binary :: "ConfigMap \<Rightarrow> smap" where
  "cm_binary cm = (case cm_BinaryData cm of None \<Rightarrow> [] | Some d \<Rightarrow> d)"

definition cm_put :: "string \<Rightarrow> string \<Rightarrow> ConfigMap \<Rightarrow> ConfigMap" where
  "cm_put key v cm = cm\<lparr>cm_Data := Some (AList.update key v (cm_data cm))\<rparr>"

text \<open>\<open>_, exists := configMap.Data[key]; if !exists { configMap.Data[key] = v }\<close>.\<close>

definition cm_default :: "string \<Rightarrow> string \<Rightarrow> ConfigMap \<Rightarrow> ConfigMap" where
  "cm_default key v cm = (if map_of (cm_data cm) key = None then cm_put key v cm else cm)"

definition cm_get :: "string \<Rightarrow> ConfigMap \<Rightarrow> string" where
  "cm_get key cm = (case map_of (cm_data cm) key of Some v \<Rightarrow> v | None \<Rightarrow> [])"

definition empty_config_map :: ConfigMap where
  "empty_config_map = \<lparr> cm_Meta = empty_meta, cm_Kind = [], cm_Data = None, cm_BinaryData = None \<rparr>"

section \<open>Generated text\<close>

text \<open>Text made of lines, each ended by a newline.\<close>

definition lines_nl :: "string list \<Rightarrow> string" where
  "lines_nl ls = concat (map (\<lambda>l. l @ nl) ls)"

text \<open>\<open>fmt.Sprintf("%s\n%s\n", shell, cmd)\<close>.\<close>

definition add_line :: "string \<Rightarrow> string \<Rightarrow> string" where
  "add_line shell cmd = shell @ nl @ cmd @ nl"

section \<open>Lemmas\<close>

lemma wp_set_condition [wp]: "wp (set_condition E c st r m) Q s =
  (case ke_Now E (world s) of (t1, w1) \<Rightarrow> case ke_Now E w1 of (t2, w2) \<Rightarrow>
     Q () (s\<lparr>world := w2, kcl := (kcl s)\<lparr>kc_Status := UpdateClusterConditions t1 t2 (kc_Status (kcl s)) c st r m\<rparr>\<rparr>))"
  by (simp add: set_condition_def wp split: prod.splits)

lemma total_set_condition [total_intros]: "total (set_condition E c st r m)"
  unfolding set_condition_def by (intro total_rules total_intros)

lemma emits_set_condition [emits_intros]: "emits P (set_condition E c st r m)"
  unfolding set_condition_def by (intro emits_rules emits_intros)

lemma exps_set_condition [frame_intros]: "keeps (unchanged exps) (set_condition E c st r m)"
  unfolding set_condition_def by (intro unchanged_rules frame_intros)

lemma wp_set_completion_time [wp]: "wp (set_completion_time E) Q s =
  (if st_CompletionTime (kc_Status (kcl s)) = None
   then case ke_Now E (world s) of (t, w) \<Rightarrow>
     Q () (s\<lparr>world := w, kcl := (kcl s)\<lparr>kc_Status := (kc_Status (kcl s))\<lparr>st_CompletionTime := Some t\<rparr>\<rparr>\<rparr>)
   else Q () s)"
  by (simp add: set_completion_time_def wp split: prod.splits)

lemma total_set_completion_time [total_intros]: "total (set_completion_time E)"
  unfolding set_completion_time_def by (intro total_rules total_intros)

lemma emits_set_completion_time [emits_intros]: "emits P (set_completion_time E)"
  unfolding set_completion_time_def by (intro emits_rules emits_intros)

lemma exps_set_completion_time [frame_intros]: "keeps (unchanged exps) (set_completion_time E)"
  unfolding set_completion_time_def by (intro unchanged_rules frame_intros)

definition has_condition :: "ClusterStatus \<Rightarrow> string \<Rightarrow> bool" where
  "has_condition s ty \<longleftrightarrow> ty \<in> set (map cc_Type (st_Conditions s))"

lemma has_condition_completion [simp]: "has_condition (s\<lparr>st_CompletionTime := t\<rparr>) ty = has_condition s ty"
  by (simp add: has_condition_def)

lemma existingRestarting_None:
  "existingRestartingCondition s = None \<longleftrightarrow> \<not> has_condition s ClusterRestarting"
proof -
  have "foldl (\<lambda>f c. if cc_Type c = ClusterRestarting then Some c else f) x cs = None \<longleftrightarrow>
      x = None \<and> ClusterRestarting \<notin> set (map cc_Type cs)" for x and cs :: "ClusterCondition list"
    by (induction cs arbitrary: x) auto
  then show ?thesis by (simp add: existingRestartingCondition_def has_condition_def)
qed


text \<open>A cluster all of whose replicas have a spec with at least one container, as validation
  ensures: the loop over its pod specs does not panic.\<close>

definition pod_specs_ok :: "KubeCluster \<Rightarrow> bool" where
  "pod_specs_ok k \<longleftrightarrow> distinct (map fst (kc_Specs k)) \<and>
     list_all (\<lambda>(t, v). case v of None \<Rightarrow> False | Some r \<Rightarrow> ps_Containers (pt_Spec (r_Template r)) \<noteq> []) (kc_Specs k)"

definition map_spec :: "(PodSpec \<Rightarrow> PodSpec) \<Rightarrow> ReplicaSpec \<Rightarrow> ReplicaSpec" where
  "map_spec g r = r\<lparr>r_Template := (r_Template r)\<lparr>pt_Spec := g (pt_Spec (r_Template r))\<rparr>\<rparr>"

definition map_pod_specs :: "(PodSpec \<Rightarrow> PodSpec) \<Rightarrow> KubeCluster \<Rightarrow> KubeCluster" where
  "map_pod_specs g k = k\<lparr>kc_Spec := (kc_Spec k)\<lparr>s_ClusterReplicaSpec :=
     map (\<lambda>(t, v). (t, map_option (map_spec g) v)) (kc_Specs k)\<rparr>\<rparr>"

lemma map_pod_specs_simps [simp]:
  "kc_Meta (map_pod_specs g k) = kc_Meta k" "kc_Status (map_pod_specs g k) = kc_Status k"
  "s_RunPolicy (kc_Spec (map_pod_specs g k)) = s_RunPolicy (kc_Spec k)"
  "s_ClusterType (kc_Spec (map_pod_specs g k)) = s_ClusterType (kc_Spec k)"
  "map fst (kc_Specs (map_pod_specs g k)) = map fst (kc_Specs k)"
  by (simp_all add: map_pod_specs_def comp_def case_prod_beta)

lemma put_pod_spec_middle:
  assumes "kc_Specs k = ys @ (t, Some r) # xs" and "distinct (map fst (kc_Specs k))"
  shows "put_pod_spec t ps k = k\<lparr>kc_Spec := (kc_Spec k)\<lparr>s_ClusterReplicaSpec :=
     ys @ (t, Some (r\<lparr>r_Template := (r_Template r)\<lparr>pt_Spec := ps\<rparr>\<rparr>)) # xs\<rparr>\<rparr>"
proof -
  have "t \<notin> fst ` set ys" "t \<notin> fst ` set xs" using assms by auto
  then have "map (\<lambda>(u, v). (u, if u = t then map_option h v else v)) ys = ys"
    "map (\<lambda>(u, v). (u, if u = t then map_option h v else v)) xs = xs" for h :: "ReplicaSpec \<Rightarrow> ReplicaSpec"
    by (auto intro!: map_idI simp: image_iff split: prod.splits)
  with assms(1) show ?thesis by (simp add: put_pod_spec_def)
qed

lemma run_each_pod_spec:
  assumes "distinct (map fst (kc_Specs (kcl s)))"
    and ok: "\<And>t v. (t, v) \<in> set (kc_Specs (kcl s)) \<Longrightarrow>
      \<exists>r. v = Some r \<and> f (pt_Spec (r_Template r)) = Inr (g (pt_Spec (r_Template r)))"
  shows "each_pod_spec f s = Ret () (s\<lparr>kcl := map_pod_specs g (kcl s)\<rparr>)"
proof -
  let ?body = "\<lambda>(rt, spec). case spec of
       None \<Rightarrow> go_panic ''nil pointer dereference''
     | Some r \<Rightarrow> go_bind (go_lift (f (pt_Spec (r_Template r)))) (\<lambda>ps.
         go_modify (\<lambda>s. s\<lparr>kcl := put_pod_spec rt ps (kcl s)\<rparr>))"
  have loop: "go_for ?body xs u = Ret () (u\<lparr>kcl := (kcl u)\<lparr>kc_Spec := (kc_Spec (kcl u))\<lparr>s_ClusterReplicaSpec :=
      ys @ map (\<lambda>(t, v). (t, map_option (map_spec g) v)) xs\<rparr>\<rparr>\<rparr>)"
    if "kc_Specs (kcl u) = ys @ xs" "distinct (map fst (kc_Specs (kcl u)))" "set xs \<subseteq> set (kc_Specs (kcl s))"
    for xs ys and u :: "('a, 'b) cstate"
    using that
  proof (induction xs arbitrary: ys u)
    case Nil
    then show ?case by (simp add: go_run)
  next
    case (Cons x xs)
    obtain t r where x: "x = (t, Some r)" and fr: "f (pt_Spec (r_Template r)) = Inr (g (pt_Spec (r_Template r)))"
      using ok [of "fst x" "snd x"] Cons.prems(3) by (cases x) auto
    let ?k = "put_pod_spec t (g (pt_Spec (r_Template r))) (kcl u)"
    have k: "?k = (kcl u)\<lparr>kc_Spec := (kc_Spec (kcl u))\<lparr>s_ClusterReplicaSpec := ys @ (t, Some (map_spec g r)) # xs\<rparr>\<rparr>"
      using put_pod_spec_middle [OF _ Cons.prems(2)] Cons.prems(1) x by (simp add: map_spec_def)
    have "kc_Specs (kcl (u\<lparr>kcl := ?k\<rparr>)) = (ys @ [(t, Some (map_spec g r))]) @ xs"
      and "distinct (map fst (kc_Specs (kcl (u\<lparr>kcl := ?k\<rparr>))))"
      using Cons.prems(1,2) x by (simp_all add: k)
    from Cons.IH [OF this] Cons.prems(3) show ?case by (simp add: x fr go_run k)
  qed
  from loop [of s "[]" "kc_Specs (kcl s)"] assms(1) show ?thesis
    by (simp add: each_pod_spec_def get_cluster_def go_run map_pod_specs_def)
qed

definition spec_ok :: "ReplicaSpec option \<Rightarrow> bool" where
  "spec_ok v = (case v of None \<Rightarrow> False | Some r \<Rightarrow> ps_Containers (pt_Spec (r_Template r)) \<noteq> [])"

lemma pod_specs_ok_iff:
  "pod_specs_ok k \<longleftrightarrow> distinct (map fst (kc_Specs k)) \<and> (\<forall>v \<in> snd ` set (kc_Specs k). spec_ok v)"
  by (simp add: pod_specs_ok_def list_all_iff spec_ok_def case_prod_beta)

lemma spec_okD: "spec_ok v \<Longrightarrow> \<exists>r. v = Some r \<and> ps_Containers (pt_Spec (r_Template r)) \<noteq> []"
  by (simp add: spec_ok_def split: option.splits)

lemma pod_specs_okD:
  "pod_specs_ok k \<Longrightarrow> (t, v) \<in> set (kc_Specs k) \<Longrightarrow> \<exists>r. v = Some r \<and> ps_Containers (pt_Spec (r_Template r)) \<noteq> []"
  unfolding pod_specs_ok_iff by (intro spec_okD) force

lemma pod_specs_ok_map:
  assumes "pod_specs_ok k" and g: "\<And>ps. ps_Containers ps \<noteq> [] \<Longrightarrow> ps_Containers (g ps) \<noteq> []"
  shows "pod_specs_ok (map_pod_specs g k)"
proof -
  have "spec_ok (map_option (map_spec g) v)" if "spec_ok v" for v
    using that g by (auto simp: spec_ok_def map_spec_def split: option.splits)
  moreover have "snd ` set (kc_Specs (map_pod_specs g k)) = map_option (map_spec g) ` snd ` set (kc_Specs k)"
    by (force simp: map_pod_specs_def)
  ultimately show ?thesis using assms(1) by (simp add: pod_specs_ok_iff)
qed

lemma emits_each_pod_spec [emits_intros]: "emits P (each_pod_spec f)"
  unfolding each_pod_spec_def
  by (intro emits_rules emits_intros) (auto simp: keeps_def appends_def go_modify_def)

lemma exps_each_pod_spec [frame_intros]: "keeps (unchanged exps) (each_pod_spec f)"
  unfolding each_pod_spec_def
  by (intro unchanged_rules frame_intros) (auto simp: keeps_def unchanged_def go_modify_def)


lemma map_of_cm_put [simp]: "map_of (cm_data (cm_put k v cm)) = (map_of (cm_data cm))(k \<mapsto> v)"
  by (simp add: cm_put_def cm_data_def)

lemma map_of_cm_default [simp]:
  "map_of (cm_data (cm_default k v cm)) = (map_of (cm_data cm))(k := Some (case map_of (cm_data cm) k of None \<Rightarrow> v | Some x \<Rightarrow> x))"
  by (auto simp: cm_default_def fun_upd_idem split: option.splits)

lemma cm_data_simps [simp]:
  "cm_data (cm\<lparr>cm_Data := Some d\<rparr>) = d" "cm_data (cm\<lparr>cm_BinaryData := b\<rparr>) = cm_data cm"
  "cm_binary (cm\<lparr>cm_BinaryData := Some e\<rparr>) = e"
  by (simp_all add: cm_data_def cm_binary_def)

section \<open>What condition updates do\<close>

lemma IsFailed_completion [simp]: "IsFailed (s\<lparr>st_CompletionTime := t\<rparr>) = IsFailed s"
  by (simp add: status_true_simps)

lemma conditions_ok_completion [simp]: "conditions_ok (s\<lparr>st_CompletionTime := t\<rparr>) = conditions_ok s"
  by (simp add: conditions_ok_def status_true_simps)

lemma has_condition_Update:
  "ty \<noteq> ty' \<Longrightarrow> \<not> has_condition s ty' \<Longrightarrow> \<not> has_condition (UpdateClusterConditions n1 n2 s ty st r m) ty'"
proof -
  assume "ty \<noteq> ty'" "\<not> has_condition s ty'"
  then show ?thesis
    unfolding UpdateClusterConditions_def
    by (cases rule: setCondition_cases [of s "newCondition n1 n2 ty st r m"])
      (use filter_types_subset [of "st_Conditions s" ty] in \<open>auto simp: newCondition_def cond_types_def has_condition_def\<close>)
qed

lemma Running_drops_Restarting:
  assumes "conditions_ok s" "\<not> IsFailed s"
  shows "\<not> has_condition (UpdateClusterConditions n1 n2 s ClusterRunning st r m) ClusterRestarting"
proof -
  let ?t = "UpdateClusterConditions n1 n2 s ClusterRunning st r m"
  have "has_condition ?t ClusterRunning"
    using UpdateClusterConditions_sets [OF assms(2), of n1 n2 ClusterRunning st r m] by (force simp: has_condition_def)
  with UpdateClusterConditions_ok [OF assms(1), of n1 n2 ClusterRunning st r m] show ?thesis
    by (auto simp: conditions_ok_def cond_types_def has_condition_def)
qed

lemma not_failed_Update:
  assumes "\<not> IsFailed s" and "ty \<noteq> ClusterFailed"
  shows "\<not> IsFailed (UpdateClusterConditions n1 n2 s ty st r m)"
  using assms UpdateClusterConditions_other [of ty ClusterFailed n1 n2 s st r m]
  by (simp add: IsFailed_def)

section \<open>Substitution in templates\<close>

lemma Replace_once:
  assumes "old \<noteq> []" and "hd old \<notin> set a"
  shows "Replace 1 old new (a @ old @ b) = a @ new @ b"
proof -
  obtain c cs where c: "old = c # cs" using assms(1) by (cases old) auto
  then have "Replace (Suc 0) old new (a @ old @ b) = a @ Replace (Suc 0) old new (old @ b)"
    using Replace_skip [of c a 0 cs new "old @ b"] assms(2) by simp
  with assms(1) show ?thesis by (simp add: Replace_hit)
qed

lemma lines_nl_append: "lines_nl (xs @ ys) = lines_nl xs @ lines_nl ys"
  by (simp add: lines_nl_def)

lemma lines_nl_Cons: "lines_nl (x # xs) = x @ nl @ lines_nl xs"
  by (simp add: lines_nl_def)

lemma lines_nl_Nil [simp]: "lines_nl [] = []"
  by (simp add: lines_nl_def)

lemma set_lines_nl: "set (lines_nl ls) \<subseteq> insert CHR 0x0A (\<Union> (set ` set ls))"
  by (auto simp: lines_nl_def nl_def)

lemma Split_lines_nl:
  "list_all (\<lambda>l. CHR 0x0A \<notin> set l) ls \<Longrightarrow> Split (lines_nl ls @ t) CHR 0x0A = ls @ Split t CHR 0x0A"
  by (induction ls) (simp_all add: lines_nl_Cons nl_def Split_append_sep)

text \<open>A cluster name that survives the substitution: no dollar sign and no newline. Every DNS-1035
  name is of this kind.\<close>

definition template_safe :: "string \<Rightarrow> bool" where
  "template_safe name \<longleftrightarrow> CHR ''$'' \<notin> set name \<and> CHR 0x0A \<notin> set name"

lemma Itoa_safe: "template_safe (Itoa i)"
proof -
  have "is_digit x" if "x \<in> set (itoa_nat n)" for n x
    using itoa_nat_digits [of n] that by (simp add: list_all_iff)
  then have "CHR ''$'' \<notin> set (itoa_nat n)" "CHR 0x0A \<notin> set (itoa_nat n)" for n
    using is_digit_not by blast+
  then show ?thesis by (simp add: template_safe_def Itoa_def)
qed

lemma template_safe_append [simp]:
  "template_safe (a @ b) \<longleftrightarrow> template_safe a \<and> template_safe b"
  by (auto simp: template_safe_def)

section \<open>Marking the cluster\<close>

text \<open>What a status update keeps of the cluster: its metadata, its spec and the pod counters.\<close>

definition same_cluster :: "KubeCluster \<Rightarrow> KubeCluster \<Rightarrow> bool" where
  "same_cluster k k' \<longleftrightarrow> kc_Meta k' = kc_Meta k \<and> kc_Spec k' = kc_Spec k \<and>
     st_ReplicaStatuses (kc_Status k') = st_ReplicaStatuses (kc_Status k)"

lemma same_cluster_refl [simp]: "same_cluster k k"
  by (simp add: same_cluster_def)

lemma same_cluster_trans: "same_cluster a b \<Longrightarrow> same_cluster b c \<Longrightarrow> same_cluster a c"
  by (simp add: same_cluster_def)

lemma wp_mark_failed: "wp (mark_failed E k msg) (\<lambda>_ s'. IsFailed (kc_Status (kcl s')) \<and>
    (conditions_ok (kc_Status (kcl s)) \<longrightarrow> conditions_ok (kc_Status (kcl s'))) \<and>
    (\<not> has_condition (kc_Status (kcl s)) ClusterRestarting \<longrightarrow> \<not> has_condition (kc_Status (kcl s')) ClusterRestarting) \<and>
    st_CompletionTime (kc_Status (kcl s')) \<noteq> None \<and> same_cluster (kcl s) (kcl s')) s"
  by (auto simp: mark_failed_def metric_defs wp IsFailed_UpdateClusterConditions UpdateClusterConditions_ok
      has_condition_Update same_cluster_def split: prod.splits)

lemma wp_mark_restarting:
  assumes "\<not> IsFailed (kc_Status (kcl s))" "conditions_ok (kc_Status (kcl s))"
  shows "wp (mark_restarting E k c) (\<lambda>_ s'. \<not> IsFailed (kc_Status (kcl s')) \<and> conditions_ok (kc_Status (kcl s')) \<and>
    same_cluster (kcl s) (kcl s')) s"
  using assms
  by (auto simp: mark_restarting_def metric_defs wp not_failed_Update UpdateClusterConditions_ok same_cluster_def
      split: prod.splits)

lemma wp_mark_running:
  assumes "\<not> IsFailed (kc_Status (kcl s))" "conditions_ok (kc_Status (kcl s))"
  shows "wp (mark_running E k) (\<lambda>_ s'. \<not> IsFailed (kc_Status (kcl s')) \<and> conditions_ok (kc_Status (kcl s')) \<and>
    \<not> has_condition (kc_Status (kcl s')) ClusterRestarting \<and> same_cluster (kcl s) (kcl s')) s"
  using assms Running_drops_Restarting [OF assms(2,1)]
  by (auto simp: mark_running_def metric_defs wp not_failed_Update UpdateClusterConditions_ok same_cluster_def
      split: prod.splits)

section \<open>Files of the config map\<close>

text \<open>The mounts of the volume \<open>v\<close> in a container.\<close>

definition sub_paths :: "string \<Rightarrow> Container \<Rightarrow> string list" where
  "sub_paths v c = map vm_SubPath (filter (\<lambda>m. vm_Name m = v) (c_VolumeMounts c))"

definition pod_containers :: "PodTemplateSpec \<Rightarrow> Container list" where
  "pod_containers t = ps_InitContainers (pt_Spec t) @ ps_Containers (pt_Spec t)"

definition cm_file :: "ConfigMap \<Rightarrow> string \<Rightarrow> bool" where
  "cm_file cm k \<longleftrightarrow> map_of (cm_data cm) k \<noteq> None \<or> map_of (cm_binary cm) k \<noteq> None"

definition sample_generator :: initContainerGenerator where
  "sample_generator = \<lparr> icg_template = ''t'', icg_image = ''i'', icg_maxTries = 100 \<rparr>"

section \<open>The interface of a schema reconciler\<close>

text \<open>
  What the controller relies on of a \<open>common.ClusterSchemaReconciler\<close>: validation ensures that the
  controlling replica type is there; a complete config map is left alone by reconciliation; the template
  of a node keeps the names and images of the user's containers; and the status update never makes the
  cluster fail unless pods of the controlling type failed. \<open>complete\<close> is the schema's own notion of a
  config map from which pods can be made.
\<close>

locale schema_reconciler =
  fixes controller :: string
    and validate :: "KubeCluster \<Rightarrow> string + gerr option"
    and is_controller :: "string \<Rightarrow> bool"
    and complete :: "ConfigMap \<Rightarrow> bool"
    and reconcile :: "ConfigMap \<Rightarrow> ('w, 'st, gerr option \<times> ConfigMap) ctl"
    and set_spec :: "KubeCluster \<Rightarrow> PodTemplateSpec \<Rightarrow> string \<Rightarrow> string \<Rightarrow> ConfigMap \<Rightarrow> string + (gerr + PodTemplateSpec)"
    and update :: "string \<Rightarrow> ('w, 'st, unit) ctl"
  assumes validate_controller: "validate k = Inr None \<Longrightarrow> controller \<in> fst ` set (kc_Specs k)"
    and is_controller_iff: "is_controller rt \<longleftrightarrow> rt = controller"
    and reconcile_again: "complete cm \<Longrightarrow> pod_specs_ok (kcl s) \<Longrightarrow>
      \<exists>s'. reconcile cm s = Ret (None, cm) s' \<and> trace s' = trace s \<and> world s' = world s \<and>
        kc_Meta (kcl s') = kc_Meta (kcl s) \<and> kc_Status (kcl s') = kc_Status (kcl s)"
    and set_spec_containers: "set_spec k t rt i cm = Inr (Inr t') \<Longrightarrow> pt_Meta t' = pt_Meta t \<and>
      map (\<lambda>c. (c_Name c, c_Image c)) (ps_Containers (pt_Spec t')) = map (\<lambda>c. (c_Name c, c_Image c)) (ps_Containers (pt_Spec t))"
    and update_status: "replica_status (kc_Status (kcl s)) rt = Some counters \<Longrightarrow>
      \<not> IsFailed (kc_Status (kcl s)) \<Longrightarrow> conditions_ok (kc_Status (kcl s)) \<Longrightarrow>
      wp (update rt) (\<lambda>_ s'. (IsFailed (kc_Status (kcl s')) \<longrightarrow> rt = controller \<and> sint (rs_Failed counters) > 0) \<and>
        conditions_ok (kc_Status (kcl s')) \<and> same_cluster (kcl s) (kcl s')) s"
    and update_panics: "replica_status (kc_Status (kcl s)) rt = None \<Longrightarrow> panics (update rt s)"
begin

text \<open>Failed workers never fail the cluster: a run of updates over replica types none of which is the
  controller with failed pods leaves a cluster that has not failed.\<close>

lemma update_all:
  assumes "list_all (\<lambda>rt. \<exists>c. replica_status (kc_Status (kcl s)) rt = Some c \<and> \<not> (rt = controller \<and> sint (rs_Failed c) > 0)) rts"
    and "\<not> IsFailed (kc_Status (kcl s))" "conditions_ok (kc_Status (kcl s))"
  shows "wp (go_for update rts) (\<lambda>_ s'. \<not> IsFailed (kc_Status (kcl s')) \<and> conditions_ok (kc_Status (kcl s')) \<and>
     same_cluster (kcl s) (kcl s')) s"
  using assms
proof (induction rts arbitrary: s)
  case Nil
  then show ?case by (simp add: wp)
next
  case (Cons rt rts)
  from Cons.prems(1) obtain c where c: "replica_status (kc_Status (kcl s)) rt = Some c"
    "\<not> (rt = controller \<and> sint (rs_Failed c) > 0)" by auto
  have "wp (go_for update rts) (\<lambda>_ s'. \<not> IsFailed (kc_Status (kcl s')) \<and> conditions_ok (kc_Status (kcl s')) \<and>
      same_cluster (kcl s) (kcl s')) u"
    if u: "\<not> IsFailed (kc_Status (kcl u))" "conditions_ok (kc_Status (kcl u))" "same_cluster (kcl s) (kcl u)" for u
  proof -
    have "replica_status (kc_Status (kcl u)) = replica_status (kc_Status (kcl s))"
      using u(3) by (simp add: same_cluster_def replica_status_def fun_eq_iff)
    with Cons.prems(1) have "list_all (\<lambda>rt. \<exists>c. replica_status (kc_Status (kcl u)) rt = Some c \<and>
        \<not> (rt = controller \<and> sint (rs_Failed c) > 0)) rts" by simp
    from Cons.IH [OF this u(1,2)] show ?thesis
      by (rule wp_mono) (use u(3) same_cluster_trans in blast)
  qed
  then show ?case
    unfolding go_for.simps wp_seq
    by - (rule wp_mono [OF update_status [OF c(1) Cons.prems(2,3)]], use c(2) in blast)
qed

end

end
