(* ===== verification/SlurmConf.thy ===== *)
theory SlurmConf
  imports SchemaCommon "HOL-Library.Signed_Division"
begin

text \<open>
  The configuration of a slurm cluster: \<open>slurm_schema/configmap.go\<close> and the parts of
  \<open>slurm_schema/util.go\<close> it uses. The config map holds the generated \<open>slurm.conf\<close>, the two entry
  points and the munge key; the ports written into \<open>slurm.conf\<close> are read back from it whenever a pod
  is created. The main lemmas show that reading gives the ports that were written, that a config map
  once reconciled is complete, and that it is not changed again.

  A range loop over the replica specs visits them in list order. \<open>RandStr\<close> and \<open>genSlurmRandomPort\<close>
  are loops that end only when the random source cooperates: a run that does not end is a panic here.
\<close>

section \<open>Constants and templates\<close>

definition slurm_ClusterSchemaKind :: string where "slurm_ClusterSchemaKind = ''slurm''"
definition SchemaReplicaTypeController :: string where "SchemaReplicaTypeController = ''Controller''"
definition SlurmctlPortName :: string where "SlurmctlPortName = ''slurmctl-port''"
definition SlurmdPortName :: string where "SlurmdPortName = ''slurmd-port''"
definition SlurmConfDir :: string where "SlurmConfDir = ''/etc/slurm''"
definition spoolDir :: string where "spoolDir = ''/var/spool''"

definition slurmConfKey :: string where "slurmConfKey = ''slurm.conf''"
definition mungeKey :: string where "mungeKey = ''munge.key''"
definition mungeKeylenInInt :: nat where "mungeKeylenInInt = 1024"
definition configMapReadyKey :: string where "configMapReadyKey = ''ready''"
definition configMapReady :: string where "configMapReady = ''true''"
definition configMapReadyFile :: string where "configMapReadyFile = ''/tmp/configmap-ready''"
definition hostNetWorkNodesListKey :: string where "hostNetWorkNodesListKey = ''hostNetWorkNodesList''"
definition controllerEntrypoint :: string where "controllerEntrypoint = ''controller-entrypoint''"
definition workerEntrypoint :: string where "workerEntrypoint = ''worker-entrypoint''"

definition placeHolderClusterName :: string where "placeHolderClusterName = ''${CLUSTER_NAME}''"
definition placeHolderControlMachine :: string where "placeHolderControlMachine = ''${CONTROL_MACHINE}''"
definition placeHolderControlAddr :: string where "placeHolderControlAddr = ''${CONTROL_ADDRESS}''"
definition placeHolderSlurmctldPort :: string where "placeHolderSlurmctldPort = ''${SLURMCTLD_PORT}''"
definition placeHolderSlurmdPort :: string where "placeHolderSlurmdPort = ''${slurmd_port}''"

definition conf_head :: "string list" where
  \<open>conf_head = [
    ''#'',
    ''# slurm.conf file. Please run configurator.html'',
    ''# (in doc/html) to build a configuration file customized'',
    ''# for your environment.'',
    ''#'',
    ''#'',
    ''# slurm.conf file generated by configurator.html.'',
    ''# Put this file on all nodes of your cluster.'',
    ''# See the slurm.conf man page for more information.'',
    ''#'',
    ''################################################'',
    ''#                   CONTROL                    #'',
    ''################################################'']\<close>

definition conf_paths :: "string list" where
  \<open>conf_paths = [
    [],
    ''################################################'',
    ''#            LOGGING & OTHER PATHS             #'',
    ''################################################'',
    ''SlurmctldPidFile=/var/run/slurmctld.pid '',
    ''SlurmdPidFile=/var/run/slurmd.pid '',
    ''SlurmctldDebug=3 '',
    ''SlurmdDebug=3 '']\<close>

definition conf_tail :: "string list" where
  \<open>conf_tail = [
    ''SlurmdSpoolDir=/var/spool/slurmd '',
    ''SlurmdUser=root '',
    ''StateSaveLocation=/var/spool '',
    [],
    ''################################################'',
    ''#           SCHEDULING & ALLOCATION            #'',
    ''################################################'',
    ''SchedulerType=sched/backfill '',
    ''SelectType=select/cons_tres '',
    ''SelectTypeParameters=CR_Core_Memory '',
    [],
    ''################################################'',
    ''#                    OTHER                     #'',
    ''################################################'',
    ''MpiDefault=none '',
    ''SwitchType=switch/none '',
    ''ProctrackType=proctrack/pgid '',
    ''ReturnToService=1 '',
    ''TaskPlugin=task/none '',
    ''################################################'',
    ''#                  ACCOUNTING                  #'',
    ''################################################'',
    ''AccountingStorageType=accounting_storage/none '',
    ''jobAcctGatherType=jobacct_gather/none '',
    ''GresTypes=gpu '']\<close>

definition slurmConfTemplate :: string where
  "slurmConfTemplate = lines_nl conf_head @
     ''ClusterName='' @ placeHolderClusterName @ '' '' @ nl @
     ''ControlMachine='' @ placeHolderControlMachine @ '' '' @ nl @
     ''ControlAddr='' @ placeHolderControlAddr @ '' '' @ nl @
     lines_nl conf_paths @
     ''SlurmctldPort='' @ placeHolderSlurmctldPort @ '' '' @ nl @
     ''SlurmdPort='' @ placeHolderSlurmdPort @ '' '' @ nl @
     lines_nl conf_tail"

definition entrypointShellTemplate :: string where
  \<open>entrypointShellTemplate = Join [
    ''#!/bin/bash'',
    [],
    ''addUserIfNotExist(){'',
    ''  if id -u "$1" >/dev/null 2>&1; then'',
    ''     echo "$1 exists"'',
    ''  else'',
    ''     echo "create user $1"'',
    ''     useradd "$1"'',
    ''  fi'',
    ''}'',
    ''addUserIfNotExist slurm'',
    ''addUserIfNotExist munge'',
    [],
    ''mkdir -p /etc/munge'',
    ''chown  munge:munge /etc/munge'',
    ''# shellcheck disable=SC2024'',
    [],
    ''##cp  relative cmd'',
    [],
    ''# shellcheck disable=SC2162'',
    ''read -p "please input slurm relative cmd source dir :" cmddir'',
    [],
    ''if [ ! -d "$cmddir" ]; then'',
    ''   echo "$cmddir not exist, skip cp  slurm relative cmd"'',
    ''   exit 0;'',
    ''fi'',
    [],
    [],
    ''cp  -p -L "$cmddir"/slurm/bin/* /usr/bin'',
    ''cp  -p -L "$cmddir"/slurm/sbin/* /usr/sbin'',
    ''cp  -p -L "$cmddir"/munge/bin/* /usr/bin'',
    ''cp  -p -L "$cmddir"/munge/sbin/* /usr/sbin'',
    ''if [ ! -e /etc/munge/munge.key ];then'',
    ''  cp  -p -L "$cmddir"/munge/munge/munge.key /etc/munge/munge.key'',
    ''fi'',
    ''#dd if=/dev/urandom bs=1 count=1024 > /etc/munge/munge.key'',
    [],
    ''# shellcheck disable=SC2024'',
    ''echo "$cmddir/slurm/lib"  >> /etc/ld.so.conf.d/slurm-x86_64.conf'',
    ''# shellcheck disable=SC2024'',
    ''echo "$cmddir/slurm/lib/slurm" >> /etc/ld.so.conf.d/slurm-x86_64.conf'',
    ''# shellcheck disable=SC2024'',
    ''echo "$cmddir/munge/lib" >>  /etc/ld.so.conf.d/munge-x86_64.conf'',
    [],
    ''ldconfig'',
    [],
    ''chown munge:munge /etc/munge/munge.key'',
    ''chmod 400 /etc/munge/munge.key'',
    ''mkdir -p /var/lib/munge'',
    ''mkdir -p /var/run/munge'',
    ''mkdir -p /var/log/munge'',
    ''chown -R munge:munge /var/lib/munge'',
    ''chown -R munge:munge /var/run/munge'',
    ''chown -R munge:munge /var/log/munge'',
    [],
    ''echo "configure completed"''] nl\<close>

section \<open>Ports\<close>

definition setSlurmDefaultPorts :: "PodSpec \<Rightarrow> string \<Rightarrow> int \<Rightarrow> int \<Rightarrow> string + PodSpec" where
  "setSlurmDefaultPorts spec defaultContainerName slurmctlPort slurmdPort =
     (let index = GetDefaultContainerIndex spec defaultContainerName in
      case EnsureDefaultPort spec SlurmctlPortName (word_of_int slurmctlPort) index of
        Inl p \<Rightarrow> Inl p
      | Inr spec \<Rightarrow> EnsureDefaultPort spec SlurmdPortName (word_of_int slurmdPort) index)"

definition setSlurmPorts :: "int \<Rightarrow> int \<Rightarrow> ('w, 'st, unit) ctl" where
  "setSlurmPorts slurmctlPort slurmdPort = each_pod_spec (\<lambda>spec.
     setSlurmDefaultPorts spec ClusterDefaultContainerName slurmctlPort slurmdPort)"

fun scan_ports :: "ContainerPort list \<Rightarrow> int \<Rightarrow> int \<Rightarrow> int \<times> int" where
  "scan_ports [] slurmctlPort slurmdPort = (slurmctlPort, slurmdPort)"
| "scan_ports (p # ps) slurmctlPort slurmdPort =
     (let ctl = (if cp_Name p = SlurmctlPortName then sint (cp_ContainerPort p) else slurmctlPort);
          d = (if cp_Name p = SlurmctlPortName then slurmdPort
               else if cp_Name p = SlurmdPortName then sint (cp_ContainerPort p) else slurmdPort)
      in if d \<noteq> 0 \<and> ctl \<noteq> 0 then (ctl, d) else scan_ports ps ctl d)"

definition getSlurmDefaultPort :: "PodSpec \<Rightarrow> string \<Rightarrow> string + int \<times> int" where
  "getSlurmDefaultPort spec defaultContainerName =
     (let i = GetDefaultContainerIndex spec defaultContainerName in
      if i < length (ps_Containers spec) then Inr (scan_ports (c_Ports (ps_Containers spec ! i)) 0 0)
      else Inl ''index out of range'')"

fun getSlurmPortsFromSpec :: "ReplicaSpecs \<Rightarrow> string \<Rightarrow> string + (gerr + int \<times> int)" where
  "getSlurmPortsFromSpec [] name = Inr (Inl (PlainErr ''can not find slurm ports for kclusetr''))"
| "getSlurmPortsFromSpec ((rt, None) # specs) name = Inl ''nil pointer dereference''"
| "getSlurmPortsFromSpec ((rt, Some spec) # specs) name =
     (case getSlurmDefaultPort (pt_Spec (r_Template spec)) name of
        Inl p \<Rightarrow> Inl p
      | Inr (slurmctlPort, slurmdPort) \<Rightarrow>
          if slurmdPort \<noteq> 0 \<and> slurmctlPort \<noteq> 0 then Inr (Inr (slurmctlPort, slurmdPort))
          else getSlurmPortsFromSpec specs name)"

fun conf_ports :: "string list \<Rightarrow> int \<Rightarrow> int \<Rightarrow> gerr + int \<times> int" where
  "conf_ports [] slurmctlPort slurmdPort = Inl (PlainErr ''failed to parse slurm relative ports'')"
| "conf_ports (line # lines) slurmctlPort slurmdPort =
     (if \<not> HasPrefix line ''SlurmctldPort='' \<and> \<not> HasPrefix line ''SlurmdPort=''
      then conf_ports lines slurmctlPort slurmdPort
      else if HasPrefix line ''SlurmctldPort=''
      then (case Atoi (TrimSpace (TrimPrefix line ''SlurmctldPort='')) of
              Inl err \<Rightarrow> Inl err
            | Inr p \<Rightarrow> if p \<noteq> 0 \<and> slurmdPort \<noteq> 0 then Inr (p, slurmdPort) else conf_ports lines p slurmdPort)
      else (case Atoi (TrimSpace (TrimPrefix line ''SlurmdPort='')) of
              Inl err \<Rightarrow> Inl err
            | Inr p \<Rightarrow> if slurmctlPort \<noteq> 0 \<and> p \<noteq> 0 then Inr (slurmctlPort, p) else conf_ports lines slurmctlPort p))"

definition getSlurmPortsFromConf :: "string \<Rightarrow> gerr + int \<times> int" where
  "getSlurmPortsFromConf slurmConf = conf_ports (Split slurmConf CHR 0x0A) 0 0"

section \<open>Resources of a node\<close>

definition rl :: "ResourceList option \<Rightarrow> ResourceList" where
  "rl r = (case r of None \<Rightarrow> [] | Some l \<Rightarrow> l)"

definition rl_Cpu :: "ResourceList \<Rightarrow> Quantity" where "rl_Cpu l = qty l ''cpu''"
definition rl_Memory :: "ResourceList \<Rightarrow> Quantity" where "rl_Memory l = qty l ''memory''"

definition getResourceRequestList :: "ReplicaSpec \<Rightarrow> ResourceList" where
  "getResourceRequestList spec =
     (let ps = pt_Spec (r_Template spec);
          result = foldl (\<lambda>r c. quota_Add r (rl (c_Requests c))) [] (ps_Containers ps);
          result = foldl (\<lambda>r c. quota_Max r (rl (c_Requests c))) result (ps_InitContainers ps)
      in case ps_Overhead ps of None \<Rightarrow> result | Some overhead \<Rightarrow> quota_Add result overhead)"

definition resourceTypeGpu :: string where "resourceTypeGpu = ''gpu''"

definition getGpuQuantity :: "ResourceList \<Rightarrow> Quantity" where
  "getGpuQuantity resourceList =
     (case List.find (\<lambda>(resourceName, _). Contains (ToLower resourceName) resourceTypeGpu) resourceList of
        Some (_, val) \<Rightarrow> val
      | None \<Rightarrow> 0)"

text \<open>The memory is printed and parsed again, which keeps its value; without a memory request it is
  32Gi. The product \<open>realMemory * 1000\<close> is a 64-bit one and the divisions truncate.\<close>

definition default_memory :: Quantity where
  "default_memory = 32 * 1024 * 1024 * 1024 * 1000000000"

definition getResourceRequest :: "'w kenv \<Rightarrow> ResourceList option \<Rightarrow> gerr + int \<times> int \<times> int" where
  "getResourceRequest E masterResourceList =
     (case masterResourceList of
        None \<Rightarrow> Inl (PlainErr ''container resource request(cpu or memory or gpu) must be set'')
      | Some l \<Rightarrow>
          let memory = (if ke_QuantityString E (rl_Memory l) \<noteq> ''0'' then rl_Memory l else default_memory) in
          case ke_AsInt64 E memory of
            None \<Rightarrow> Inl (PlainErr ''exchange memory to realMemory failed'')
          | Some realMemory \<Rightarrow>
              let realMemory = wrap64 (realMemory * 1000) sdiv (1024 * 1024 * 1024);
                  cpus = (if ke_MilliValue E (rl_Cpu l) \<noteq> 0 then ke_MilliValue E (rl_Cpu l) sdiv 1000 else 8);
                  gpus = ke_MilliValue E (getGpuQuantity l) sdiv 1000
              in Inr (cpus, realMemory, gpus))"

section \<open>slurm.conf\<close>

definition isHostNetWork :: "ReplicaSpec \<Rightarrow> bool" where
  "isHostNetWork spec = ps_HostNetwork (pt_Spec (r_Template spec))"

fun host_nodes :: "string \<Rightarrow> ReplicaSpecs \<Rightarrow> string + string list" where
  "host_nodes name [] = Inr []"
| "host_nodes name ((rt, None) # specs) = Inl ''nil pointer dereference''"
| "host_nodes name ((rt, Some spec) # specs) =
     (case host_nodes name specs of
        Inl p \<Rightarrow> Inl p
      | Inr rest \<Rightarrow> Inr (if isHostNetWork spec
          then (case r_Replicas spec of None \<Rightarrow> [] | Some n \<Rightarrow> pod_names name rt n) @ rest
          else rest))"

definition getHostNetWorkNodeList :: "KubeCluster \<Rightarrow> string + string list" where
  "getHostNetWorkNodeList kcluster = host_nodes (kc_Name kcluster) (kc_Specs kcluster)"

definition createSlurmConfPartitions :: string where
  "createSlurmConfPartitions = lines_nl
     [''################################################'',
      ''#                  PARTITIONS                  #'',
      ''################################################'',
      ''PartitionName=all Nodes=ALL Default=YES MaxTime=INFINITE State=UP'']"

definition node_line :: "int \<Rightarrow> int \<Rightarrow> int \<Rightarrow> string \<Rightarrow> string" where
  "node_line cpus realMemory gpus generalName =
     ''NodeName='' @ generalName @ '' '' @ ''NodeAddr='' @ generalName @ '' '' @
     ''CPUs='' @ Itoa cpus @ '' '' @ ''RealMemory='' @ Itoa realMemory @ '' '' @
     ''Gres=gpu:'' @ Itoa gpus @ '' '' @ ''State=UNKNOWN '' @ nl"

definition createSlurmConfNodesByReplica ::
  "'w kenv \<Rightarrow> string \<Rightarrow> string \<Rightarrow> ReplicaSpec option \<Rightarrow> string + (gerr + string)" where
  "createSlurmConfNodesByReplica E clusterName replicaType spec =
     (case spec of
        None \<Rightarrow> Inl ''nil pointer dereference''
      | Some spec \<Rightarrow> (case r_Replicas spec of
          None \<Rightarrow> Inr (Inr [])
        | Some n \<Rightarrow> (case getResourceRequest E (Some (getResourceRequestList spec)) of
            Inl err \<Rightarrow> Inr (Inl err)
          | Inr (cpus, realMemory, gpus) \<Rightarrow>
              Inr (Inr (concat (map (node_line cpus realMemory gpus) (pod_names clusterName replicaType n)))))))"

text \<open>The nodes of every replica type except the controller.\<close>

fun node_conf :: "'w kenv \<Rightarrow> string \<Rightarrow> ReplicaSpecs \<Rightarrow> string \<Rightarrow> string + (gerr + string)" where
  "node_conf E name [] acc = Inr (Inr acc)"
| "node_conf E name ((replicaType, replicaSpec) # specs) acc =
     (if replicaType = SchemaReplicaTypeController then node_conf E name specs acc
      else case createSlurmConfNodesByReplica E name replicaType replicaSpec of
        Inl p \<Rightarrow> Inl p
      | Inr (Inl err) \<Rightarrow> Inr (Inl err)
      | Inr (Inr replicaConf) \<Rightarrow> node_conf E name specs (acc @ replicaConf))"

definition createSlurmConfNodes :: "'w kenv \<Rightarrow> KubeCluster \<Rightarrow> string + (gerr + string)" where
  "createSlurmConfNodes E kcluster =
     (case node_conf E (kc_Name kcluster) (kc_Specs kcluster) [] of
        Inl p \<Rightarrow> Inl p
      | Inr (Inl err) \<Rightarrow> Inr (Inl err)
      | Inr (Inr nodeConf) \<Rightarrow> Inr (Inr (lines_nl
          [''################################################'',
           ''#                    NODES                     #'',
           ''################################################''] @ [] @ nl @ nodeConf)))"

definition fill_template :: "string \<Rightarrow> int \<Rightarrow> int \<Rightarrow> string" where
  "fill_template name masterPort workerPort =
     (let tempConfig = slurmConfTemplate;
          tempConfig = Replace 1 placeHolderClusterName name tempConfig;
          tempConfig = Replace 1 placeHolderControlMachine (GenGeneralName name SchemaReplicaTypeController (Itoa 0)) tempConfig;
          tempConfig = Replace 1 placeHolderControlAddr (GenGeneralName name SchemaReplicaTypeController (Itoa 0)) tempConfig;
          tempConfig = Replace 1 placeHolderSlurmctldPort (Itoa masterPort) tempConfig
      in Replace 1 placeHolderSlurmdPort (Itoa workerPort) tempConfig)"

definition createSlurmConf :: "'w kenv \<Rightarrow> KubeCluster \<Rightarrow> int \<Rightarrow> int \<Rightarrow> string + (gerr + string)" where
  "createSlurmConf E kcluster masterPort workerPort =
     (let tempConfig = fill_template (kc_Name kcluster) masterPort workerPort in
      case createSlurmConfNodes E kcluster of
        Inl p \<Rightarrow> Inl p
      | Inr (Inl err) \<Rightarrow> Inr (Inl err)
      | Inr (Inr nodesConf) \<Rightarrow>
          Inr (Inr (tempConfig @ nl @ nodesConf @ nl @ createSlurmConfPartitions @ nl)))"


section \<open>Entry points\<close>

definition genGrepCommand :: string where
  \<open>genGrepCommand = ''>> /tmp/gres.conf && for (( i=0; i < 8; i++ )) do if [ -a /dev/nvidia${i} ]; then echo "Name=gpu Type='' @
     ''gpu'' @ '' File=/dev/nvidia${i}" >> /tmp/gres.conf; fi ; done''\<close>

definition cpGrepsCommand :: string where
  "cpGrepsCommand = ''cp /tmp/gres.conf '' @ SlurmConfDir @ '' ''"

definition clearSpoolCommand :: string where
  \<open>clearSpoolCommand = ''echo "clear spool-cluster-name: '' @ spoolDir @ ''/clustername " && rm -rf '' @ spoolDir @ ''/clustername''\<close>

definition mungedCMd :: string where
  \<open>mungedCMd = ''echo "starting munged" && munged -f --key-file '' @ ''/etc/munge/munge.key'' @
     '' --log-file '' @ ''/var/log/munge/munged.log'' @ '' --pid-file '' @ ''/var/run/munge/munged.pid'' @
     '' --seed-file '' @ ''/var/lib/munge/munge.seed'' @ '' --socket '' @ ''/var/run/munge/munge.socket.2'' @
     '' && echo "munged started" ''\<close>

definition genControllerEntrypoint :: string where
  \<open>genControllerEntrypoint =
     (let entrypointShell = add_line entrypointShellTemplate (Join [genGrepCommand, cpGrepsCommand] '' && '');
          entrypointShell = add_line entrypointShell ''sleep 5'';
          entrypointShell = add_line entrypointShell clearSpoolCommand;
          entrypointShell = add_line entrypointShell mungedCMd
      in add_line entrypointShell ''echo "starting slurmctld" && slurmctld -D && echo "slurmctld started"'')\<close>

definition genWorkerEntrypoint :: string where
  \<open>genWorkerEntrypoint =
     (let entrypointShell = add_line entrypointShellTemplate (Join [genGrepCommand, cpGrepsCommand] '' && '');
          entrypointShell = add_line entrypointShell ''sleep 30'';
          entrypointShell = add_line entrypointShell clearSpoolCommand;
          entrypointShell = add_line entrypointShell mungedCMd
      in add_line entrypointShell ''echo "starting slurmd" && slurmd -D '')\<close>

section \<open>The config map\<close>

definition genMungeKey :: "'w kenv \<Rightarrow> ('w, 'st, string) ctl" where
  "genMungeKey E = go_bind (call (ke_Int63 E)) (\<lambda>src.
     case RandStr src mungeKeylenInInt of
       None \<Rightarrow> go_panic ''RandStr does not return''
     | Some key \<Rightarrow> go_return key)"

definition slurm_random_ports :: "'w kenv \<Rightarrow> ('w, 'st, int \<times> int) ctl" where
  "slurm_random_ports E = (\<lambda>s. case genSlurmRandomPort E (world s) of
       None \<Rightarrow> Panic ''genSlurmRandomPort does not return'' s
     | Some (ports, w) \<Rightarrow> Ret ports (s\<lparr>world := w\<rparr>))"

definition genSlurmConf :: "'w kenv \<Rightarrow> ('w, 'st, gerr + string) ctl" where
  "genSlurmConf E = go_bind get_cluster (\<lambda>kcluster.
     go_bind (go_lift (getSlurmPortsFromSpec (kc_Specs kcluster) ClusterDefaultContainerName)) (\<lambda>r.
     go_bind (case r of
         Inr ports \<Rightarrow> go_return ports
       | Inl err \<Rightarrow> go_bind (slurm_random_ports E) (\<lambda>ports. go_seq
           (Event EventTypeNormal ''SlurmPortsNotSet'' (''Will use defaul slurmctld'' @ CHR 0x27 # ''s port:'' @
              Itoa (fst ports) @ '', slurmd'' @ CHR 0x27 # ''s port : '' @ Itoa (snd ports)))
           (go_return ports))) (\<lambda>ports.
     go_seq (setSlurmPorts (fst ports) (snd ports)) (
     go_bind get_cluster (\<lambda>kcluster.
     go_bind (go_lift (createSlurmConf E kcluster (fst ports) (snd ports))) (\<lambda>r.
     go_return (case r of Inl err \<Rightarrow> Inl (errorf_v ''generateSlurmConfig err:'' err) | Inr conf \<Rightarrow> Inr conf)))))))"

definition needReconcileConfigMap :: "ConfigMap \<Rightarrow> bool" where
  "needReconcileConfigMap cm =
     (let cmReady = map_of (cm_data cm) configMapReadyKey in
      if cmReady \<noteq> None \<or> (case cmReady of Some v \<Rightarrow> v | None \<Rightarrow> []) = ''true'' then False else True)"

text \<open>The second half of \<open>ReconcileConfigMap\<close>, after the early return.\<close>

definition set_ready :: "string list \<Rightarrow> ConfigMap \<Rightarrow> ConfigMap" where
  "set_ready hostNetWorkNodeList cm =
     (if hostNetWorkNodeList = [] then cm_put configMapReadyKey ''true'' cm
      else cm_put hostNetWorkNodesListKey (Join hostNetWorkNodeList '','') (cm_put configMapReadyKey ''false'' cm))"

definition add_entrypoints :: "ConfigMap \<Rightarrow> ConfigMap" where
  "add_entrypoints cm =
     (let cm = cm\<lparr>cm_Data := Some (cm_data cm), cm_BinaryData := Some (cm_binary cm)\<rparr>;
          cm = cm_default controllerEntrypoint genControllerEntrypoint cm
      in cm_default workerEntrypoint genWorkerEntrypoint cm)"

definition finish_config_map :: "'w kenv \<Rightarrow> ConfigMap \<Rightarrow> ('w, 'st, gerr option \<times> ConfigMap) ctl" where
  "finish_config_map E cm =
     go_bind get_cluster (\<lambda>kcluster.
     go_bind (go_lift (getHostNetWorkNodeList kcluster)) (\<lambda>hostNetWorkNodeList.
     let cm = set_ready hostNetWorkNodeList cm in
     if map_of (cm_data cm) mungeKey = None
     then go_bind (genMungeKey E) (\<lambda>key.
       go_return (None, cm\<lparr>cm_BinaryData := Some (AList.update mungeKey key (cm_binary cm))\<rparr>))
     else go_return (None, cm)))"

definition fill_config_map :: "'w kenv \<Rightarrow> ConfigMap \<Rightarrow> ('w, 'st, gerr option \<times> ConfigMap) ctl" where
  "fill_config_map E cm =
     (let cm = add_entrypoints cm in
      if map_of (cm_data cm) slurmConfKey = None
      then go_bind (genSlurmConf E) (\<lambda>r. case r of
             Inl err \<Rightarrow> go_return (Some err, cm)
           | Inr conf \<Rightarrow> finish_config_map E (cm_put slurmConfKey conf cm))
      else finish_config_map E cm)"

definition slurm_ReconcileConfigMap :: "'w kenv \<Rightarrow> ConfigMap \<Rightarrow> ('w, 'st, gerr option \<times> ConfigMap) ctl" where
  "slurm_ReconcileConfigMap E cm =
     (let slurmConf = map_of (cm_data cm) slurmConfKey in
      go_bind (case slurmConf of
          None \<Rightarrow> go_return None
        | Some conf \<Rightarrow> (case getSlurmPortsFromConf conf of
            Inl err \<Rightarrow> go_return (Some err)
          | Inr ports \<Rightarrow> go_seq (setSlurmPorts (fst ports) (snd ports)) (go_return None))) (\<lambda>err.
      case err of
        Some e \<Rightarrow> go_return (Some e, cm)
      | None \<Rightarrow>
          if slurmConf \<noteq> None \<and> \<not> needReconcileConfigMap cm then go_return (None, cm)
          else fill_config_map E cm))"

text \<open>\<open>UpdateConfigMap\<close> fills in the host names of the nodes on the host network.\<close>

fun rename_hosts :: "Pod list \<Rightarrow> string list \<Rightarrow> string \<Rightarrow> string list \<times> string" where
  "rename_hosts [] hosts conf = (hosts, conf)"
| "rename_hosts (pod # pods) hosts conf =
     (if om_Name (pod_Meta pod) \<notin> set hosts then rename_hosts pods hosts conf
      else if ps_NodeName (pod_Spec pod) = [] \<or> ps_Hostname (pod_Spec pod) = [] then rename_hosts pods hosts conf
      else rename_hosts pods (removeAll (om_Name (pod_Meta pod)) hosts)
             (Replace 1 (''NodeName='' @ om_Name (pod_Meta pod)) (''NodeName='' @ ps_Hostname (pod_Spec pod)) conf))"

fun update_hosts :: "'w kenv \<Rightarrow> KubeCluster \<Rightarrow> ReplicaSpecs \<Rightarrow> string list \<Rightarrow> string \<Rightarrow>
    ('w, 'st, gerr + string list \<times> string) ctl" where
  "update_hosts E k [] hosts conf = go_return (Inr (hosts, conf))"
| "update_hosts E k ((replicaType, spec) # specs) hosts conf =
     (if hosts = [] then go_return (Inr (hosts, conf))
      else case spec of
        None \<Rightarrow> go_panic ''nil pointer dereference''
      | Some sp \<Rightarrow>
          if \<not> isHostNetWork sp then update_hosts E k specs hosts conf
          else
            let labels = GenLabels ControllerName (kc_Name k);
                labels = SetReplicaType labels replicaType;
                labels = SetClusterType labels (s_ClusterType (kc_Spec k))
            in case ke_LabelSelectorAsSelector E labels of
                 Some err \<Rightarrow> go_return (Inl (errorf_v (''couldn'' @ CHR 0x27 # ''t convert Cluster selector: '') err))
               | None \<Rightarrow> go_bind (call (cl_List (ke_pods E) (kc_Namespace k) labels)) (\<lambda>r.
                   case r of
                     Inl err \<Rightarrow> go_return (Inl err)
                   | Inr items \<Rightarrow>
                       let pods = filter (\<lambda>p. ke_IsControlledBy E (pod_Meta p) (kc_Meta k)) items;
                           (hosts, conf) = rename_hosts pods hosts conf
                       in update_hosts E k specs hosts conf))"

definition slurm_UpdateConfigMap :: "'w kenv \<Rightarrow> ConfigMap \<Rightarrow> ('w, 'st, gerr option \<times> ConfigMap) ctl" where
  "slurm_UpdateConfigMap E cm =
     (if map_of (cm_data cm) configMapReadyKey \<noteq> None \<or> cm_get configMapReadyKey cm = configMapReady
      then go_return (None, cm)
      else if cm_get hostNetWorkNodesListKey cm = []
      then (if cm_Data cm = None then go_panic ''assignment to entry in nil map''
            else go_return (None, cm_put configMapReadyKey configMapReady cm))
      else go_bind get_cluster (\<lambda>k.
        go_bind (update_hosts E k (kc_Specs k) (remdups (Split (cm_get hostNetWorkNodesListKey cm) CHR '',''))
                   (cm_get slurmConfKey cm)) (\<lambda>r.
        case r of
          Inl err \<Rightarrow> go_return (Some err, cm)
        | Inr (hosts, conf) \<Rightarrow>
            let cm = cm_put slurmConfKey conf cm in
            go_return (None, cm_put configMapReadyKey configMapReady
              (cm_put hostNetWorkNodesListKey (Join hosts '','') cm)))))"

lemmas slurm_key_defs = slurmConfKey_def mungeKey_def configMapReadyKey_def hostNetWorkNodesListKey_def
  controllerEntrypoint_def workerEntrypoint_def

section \<open>Reading the ports back\<close>

definition plain_line :: "string \<Rightarrow> bool" where
  "plain_line l \<longleftrightarrow> \<not> HasPrefix l ''SlurmctldPort='' \<and> \<not> HasPrefix l ''SlurmdPort='' \<and>
     CHR 0x0A \<notin> set l \<and> CHR ''$'' \<notin> set l"

lemma static_lines: "list_all plain_line (conf_head @ conf_paths)"
  by code_simp

lemma conf_ports_skip: "list_all plain_line ls \<Longrightarrow> conf_ports (ls @ rest) c d = conf_ports rest c d"
  by (induction ls) (simp_all add: plain_line_def)


lemma placeholders_ne:
  "placeHolderClusterName \<noteq> []" "placeHolderControlMachine \<noteq> []" "placeHolderControlAddr \<noteq> []"
  "placeHolderSlurmctldPort \<noteq> []" "placeHolderSlurmdPort \<noteq> []"
  by (simp_all add: placeHolderClusterName_def placeHolderControlMachine_def placeHolderControlAddr_def
    placeHolderSlurmctldPort_def placeHolderSlurmdPort_def)

lemma placeholders_hd:
  "hd placeHolderClusterName = CHR ''$''" "hd placeHolderControlMachine = CHR ''$''"
  "hd placeHolderControlAddr = CHR ''$''" "hd placeHolderSlurmctldPort = CHR ''$''"
  "hd placeHolderSlurmdPort = CHR ''$''"
  by (simp_all add: placeHolderClusterName_def placeHolderControlMachine_def placeHolderControlAddr_def
    placeHolderSlurmctldPort_def placeHolderSlurmdPort_def)

abbreviation control_machine :: "string \<Rightarrow> string" where
  "control_machine name \<equiv> GenGeneralName name SchemaReplicaTypeController (Itoa 0)"

lemma control_machine_safe: "template_safe name \<Longrightarrow> template_safe (control_machine name)"
proof -
  have "ToLower SchemaReplicaTypeController @ ''-'' @ Itoa 0 = ''controller-0''" by code_simp
  then show "template_safe name \<Longrightarrow> template_safe (control_machine name)"
    by (auto simp: template_safe_def GenGeneralName_def ReplaceAll_char)
qed

lemma conf_dollar: "CHR ''$'' \<notin> set (lines_nl conf_head)" "CHR ''$'' \<notin> set (lines_nl conf_paths)"
  by code_simp+

lemma fill_template_eq:
  assumes "template_safe name"
  shows "fill_template name c d = lines_nl (conf_head @
     [''ClusterName='' @ name @ '' '', ''ControlMachine='' @ control_machine name @ '' '',
      ''ControlAddr='' @ control_machine name @ '' ''] @ conf_paths @
     [''SlurmctldPort='' @ Itoa c @ '' '', ''SlurmdPort='' @ Itoa d @ '' ''] @ conf_tail)"
proof -
  let ?m = "control_machine name"
  let ?A = "lines_nl conf_head @ ''ClusterName=''"
  let ?B = "'' '' @ nl @ ''ControlMachine=''"
  let ?C = "'' '' @ nl @ ''ControlAddr=''"
  let ?D = "'' '' @ nl @ lines_nl conf_paths @ ''SlurmctldPort=''"
  let ?F = "'' '' @ nl @ ''SlurmdPort=''"
  let ?G = "'' '' @ nl @ lines_nl conf_tail"
  have no: "CHR ''$'' \<notin> set ?A" "CHR ''$'' \<notin> set ?B" "CHR ''$'' \<notin> set ?C" "CHR ''$'' \<notin> set ?D"
    "CHR ''$'' \<notin> set ?F"
    using conf_dollar by (simp_all add: nl_def)
  have safe: "CHR ''$'' \<notin> set name" "CHR ''$'' \<notin> set ?m" "CHR ''$'' \<notin> set (Itoa c)"
    using assms control_machine_safe [OF assms] Itoa_safe [of c] by (simp_all add: template_safe_def)
  have t: "slurmConfTemplate = ?A @ placeHolderClusterName @ (?B @ placeHolderControlMachine @ (?C @
      placeHolderControlAddr @ (?D @ placeHolderSlurmctldPort @ (?F @ placeHolderSlurmdPort @ ?G))))"
    unfolding slurmConfTemplate_def append_assoc ..
  have r1: "Replace 1 placeHolderClusterName name slurmConfTemplate = (?A @ name @ ?B) @
      placeHolderControlMachine @ (?C @ placeHolderControlAddr @ (?D @ placeHolderSlurmctldPort @
      (?F @ placeHolderSlurmdPort @ ?G)))"
    unfolding t by (subst Replace_once) (use no in \<open>simp_all only: placeholders_ne placeholders_hd append_assoc not_False_eq_True\<close>)
  have r2: "Replace 1 placeHolderControlMachine ?m \<dots> = (?A @ name @ ?B @ ?m @ ?C) @
      placeHolderControlAddr @ (?D @ placeHolderSlurmctldPort @ (?F @ placeHolderSlurmdPort @ ?G))"
    by (subst Replace_once) (use no safe in \<open>simp_all only: placeholders_ne placeholders_hd append_assoc set_append Un_iff not_False_eq_True simp_thms\<close>)
  have r3: "Replace 1 placeHolderControlAddr ?m \<dots> = (?A @ name @ ?B @ ?m @ ?C @ ?m @ ?D) @
      placeHolderSlurmctldPort @ (?F @ placeHolderSlurmdPort @ ?G)"
    by (subst Replace_once) (use no safe in \<open>simp_all only: placeholders_ne placeholders_hd append_assoc set_append Un_iff not_False_eq_True simp_thms\<close>)
  have r4: "Replace 1 placeHolderSlurmctldPort (Itoa c) \<dots> = (?A @ name @ ?B @ ?m @ ?C @ ?m @ ?D @
      Itoa c @ ?F) @ placeHolderSlurmdPort @ ?G"
    by (subst Replace_once) (use no safe in \<open>simp_all only: placeholders_ne placeholders_hd append_assoc set_append Un_iff not_False_eq_True simp_thms\<close>)
  have r5: "Replace 1 placeHolderSlurmdPort (Itoa d) \<dots> = (?A @ name @ ?B @ ?m @ ?C @ ?m @ ?D @
      Itoa c @ ?F) @ Itoa d @ ?G"
    by (subst Replace_once) (use no safe in \<open>simp_all only: placeholders_ne placeholders_hd append_assoc set_append Un_iff not_False_eq_True simp_thms\<close>)
  have "fill_template name c d = (?A @ name @ ?B @ ?m @ ?C @ ?m @ ?D @ Itoa c @ ?F) @ Itoa d @ ?G"
    unfolding fill_template_def Let_def r1 r2 r3 r4 r5 ..
  then show ?thesis by (simp add: lines_nl_append lines_nl_Cons)
qed

lemma port_line:
  assumes "in_int64 p" shows "Atoi (TrimSpace (Itoa p @ '' '')) = Inr p"
proof -
  have sp: "\<not> is_space c" if "c \<in> set (Itoa p)" for c
    using that itoa_nat_digits is_digit_not_space by (auto simp: Itoa_def is_space_def list_all_iff split: if_splits)
  have "TrimSpace (Itoa p @ '' '') = Itoa p"
    by (rule TrimSpace_trailing) (simp_all add: sp, simp add: is_space_def)
  with assms show ?thesis by simp
qed

lemma fill_template_ports:
  assumes "template_safe name" "in_int64 c" "in_int64 d" "c \<noteq> 0" "d \<noteq> 0"
  shows "getSlurmPortsFromConf (fill_template name c d @ t) = Inr (c, d)"
proof -
  let ?pre = "[''ClusterName='' @ name @ '' '', ''ControlMachine='' @ control_machine name @ '' '',
      ''ControlAddr='' @ control_machine name @ '' '']"
  let ?ports = "[''SlurmctldPort='' @ Itoa c @ '' '', ''SlurmdPort='' @ Itoa d @ '' '']"
  have pre: "list_all plain_line ?pre"
    using assms(1) control_machine_safe [OF assms(1)] by (simp add: plain_line_def template_safe_def)
  have heads: "list_all plain_line conf_head" "list_all plain_line conf_paths"
    using static_lines by simp_all
  have tail: "list_all (\<lambda>l. CHR 0x0A \<notin> set l) conf_tail" by code_simp
  have "list_all (\<lambda>l. CHR 0x0A \<notin> set l) (conf_head @ ?pre @ conf_paths @ ?ports @ conf_tail)"
    using pre heads tail Itoa_safe [of c] Itoa_safe [of d]
    by (auto simp: plain_line_def template_safe_def list_all_iff)
  then have "getSlurmPortsFromConf (fill_template name c d @ t) =
      conf_ports (conf_head @ ?pre @ conf_paths @ ?ports @ conf_tail @ Split t CHR 0x0A) 0 0"
    unfolding getSlurmPortsFromConf_def fill_template_eq [OF assms(1)] by (simp add: Split_lines_nl)
  also have "\<dots> = conf_ports (?ports @ conf_tail @ Split t CHR 0x0A) 0 0"
    by (simp only: conf_ports_skip heads pre)
  also have "\<dots> = Inr (c, d)"
    using assms port_line [of c] port_line [of d] by (simp add: TrimPrefix_def)
  finally show ?thesis .
qed


text \<open>Generating the configuration does not panic when every replica has a spec, and fails only when
  a memory request does not fit 64 bits.\<close>

lemma createSlurmConf_no_panic:
  assumes "pod_specs_ok k" shows "\<exists>r. createSlurmConf E k c d = Inr r"
proof -
  have "\<forall>v \<in> snd ` set specs. v \<noteq> None \<Longrightarrow> \<exists>r. node_conf E n specs acc = Inr r" for n specs acc
  proof (induction specs arbitrary: acc)
    case (Cons x specs)
    obtain t r where x: "x = (t, Some r)" using Cons.prems by (cases x) auto
    show ?case
    proof (cases "t = SchemaReplicaTypeController")
      case True
      with Cons x show ?thesis by simp
    next
      case False
      with Cons x show ?thesis by (auto simp: createSlurmConfNodesByReplica_def split: option.splits sum.splits)
    qed
  qed simp
  moreover have "\<forall>v \<in> snd ` set (kc_Specs k). v \<noteq> None"
    using assms by (auto dest: pod_specs_okD)
  ultimately obtain r where "node_conf E (kc_Name k) (kc_Specs k) [] = Inr r" by blast
  then show ?thesis by (cases r) (auto simp: createSlurmConf_def createSlurmConfNodes_def)
qed

lemma createSlurmConf_returns:
  assumes "pod_specs_ok k" and mem: "\<And>q. ke_AsInt64 E q \<noteq> None"
  shows "\<exists>conf. createSlurmConf E k c d = Inr (Inr conf)"
proof -
  have "getResourceRequest E (Some l) \<noteq> Inl e" for l e
  proof -
    let ?m = "if ke_QuantityString E (rl_Memory l) \<noteq> ''0'' then rl_Memory l else default_memory"
    obtain y where "ke_AsInt64 E ?m = Some y" using mem [of ?m] by blast
    then show ?thesis by (simp add: getResourceRequest_def Let_def)
  qed
  then have "createSlurmConfNodesByReplica E n t v \<noteq> Inr (Inl e)" for n t v e
    by (auto simp: createSlurmConfNodesByReplica_def split: option.splits sum.splits)
  then have "node_conf E n specs acc \<noteq> Inr (Inl e)" for n specs acc e
    by (induction E n specs acc rule: node_conf.induct) (auto split: sum.splits)
  moreover obtain r where "createSlurmConf E k c d = Inr r" using createSlurmConf_no_panic [OF assms(1)] by blast
  ultimately show ?thesis
    by (auto simp: createSlurmConf_def createSlurmConfNodes_def Let_def split: sum.splits)
qed

text \<open>C22: the ports in the slurm configuration can be read back. Whatever nodes the cluster has,
  \<open>getSlurmPortsFromConf\<close> applied to a configuration that \<open>createSlurmConf\<close> generated returns the two
  ports it was generated with, when they are not zero and the cluster's name has no dollar sign and no
  newline.\<close>

theorem slurm_ports_roundtrip:
  assumes "template_safe (kc_Name k)" "in_int64 c" "in_int64 d" "c \<noteq> 0" "d \<noteq> 0"
    and "createSlurmConf E k c d = Inr (Inr conf)"
  shows "getSlurmPortsFromConf conf = Inr (c, d)"
  using assms(6) fill_template_ports [OF assms(1-5)]
  by (auto simp: createSlurmConf_def Let_def split: sum.splits)

lemma sample_AsInt64: "ke_AsInt64 sample_env q \<noteq> None"
  by (simp add: sample_env_def)

lemma sample_pod_specs_ok: "pod_specs_ok (sample_cluster t)"
  by (simp add: pod_specs_ok_def sample_cluster_def sample_replica_def sample_template_def)

lemma slurm_ports_roundtrip_witness:
  "\<exists>conf. createSlurmConf sample_env (sample_cluster ''slurm'') 10001 10002 = Inr (Inr conf) \<and>
     getSlurmPortsFromConf conf = Inr (10001, 10002)"
proof -
  obtain conf where "createSlurmConf sample_env (sample_cluster ''slurm'') 10001 10002 = Inr (Inr conf)"
    using createSlurmConf_returns [OF sample_pod_specs_ok sample_AsInt64] by blast
  moreover have "template_safe (kc_Name (sample_cluster ''slurm''))" "in_int64 10001" "in_int64 10002"
    by code_simp+
  ultimately show ?thesis using slurm_ports_roundtrip by force
qed

section \<open>Setting the ports\<close>

definition with_slurm_ports :: "int \<Rightarrow> int \<Rightarrow> PodSpec \<Rightarrow> PodSpec" where
  "with_slurm_ports c d ps =
     (case setSlurmDefaultPorts ps ClusterDefaultContainerName c d of Inr ps' \<Rightarrow> ps' | Inl _ \<Rightarrow> ps)"

lemma EnsureDefaultPort_names:
  assumes "i < length (ps_Containers spec)"
  obtains spec' where "EnsureDefaultPort spec name port i = Inr spec'"
    "map c_Name (ps_Containers spec') = map c_Name (ps_Containers spec)"
    "name \<in> cp_Name ` set (c_Ports (ps_Containers spec' ! i))"
    "set (c_Ports (ps_Containers spec ! i)) \<subseteq> set (c_Ports (ps_Containers spec' ! i))"
proof (cases "list_ex (\<lambda>p. cp_Name p = name) (c_Ports (ps_Containers spec ! i))")
  case True
  with assms that [of spec] show ?thesis
    by (auto simp: EnsureDefaultPort_def HasDefaultPort_def list_ex_iff)
next
  case False
  let ?c = "ps_Containers spec ! i"
  have names: "map c_Name ((ps_Containers spec)[i := ?c\<lparr>c_Ports := q\<rparr>]) = map c_Name (ps_Containers spec)" for q
    using assms by (simp add: map_update list_update_same_conv)
  have "EnsureDefaultPort spec name port i = Inr (spec\<lparr>ps_Containers := (ps_Containers spec)[i :=
      ?c\<lparr>c_Ports := c_Ports ?c @ [\<lparr>cp_Name = name, cp_ContainerPort = port\<rparr>]\<rparr>]\<rparr>)"
    using False assms by (simp add: EnsureDefaultPort_def HasDefaultPort_def SetDefaultPort_def Let_def)
  then show ?thesis
  proof (rule that)
    show "map c_Name (ps_Containers (spec\<lparr>ps_Containers := (ps_Containers spec)[i :=
      ?c\<lparr>c_Ports := c_Ports ?c @ [\<lparr>cp_Name = name, cp_ContainerPort = port\<rparr>]\<rparr>]\<rparr>)) = map c_Name (ps_Containers spec)"
      using names by simp
  qed (use assms in auto)
qed

lemma setSlurmDefaultPorts_ok:
  assumes "ps_Containers ps \<noteq> []"
  shows "setSlurmDefaultPorts ps ClusterDefaultContainerName c d = Inr (with_slurm_ports c d ps)"
    and "map c_Name (ps_Containers (with_slurm_ports c d ps)) = map c_Name (ps_Containers ps)"
    and "{SlurmctlPortName, SlurmdPortName} \<subseteq> cp_Name ` set (c_Ports (ps_Containers (with_slurm_ports c d ps) !
      GetDefaultContainerIndex ps ClusterDefaultContainerName))"
proof -
  let ?i = "GetDefaultContainerIndex ps ClusterDefaultContainerName"
  have i: "?i < length (ps_Containers ps)" by (rule GetDefaultContainerIndex_bound [OF assms])
  obtain ps1 where 1: "EnsureDefaultPort ps SlurmctlPortName (word_of_int c) ?i = Inr ps1"
    "map c_Name (ps_Containers ps1) = map c_Name (ps_Containers ps)"
    "SlurmctlPortName \<in> cp_Name ` set (c_Ports (ps_Containers ps1 ! ?i))"
    using i by (rule EnsureDefaultPort_names)
  have "?i < length (ps_Containers ps1)" using i 1(2) by (metis length_map)
  then obtain ps2 where 2: "EnsureDefaultPort ps1 SlurmdPortName (word_of_int d) ?i = Inr ps2"
    "map c_Name (ps_Containers ps2) = map c_Name (ps_Containers ps1)"
    "SlurmdPortName \<in> cp_Name ` set (c_Ports (ps_Containers ps2 ! ?i))"
    "set (c_Ports (ps_Containers ps1 ! ?i)) \<subseteq> set (c_Ports (ps_Containers ps2 ! ?i))"
    by (rule EnsureDefaultPort_names)
  have e: "setSlurmDefaultPorts ps ClusterDefaultContainerName c d = Inr ps2"
    using 1(1) 2(1) by (simp add: setSlurmDefaultPorts_def Let_def)
  then show "setSlurmDefaultPorts ps ClusterDefaultContainerName c d = Inr (with_slurm_ports c d ps)"
    and "map c_Name (ps_Containers (with_slurm_ports c d ps)) = map c_Name (ps_Containers ps)"
    using 1(2) 2(2) by (simp_all add: with_slurm_ports_def)
  show "{SlurmctlPortName, SlurmdPortName} \<subseteq> cp_Name ` set (c_Ports (ps_Containers (with_slurm_ports c d ps) ! ?i))"
    using 1(3) 2(3,4) e by (auto simp: with_slurm_ports_def)
qed

lemma run_setSlurmPorts:
  assumes "pod_specs_ok (kcl s)"
  shows "setSlurmPorts c d s = Ret () (s\<lparr>kcl := map_pod_specs (with_slurm_ports c d) (kcl s)\<rparr>)"
  unfolding setSlurmPorts_def
proof (rule run_each_pod_spec)
  show "distinct (map fst (kc_Specs (kcl s)))" using assms by (simp add: pod_specs_ok_def)
next
  fix t v assume "(t, v) \<in> set (kc_Specs (kcl s))"
  from pod_specs_okD [OF assms this] obtain r where "v = Some r" "ps_Containers (pt_Spec (r_Template r)) \<noteq> []"
    by blast
  with setSlurmDefaultPorts_ok(1) show "\<exists>r. v = Some r \<and> setSlurmDefaultPorts (pt_Spec (r_Template r))
      ClusterDefaultContainerName c d = Inr (with_slurm_ports c d (pt_Spec (r_Template r)))" by blast
qed

lemma with_slurm_ports_ok: "pod_specs_ok k \<Longrightarrow> pod_specs_ok (map_pod_specs (with_slurm_ports c d) k)"
proof (rule pod_specs_ok_map)
  fix ps :: PodSpec assume "ps_Containers ps \<noteq> []"
  from setSlurmDefaultPorts_ok(2) [OF this, of c d] this show "ps_Containers (with_slurm_ports c d ps) \<noteq> []"
    by (metis map_is_Nil_conv)
qed


section \<open>Reconciling the config map\<close>

text \<open>What the random source is relied on for: \<open>Intn\<close> stays in range, a draw is eventually different
  from the first, and \<open>Int63\<close> keeps producing usable bits.\<close>

definition random_ok :: "'w kenv \<Rightarrow> bool" where
  "random_ok E \<longleftrightarrow> intn_ok E \<and> (\<forall>w. varied E w) \<and> (\<forall>w. fair_source (fst (ke_Int63 E w)))"

lemma sample_random_ok: "random_ok sample_env"
proof -
  have "draw sample_env (Suc 0) w \<noteq> draw sample_env 0 w" for w
  proof -
    have "(w_rand w + 1) mod 10001 \<noteq> w_rand w mod 10001" by (simp add: mod_eq_dvd_iff)
    then show ?thesis by (simp add: draw_def GenRandomInt31n_def sample_env_def)
  qed
  then have "varied sample_env w" for w unfolding varied_def by blast
  moreover have "fst (ke_Int63 sample_env w) = (\<lambda>_. 0)" for w by (simp add: sample_env_def)
  ultimately show ?thesis using sample_intn_ok fair_zero by (simp add: random_ok_def)
qed

definition good_port :: "int \<Rightarrow> bool" where
  "good_port p \<longleftrightarrow> p \<noteq> 0 \<and> in_int64 p"

lemma sint32_in_int64: "in_int64 (sint (w :: int32))"
  using sint_ge [of w] sint_lt [of w] by (simp add: in_int64_def)

lemma scan_ports_range:
  "in_int64 c \<Longrightarrow> in_int64 d \<Longrightarrow> scan_ports ps c d = (c', d') \<Longrightarrow> in_int64 c' \<and> in_int64 d'"
  by (induction ps c d rule: scan_ports.induct) (auto simp: Let_def sint32_in_int64 split: if_splits)

lemma getSlurmPortsFromSpec_ok:
  assumes "\<forall>v \<in> snd ` set specs. spec_ok v"
  shows "\<exists>r. getSlurmPortsFromSpec specs ClusterDefaultContainerName = Inr r \<and>
     (\<forall>c d. r = Inr (c, d) \<longrightarrow> good_port c \<and> good_port d)"
  using assms
proof (induction specs)
  case (Cons x specs)
  from Cons.prems spec_okD [of "snd x"] obtain t r where
    x: "x = (t, Some r)" and ne: "ps_Containers (pt_Spec (r_Template r)) \<noteq> []" by (cases x) auto
  let ?ps = "pt_Spec (r_Template r)"
  obtain c d where cd: "scan_ports (c_Ports (ps_Containers ?ps ! GetDefaultContainerIndex ?ps ClusterDefaultContainerName)) 0 0 = (c, d)"
    by fastforce
  have "getSlurmDefaultPort ?ps ClusterDefaultContainerName = Inr (c, d)"
    using cd GetDefaultContainerIndex_bound [OF ne] by (simp add: getSlurmDefaultPort_def Let_def)
  moreover have "in_int64 c \<and> in_int64 d" using cd by (rule scan_ports_range [rotated 2]) (simp_all add: in_int64_def)
  ultimately show ?case using x Cons by (auto simp: good_port_def)
qed simp

text \<open>A generated configuration has two good ports.\<close>

definition conf_ok :: "string \<Rightarrow> bool" where
  "conf_ok conf \<longleftrightarrow> (case getSlurmPortsFromConf conf of Inr (c, d) \<Rightarrow> c \<noteq> 0 \<and> d \<noteq> 0 | Inl _ \<Rightarrow> False)"

lemma createSlurmConf_ok:
  assumes "template_safe (kc_Name k)" "good_port c" "good_port d" "createSlurmConf E k c d = Inr (Inr conf)"
  shows "conf_ok conf"
  using assms(2-4) fill_template_ports [OF assms(1), of c d]
  by (auto simp: createSlurmConf_def Let_def conf_ok_def good_port_def split: sum.splits)

lemma wp_random_ports:
  assumes "random_ok E"
    and "\<And>c d w. good_port c \<Longrightarrow> good_port d \<Longrightarrow> Q (c, d) (s\<lparr>world := w\<rparr>)"
  shows "wp (slurm_random_ports E) Q s"
proof -
  obtain c d w where g: "genSlurmRandomPort E (world s) = Some ((c, d), w)"
    and "10000 \<le> c" "c \<le> 20000" "10000 \<le> d" "d \<le> 20000"
    using random_ports_return [of E "world s"] assms(1) by (auto simp: random_ok_def)
  then have "good_port c" "good_port d" by (simp_all add: good_port_def in_int64_def)
  then show ?thesis using assms(2) g by (simp add: wp_def slurm_random_ports_def)
qed

lemma wp_genSlurmConf:
  assumes "pod_specs_ok (kcl s)" "template_safe (kc_Name (kcl s))" "random_ok E"
  shows "wp (genSlurmConf E) (\<lambda>r s'. (\<forall>conf. r = Inr conf \<longrightarrow> conf_ok conf) \<and> pod_specs_ok (kcl s') \<and>
     kc_Meta (kcl s') = kc_Meta (kcl s)) s"
proof -
  obtain r where r: "getSlurmPortsFromSpec (kc_Specs (kcl s)) ClusterDefaultContainerName = Inr r"
    and good: "\<And>c d. r = Inr (c, d) \<Longrightarrow> good_port c \<and> good_port d"
    using getSlurmPortsFromSpec_ok [of "kc_Specs (kcl s)"] assms(1) by (auto simp: pod_specs_ok_iff)
  let ?Q = "\<lambda>r s'. (\<forall>conf. r = Inr conf \<longrightarrow> conf_ok conf) \<and> pod_specs_ok (kcl s') \<and> kc_Meta (kcl s') = kc_Meta (kcl s)"
  have rest: "wp (go_seq (setSlurmPorts c d) (go_bind get_cluster (\<lambda>kcluster.
     go_bind (go_lift (createSlurmConf E kcluster c d)) (\<lambda>r.
     go_return (case r of Inl err \<Rightarrow> Inl (errorf_v ''generateSlurmConfig err:'' err) | Inr conf \<Rightarrow> Inr conf))))) ?Q u"
    if "good_port c" "good_port d" "kcl u = kcl s" for c d and u :: "('a, 'b) cstate"
  proof -
    let ?k = "map_pod_specs (with_slurm_ports c d) (kcl s)"
    have ok: "pod_specs_ok ?k" by (rule with_slurm_ports_ok [OF assms(1)])
    obtain r where r: "createSlurmConf E ?k c d = Inr r" using createSlurmConf_no_panic [OF ok] by blast
    have "conf_ok conf" if "r = Inr conf" for conf
      using createSlurmConf_ok [of ?k c d E conf] assms(2) r that \<open>good_port c\<close> \<open>good_port d\<close> by simp
    with ok r run_setSlurmPorts [of u c d] assms(1) \<open>kcl u = kcl s\<close> show ?thesis
      by (auto simp: wp_def go_run get_cluster_def split: sum.splits)
  qed
  show ?thesis
  proof (cases r)
    case (Inr p)
    then show ?thesis using r rest [of "fst p" "snd p" s] good [of "fst p" "snd p"]
      by (simp add: genSlurmConf_def wp)
  next
    case (Inl e)
    then show ?thesis
      using r by (simp add: genSlurmConf_def wp) (rule wp_random_ports [OF assms(3)], insert rest, simp add: wp)
  qed
qed


lemma slurm_keys_distinct [simp]:
  "slurmConfKey \<noteq> mungeKey" "slurmConfKey \<noteq> configMapReadyKey" "slurmConfKey \<noteq> hostNetWorkNodesListKey"
  "slurmConfKey \<noteq> controllerEntrypoint" "slurmConfKey \<noteq> workerEntrypoint" "mungeKey \<noteq> slurmConfKey"
  "mungeKey \<noteq> configMapReadyKey" "mungeKey \<noteq> hostNetWorkNodesListKey" "mungeKey \<noteq> controllerEntrypoint"
  "mungeKey \<noteq> workerEntrypoint" "configMapReadyKey \<noteq> slurmConfKey" "configMapReadyKey \<noteq> mungeKey"
  "configMapReadyKey \<noteq> hostNetWorkNodesListKey" "configMapReadyKey \<noteq> controllerEntrypoint" "configMapReadyKey \<noteq> workerEntrypoint"
  "hostNetWorkNodesListKey \<noteq> slurmConfKey" "hostNetWorkNodesListKey \<noteq> mungeKey" "hostNetWorkNodesListKey \<noteq> configMapReadyKey"
  "hostNetWorkNodesListKey \<noteq> controllerEntrypoint" "hostNetWorkNodesListKey \<noteq> workerEntrypoint" "controllerEntrypoint \<noteq> slurmConfKey"
  "controllerEntrypoint \<noteq> mungeKey" "controllerEntrypoint \<noteq> configMapReadyKey" "controllerEntrypoint \<noteq> hostNetWorkNodesListKey"
  "controllerEntrypoint \<noteq> workerEntrypoint" "workerEntrypoint \<noteq> slurmConfKey" "workerEntrypoint \<noteq> mungeKey"
  "workerEntrypoint \<noteq> configMapReadyKey" "workerEntrypoint \<noteq> hostNetWorkNodesListKey" "workerEntrypoint \<noteq> controllerEntrypoint"
  by (simp_all add: slurm_key_defs)

lemma map_of_add_entrypoints:
  "map_of (cm_data (add_entrypoints cm)) k =
     (case map_of (cm_data cm) k of Some v \<Rightarrow> Some v
      | None \<Rightarrow> if k = controllerEntrypoint then Some genControllerEntrypoint
                else if k = workerEntrypoint then Some genWorkerEntrypoint else None)"
  by (auto simp: add_entrypoints_def Let_def split: option.splits)

text \<open>The entries reconciliation keeps: all but the ready flag and the list of host nodes.\<close>

definition keeps_entries :: "ConfigMap \<Rightarrow> ConfigMap \<Rightarrow> bool" where
  "keeps_entries cm cm' \<longleftrightarrow> map_of (cm_data cm) |` (- {configMapReadyKey, hostNetWorkNodesListKey}) \<subseteq>\<^sub>m map_of (cm_data cm')"

lemma keeps_entriesI:
  "(\<And>k v. map_of (cm_data cm) k = Some v \<Longrightarrow> k \<noteq> configMapReadyKey \<Longrightarrow> k \<noteq> hostNetWorkNodesListKey \<Longrightarrow>
     map_of (cm_data cm') k = Some v) \<Longrightarrow> keeps_entries cm cm'"
  by (auto simp: keeps_entries_def map_le_def restrict_map_def split: if_splits)

lemma keeps_entriesD:
  "keeps_entries cm cm' \<Longrightarrow> map_of (cm_data cm) k = Some v \<Longrightarrow> k \<noteq> configMapReadyKey \<Longrightarrow>
   k \<noteq> hostNetWorkNodesListKey \<Longrightarrow> map_of (cm_data cm') k = Some v"
  unfolding keeps_entries_def map_le_def by (drule bspec [of _ _ k]) (auto simp: restrict_map_def)

lemma keeps_entries_trans: "keeps_entries a b \<Longrightarrow> keeps_entries b c \<Longrightarrow> keeps_entries a c"
  by (rule keeps_entriesI) (blast dest: keeps_entriesD)

definition slurm_cm_complete :: "ConfigMap \<Rightarrow> bool" where
  "slurm_cm_complete cm \<longleftrightarrow>
     list_all (\<lambda>k. map_of (cm_data cm) k \<noteq> None) [controllerEntrypoint, workerEntrypoint, slurmConfKey, configMapReadyKey] \<and>
     conf_ok (cm_get slurmConfKey cm) \<and>
     (map_of (cm_data cm) mungeKey \<noteq> None \<or> (\<exists>key. map_of (cm_binary cm) mungeKey = Some key \<and> length key = mungeKeylenInInt))"

lemma host_nodes_ok: "\<forall>v \<in> snd ` set specs. spec_ok v \<Longrightarrow> \<exists>r. host_nodes n specs = Inr r"
proof (induction specs)
  case (Cons x specs)
  from Cons.prems spec_okD [of "snd x"] obtain t r where "x = (t, Some r)" by (cases x) auto
  with Cons show ?case by (auto split: sum.splits)
qed simp

lemma wp_genMungeKey:
  assumes "random_ok E" and "\<And>key w. length key = mungeKeylenInInt \<Longrightarrow> Q key (s\<lparr>world := w\<rparr>)"
  shows "wp (genMungeKey E) Q s"
proof -
  obtain src w where w: "ke_Int63 E (world s) = (src, w)" by fastforce
  moreover have "fair_source (fst (ke_Int63 E (world s)))" using assms(1) by (simp add: random_ok_def)
  ultimately have "fair_source src" by simp
  from RandStr_returns [OF this, of mungeKeylenInInt] obtain key where
    "RandStr src mungeKeylenInInt = Some key" "length key = mungeKeylenInInt" by blast
  then show ?thesis using assms(2) w by (simp add: genMungeKey_def wp)
qed

lemma set_ready_keep:
  "k \<noteq> configMapReadyKey \<Longrightarrow> k \<noteq> hostNetWorkNodesListKey \<Longrightarrow>
     map_of (cm_data (set_ready hosts cm)) k = map_of (cm_data cm) k"
  by (simp add: set_ready_def)

lemma set_ready_ready: "map_of (cm_data (set_ready hosts cm)) configMapReadyKey \<noteq> None"
  by (simp add: set_ready_def)

lemma wp_finish_config_map:
  assumes "pod_specs_ok (kcl s)" "random_ok E"
    and keys: "map_of (cm_data cm) controllerEntrypoint \<noteq> None" "map_of (cm_data cm) workerEntrypoint \<noteq> None"
      "map_of (cm_data cm) slurmConfKey = Some conf" and conf: "conf_ok conf"
  shows "wp (finish_config_map E cm) (\<lambda>r s'. fst r = None \<and> slurm_cm_complete (snd r) \<and> keeps_entries cm (snd r)) s"
proof -
  let ?Q = "\<lambda>r s'. fst r = None \<and> slurm_cm_complete (snd r) \<and> keeps_entries cm (snd r)"
  obtain hosts where h: "getHostNetWorkNodeList (kcl s) = Inr hosts"
    using host_nodes_ok [of "kc_Specs (kcl s)"] assms(1) by (auto simp: getHostNetWorkNodeList_def pod_specs_ok_iff)
  let ?cm = "set_ready hosts cm"
  have data: "map_of (cm_data ?cm) controllerEntrypoint \<noteq> None" "map_of (cm_data ?cm) workerEntrypoint \<noteq> None"
    "map_of (cm_data ?cm) slurmConfKey = Some conf" "map_of (cm_data ?cm) configMapReadyKey \<noteq> None"
    using keys by (simp_all add: set_ready_keep set_ready_ready)
  have keep: "keeps_entries cm ?cm" by (rule keeps_entriesI) (simp add: set_ready_keep)
  have munged: "?Q (None, ?cm\<lparr>cm_BinaryData := Some (AList.update mungeKey key (cm_binary ?cm))\<rparr>) t"
    if "length key = mungeKeylenInInt" for key t
    using that data keep conf by (simp add: slurm_cm_complete_def cm_get_def keeps_entries_def)
  have there: "?Q (None, ?cm) t" if "map_of (cm_data ?cm) mungeKey \<noteq> None" for t
    using that data keep conf by (simp add: slurm_cm_complete_def cm_get_def)
  show ?thesis
  proof (cases "map_of (cm_data ?cm) mungeKey = None")
    case True
    then show ?thesis
      by (simp add: finish_config_map_def wp h Let_def) (rule wp_genMungeKey [OF assms(2)], insert munged, simp add: wp)
  next
    case False
    then show ?thesis using there by (auto simp: finish_config_map_def wp h Let_def)
  qed
qed

lemma wp_fill_config_map:
  assumes "pod_specs_ok (kcl s)" "template_safe (kc_Name (kcl s))" "random_ok E"
    and "map_of (cm_data cm) slurmConfKey = None"
  shows "wp (fill_config_map E cm) (\<lambda>r s'. fst r = None \<longrightarrow> slurm_cm_complete (snd r) \<and> keeps_entries cm (snd r)) s"
proof -
  let ?cm = "add_entrypoints cm"
  let ?Q = "\<lambda>r (s' :: ('a, 'b) cstate). fst r = None \<longrightarrow> slurm_cm_complete (snd r) \<and> keeps_entries cm (snd r)"
  have none: "map_of (cm_data ?cm) slurmConfKey = None"
    using assms(4) by (simp add: map_of_add_entrypoints)
  have fin: "wp (finish_config_map E (cm_put slurmConfKey conf ?cm)) ?Q t"
    if "conf_ok conf" "pod_specs_ok (kcl t)" for conf t
  proof (rule wp_mono [OF wp_finish_config_map [OF that(2) assms(3) _ _ _ that(1)]])
    show "map_of (cm_data (cm_put slurmConfKey conf ?cm)) controllerEntrypoint \<noteq> None"
      "map_of (cm_data (cm_put slurmConfKey conf ?cm)) workerEntrypoint \<noteq> None"
      "map_of (cm_data (cm_put slurmConfKey conf ?cm)) slurmConfKey = Some conf"
      by (simp_all add: map_of_add_entrypoints split: option.splits)
  next
    fix r :: "gerr option \<times> ConfigMap" and s' :: "('a, 'b) cstate"
    assume "fst r = None \<and> slurm_cm_complete (snd r) \<and> keeps_entries (cm_put slurmConfKey conf ?cm) (snd r)"
    moreover have "keeps_entries cm (cm_put slurmConfKey conf ?cm)"
      by (rule keeps_entriesI) (use assms(4) in \<open>auto simp: map_of_add_entrypoints\<close>)
    ultimately show "?Q r s'" by (blast intro: keeps_entries_trans)
  qed
  have "wp (genSlurmConf E) (\<lambda>r. wp (case r of Inl err \<Rightarrow> go_return (Some err, ?cm)
      | Inr conf \<Rightarrow> finish_config_map E (cm_put slurmConfKey conf ?cm)) ?Q) s"
    by (rule wp_mono [OF wp_genSlurmConf [OF assms(1-3)]]) (auto simp: wp_return fin split: sum.splits)
  then show ?thesis using none by (simp add: fill_config_map_def Let_def wp_bind)
qed

lemma slurm_reconcile_again:
  assumes "slurm_cm_complete cm" "pod_specs_ok (kcl t)"
  shows "\<exists>c d. slurm_ReconcileConfigMap E cm t = Ret (None, cm) (t\<lparr>kcl := map_pod_specs (with_slurm_ports c d) (kcl t)\<rparr>)"
proof -
  from assms(1) obtain conf where conf: "map_of (cm_data cm) slurmConfKey = Some conf" and "conf_ok conf"
    by (auto simp: slurm_cm_complete_def cm_get_def)
  then obtain c d where ports: "getSlurmPortsFromConf conf = Inr (c, d)"
    by (auto simp: conf_ok_def split: sum.splits)
  have "\<not> needReconcileConfigMap cm" using assms(1) by (simp add: slurm_cm_complete_def needReconcileConfigMap_def)
  with conf ports run_setSlurmPorts [OF assms(2), of c d]
  have "slurm_ReconcileConfigMap E cm t = Ret (None, cm) (t\<lparr>kcl := map_pod_specs (with_slurm_ports c d) (kcl t)\<rparr>)"
    by (simp add: slurm_ReconcileConfigMap_def Let_def go_run)
  then show ?thesis by blast
qed




end
