(* ===== verification/Slurm.thy ===== *)
theory Slurm
  imports SlurmConf
begin

text \<open>
  The rest of the slurm schema: \<open>slurm_schema/slurm_schema.go\<close>, \<open>env.go\<close>, \<open>initcontainer.go\<close> and the
  template functions of \<open>util.go\<close>. \<open>SetClusterSpec\<close> turns the user's pod template into the template of a
  slurm node; \<open>UpdateClusterStatus\<close> derives the conditions of the cluster from the pod counters.
\<close>

section \<open>Environment of a pod\<close>

definition EnvSlurmctlPort :: string where "EnvSlurmctlPort = ''SLURMCTL_PORT''"
definition EnvSlurmdPort :: string where "EnvSlurmdPort = ''SLURMD_PORT''"
definition slurm_EnvControllerAddress :: string where "slurm_EnvControllerAddress = ''SLURM_CONTROLLER_ADDRESS''"
definition EnvSlurmConf :: string where "EnvSlurmConf = ''SLURM_CONF''"

fun total_from :: "int32 \<Rightarrow> ReplicaSpecs \<Rightarrow> string + int32" where
  "total_from n [] = Inr n"
| "total_from n ((t, r) # rs) =
     (case r of
        None \<Rightarrow> Inl ''nil pointer dereference''
      | Some r \<Rightarrow> (case r_Replicas r of
          None \<Rightarrow> Inl ''nil pointer dereference''
        | Some k \<Rightarrow> total_from (n + k) rs))"

definition getTotalReplicas :: "KubeCluster \<Rightarrow> string + int32" where
  "getTotalReplicas kcluster = total_from 0 (kc_Specs kcluster)"

definition worker_replicas :: "KubeCluster \<Rightarrow> string + int" where
  "worker_replicas k =
     (case getTotalReplicas k of
        Inl p \<Rightarrow> Inl p
      | Inr totalReplicas \<Rightarrow> (case replica_spec k SchemaReplicaTypeController of
          Inl p \<Rightarrow> Inl p
        | Inr r \<Rightarrow> (case r_Replicas r of
            None \<Rightarrow> Inl ''nil pointer dereference''
          | Some n \<Rightarrow> Inr (sint (totalReplicas - n)))))"

definition slurm_env :: "KubeCluster \<Rightarrow> string \<Rightarrow> int \<Rightarrow> int \<Rightarrow> int \<Rightarrow> EnvVar list" where
  "slurm_env k rtype slurmctlPort slurmdPort workers =
     [env_val EnvSlurmdPort (Itoa slurmdPort),
      env_val EnvSlurmctlPort (Itoa slurmctlPort),
      env_val slurm_EnvControllerAddress (GenGeneralName (kc_Name k) SchemaReplicaTypeController (Itoa 0)),
      env_field ''LOCAL_NAME'' ''metadata.name'',
      env_field ''LOCAL_IP'' ''status.podIP'',
      env_val EnvSlurmConf (SlurmConfDir @ ''/'' @ slurmConfKey),
      env_val ''SLURM_ROLE'' rtype,
      env_val ''SLURM_WORKER_REPLICAS'' (Itoa workers)]"

definition slurm_local_env :: "'w kenv \<Rightarrow> ResourceList \<Rightarrow> EnvVar list" where
  "slurm_local_env E resourceList =
     [env_val ''LOCAL_CPU'' (ke_QuantityString E (rl_Cpu resourceList)),
      env_val ''LOCAL_GPU'' (ke_QuantityString E (getGpuQuantity resourceList)),
      env_val ''LOCAL_MEM'' (ke_QuantityString E (rl_Memory resourceList))]"

definition slurm_setPodEnv ::
  "'w kenv \<Rightarrow> KubeCluster \<Rightarrow> PodTemplateSpec \<Rightarrow> string \<Rightarrow> string \<Rightarrow> string \<Rightarrow> int \<Rightarrow> int \<Rightarrow> string + PodTemplateSpec" where
  "slurm_setPodEnv E slurmSchemaCluster t defaultContainerName rtype index slurmctlPort slurmdPort =
     (case worker_replicas slurmSchemaCluster of
        Inl p \<Rightarrow> Inl p
      | Inr workers \<Rightarrow>
          let env = slurm_env slurmSchemaCluster rtype slurmctlPort slurmdPort workers;
              t = on_init_containers (add_env env) t
          in case replica_spec slurmSchemaCluster rtype of
               Inl p \<Rightarrow> Inl p
             | Inr replicaSpec \<Rightarrow>
                 let resourceList = getResourceRequestList replicaSpec
                 in Inr (on_containers defaultContainerName
                      (\<lambda>c. add_env (slurm_local_env E resourceList) (add_env env c)) t))"

section \<open>Init container, volumes, command, security\<close>

definition EmptyVolume :: string where "EmptyVolume = ''slurm-config-dir''"
definition EmptyVolumeMountPathInInitContainer :: string where "EmptyVolumeMountPathInInitContainer = ''/mnt/share''"
definition EmptyVolumeMountPathInMainContainer :: string where "EmptyVolumeMountPathInMainContainer = SlurmConfDir"
definition EntrypointFilePath :: string where "EntrypointFilePath = ''/tmp/entrypoint.sh''"
definition SlurmCmdDir :: string where "SlurmCmdDir = SlurmConfDir"

definition waitReadyCommand :: string where
  \<open>waitReadyCommand = ''while [ "$(cat '' @ configMapReadyFile @ '')" != "'' @ configMapReady @
     ''" ]; do echo "slurm.conf not ready"; sleep 5; done && echo "slurm.conf ready"''\<close>

definition cpSlurmCmdCommand :: string where
  \<open>cpSlurmCmdCommand = ''if [ -d '' @ SlurmCmdDir @ '' ] && [ -d '' @ EmptyVolumeMountPathInInitContainer @
     '' ];then cp -r '' @ SlurmCmdDir @ ''/* '' @ EmptyVolumeMountPathInInitContainer @ '';fi''\<close>

definition slurm_init_command :: "string \<Rightarrow> string list \<Rightarrow> string list" where
  "slurm_init_command rtype command =
     (if rtype = SchemaReplicaTypeController
      then [''sh'', ''-c'', Join [waitReadyCommand, cpSlurmCmdCommand] '' && '']
      else [''sh'', ''-c'', Join [waitReadyCommand, cpSlurmCmdCommand, Join command '' ''] '' && ''])"

definition slurm_setInitContainer ::
  "'w kenv \<Rightarrow> initContainerGenerator \<Rightarrow> KubeCluster \<Rightarrow> PodTemplateSpec \<Rightarrow> string \<Rightarrow> string + (gerr + PodTemplateSpec)" where
  "slurm_setInitContainer E g kcluster podTemplate rtype =
     (case GetInitContainer E g (GenGeneralName (kc_Name kcluster) SchemaReplicaTypeController (Itoa 0)) of
        Inl err \<Rightarrow> Inr (Inl err)
      | Inr initContainers \<Rightarrow> (case append_init (slurm_init_command rtype) initContainers podTemplate of
          Inl p \<Rightarrow> Inl p
        | Inr t \<Rightarrow> Inr (Inr t)))"

text \<open>The mode \<open>0777\<close> is octal.\<close>

definition slurm_setVolumes :: "PodTemplateSpec \<Rightarrow> string \<Rightarrow> string \<Rightarrow> string \<Rightarrow> PodTemplateSpec" where
  "slurm_setVolumes template defaultContainerName rtype configMapName =
     (let t = add_volumes
            [\<lparr> v_Name = configMapName, v_Source = ConfigMapVolume configMapName 511 \<rparr>,
             \<lparr> v_Name = EmptyVolume, v_Source = EmptyDirVolume \<rparr>] template;
          t = on_init_containers (add_mounts
            [mount configMapName (SlurmConfDir @ ''/'' @ slurmConfKey) slurmConfKey True,
             mount EmptyVolume EmptyVolumeMountPathInInitContainer [] False,
             mount configMapName configMapReadyFile configMapReadyKey False]) t
      in on_containers defaultContainerName (add_mounts
           ([mount EmptyVolume EmptyVolumeMountPathInMainContainer [] False,
             mount configMapName (SlurmConfDir @ ''/'' @ slurmConfKey) slurmConfKey True,
             mount configMapName (SlurmConfDir @ ''/munge/munge/'' @ mungeKey) mungeKey False] @
            (if rtype = SchemaReplicaTypeController
             then [mount configMapName EntrypointFilePath controllerEntrypoint False]
             else [mount configMapName EntrypointFilePath workerEntrypoint False]))) t)"

definition slurm_setPodNetwork :: "PodTemplateSpec \<Rightarrow> PodTemplateSpec" where
  "slurm_setPodNetwork template = set_dns template"

definition slurm_setSecurity :: "PodTemplateSpec \<Rightarrow> string \<Rightarrow> PodTemplateSpec" where
  "slurm_setSecurity t defaultContainerName = on_containers defaultContainerName run_as_root t"

definition slurm_setCmd :: "PodTemplateSpec \<Rightarrow> string \<Rightarrow> PodTemplateSpec" where
  "slurm_setCmd t defaultContainerName = on_containers defaultContainerName (\<lambda>c. c\<lparr>c_Command :=
     [''/bin/bash'', ''-c'', EntrypointFilePath @ '' <<< '' @ EmptyVolumeMountPathInMainContainer]\<rparr>) t"

section \<open>The schema reconciler\<close>

definition slurm_GetDefaultContainerName :: string where
  "slurm_GetDefaultContainerName = ClusterDefaultContainerName"

definition slurm_SetClusterSpec ::
  "'w kenv \<Rightarrow> initContainerGenerator \<Rightarrow> KubeCluster \<Rightarrow> PodTemplateSpec \<Rightarrow> string \<Rightarrow> string \<Rightarrow> ConfigMap \<Rightarrow>
   string + (gerr + PodTemplateSpec)" where
  "slurm_SetClusterSpec E g kcluster podTemplate rtype index configMap =
     (case getSlurmPortsFromConf (cm_get slurmConfKey configMap) of
        Inl err \<Rightarrow> Inr (Inl err)
      | Inr (slurmctlPort, slurmdPort) \<Rightarrow>
          (case slurm_setPodEnv E kcluster podTemplate slurm_GetDefaultContainerName rtype index slurmctlPort slurmdPort of
             Inl p \<Rightarrow> Inl p
           | Inr t \<Rightarrow> (case slurm_setInitContainer E g kcluster t rtype of
               Inl p \<Rightarrow> Inl p
             | Inr (Inl err) \<Rightarrow> Inr (Inl err)
             | Inr (Inr t) \<Rightarrow>
                 let t = slurm_setVolumes t slurm_GetDefaultContainerName rtype (om_Name (cm_Meta configMap));
                     t = slurm_setPodNetwork t;
                     t = slurm_setCmd t slurm_GetDefaultContainerName
                 in Inr (Inr (slurm_setSecurity t slurm_GetDefaultContainerName)))))"

definition slurm_Default :: "('w, 'st, unit) ctl" where
  "slurm_Default = go_modify (\<lambda>s. s\<lparr>kcl := (kcl s)\<lparr>kc_Spec := (kc_Spec (kcl s))\<lparr>s_ClusterReplicaSpec :=
     SetTypeNameToCamelCase (kc_Specs (kcl s)) SchemaReplicaTypeController\<rparr>\<rparr>\<rparr>)"

definition slurm_IsController :: "string \<Rightarrow> bool" where
  "slurm_IsController rType \<longleftrightarrow> SchemaReplicaTypeController = rType"

definition slurm_ValidateV1KubeCluster :: "KubeCluster \<Rightarrow> string + gerr option" where
  "slurm_ValidateV1KubeCluster kcluster =
     Inr (if SchemaReplicaTypeController \<in> set (map fst (kc_Specs kcluster)) then None
          else Some (PlainErr (''slurm cluster need a replica named '' @ SchemaReplicaTypeController)))"

definition slurm_failures :: "'w kenv \<Rightarrow> KubeCluster \<Rightarrow> string \<Rightarrow> ReplicaStatus \<Rightarrow> ('w, 'st, unit) ctl" where
  "slurm_failures E kcluster rtype status = go_bind get_cluster (\<lambda>k.
     case existingRestartingCondition (kc_Status k) of
       Some existing \<Rightarrow> mark_restarting E kcluster existing
     | None \<Rightarrow>
         if rtype \<noteq> SchemaReplicaTypeController \<or> rs_Active status \<noteq> 0 then go_return ()
         else mark_failed E kcluster (''KubeCLuster '' @ kc_Namespace kcluster @ ''/'' @ kc_Name kcluster @
                '' has failed because '' @ Itoa (sint (rs_Failed status)) @ '' '' @ rtype @ '' replica(s) failed.''))"

definition slurm_UpdateClusterStatus :: "'w kenv \<Rightarrow> string \<Rightarrow> ('w, 'st, unit) ctl" where
  "slurm_UpdateClusterStatus E rtype = go_bind get_cluster (\<lambda>kcluster.
     case replica_status (kc_Status kcluster) rtype of
       None \<Rightarrow> go_panic ''nil pointer dereference''
     | Some status \<Rightarrow>
         go_seq (if rtype = SchemaReplicaTypeController then mark_running E kcluster else go_return ()) (
         if sint (rs_Failed status) > 0 then slurm_failures E kcluster rtype status else go_return ()))"

section \<open>What the status update decides\<close>


lemma slurm_status_update:
  assumes "replica_status (kc_Status (kcl s)) rtype = Some counters"
    and "\<not> IsFailed (kc_Status (kcl s))" "conditions_ok (kc_Status (kcl s))"
  shows "wp (slurm_UpdateClusterStatus E rtype) (\<lambda>_ s'.
     (IsFailed (kc_Status (kcl s')) \<longleftrightarrow>
        rtype = SchemaReplicaTypeController \<and> sint (rs_Failed counters) > 0 \<and> rs_Active counters = 0) \<and>
     (IsFailed (kc_Status (kcl s')) \<longrightarrow> st_CompletionTime (kc_Status (kcl s')) \<noteq> None) \<and>
     conditions_ok (kc_Status (kcl s')) \<and>
     (rtype = SchemaReplicaTypeController \<longrightarrow> \<not> has_condition (kc_Status (kcl s')) ClusterRestarting) \<and>
     same_cluster (kcl s) (kcl s')) s"
proof (cases "rtype = SchemaReplicaTypeController")
  case True
  have rest: "wp (if sint (rs_Failed counters) > 0 then slurm_failures E (kcl s) SchemaReplicaTypeController counters else go_return ())
     (\<lambda>_ s'. (IsFailed (kc_Status (kcl s')) \<longleftrightarrow> sint (rs_Failed counters) > 0 \<and> rs_Active counters = 0) \<and>
       (IsFailed (kc_Status (kcl s')) \<longrightarrow> st_CompletionTime (kc_Status (kcl s')) \<noteq> None) \<and>
       conditions_ok (kc_Status (kcl s')) \<and> \<not> has_condition (kc_Status (kcl s')) ClusterRestarting \<and>
       same_cluster (kcl s) (kcl s')) u"
    if "\<not> IsFailed (kc_Status (kcl u)) \<and> conditions_ok (kc_Status (kcl u)) \<and>
      \<not> has_condition (kc_Status (kcl u)) ClusterRestarting \<and>
      same_cluster (kcl s) (kcl u)" for u :: "('a, 'b) cstate"
  proof -
    have "existingRestartingCondition (kc_Status (kcl u)) = None" using that by (simp add: existingRestarting_None)
    with that show ?thesis by (auto simp: slurm_failures_def wp intro!: wp_mono [OF wp_mark_failed] intro: same_cluster_trans)
  qed
  from True assms(1) show ?thesis
    by (simp add: slurm_UpdateClusterStatus_def wp_bind wp_get_cluster wp_seq split del: if_split)
      (rule wp_mono [OF wp_mark_running [OF assms(2,3)]], drule rest, simp split del: if_split)
next
  case False
  with assms show ?thesis
    by (auto simp: slurm_UpdateClusterStatus_def slurm_failures_def wp split: option.splits
        intro!: wp_mono [OF wp_mark_restarting])
qed


text \<open>C20: what the pod counters of a slurm cluster decide. From a status that has not failed, the update
  for one replica type makes the cluster failed exactly when the type is the controller, some of its pods
  failed and none is active; then the completion time is set. It keeps the spec, the metadata and the
  counters. The
  update for the controller always ends without a Restarting condition: the Running condition set first
  removes it, so a controller that is being restarted after a failure is marked as failed for good.\<close>

theorem slurm_UpdateClusterStatus_correct:
  assumes "replica_status (kc_Status (kcl s)) rtype = Some counters"
    and "\<not> IsFailed (kc_Status (kcl s))" "conditions_ok (kc_Status (kcl s))"
  shows "wp (slurm_UpdateClusterStatus E rtype) (\<lambda>_ s'.
     (IsFailed (kc_Status (kcl s')) \<longleftrightarrow>
        rtype = SchemaReplicaTypeController \<and> sint (rs_Failed counters) > 0 \<and> rs_Active counters = 0) \<and>
     (IsFailed (kc_Status (kcl s')) \<longrightarrow> st_CompletionTime (kc_Status (kcl s')) \<noteq> None) \<and>
     conditions_ok (kc_Status (kcl s')) \<and>
     (rtype = SchemaReplicaTypeController \<longrightarrow> \<not> has_condition (kc_Status (kcl s')) ClusterRestarting) \<and>
     same_cluster (kcl s) (kcl s')) s"
  using assms by (rule slurm_status_update)

lemma slurm_UpdateClusterStatus_correct_witness:
  "wp (slurm_UpdateClusterStatus sample_env SchemaReplicaTypeController) (\<lambda>_ s'.
     IsFailed (kc_Status (kcl s')) \<and> st_CompletionTime (kc_Status (kcl s')) \<noteq> None)
     (sample_state empty_world ((sample_cluster ''slurm'')\<lparr>kc_Status :=
        UpdateClusterConditions 1 2 (empty_status\<lparr>st_ReplicaStatuses :=
           Some [(SchemaReplicaTypeController, zero_replica_status\<lparr>rs_Failed := 1\<rparr>)]\<rparr>)
         ClusterRestarting ConditionTrue ''r'' ''m''\<rparr>))"
proof -
  let ?s = "sample_state empty_world ((sample_cluster ''slurm'')\<lparr>kc_Status :=
        UpdateClusterConditions 1 2 (empty_status\<lparr>st_ReplicaStatuses :=
           Some [(SchemaReplicaTypeController, zero_replica_status\<lparr>rs_Failed := 1\<rparr>)]\<rparr>)
         ClusterRestarting ConditionTrue ''r'' ''m''\<rparr>)"
  have "conditions_ok (kc_Status (kcl ?s))" "\<not> IsFailed (kc_Status (kcl ?s))" by code_simp+
  moreover have "replica_status (kc_Status (kcl ?s)) SchemaReplicaTypeController = Some (zero_replica_status\<lparr>rs_Failed := 1\<rparr>)"
    by code_simp
  ultimately have "wp (slurm_UpdateClusterStatus sample_env SchemaReplicaTypeController) (\<lambda>_ s'.
     (IsFailed (kc_Status (kcl s')) \<longleftrightarrow> SchemaReplicaTypeController = SchemaReplicaTypeController \<and>
        sint (rs_Failed (zero_replica_status\<lparr>rs_Failed := 1\<rparr>)) > 0 \<and> rs_Active (zero_replica_status\<lparr>rs_Failed := 1\<rparr>) = 0) \<and>
     (IsFailed (kc_Status (kcl s')) \<longrightarrow> st_CompletionTime (kc_Status (kcl s')) \<noteq> None) \<and>
     conditions_ok (kc_Status (kcl s')) \<and>
     (SchemaReplicaTypeController = SchemaReplicaTypeController \<longrightarrow> \<not> has_condition (kc_Status (kcl s')) ClusterRestarting) \<and>
     same_cluster (kcl ?s) (kcl s')) ?s"
    by (intro slurm_UpdateClusterStatus_correct)
  then show ?thesis by (rule wp_mono) (simp add: zero_replica_status_def)
qed

section \<open>The template of a slurm node\<close>

lemmas template_defs = slurm_setVolumes_def slurm_setPodNetwork_def slurm_setCmd_def slurm_setSecurity_def
  on_containers_def on_init_containers_def add_volumes_def add_mounts_def add_env_def set_dns_def
  run_as_root_def mount_def

lemma slurm_complete_files:
  assumes "slurm_cm_complete cm"
  shows "cm_file cm slurmConfKey" "cm_file cm configMapReadyKey" "cm_file cm controllerEntrypoint"
    "cm_file cm workerEntrypoint" "cm_file cm mungeKey"
  using assms by (auto simp: slurm_cm_complete_def cm_file_def)


definition slurm_main :: "string \<Rightarrow> string \<Rightarrow> EnvVar list \<Rightarrow> Container \<Rightarrow> Container" where
  "slurm_main rtype name env c = c\<lparr>
     c_Env := c_Env c @ env,
     c_Command := [''/bin/bash'', ''-c'', EntrypointFilePath @ '' <<< '' @ EmptyVolumeMountPathInMainContainer],
     c_SecurityContext := Some \<lparr> sc_RunAsUser = Some 0, sc_Privileged = None \<rparr>,
     c_VolumeMounts := c_VolumeMounts c @
       [mount EmptyVolume EmptyVolumeMountPathInMainContainer [] False,
        mount name (SlurmConfDir @ ''/'' @ slurmConfKey) slurmConfKey True,
        mount name (SlurmConfDir @ ''/munge/munge/'' @ mungeKey) mungeKey False,
        mount name EntrypointFilePath (if rtype = SchemaReplicaTypeController then controllerEntrypoint else workerEntrypoint) False]\<rparr>"

lemma slurm_main_fields [simp]:
  "c_Name (slurm_main rt n env c) = c_Name c" "c_Image (slurm_main rt n env c) = c_Image c"
  "c_Ports (slurm_main rt n env c) = c_Ports c" "c_Requests (slurm_main rt n env c) = c_Requests c"
  "c_Limits (slurm_main rt n env c) = c_Limits c" "c_Env (slurm_main rt n env c) = c_Env c @ env"
  "c_SecurityContext (slurm_main rt n env c) = Some \<lparr> sc_RunAsUser = Some 0, sc_Privileged = None \<rparr>"
  "c_Command (slurm_main rt n env c) = [''/bin/bash'', ''-c'', ''/tmp/entrypoint.sh <<< /etc/slurm'']"
  by (simp_all add: slurm_main_def EntrypointFilePath_def EmptyVolumeMountPathInMainContainer_def SlurmConfDir_def)

definition slurm_init :: "string \<Rightarrow> Container \<Rightarrow> Container" where
  "slurm_init name = add_mounts
     [mount name (SlurmConfDir @ ''/'' @ slurmConfKey) slurmConfKey True,
      mount EmptyVolume EmptyVolumeMountPathInInitContainer [] False,
      mount name configMapReadyFile configMapReadyKey False]"

lemma on_containers_fold:
  assumes "\<And>c. c_Name (f c) = c_Name c"
  shows "on_containers n g (on_containers n f t) = on_containers n (\<lambda>c. g (f c)) t"
  using assms by (simp add: on_containers_def)

text \<open>The result of \<open>SetClusterSpec\<close> in one piece.\<close>

lemma slurm_SetClusterSpec_result:
  assumes "slurm_SetClusterSpec E g k t rt idx cm = Inr (Inr t')"
  obtains c d env ic ics where
    "getSlurmPortsFromConf (cm_get slurmConfKey cm) = Inr (c, d)"
    "env_val EnvSlurmctlPort (Itoa c) \<in> set env" "env_val EnvSlurmdPort (Itoa d) \<in> set env"
    "GetInitContainer E g (control_machine (kc_Name k)) = Inr (ic # ics)"
    "ps_Containers (pt_Spec t') = map (\<lambda>x. if c_Name x \<noteq> ClusterDefaultContainerName then x
        else slurm_main rt (om_Name (cm_Meta cm)) env x) (ps_Containers (pt_Spec t))"
    "\<exists>env0. ps_InitContainers (pt_Spec t') = map (slurm_init (om_Name (cm_Meta cm)))
        (map (add_env env0) (ps_InitContainers (pt_Spec t)) @ ic\<lparr>c_Command := slurm_init_command rt (c_Command ic)\<rparr> # ics)"
    "ps_Volumes (pt_Spec t') = ps_Volumes (pt_Spec t) @
        [\<lparr> v_Name = om_Name (cm_Meta cm), v_Source = ConfigMapVolume (om_Name (cm_Meta cm)) 511 \<rparr>,
         \<lparr> v_Name = EmptyVolume, v_Source = EmptyDirVolume \<rparr>]"
    "pt_Meta t' = pt_Meta t"
proof -
  obtain c d where p: "getSlurmPortsFromConf (cm_get slurmConfKey cm) = Inr (c, d)"
    using assms by (auto simp: slurm_SetClusterSpec_def split: sum.splits)
  obtain t1 where t1: "slurm_setPodEnv E k t slurm_GetDefaultContainerName rt idx c d = Inr t1"
    using assms p by (auto simp: slurm_SetClusterSpec_def split: sum.splits)
  obtain t2 where t2: "slurm_setInitContainer E g k t1 rt = Inr (Inr t2)"
    using assms p t1 by (auto simp: slurm_SetClusterSpec_def split: sum.splits)
  have t': "t' = slurm_setSecurity (slurm_setCmd (slurm_setPodNetwork (slurm_setVolumes t2 slurm_GetDefaultContainerName rt
      (om_Name (cm_Meta cm)))) slurm_GetDefaultContainerName) slurm_GetDefaultContainerName"
    using assms p t1 t2 by (simp add: slurm_SetClusterSpec_def Let_def)
  obtain w r where t1': "t1 = on_containers ClusterDefaultContainerName
      (\<lambda>x. add_env (slurm_local_env E (getResourceRequestList r)) (add_env (slurm_env k rt c d w) x))
      (on_init_containers (add_env (slurm_env k rt c d w)) t)"
    using t1 by (auto simp: slurm_setPodEnv_def Let_def slurm_GetDefaultContainerName_def split: sum.splits)
  obtain ic ics where ic: "GetInitContainer E g (control_machine (kc_Name k)) = Inr (ic # ics)"
    and t2': "t2 = t1\<lparr>pt_Spec := (pt_Spec t1)\<lparr>ps_InitContainers := ps_InitContainers (pt_Spec t1) @
       ic\<lparr>c_Command := slurm_init_command rt (c_Command ic)\<rparr> # ics\<rparr>\<rparr>"
    using t2 by (auto simp: slurm_setInitContainer_def append_init_def split: sum.splits list.splits)
  let ?env = "slurm_env k rt c d w"
  let ?env2 = "?env @ slurm_local_env E (getResourceRequestList r)"
  have envs: "env_val EnvSlurmctlPort (Itoa c) \<in> set ?env2" "env_val EnvSlurmdPort (Itoa d) \<in> set ?env2"
    by (simp_all add: slurm_env_def)
  note defs = slurm_main_def slurm_init_def template_defs slurm_GetDefaultContainerName_def Let_def
  show thesis
  proof (rule that [OF p envs ic])
    show "ps_Containers (pt_Spec t') = map (\<lambda>x. if c_Name x \<noteq> ClusterDefaultContainerName then x
        else slurm_main rt (om_Name (cm_Meta cm)) ?env2 x) (ps_Containers (pt_Spec t))"
      unfolding t' t2' t1' by (simp add: defs)
    show "\<exists>env0. ps_InitContainers (pt_Spec t') = map (slurm_init (om_Name (cm_Meta cm)))
        (map (add_env env0) (ps_InitContainers (pt_Spec t)) @ ic\<lparr>c_Command := slurm_init_command rt (c_Command ic)\<rparr> # ics)"
      unfolding t' t2' t1' by (intro exI [of _ ?env]) (simp add: defs)
  qed (unfold t' t2' t1', simp_all add: defs)
qed



definition sample_slurm_cm :: ConfigMap where
  "sample_slurm_cm = \<lparr> cm_Meta = sample_meta ''demo'', cm_Kind = [],
     cm_Data = Some [(slurmConfKey, lines_nl [''SlurmctldPort=10001 '', ''SlurmdPort=10002 '']),
       (configMapReadyKey, ''true''), (controllerEntrypoint, ''c''), (workerEntrypoint, ''w''), (mungeKey, ''k'')],
     cm_BinaryData = None \<rparr>"

lemma sample_slurm_cm_complete: "slurm_cm_complete sample_slurm_cm"
proof -
  have "conf_ok (cm_get slurmConfKey sample_slurm_cm)" by code_simp
  then show ?thesis by (simp add: slurm_cm_complete_def) (simp add: sample_slurm_cm_def cm_data_def)
qed


section \<open>The interface\<close>

interpretation slurm: schema_reconciler SchemaReplicaTypeController slurm_ValidateV1KubeCluster slurm_IsController
  slurm_cm_complete "slurm_ReconcileConfigMap E" "slurm_SetClusterSpec E g" "slurm_UpdateClusterStatus E"
  for E :: "'w kenv" and g
proof
  show "slurm_ValidateV1KubeCluster k = Inr None \<Longrightarrow> SchemaReplicaTypeController \<in> fst ` set (kc_Specs k)" for k
    by (simp add: slurm_ValidateV1KubeCluster_def split: if_splits)
  show "slurm_IsController rt \<longleftrightarrow> rt = SchemaReplicaTypeController" for rt
    by (auto simp: slurm_IsController_def)
  show "\<exists>s'. slurm_ReconcileConfigMap E cm s = Ret (None, cm) s' \<and> trace s' = trace s \<and> world s' = world s \<and>
      kc_Meta (kcl s') = kc_Meta (kcl s) \<and> kc_Status (kcl s') = kc_Status (kcl s)"
    if "slurm_cm_complete cm" "pod_specs_ok (kcl s)" for cm and s :: "('w, 'b) cstate"
    using slurm_reconcile_again [OF that, of E] by auto
  show "pt_Meta t' = pt_Meta t \<and> map (\<lambda>c. (c_Name c, c_Image c)) (ps_Containers (pt_Spec t')) =
      map (\<lambda>c. (c_Name c, c_Image c)) (ps_Containers (pt_Spec t))"
    if "slurm_SetClusterSpec E g k t rt i cm = Inr (Inr t')" for k t rt i cm t'
    using that by (rule slurm_SetClusterSpec_result) simp
  show "wp (slurm_UpdateClusterStatus E rt) (\<lambda>_ s'. (IsFailed (kc_Status (kcl s')) \<longrightarrow>
      rt = SchemaReplicaTypeController \<and> sint (rs_Failed counters) > 0) \<and>
      conditions_ok (kc_Status (kcl s')) \<and> same_cluster (kcl s) (kcl s')) s"
    if "replica_status (kc_Status (kcl s)) rt = Some counters" "\<not> IsFailed (kc_Status (kcl s))"
      "conditions_ok (kc_Status (kcl s))" for rt counters and s :: "('w, 'b) cstate"
    by (rule wp_mono [OF slurm_status_update [OF that]]) blast
  show "panics (slurm_UpdateClusterStatus E rt s)"
    if "replica_status (kc_Status (kcl s)) rt = None" for rt and s :: "('w, 'b) cstate"
    using that by (simp add: slurm_UpdateClusterStatus_def get_cluster_def go_run)
qed

end
