(* ===== verification/PbsPro.thy ===== *)
theory PbsPro
  imports SchemaCommon
begin

text \<open>
  The PBS Pro schema: \<open>pbspro_schema/\<close>. The config map holds the configurations of the server and of the
  workers, the configuration of the execution daemon and the two entry points; \<open>SetClusterSpec\<close> makes the
  template of a node and \<open>UpdateClusterStatus\<close> derives the conditions from the pod counters.
\<close>

section \<open>Constants and templates\<close>

definition pbs_ClusterSchemaKind :: string where "pbs_ClusterSchemaKind = ''pbspro''"
definition SchemaReplicaTypeServer :: string where "SchemaReplicaTypeServer = ''Server''"

definition PBSSH :: string where "PBSSH = ''/etc/profile.d/pbs.sh''"
definition PBSCmd :: string where "PBSCmd = ''/etc/init.d/pbs''"
definition PBSExec :: string where "PBSExec = ''/opt/pbs''"
definition PBSBin :: string where "PBSBin = PBSExec @ ''/bin''"
definition PBSSBin :: string where "PBSSBin = PBSExec @ ''/sbin''"
definition PBSNodes :: string where "PBSNodes = PBSBin @ ''/pbsnodes''"
definition PBSIff :: string where "PBSIff = PBSSBin @ ''/pbs_iff''"
definition PBSRcp :: string where "PBSRcp = PBSSBin @ ''/pbs_rcp''"
definition PBSInitShell :: string where "PBSInitShell = ''/opt/pbs/init.sh''"
definition pbs_EmptyVolume :: string where "pbs_EmptyVolume = ''pbs-opt-dir''"
definition pbs_EmptyVolumeMountPath :: string where "pbs_EmptyVolumeMountPath = ''/mnt/share''"
definition PBSProDir :: string where "PBSProDir = ''/opt/pbs''"
definition PostGresDir :: string where "PostGresDir = ''/opt/postgres''"

definition placeHolderPBS_SERVER :: string where "placeHolderPBS_SERVER = ''${PBS_SERVER}''"
definition placeHolderPBS_START_MOM :: string where "placeHolderPBS_START_MOM = ''${PBS_START_MOM}''"
definition placeHolderClientHost :: string where "placeHolderClientHost = ''${CLIENT_HOST}''"
definition placeHolderPBS_EXEC :: string where "placeHolderPBS_EXEC = ''${PBS_EXEC}''"

definition PBSConfKey :: string where "PBSConfKey = ''pbs.conf''"
definition PBSServerConfKey :: string where "PBSServerConfKey = ''pbs-server.conf''"
definition PBSWorkerConfKey :: string where "PBSWorkerConfKey = ''pbs-worker.conf''"
definition PBSConf :: string where "PBSConf = ''/etc'' @ ''/'' @ PBSConfKey"
definition PBSMomConfigKey :: string where "PBSMomConfigKey = ''privConfig''"
definition PBSMonPrivMountPath :: string where "PBSMonPrivMountPath = ''/tmp/var/spool/pbs/mom_priv/config''"
definition ServerEntrypoint :: string where "ServerEntrypoint = ''entrypoint.sh''"
definition WorkerEntrypoint :: string where "WorkerEntrypoint = ''worker-entrypoint.sh''"
definition ServerEntryPointMountPath :: string where "ServerEntryPointMountPath = ''/tmp/'' @ ServerEntrypoint"
definition WorkerEntryPointMountPath :: string where "WorkerEntryPointMountPath = ''/tmp/'' @ WorkerEntrypoint"
definition PBS_START_MOM_VALUE :: string where "PBS_START_MOM_VALUE = ''1''"

lemmas pbs_key_defs = PBSConfKey_def PBSServerConfKey_def PBSWorkerConfKey_def PBSMomConfigKey_def
  ServerEntrypoint_def WorkerEntrypoint_def

definition pbsServerConfTemplate :: string where
  \<open>pbsServerConfTemplate = lines_nl [
    ''PBS_SERVER=${PBS_SERVER}'',
    ''PBS_START_MOM=${PBS_START_MOM}'',
    ''PBS_EXEC=${PBS_EXEC}'',
    ''PBS_START_SERVER=1'',
    ''PBS_START_SCHED=1'',
    ''PBS_START_COMM=1'',
    ''PBS_HOME=/var/spool/pbs'',
    ''PBS_CORE_LIMIT=unlimited'']\<close>

definition pbsWorkerConfTemplate :: string where
  \<open>pbsWorkerConfTemplate = lines_nl [
    ''PBS_SERVER=${PBS_SERVER}'',
    ''PBS_START_MOM=1'',
    ''PBS_EXEC=${PBS_EXEC}'',
    ''PBS_START_COMM=1'',
    ''PBS_HOME=/var/spool/pbs'']\<close>

definition pbsMonPrivConfigTemplate :: string where
  \<open>pbsMonPrivConfigTemplate = lines_nl [
    ''$clienthost ${CLIENT_HOST}'']\<close>

definition qmgrCreateNodeCmds :: string where
  \<open>qmgrCreateNodeCmds = Join [
    ''for node_name in "${node_names[@]}"; do'',
    ''  node_exists=0'',
    ''  '',
    ''  while [ $node_exists -eq 0 ]; do'',
    [CHR 0x09] @ ''echo "try create node $node_name"'',
    ''    {{.Pbsnodes}} "$node_name" > /dev/null 2>&1'',
    [],
    ''    return_code=$?'',
    ''    if [ $return_code -eq 0 ]; then'',
    ''      echo "create node $node_name success"'',
    ''      node_exists=1'',
    ''    else'',
    [CHR 0x09] @ ''  {{.Qmgr}} -c "create node $node_name"'',
    ''      sleep 5'',
    ''    fi'',
    ''  done'',
    ''done''] nl\<close>

section \<open>The config map\<close>

definition isNeedReconcileConfigMap :: "ConfigMap \<Rightarrow> bool" where
  "isNeedReconcileConfigMap cm =
     (if map_of (cm_data cm) PBSConfKey = None then True else map_of (cm_data cm) PBSMomConfigKey = None)"

abbreviation server_name :: "KubeCluster \<Rightarrow> string" where
  "server_name k \<equiv> GenGeneralName (kc_Name k) SchemaReplicaTypeServer (Itoa 0)"

definition genServerPBSConf :: "KubeCluster \<Rightarrow> string" where
  "genServerPBSConf kcluster =
     (let pbsConf = Replace 1 placeHolderPBS_SERVER (server_name kcluster) pbsServerConfTemplate;
          pbsConf = Replace 1 placeHolderPBS_START_MOM PBS_START_MOM_VALUE pbsConf
      in Replace 1 placeHolderPBS_EXEC PBSExec pbsConf)"

definition genWorkerPBSConf :: "KubeCluster \<Rightarrow> string" where
  "genWorkerPBSConf kcluster =
     (let pbsConf = Replace 1 placeHolderPBS_SERVER (server_name kcluster) pbsWorkerConfTemplate
      in Replace 1 placeHolderPBS_EXEC PBSExec pbsConf)"

definition genPBSMomConfig :: "KubeCluster \<Rightarrow> string" where
  "genPBSMomConfig kcluster = Replace 1 placeHolderClientHost (server_name kcluster) pbsMonPrivConfigTemplate"

definition getGeneralCommand :: "string list" where
  \<open>getGeneralCommand =
     [''if [ -d '' @ pbs_EmptyVolumeMountPath @ '' ];then cp -r -p -n '' @ pbs_EmptyVolumeMountPath @ ''/* '' @ ''/opt'' @ '';fi'',
      ''if [ -d '' @ PBSExec @ '' ];then chmod a+s '' @ PBSIff @ '' '' @ PBSRcp @ '';fi '',
      ''if [ -e '' @ PBSInitShell @ '' ];then sh '' @ PBSInitShell @ '';fi'',
      ''if [ -e '' @ PBSSH @ '' ];then chmod +x '' @ PBSSH @ '' && . '' @ PBSSH @ '';fi '',
      PBSCmd @ '' status '']\<close>

definition genServerCommand :: "string list" where
  "genServerCommand = ''rm -rf /var/spool/pbs'' # getGeneralCommand"

definition genWorkerCommand :: "string list" where
  "genWorkerCommand = getGeneralCommand @ [''sleep infinity'']"

definition shell_header :: string where
  "shell_header = ''#!/bin/bash'' @ nl"

text \<open>The quoted names of all pods of the cluster; a nil spec or replica count panics.\<close>

fun node_names :: "string \<Rightarrow> ReplicaSpecs \<Rightarrow> string + string list" where
  "node_names name [] = Inr []"
| "node_names name ((replicaType, spec) # specs) =
     (case spec of
        None \<Rightarrow> Inl ''nil pointer dereference''
      | Some sp \<Rightarrow> (case r_Replicas sp of
          None \<Rightarrow> Inl ''nil pointer dereference''
        | Some totalReplica \<Rightarrow> (case node_names name specs of
            Inl p \<Rightarrow> Inl p
          | Inr rest \<Rightarrow> Inr (map (\<lambda>n. [CHR 0x22] @ n @ [CHR 0x22]) (pod_names name replicaType totalReplica) @ rest))))"

definition genPBSServerEntrypoint :: "KubeCluster \<Rightarrow> string + string" where
  "genPBSServerEntrypoint kcluster =
     (let entrypointShell = foldl add_line shell_header genServerCommand in
      case node_names (kc_Name kcluster) (kc_Specs kcluster) of
        Inl p \<Rightarrow> Inl p
      | Inr nodeNames \<Rightarrow>
          let entrypointShell = add_line entrypointShell (''node_names=('' @ Join nodeNames '' '' @ '')'');
              qmgrCreateNodeCmd = Replace 1 ''{{.Pbsnodes}}'' PBSNodes qmgrCreateNodeCmds;
              qmgrCreateNodeCmd = Replace 1 ''{{.Qmgr}}'' (PBSBin @ ''/qmgr'') qmgrCreateNodeCmd;
              entrypointShell = add_line entrypointShell qmgrCreateNodeCmd
          in Inr (add_line entrypointShell ''sleep infinity''))"

definition genPBSWorkerEntrypoint :: string where
  "genPBSWorkerEntrypoint = foldl add_line shell_header genWorkerCommand"

definition pbs_confs :: "KubeCluster \<Rightarrow> ConfigMap \<Rightarrow> ConfigMap" where
  "pbs_confs kcluster cm =
     (let cm = cm\<lparr>cm_Data := Some (cm_data cm)\<rparr>;
          cm = cm_default PBSServerConfKey (genServerPBSConf kcluster) cm;
          cm = cm_default PBSWorkerConfKey (genWorkerPBSConf kcluster) cm
      in cm_default PBSMomConfigKey (genPBSMomConfig kcluster) cm)"

definition pbs_ReconcileConfigMap :: "ConfigMap \<Rightarrow> ('w, 'st, gerr option \<times> ConfigMap) ctl" where
  "pbs_ReconcileConfigMap cm = go_bind get_cluster (\<lambda>kcluster.
     if \<not> isNeedReconcileConfigMap cm then go_return (None, cm)
     else
       let cm = pbs_confs kcluster cm in
       if map_of (cm_data cm) ServerEntrypoint = None
       then go_bind (go_lift (genPBSServerEntrypoint kcluster)) (\<lambda>shell.
         go_return (None, cm_default WorkerEntrypoint genPBSWorkerEntrypoint (cm_put ServerEntrypoint shell cm)))
       else go_return (None, cm_default WorkerEntrypoint genPBSWorkerEntrypoint cm))"

definition pbs_UpdateConfigMap :: "ConfigMap \<Rightarrow> ('w, 'st, gerr option \<times> ConfigMap) ctl" where
  "pbs_UpdateConfigMap cm = go_return (None, cm)"

section \<open>The template of a pod\<close>

definition pbs_EnvControllerAddress :: string where "pbs_EnvControllerAddress = ''PBS_SERVER_ADDRESS''"

definition pbs_env :: "KubeCluster \<Rightarrow> EnvVar list" where
  "pbs_env k = [env_val pbs_EnvControllerAddress (server_name k), env_field ''LOCAL_NAME'' ''metadata.name'',
     env_field ''LOCAL_IP'' ''status.podIP'']"

definition pbs_setPodEnv :: "KubeCluster \<Rightarrow> PodTemplateSpec \<Rightarrow> string \<Rightarrow> PodTemplateSpec" where
  "pbs_setPodEnv k t defaultContainerName =
     on_containers defaultContainerName (add_env (pbs_env k)) (on_init_containers (add_env (pbs_env k)) t)"

definition copy_dir :: "string \<Rightarrow> string" where
  "copy_dir d = ''if [ -d '' @ d @ '' ] && [ -d '' @ pbs_EmptyVolumeMountPath @ '' ];then cp -r '' @ d @ '' '' @
     pbs_EmptyVolumeMountPath @ '';fi''"

definition pbs_init_command :: "string \<Rightarrow> string list \<Rightarrow> string list" where
  "pbs_init_command rtype command =
     (if rtype = SchemaReplicaTypeServer
      then [''sh'', ''-c'', Join [copy_dir PBSProDir, copy_dir PostGresDir] '' && '']
      else [''sh'', ''-c'', Join [copy_dir PBSProDir, copy_dir PostGresDir, Join command '' ''] '' && ''])"

definition pbs_setInitContainer ::
  "'w kenv \<Rightarrow> initContainerGenerator \<Rightarrow> KubeCluster \<Rightarrow> PodTemplateSpec \<Rightarrow> string \<Rightarrow> string + (gerr + PodTemplateSpec)" where
  "pbs_setInitContainer E g kcluster podTemplate rtype =
     (case GetInitContainer E g (server_name kcluster) of
        Inl err \<Rightarrow> Inr (Inl err)
      | Inr initContainers \<Rightarrow> (case append_init (pbs_init_command rtype) initContainers podTemplate of
          Inl p \<Rightarrow> Inl p
        | Inr t \<Rightarrow> Inr (Inr t)))"

definition pbs_setVolumes :: "PodTemplateSpec \<Rightarrow> string \<Rightarrow> string \<Rightarrow> string \<Rightarrow> PodTemplateSpec" where
  "pbs_setVolumes template defaultContainerName rtype configMapName =
     (let t = add_volumes
            [\<lparr> v_Name = configMapName, v_Source = ConfigMapVolume configMapName 511 \<rparr>,
             \<lparr> v_Name = pbs_EmptyVolume, v_Source = EmptyDirVolume \<rparr>] template;
          t = on_init_containers (add_mounts [mount pbs_EmptyVolume pbs_EmptyVolumeMountPath [] False]) t
      in on_containers defaultContainerName (add_mounts
           ((if rtype = SchemaReplicaTypeServer
             then [mount configMapName PBSConf PBSServerConfKey False,
                   mount configMapName ServerEntryPointMountPath ServerEntrypoint False]
             else [mount configMapName PBSConf PBSWorkerConfKey False,
                   mount configMapName WorkerEntryPointMountPath WorkerEntrypoint False]) @
            [mount configMapName PBSMonPrivMountPath PBSMomConfigKey True,
             mount pbs_EmptyVolume pbs_EmptyVolumeMountPath [] True])) t)"

definition pbs_setPodNetwork :: "PodTemplateSpec \<Rightarrow> PodTemplateSpec" where
  "pbs_setPodNetwork template = set_dns template"

definition pbs_setSecurity :: "PodTemplateSpec \<Rightarrow> string \<Rightarrow> PodTemplateSpec" where
  "pbs_setSecurity t defaultContainerName = on_containers defaultContainerName run_as_root t"

definition pbs_setCmd :: "PodTemplateSpec \<Rightarrow> string \<Rightarrow> string \<Rightarrow> PodTemplateSpec" where
  "pbs_setCmd t defaultContainerName rtype = on_containers defaultContainerName (\<lambda>c. c\<lparr>c_Command :=
     (if rtype = SchemaReplicaTypeServer then [''/bin/bash'', ''-c'', ServerEntryPointMountPath]
      else [''/bin/bash'', ''-c'', WorkerEntryPointMountPath])\<rparr>) t"

section \<open>The schema reconciler\<close>

definition pbs_GetDefaultContainerName :: string where
  "pbs_GetDefaultContainerName = ClusterDefaultContainerName"

definition pbs_SetClusterSpec ::
  "'w kenv \<Rightarrow> initContainerGenerator \<Rightarrow> KubeCluster \<Rightarrow> PodTemplateSpec \<Rightarrow> string \<Rightarrow> string \<Rightarrow> ConfigMap \<Rightarrow>
   string + (gerr + PodTemplateSpec)" where
  "pbs_SetClusterSpec E g kcluster podTemplate rtype index configMap =
     (let t = pbs_setPodEnv kcluster podTemplate pbs_GetDefaultContainerName in
      case pbs_setInitContainer E g kcluster t rtype of
        Inl p \<Rightarrow> Inl p
      | Inr (Inl err) \<Rightarrow> Inr (Inl err)
      | Inr (Inr t) \<Rightarrow>
          let t = pbs_setVolumes t pbs_GetDefaultContainerName rtype (om_Name (cm_Meta configMap));
              t = pbs_setPodNetwork t;
              t = pbs_setCmd t pbs_GetDefaultContainerName rtype
          in Inr (Inr (pbs_setSecurity t pbs_GetDefaultContainerName)))"

definition pbs_default_ports :: "PodSpec \<Rightarrow> string + PodSpec" where
  "pbs_default_ports spec =
     (let index = GetDefaultContainerIndex spec pbs_GetDefaultContainerName in
      case EnsureDefaultPort spec ''serve-port'' 15001 index of
        Inl p \<Rightarrow> Inl p
      | Inr spec \<Rightarrow> (case EnsureDefaultPort spec ''comm-port'' 17001 index of
          Inl p \<Rightarrow> Inl p
        | Inr spec \<Rightarrow> EnsureDefaultPort spec ''sched-port'' 15004 index))"

definition pbs_Default :: "('w, 'st, unit) ctl" where
  "pbs_Default = go_seq (go_modify (\<lambda>s. s\<lparr>kcl := (kcl s)\<lparr>kc_Spec := (kc_Spec (kcl s))\<lparr>s_ClusterReplicaSpec :=
     SetTypeNameToCamelCase (kc_Specs (kcl s)) SchemaReplicaTypeServer\<rparr>\<rparr>\<rparr>)) (each_pod_spec pbs_default_ports)"

definition pbs_IsController :: "string \<Rightarrow> bool" where
  "pbs_IsController rType \<longleftrightarrow> SchemaReplicaTypeServer = rType"

definition pbs_ValidateV1KubeCluster :: "KubeCluster \<Rightarrow> string + gerr option" where
  "pbs_ValidateV1KubeCluster kcluster =
     (case map_of (kc_Specs kcluster) SchemaReplicaTypeServer of
        None \<Rightarrow> Inr (Some (PlainErr (''pbspro cluster need a replica named '' @ SchemaReplicaTypeServer)))
      | Some None \<Rightarrow> Inl ''nil pointer dereference''
      | Some (Some spec) \<Rightarrow> (case r_Replicas spec of
          None \<Rightarrow> Inl ''nil pointer dereference''
        | Some n \<Rightarrow> Inr (if n \<noteq> 1 then Some (PlainErr ''pbspro clusetr server replica must be 1'') else None)))"

definition pbs_failures :: "'w kenv \<Rightarrow> KubeCluster \<Rightarrow> string \<Rightarrow> ReplicaStatus \<Rightarrow> ('w, 'st, unit) ctl" where
  "pbs_failures E kcluster rtype status = go_bind get_cluster (\<lambda>k.
     case existingRestartingCondition (kc_Status k) of
       Some existing \<Rightarrow> mark_restarting E kcluster existing
     | None \<Rightarrow>
         if rtype \<noteq> SchemaReplicaTypeServer then go_return ()
         else mark_failed E kcluster (''KubeCLuster '' @ kc_Namespace kcluster @ ''/'' @ kc_Name kcluster @
                '' has failed because '' @ Itoa (sint (rs_Failed status)) @ '' '' @ rtype @ '' replica(p) failed.''))"

definition pbs_UpdateClusterStatus :: "'w kenv \<Rightarrow> string \<Rightarrow> ('w, 'st, unit) ctl" where
  "pbs_UpdateClusterStatus E rtype = go_bind get_cluster (\<lambda>kcluster.
     case replica_status (kc_Status kcluster) rtype of
       None \<Rightarrow> go_panic ''nil pointer dereference''
     | Some status \<Rightarrow>
         go_seq (if rtype = SchemaReplicaTypeServer \<and> sint (rs_Active status) > 0 then mark_running E kcluster
                 else go_return ()) (
         if sint (rs_Failed status) > 0 then pbs_failures E kcluster rtype status else go_return ()))"


section \<open>The generated configurations\<close>

lemma server_name_safe: "template_safe (kc_Name k) \<Longrightarrow> template_safe (server_name k)"
proof -
  have "ToLower SchemaReplicaTypeServer @ ''-'' @ Itoa 0 = ''server-0''" by code_simp
  then show "template_safe (kc_Name k) \<Longrightarrow> ?thesis"
    by (auto simp: template_safe_def GenGeneralName_def ReplaceAll_char)
qed

lemma Replace_line:
  assumes "old \<noteq> []" "hd old \<notin> set (lines_nl as)" "hd old \<notin> set key"
  shows "Replace 1 old v (lines_nl (as @ (key @ old) # ls)) = lines_nl (as @ (key @ v) # ls)"
  using Replace_once [of old "lines_nl as @ key" v "nl @ lines_nl ls"] assms
  by (simp add: lines_nl_append lines_nl_Cons)

lemma placeholder_dollar:
  "placeHolderPBS_SERVER \<noteq> []" "placeHolderPBS_START_MOM \<noteq> []" "placeHolderPBS_EXEC \<noteq> []"
  "hd placeHolderPBS_SERVER = CHR ''$''" "hd placeHolderPBS_START_MOM = CHR ''$''" "hd placeHolderPBS_EXEC = CHR ''$''"
  by (simp_all add: placeHolderPBS_SERVER_def placeHolderPBS_START_MOM_def placeHolderPBS_EXEC_def)

text \<open>The PBS configurations name the server. For a cluster name without dollar signs and newlines the
  server's and the workers' configuration and the configuration of the execution daemon all name the pod
  of the server replica, and no placeholder is left.\<close>

lemma pbs_confs_name_server:
  assumes "template_safe (kc_Name k)"
  shows "genServerPBSConf k = lines_nl [''PBS_SERVER='' @ server_name k, ''PBS_START_MOM=1'', ''PBS_EXEC=/opt/pbs'',
       ''PBS_START_SERVER=1'', ''PBS_START_SCHED=1'', ''PBS_START_COMM=1'', ''PBS_HOME=/var/spool/pbs'',
       ''PBS_CORE_LIMIT=unlimited''] \<and>
     genWorkerPBSConf k = lines_nl [''PBS_SERVER='' @ server_name k, ''PBS_START_MOM=1'', ''PBS_EXEC=/opt/pbs'',
       ''PBS_START_COMM=1'', ''PBS_HOME=/var/spool/pbs''] \<and>
     genPBSMomConfig k = lines_nl [''$clienthost '' @ server_name k]"
proof -
  let ?n = "server_name k"
  have d: "CHR ''$'' \<notin> set ?n" using server_name_safe [OF assms] by (simp add: template_safe_def)
  note phs = placeHolderPBS_SERVER_def placeHolderPBS_START_MOM_def placeHolderPBS_EXEC_def
  let ?rest = "[''PBS_START_SERVER=1'', ''PBS_START_SCHED=1'', ''PBS_START_COMM=1'', ''PBS_HOME=/var/spool/pbs'',
       ''PBS_CORE_LIMIT=unlimited'']"
  let ?mom = "''PBS_START_MOM='' @ placeHolderPBS_START_MOM" and ?exec = "''PBS_EXEC='' @ placeHolderPBS_EXEC"
  have "pbsServerConfTemplate = lines_nl ([] @ (''PBS_SERVER='' @ placeHolderPBS_SERVER) # ?mom # ?exec # ?rest)"
    by (simp add: pbsServerConfTemplate_def phs)
  then have "Replace 1 placeHolderPBS_SERVER ?n pbsServerConfTemplate = lines_nl ([''PBS_SERVER='' @ ?n] @ ?mom # ?exec # ?rest)"
    using Replace_line [of placeHolderPBS_SERVER "[]" "''PBS_SERVER=''" ?n "?mom # ?exec # ?rest"]
    by (simp add: placeholder_dollar)
  moreover have "Replace 1 placeHolderPBS_START_MOM PBS_START_MOM_VALUE \<dots> =
      lines_nl ([''PBS_SERVER='' @ ?n, ''PBS_START_MOM='' @ PBS_START_MOM_VALUE] @ ?exec # ?rest)"
    using d by (subst Replace_line) (simp_all add: placeholder_dollar lines_nl_Cons nl_def)
  moreover have "Replace 1 placeHolderPBS_EXEC PBSExec \<dots> =
      lines_nl ([''PBS_SERVER='' @ ?n, ''PBS_START_MOM='' @ PBS_START_MOM_VALUE] @ (''PBS_EXEC='' @ PBSExec) # ?rest)"
    using d by (subst Replace_line) (simp_all add: placeholder_dollar lines_nl_Cons nl_def PBS_START_MOM_VALUE_def)
  ultimately have "genServerPBSConf k = lines_nl ([''PBS_SERVER='' @ ?n, ''PBS_START_MOM=1'', ''PBS_EXEC=/opt/pbs''] @ ?rest)"
    unfolding genServerPBSConf_def Let_def by (simp add: PBS_START_MOM_VALUE_def PBSExec_def)
  moreover {
    let ?rest = "[''PBS_START_COMM=1'', ''PBS_HOME=/var/spool/pbs'']"
    have "pbsWorkerConfTemplate = lines_nl ([] @ (''PBS_SERVER='' @ placeHolderPBS_SERVER) # ''PBS_START_MOM=1'' # ?exec # ?rest)"
      by (simp add: pbsWorkerConfTemplate_def phs)
    then have "Replace 1 placeHolderPBS_SERVER ?n pbsWorkerConfTemplate = lines_nl ([''PBS_SERVER='' @ ?n, ''PBS_START_MOM=1''] @ ?exec # ?rest)"
      using Replace_line [of placeHolderPBS_SERVER "[]" "''PBS_SERVER=''" ?n "''PBS_START_MOM=1'' # ?exec # ?rest"]
      by (simp add: placeholder_dollar)
    moreover have "Replace 1 placeHolderPBS_EXEC PBSExec \<dots> =
        lines_nl ([''PBS_SERVER='' @ ?n, ''PBS_START_MOM=1''] @ (''PBS_EXEC='' @ PBSExec) # ?rest)"
      using d by (subst Replace_line) (simp_all add: placeholder_dollar lines_nl_Cons nl_def)
    ultimately have "genWorkerPBSConf k = lines_nl ([''PBS_SERVER='' @ ?n, ''PBS_START_MOM=1'', ''PBS_EXEC=/opt/pbs''] @ ?rest)"
      unfolding genWorkerPBSConf_def Let_def by (simp add: PBSExec_def)
  }
  moreover have "genPBSMomConfig k = lines_nl [''$clienthost '' @ ?n]"
    by (simp add: genPBSMomConfig_def pbsMonPrivConfigTemplate_def placeHolderClientHost_def lines_nl_Cons nl_def)
  ultimately show ?thesis by simp
qed

section \<open>Reconciling the config map\<close>

lemma pbs_keys_distinct [simp]:
  "PBSServerConfKey \<noteq> PBSConfKey" "PBSWorkerConfKey \<noteq> PBSConfKey" "PBSMomConfigKey \<noteq> PBSConfKey"
  "ServerEntrypoint \<noteq> PBSConfKey" "WorkerEntrypoint \<noteq> PBSConfKey"
  "PBSConfKey \<noteq> PBSServerConfKey" "PBSConfKey \<noteq> PBSWorkerConfKey" "PBSConfKey \<noteq> PBSMomConfigKey"
  "PBSConfKey \<noteq> ServerEntrypoint" "PBSConfKey \<noteq> WorkerEntrypoint"
  by (simp_all add: pbs_key_defs)

definition pbs_cm_complete :: "ConfigMap \<Rightarrow> bool" where
  "pbs_cm_complete cm \<longleftrightarrow> cm_Data cm \<noteq> None \<and> list_all (\<lambda>k. map_of (cm_data cm) k \<noteq> None)
     [PBSServerConfKey, PBSWorkerConfKey, PBSMomConfigKey, ServerEntrypoint, WorkerEntrypoint]"

lemma cm_default_present: "map_of (cm_data cm) k \<noteq> None \<Longrightarrow> cm_default k v cm = cm"
  by (auto simp: cm_default_def)

lemma pbs_complete_again:
  assumes "pbs_cm_complete cm" shows "pbs_ReconcileConfigMap cm s = Ret (None, cm) s"
proof -
  have "cm\<lparr>cm_Data := Some (cm_data cm)\<rparr> = cm"
    using assms by (auto simp: pbs_cm_complete_def cm_data_def)
  with assms have "pbs_confs k cm = cm" for k
    by (auto simp: pbs_confs_def Let_def pbs_cm_complete_def cm_default_present)
  with assms show ?thesis
    by (auto simp: pbs_ReconcileConfigMap_def get_cluster_def go_run pbs_cm_complete_def cm_default_present)
qed

definition replicas_set :: "KubeCluster \<Rightarrow> bool" where
  "replicas_set k \<longleftrightarrow> list_all (\<lambda>(t, v). case v of Some r \<Rightarrow> r_Replicas r \<noteq> None | None \<Rightarrow> False) (kc_Specs k)"

lemma node_names_ok: "replicas_set k \<Longrightarrow> \<exists>ns. node_names n (kc_Specs k) = Inr ns"
proof -
  have "list_all (\<lambda>(t, v). case v of Some r \<Rightarrow> r_Replicas r \<noteq> None | None \<Rightarrow> False) specs \<Longrightarrow>
      \<exists>ns. node_names n specs = Inr ns" for specs
    by (induction specs) (auto split: option.splits)
  then show "replicas_set k \<Longrightarrow> ?thesis" by (simp add: replicas_set_def)
qed

lemma map_le_default: "map_of (cm_data cm) \<subseteq>\<^sub>m map_of (cm_data (cm_default k v cm))"
  by (auto simp: cm_default_def map_le_def)

lemma pbs_confs_grow: "map_of (cm_data cm) \<subseteq>\<^sub>m map_of (cm_data (pbs_confs k cm))"
proof -
  have "map_of (cm_data cm) = map_of (cm_data (cm\<lparr>cm_Data := Some (cm_data cm)\<rparr>))" by simp
  then show ?thesis unfolding pbs_confs_def Let_def by (metis map_le_default map_le_trans)
qed

lemma pbs_confs_keys:
  "map_of (cm_data (pbs_confs k cm)) PBSServerConfKey \<noteq> None" "map_of (cm_data (pbs_confs k cm)) PBSWorkerConfKey \<noteq> None"
  "map_of (cm_data (pbs_confs k cm)) PBSMomConfigKey \<noteq> None"
  by (simp_all add: pbs_confs_def Let_def)

lemma cm_Data_pbs: "cm_Data (cm_default k v cm) \<noteq> None \<longleftrightarrow> cm_Data cm \<noteq> None \<or> map_of (cm_data cm) k = None"
  by (auto simp: cm_default_def cm_put_def)



section \<open>The status update\<close>

lemma pbs_failures_running:
  assumes "\<not> IsFailed (kc_Status (kcl u))" "conditions_ok (kc_Status (kcl u))"
  shows "wp (pbs_failures E k rt c) (\<lambda>_ s'.
     (IsFailed (kc_Status (kcl s')) \<longleftrightarrow> rt = SchemaReplicaTypeServer \<and> \<not> has_condition (kc_Status (kcl u)) ClusterRestarting) \<and>
     (IsFailed (kc_Status (kcl s')) \<longrightarrow> st_CompletionTime (kc_Status (kcl s')) \<noteq> None) \<and>
     conditions_ok (kc_Status (kcl s')) \<and> same_cluster (kcl u) (kcl s')) u"
proof (cases "existingRestartingCondition (kc_Status (kcl u))")
  case None
  then have "\<not> has_condition (kc_Status (kcl u)) ClusterRestarting" by (simp add: existingRestarting_None)
  with None assms show ?thesis by (auto simp: pbs_failures_def wp intro!: wp_mono [OF wp_mark_failed])
next
  case (Some e)
  then have "has_condition (kc_Status (kcl u)) ClusterRestarting"
    using existingRestarting_None [of "kc_Status (kcl u)"] by auto
  with Some assms show ?thesis by (auto simp: pbs_failures_def wp intro!: wp_mono [OF wp_mark_restarting])
qed

lemma pbs_status_update:
  assumes "replica_status (kc_Status (kcl s)) rtype = Some counters"
    and "\<not> IsFailed (kc_Status (kcl s))" "conditions_ok (kc_Status (kcl s))"
  shows "wp (pbs_UpdateClusterStatus E rtype) (\<lambda>_ s'.
     (IsFailed (kc_Status (kcl s')) \<longleftrightarrow> rtype = SchemaReplicaTypeServer \<and> sint (rs_Failed counters) > 0 \<and>
        (sint (rs_Active counters) > 0 \<or> \<not> has_condition (kc_Status (kcl s)) ClusterRestarting)) \<and>
     (IsFailed (kc_Status (kcl s')) \<longrightarrow> st_CompletionTime (kc_Status (kcl s')) \<noteq> None) \<and>
     conditions_ok (kc_Status (kcl s')) \<and> same_cluster (kcl s) (kcl s')) s"
proof (cases "rtype = SchemaReplicaTypeServer \<and> sint (rs_Active counters) > 0")
  case True
  have rest: "wp (if sint (rs_Failed counters) > 0 then pbs_failures E (kcl s) SchemaReplicaTypeServer counters else go_return ())
     (\<lambda>_ s'. (IsFailed (kc_Status (kcl s')) \<longleftrightarrow> sint (rs_Failed counters) > 0) \<and>
       (IsFailed (kc_Status (kcl s')) \<longrightarrow> st_CompletionTime (kc_Status (kcl s')) \<noteq> None) \<and>
       conditions_ok (kc_Status (kcl s')) \<and> same_cluster (kcl s) (kcl s')) u"
    if u: "\<not> IsFailed (kc_Status (kcl u)) \<and> conditions_ok (kc_Status (kcl u)) \<and>
      \<not> has_condition (kc_Status (kcl u)) ClusterRestarting \<and> same_cluster (kcl s) (kcl u)" for u :: "('a, 'b) cstate"
    using u by (auto simp: wp intro!: wp_mono [OF pbs_failures_running] intro: same_cluster_trans)
  from True assms(1) show ?thesis
    by (simp add: pbs_UpdateClusterStatus_def wp_bind wp_get_cluster wp_seq split del: if_split)
      (rule wp_mono [OF wp_mark_running [OF assms(2,3)]], drule rest, simp split del: if_split)
next
  case False
  with assms show ?thesis
    by (auto simp: pbs_UpdateClusterStatus_def wp intro!: wp_mono [OF pbs_failures_running])
qed


definition failed_server :: "string \<Rightarrow> (sworld, (string \<times> iface) list) cstate" where
  "failed_server cond = sample_state empty_world ((sample_cluster ''pbspro'')\<lparr>kc_Status :=
        UpdateClusterConditions 1 2 (empty_status\<lparr>st_ReplicaStatuses :=
           Some [(SchemaReplicaTypeServer, zero_replica_status\<lparr>rs_Failed := 1\<rparr>)]\<rparr>) cond ConditionTrue ''r'' ''m''\<rparr>)"


section \<open>The template of a PBS node\<close>

lemmas pbs_template_defs = pbs_setVolumes_def pbs_setPodNetwork_def pbs_setCmd_def pbs_setSecurity_def pbs_setPodEnv_def
  on_containers_def on_init_containers_def add_volumes_def add_mounts_def add_env_def set_dns_def
  run_as_root_def pbs_GetDefaultContainerName_def Let_def

lemma pbs_SetClusterSpec_result:
  assumes "pbs_SetClusterSpec E g k t rt idx cm = Inr (Inr t')"
  obtains ic ics where
    "GetInitContainer E g (server_name k) = Inr (ic # ics)"
    "ps_Containers (pt_Spec t') = map (\<lambda>x. if c_Name x \<noteq> ClusterDefaultContainerName then x
        else x\<lparr>c_Env := c_Env x @ pbs_env k,
               c_Command := [''/bin/bash'', ''-c'', if rt = SchemaReplicaTypeServer then ServerEntryPointMountPath else WorkerEntryPointMountPath],
               c_SecurityContext := Some \<lparr> sc_RunAsUser = Some 0, sc_Privileged = None \<rparr>,
               c_VolumeMounts := c_VolumeMounts x @
                 ((if rt = SchemaReplicaTypeServer
                   then [mount (om_Name (cm_Meta cm)) PBSConf PBSServerConfKey False,
                         mount (om_Name (cm_Meta cm)) ServerEntryPointMountPath ServerEntrypoint False]
                   else [mount (om_Name (cm_Meta cm)) PBSConf PBSWorkerConfKey False,
                         mount (om_Name (cm_Meta cm)) WorkerEntryPointMountPath WorkerEntrypoint False]) @
                  [mount (om_Name (cm_Meta cm)) PBSMonPrivMountPath PBSMomConfigKey True,
                   mount pbs_EmptyVolume pbs_EmptyVolumeMountPath [] True])\<rparr>) (ps_Containers (pt_Spec t))"
    "ps_InitContainers (pt_Spec t') = map (add_mounts [mount pbs_EmptyVolume pbs_EmptyVolumeMountPath [] False])
        (map (add_env (pbs_env k)) (ps_InitContainers (pt_Spec t)) @ ic\<lparr>c_Command := pbs_init_command rt (c_Command ic)\<rparr> # ics)"
    "pt_Meta t' = pt_Meta t"
proof -
  obtain ic ics where ic: "GetInitContainer E g (server_name k) = Inr (ic # ics)"
    using assms by (auto simp: pbs_SetClusterSpec_def pbs_setInitContainer_def append_init_def Let_def
        split: sum.splits list.splits)
  with assms have t': "t' = pbs_setSecurity (pbs_setCmd (pbs_setPodNetwork (pbs_setVolumes
     ((pbs_setPodEnv k t pbs_GetDefaultContainerName)\<lparr>pt_Spec := (pt_Spec (pbs_setPodEnv k t pbs_GetDefaultContainerName))\<lparr>
        ps_InitContainers := ps_InitContainers (pt_Spec (pbs_setPodEnv k t pbs_GetDefaultContainerName)) @
          ic\<lparr>c_Command := pbs_init_command rt (c_Command ic)\<rparr> # ics\<rparr>\<rparr>)
     pbs_GetDefaultContainerName rt (om_Name (cm_Meta cm)))) pbs_GetDefaultContainerName rt) pbs_GetDefaultContainerName"
    by (simp add: pbs_SetClusterSpec_def pbs_setInitContainer_def append_init_def Let_def)
  show thesis
    by (rule that [OF ic]) (unfold t', simp_all add: pbs_template_defs)
qed


definition sample_pbs_cm :: ConfigMap where
  "sample_pbs_cm = empty_config_map\<lparr>cm_Meta := sample_meta ''demo'', cm_Data := Some (map (\<lambda>k. (k, ''x''))
     [PBSServerConfKey, PBSWorkerConfKey, PBSMomConfigKey, ServerEntrypoint, WorkerEntrypoint])\<rparr>"


section \<open>The interface\<close>

interpretation pbs: schema_reconciler SchemaReplicaTypeServer pbs_ValidateV1KubeCluster pbs_IsController
  pbs_cm_complete pbs_ReconcileConfigMap "pbs_SetClusterSpec E g" "pbs_UpdateClusterStatus E"
  for E :: "'w kenv" and g
proof
  show "pbs_ValidateV1KubeCluster k = Inr None \<Longrightarrow> SchemaReplicaTypeServer \<in> fst ` set (kc_Specs k)" for k
    by (auto simp: pbs_ValidateV1KubeCluster_def dest!: map_of_SomeD intro: rev_image_eqI split: option.splits if_splits)
  show "pbs_IsController rt \<longleftrightarrow> rt = SchemaReplicaTypeServer" for rt
    by (auto simp: pbs_IsController_def)
  show "\<exists>s'. pbs_ReconcileConfigMap cm s = Ret (None, cm) s' \<and> trace s' = trace s \<and> world s' = world s \<and>
      kc_Meta (kcl s') = kc_Meta (kcl s) \<and> kc_Status (kcl s') = kc_Status (kcl s)"
    if "pbs_cm_complete cm" for cm and s :: "('w, 'b) cstate"
    using pbs_complete_again [OF that] by auto
  show "pt_Meta t' = pt_Meta t \<and> map (\<lambda>c. (c_Name c, c_Image c)) (ps_Containers (pt_Spec t')) =
      map (\<lambda>c. (c_Name c, c_Image c)) (ps_Containers (pt_Spec t))"
    if "pbs_SetClusterSpec E g k t rt i cm = Inr (Inr t')" for k t rt i cm t'
    using that by (rule pbs_SetClusterSpec_result) simp
  show "wp (pbs_UpdateClusterStatus E rt) (\<lambda>_ s'. (IsFailed (kc_Status (kcl s')) \<longrightarrow>
      rt = SchemaReplicaTypeServer \<and> sint (rs_Failed counters) > 0) \<and>
      conditions_ok (kc_Status (kcl s')) \<and> same_cluster (kcl s) (kcl s')) s"
    if "replica_status (kc_Status (kcl s)) rt = Some counters" "\<not> IsFailed (kc_Status (kcl s))"
      "conditions_ok (kc_Status (kcl s))" for rt counters and s :: "('w, 'b) cstate"
    by (rule wp_mono [OF pbs_status_update [OF that]]) blast
  show "panics (pbs_UpdateClusterStatus E rt s)"
    if "replica_status (kc_Status (kcl s)) rt = None" for rt and s :: "('w, 'b) cstate"
    using that by (simp add: pbs_UpdateClusterStatus_def get_cluster_def go_run)
qed

end
