(* ===== verification/Control.thy ===== *)
theory Control
  imports Kenv
begin

text \<open>
  \<open>pkg/controller/control\<close>: the real and the fake pod and service control, the config map control,
  and \<open>ValidateControllerRef\<close>. The object the controls record events on is the cluster, which always
  has an \<open>ObjectMeta\<close>, so \<open>meta.Accessor\<close> never fails; log lines are not modelled.

  The locale \<open>object_control\<close> states what a client of \<open>PodControlInterface\<close> or \<open>ServiceControlInterface\<close> relies
  on, and the real and the fake controls of both interpret it.
\<close>

definition FailedCreatePodReason :: string where "FailedCreatePodReason = ''FailedCreatePod''"
definition SuccessfulCreatePodReason :: string where "SuccessfulCreatePodReason = ''SuccessfulCreatePod''"
definition FailedDeletePodReason :: string where "FailedDeletePodReason = ''FailedDeletePod''"
definition SuccessfulDeletePodReason :: string where "SuccessfulDeletePodReason = ''SuccessfulDeletePod''"
definition FailedCreateServiceReason :: string where "FailedCreateServiceReason = ''FailedCreateService''"
definition SuccessfulCreateServiceReason :: string where
  "SuccessfulCreateServiceReason = ''SuccessfulCreateService''"
definition FailedDeleteServiceReason :: string where "FailedDeleteServiceReason = ''FailedDeleteService''"
definition SuccessfulDeleteServiceReason :: string where
  "SuccessfulDeleteServiceReason = ''SuccessfulDeleteService''"

section \<open>utils.go\<close>

definition ValidateControllerRef :: "OwnerReference option \<Rightarrow> gerr option" where
  "ValidateControllerRef controllerRef =
     (case controllerRef of
        None \<Rightarrow> Some (PlainErr ''controllerRef is nil'')
      | Some r \<Rightarrow>
          if length (or_APIVersion r) = 0 then Some (PlainErr ''controllerRef has empty APIVersion'')
          else if length (or_Kind r) = 0 then Some (PlainErr ''controllerRef has empty Kind'')
          else if or_Controller r = None \<or> or_Controller r = Some False
          then Some (PlainErr ''controllerRef.Controller is not set to true'')
          else if or_BlockOwnerDeletion r = None \<or> or_BlockOwnerDeletion r = Some False
          then Some (PlainErr ''controllerRef.BlockOwnerDeletion is not set'')
          else None)"

definition add_owner :: "OwnerReference option \<Rightarrow> ObjectMeta \<Rightarrow> ObjectMeta" where
  "add_owner controllerRef m =
     (case controllerRef of None \<Rightarrow> m | Some r \<Rightarrow> m\<lparr>om_OwnerReferences := om_OwnerReferences m @ [r]\<rparr>)"

definition GetServiceFromTemplate :: "Service \<Rightarrow> OwnerReference option \<Rightarrow> Service" where
  "GetServiceFromTemplate template controllerRef =
     template\<lparr>svc_Meta := add_owner controllerRef (svc_Meta template)\<rparr>"

section \<open>pod\_control.go\<close>

definition copy_map :: "smap \<Rightarrow> smap" where
  "copy_map m = foldl (\<lambda>acc (k, v). AList.update k v acc) [] m"

definition getPodsLabelSet :: "PodTemplateSpec \<Rightarrow> smap" where
  "getPodsLabelSet template = copy_map (om_Labels (pt_Meta template))"

definition getPodsFinalizers :: "PodTemplateSpec \<Rightarrow> string list" where
  "getPodsFinalizers template = om_Finalizers (pt_Meta template)"

definition getPodsAnnotationSet :: "PodTemplateSpec \<Rightarrow> smap" where
  "getPodsAnnotationSet template = copy_map (om_Annotations (pt_Meta template))"

definition GetPodFromTemplate :: "PodTemplateSpec \<Rightarrow> OwnerReference option \<Rightarrow> Pod" where
  "GetPodFromTemplate template controllerRef =
     \<lparr> pod_Meta = add_owner controllerRef (empty_meta\<lparr>
          om_Labels := getPodsLabelSet template,
          om_Annotations := getPodsAnnotationSet template,
          om_Name := om_Name (pt_Meta template),
          om_Finalizers := getPodsFinalizers template\<rparr>),
       pod_Spec = pt_Spec template,
       pod_Status = empty_pod_status \<rparr>"

definition createPods ::
  "'w kenv \<Rightarrow> string \<Rightarrow> string \<Rightarrow> PodTemplateSpec \<Rightarrow> OwnerReference option \<Rightarrow> ('w, 'st, gerr option) ctl" where
  "createPods E nodeName namespace template controllerRef =
     (let pod = GetPodFromTemplate template controllerRef;
          pod = (if length nodeName \<noteq> 0
                 then pod\<lparr>pod_Spec := (pod_Spec pod)\<lparr>ps_NodeName := nodeName\<rparr>\<rparr> else pod)
      in if ke_SelectorEmpty E (om_Labels (pod_Meta pod))
         then go_return (Some (PlainErr ''unable to create pods, no labels''))
         else go_bind (api (cl_Create (ke_pods E) namespace pod) (\<lambda>r. CreatePodCall namespace pod (err_of r)))
           (\<lambda>r. case r of
              Inl err \<Rightarrow> go_seq (Event EventTypeWarning FailedCreatePodReason (''Error creating: '' @ err_text err))
                               (go_return (Some err))
            | Inr newPod \<Rightarrow> go_seq
                (Event EventTypeNormal SuccessfulCreatePodReason (''Created pod: '' @ om_Name (pod_Meta newPod)))
                (go_return None)))"

definition CreatePods :: "'w kenv \<Rightarrow> string \<Rightarrow> PodTemplateSpec \<Rightarrow> ('w, 'st, gerr option) ctl" where
  "CreatePods E namespace template = createPods E [] namespace template None"

definition CreatePodsWithControllerRef ::
  "'w kenv \<Rightarrow> string \<Rightarrow> PodTemplateSpec \<Rightarrow> OwnerReference option \<Rightarrow> ('w, 'st, gerr option) ctl" where
  "CreatePodsWithControllerRef E namespace template controllerRef =
     (case ValidateControllerRef controllerRef of
        Some err \<Rightarrow> go_return (Some err)
      | None \<Rightarrow> createPods E [] namespace template controllerRef)"

definition CreatePodsOnNode ::
  "'w kenv \<Rightarrow> string \<Rightarrow> string \<Rightarrow> PodTemplateSpec \<Rightarrow> OwnerReference option \<Rightarrow> ('w, 'st, gerr option) ctl" where
  "CreatePodsOnNode E nodeName namespace template controllerRef =
     (case ValidateControllerRef controllerRef of
        Some err \<Rightarrow> go_return (Some err)
      | None \<Rightarrow> createPods E nodeName namespace template controllerRef)"

definition PatchPod :: "'w kenv \<Rightarrow> string \<Rightarrow> string \<Rightarrow> string \<Rightarrow> ('w, 'st, gerr option) ctl" where
  "PatchPod E namespace name data =
     api (cl_Patch (ke_pods E) namespace name data) (PatchPodCall namespace name data)"

definition DeletePod :: "'w kenv \<Rightarrow> string \<Rightarrow> string \<Rightarrow> ('w, 'st, gerr option) ctl" where
  "DeletePod E namespace podID =
     go_bind (call (cl_Get (ke_pods E) namespace podID)) (\<lambda>r.
     case r of
       Inl err \<Rightarrow> if IsNotFound err then go_return None else go_return (Some err)
     | Inr pod \<Rightarrow>
         if om_DeletionTimestamp (pod_Meta pod) \<noteq> None then go_return None
         else go_bind (api (cl_Delete (ke_pods E) namespace podID) (DeletePodCall namespace podID)) (\<lambda>r.
           case r of
             Some err \<Rightarrow> go_seq
               (Event EventTypeWarning FailedDeletePodReason (''Error deleting: '' @ err_text err))
               (go_return (Some (errorf_v ''unable to delete pods: '' err)))
           | None \<Rightarrow> go_seq
               (Event EventTypeNormal SuccessfulDeletePodReason (''Deleted pod: '' @ podID)) (go_return None)))"

section \<open>service\_control.go\<close>

definition PatchService :: "'w kenv \<Rightarrow> string \<Rightarrow> string \<Rightarrow> string \<Rightarrow> ('w, 'st, gerr option) ctl" where
  "PatchService E namespace name data =
     api (cl_Patch (ke_services E) namespace name data) (PatchServiceCall namespace name data)"

definition createServices ::
  "'w kenv \<Rightarrow> string \<Rightarrow> Service \<Rightarrow> OwnerReference option \<Rightarrow> ('w, 'st, gerr option) ctl" where
  "createServices E namespace service controllerRef =
     (if ke_SelectorEmpty E (om_Labels (svc_Meta service))
      then go_return (Some (PlainErr ''unable to create Services, no labels''))
      else let serviceWithOwner = GetServiceFromTemplate service controllerRef in
        go_bind (api (cl_Create (ke_services E) namespace serviceWithOwner)
                  (\<lambda>r. CreateServiceCall namespace serviceWithOwner (err_of r))) (\<lambda>r.
        case r of
          Inl err \<Rightarrow> go_seq (Event EventTypeWarning FailedCreateServiceReason (''Error creating: '' @ err_text err))
                           (go_return (Some (errorf_v ''unable to create services: '' err)))
        | Inr newService \<Rightarrow> go_seq
            (Event EventTypeNormal SuccessfulCreateServiceReason
              (''Created service: '' @ om_Name (svc_Meta newService)))
            (go_return None)))"

definition CreateServices :: "'w kenv \<Rightarrow> string \<Rightarrow> Service \<Rightarrow> ('w, 'st, gerr option) ctl" where
  "CreateServices E namespace service = createServices E namespace service None"

definition CreateServicesWithControllerRef ::
  "'w kenv \<Rightarrow> string \<Rightarrow> Service \<Rightarrow> OwnerReference option \<Rightarrow> ('w, 'st, gerr option) ctl" where
  "CreateServicesWithControllerRef E namespace service controllerRef =
     (case ValidateControllerRef controllerRef of
        Some err \<Rightarrow> go_return (Some err)
      | None \<Rightarrow> createServices E namespace service controllerRef)"

definition DeleteService :: "'w kenv \<Rightarrow> string \<Rightarrow> string \<Rightarrow> ('w, 'st, gerr option) ctl" where
  "DeleteService E namespace serviceID =
     go_bind (call (cl_Get (ke_services E) namespace serviceID)) (\<lambda>r.
     case r of
       Inl err \<Rightarrow> if IsNotFound err then go_return None else go_return (Some err)
     | Inr service \<Rightarrow>
         if om_DeletionTimestamp (svc_Meta service) \<noteq> None then go_return None
         else go_bind (api (cl_Delete (ke_services E) namespace serviceID)
                        (DeleteServiceCall namespace serviceID)) (\<lambda>r.
           case r of
             Some err \<Rightarrow> go_seq
               (Event EventTypeWarning FailedDeleteServiceReason (''Error deleting: '' @ err_text err))
               (go_return (Some (errorf_v ''unable to delete service: '' err)))
           | None \<Rightarrow> go_seq
               (Event EventTypeNormal SuccessfulDeleteServiceReason (''Deleted service: '' @ serviceID))
               (go_return None)))"

section \<open>configmap\_control.go\<close>

definition GetConfigMapFromTemplate :: "ConfigMap \<Rightarrow> OwnerReference option \<Rightarrow> ConfigMap" where
  "GetConfigMapFromTemplate template controllerRef =
     \<lparr> cm_Meta = add_owner controllerRef (cm_Meta template), cm_Kind = [],
       cm_Data = cm_Data template, cm_BinaryData = None \<rparr>"

text \<open>The template is overwritten with the created object; the new value is returned beside the
  error.\<close>

definition createConfigMap ::
  "'w kenv \<Rightarrow> string \<Rightarrow> ConfigMap \<Rightarrow> OwnerReference option \<Rightarrow> ('w, 'st, gerr option \<times> ConfigMap) ctl" where
  "createConfigMap E namespace template controllerRef =
     (let cm = GetConfigMapFromTemplate template controllerRef in
      go_bind (api (cl_Create (ke_configmaps E) namespace cm)
                (\<lambda>r. CreateConfigMapCall namespace cm (err_of r))) (\<lambda>r.
      case r of
        Inl err \<Rightarrow> go_seq (Event EventTypeWarning FailedCreatePodReason (''Error creating: '' @ err_text err))
                         (go_return (Some err, template))
      | Inr newConfigMap \<Rightarrow> go_seq
          (Event EventTypeNormal SuccessfulCreatePodReason
            (''Created pod: '' @ om_Name (cm_Meta newConfigMap)))
          (go_return (None, newConfigMap))))"

definition CreateConfigMap ::
  "'w kenv \<Rightarrow> string \<Rightarrow> ConfigMap \<Rightarrow> ('w, 'st, gerr option \<times> ConfigMap) ctl" where
  "CreateConfigMap E namespace configmap = createConfigMap E namespace configmap None"

definition CreateConfigMapWithControllerRef ::
  "'w kenv \<Rightarrow> string \<Rightarrow> ConfigMap \<Rightarrow> OwnerReference option \<Rightarrow> ('w, 'st, gerr option \<times> ConfigMap) ctl" where
  "CreateConfigMapWithControllerRef E namespace configmap controllerRef =
     (case ValidateControllerRef controllerRef of
        Some err \<Rightarrow> go_return (Some err, configmap)
      | None \<Rightarrow> createConfigMap E namespace configmap controllerRef)"

definition UpdateConfigMap ::
  "'w kenv \<Rightarrow> string \<Rightarrow> ConfigMap \<Rightarrow> ('w, 'st, gerr option \<times> ConfigMap) ctl" where
  "UpdateConfigMap E namespace configmap =
     go_bind (api (cl_Update (ke_configmaps E) namespace configmap)
               (\<lambda>r. UpdateConfigMapCall namespace configmap (err_of r))) (\<lambda>r.
     case r of
       Inl err \<Rightarrow> go_return (Some err, configmap)
     | Inr newConfigMap \<Rightarrow> go_return (None, newConfigMap))"

definition DeleteConfigMap :: "'w kenv \<Rightarrow> string \<Rightarrow> string \<Rightarrow> ('w, 'st, gerr option) ctl" where
  "DeleteConfigMap E namespace configMapID =
     go_bind (call (cl_Get (ke_configmaps E) namespace configMapID)) (\<lambda>r.
     case r of
       Inl err \<Rightarrow> if IsNotFound err then go_return None else go_return (Some err)
     | Inr cm \<Rightarrow>
         if om_DeletionTimestamp (cm_Meta cm) \<noteq> None then go_return None
         else go_bind (api (cl_Delete (ke_configmaps E) namespace configMapID)
                        (DeleteConfigMapCall namespace configMapID)) (\<lambda>r.
           case r of
             Some err \<Rightarrow> go_seq
               (Event EventTypeWarning FailedDeletePodReason (''Error deleting: '' @ err_text err))
               (go_return (Some (errorf_v ''unable to delete pods: '' err)))
           | None \<Rightarrow> go_seq
               (Event EventTypeNormal SuccessfulDeletePodReason (''Deleted configMap: '' @ configMapID))
               (go_return None)))"

section \<open>FakePodControl and FakeServiceControl\<close>

text \<open>The two fakes have the same fields and the same methods over different object types; the
  lock makes every method atomic. The state is the struct itself.\<close>

record 't fake_control =
  fc_Templates :: "'t list"
  fc_ControllerRefs :: "OwnerReference list"
  fc_DeleteName :: "string list"
  fc_Patches :: "string list"
  fc_Err :: "gerr option"
  fc_CreateLimit :: int
  fc_CreateCallCount :: int

type_synonym FakePodControl = "PodTemplateSpec fake_control"
type_synonym FakeServiceControl = "Service fake_control"

definition fake_patch :: "string \<Rightarrow> ('t fake_control, gerr option) go" where
  "fake_patch data = (\<lambda>f. Ret (fc_Err f) (f\<lparr>fc_Patches := fc_Patches f @ [data]\<rparr>))"

definition limit_error :: "string \<Rightarrow> int \<Rightarrow> int \<Rightarrow> gerr" where
  "limit_error kind limit n = PlainErr (''not creating '' @ kind @ '', limit '' @ Itoa limit @
     '' already reached (create call '' @ Itoa n @ '')'')"

definition fake_create :: "string \<Rightarrow> 't \<Rightarrow> ('t fake_control, gerr option) go" where
  "fake_create kind spec = (\<lambda>f.
     let n = fc_CreateCallCount f + 1; f = f\<lparr>fc_CreateCallCount := n\<rparr> in
     if fc_CreateLimit f \<noteq> 0 \<and> n > fc_CreateLimit f then Ret (Some (limit_error kind (fc_CreateLimit f) n)) f
     else Ret (fc_Err f) (f\<lparr>fc_Templates := fc_Templates f @ [spec]\<rparr>))"

definition fake_create_ref ::
  "string \<Rightarrow> 't \<Rightarrow> OwnerReference option \<Rightarrow> ('t fake_control, gerr option) go" where
  "fake_create_ref kind spec controllerRef = (\<lambda>f.
     let n = fc_CreateCallCount f + 1; f = f\<lparr>fc_CreateCallCount := n\<rparr> in
     if fc_CreateLimit f \<noteq> 0 \<and> n > fc_CreateLimit f then Ret (Some (limit_error kind (fc_CreateLimit f) n)) f
     else let f = f\<lparr>fc_Templates := fc_Templates f @ [spec]\<rparr> in
       case controllerRef of
         None \<Rightarrow> Panic ''nil pointer dereference'' f
       | Some r \<Rightarrow> Ret (fc_Err f) (f\<lparr>fc_ControllerRefs := fc_ControllerRefs f @ [r]\<rparr>))"

definition fake_delete :: "string \<Rightarrow> ('t fake_control, gerr option) go" where
  "fake_delete objID = (\<lambda>f. Ret (fc_Err f) (f\<lparr>fc_DeleteName := fc_DeleteName f @ [objID]\<rparr>))"

definition fake_clear :: "('t fake_control, unit) go" where
  "fake_clear = go_modify (\<lambda>f. f\<lparr>fc_DeleteName := [], fc_Templates := [], fc_ControllerRefs := [],
     fc_Patches := [], fc_CreateLimit := 0, fc_CreateCallCount := 0\<rparr>)"

definition FakePatchPod :: "string \<Rightarrow> string \<Rightarrow> string \<Rightarrow> (FakePodControl, gerr option) go" where
  "FakePatchPod namespace name data = fake_patch data"
definition FakeCreatePods :: "string \<Rightarrow> PodTemplateSpec \<Rightarrow> (FakePodControl, gerr option) go" where
  "FakeCreatePods namespace spec = fake_create ''pod'' spec"
definition FakeCreatePodsWithControllerRef ::
  "string \<Rightarrow> PodTemplateSpec \<Rightarrow> OwnerReference option \<Rightarrow> (FakePodControl, gerr option) go" where
  "FakeCreatePodsWithControllerRef namespace spec controllerRef = fake_create_ref ''pod'' spec controllerRef"
definition FakeCreatePodsOnNode ::
  "string \<Rightarrow> string \<Rightarrow> PodTemplateSpec \<Rightarrow> OwnerReference option \<Rightarrow> (FakePodControl, gerr option) go" where
  "FakeCreatePodsOnNode nodeName namespace template controllerRef =
     fake_create_ref ''pod'' template controllerRef"
definition FakeDeletePod :: "string \<Rightarrow> string \<Rightarrow> (FakePodControl, gerr option) go" where
  "FakeDeletePod namespace podID = fake_delete podID"
definition FakePodClear :: "(FakePodControl, unit) go" where
  "FakePodClear = fake_clear"

definition FakePatchService :: "string \<Rightarrow> string \<Rightarrow> string \<Rightarrow> (FakeServiceControl, gerr option) go" where
  "FakePatchService namespace name data = fake_patch data"
definition FakeCreateServices :: "string \<Rightarrow> Service \<Rightarrow> (FakeServiceControl, gerr option) go" where
  "FakeCreateServices namespace service = fake_create ''service'' service"
definition FakeCreateServicesWithControllerRef ::
  "string \<Rightarrow> Service \<Rightarrow> OwnerReference option \<Rightarrow> (FakeServiceControl, gerr option) go" where
  "FakeCreateServicesWithControllerRef namespace service controllerRef =
     fake_create_ref ''service'' service controllerRef"
definition FakeDeleteService :: "string \<Rightarrow> string \<Rightarrow> (FakeServiceControl, gerr option) go" where
  "FakeDeleteService namespace serviceID = fake_delete serviceID"
definition FakeServiceClear :: "(FakeServiceControl, unit) go" where
  "FakeServiceClear = fake_clear"

lemmas fake_defs = fake_patch_def fake_create_def fake_create_ref_def fake_delete_def fake_clear_def
  FakePatchPod_def FakeCreatePods_def FakeCreatePodsWithControllerRef_def FakeCreatePodsOnNode_def
  FakeDeletePod_def FakePodClear_def FakePatchService_def FakeCreateServices_def
  FakeCreateServicesWithControllerRef_def FakeDeleteService_def FakeServiceClear_def

section \<open>The interface of a control\<close>

text \<open>What a client of \<open>PodControlInterface\<close> or \<open>ServiceControlInterface\<close> relies on: with a valid
  controller reference no call panics; a creation that returns no error has added exactly its own
  template; deletions and patches create nothing.\<close>

locale object_control =
  fixes create_ref :: "string \<Rightarrow> 't \<Rightarrow> OwnerReference option \<Rightarrow> ('s, gerr option) go"
    and delete :: "string \<Rightarrow> string \<Rightarrow> ('s, gerr option) go"
    and patch :: "string \<Rightarrow> string \<Rightarrow> string \<Rightarrow> ('s, gerr option) go"
    and name_of :: "'t \<Rightarrow> string"
    and created :: "'s \<Rightarrow> string list"
  assumes create_spec: "ValidateControllerRef ref = None \<Longrightarrow>
        wp (create_ref ns t ref) (\<lambda>r s'. r = None \<longrightarrow> created s' = created s @ [name_of t]) s"
    and delete_spec: "wp (delete ns nm) (\<lambda>_ s'. created s' = created s) s"
    and patch_spec: "wp (patch ns nm data) (\<lambda>_ s'. created s' = created s) s"
begin

text \<open>Creating a list of objects one after the other, as the reconcile loops do.\<close>

lemma create_all:
  assumes "ValidateControllerRef ref = None"
  shows "wp (go_forE (\<lambda>t. create_ref ns t ref) ts) (\<lambda>r s'. r = None \<longrightarrow> created s' = created s @ map name_of ts) s"
proof (rule wp_forE [where I = "\<lambda>rest s'. \<exists>done. ts = done @ rest \<and> created s' = created s @ map name_of done"])
  fix y ys t
  assume "\<exists>done. ts = done @ y # ys \<and> created t = created s @ map name_of done"
  then obtain dn where d: "ts = dn @ y # ys" "created t = created s @ map name_of dn" by blast
  show "wp (create_ref ns y ref) (\<lambda>r t'. case r of
      None \<Rightarrow> \<exists>done. ts = done @ ys \<and> created t' = created s @ map name_of done
    | Some e \<Rightarrow> Some e = None \<longrightarrow> created t' = created s @ map name_of ts) t"
    by (rule wp_mono [OF create_spec [OF assms]])
      (auto split: option.splits simp: d intro!: exI [of _ "dn @ [y]"])
qed auto

end

definition created_pod :: "effect \<Rightarrow> string list" where
  "created_pod e = (case e of CreatePodCall ns p r \<Rightarrow>
     (if r = None then [om_Name (pod_Meta p)] else []) | _ \<Rightarrow> [])"

definition created_service :: "effect \<Rightarrow> string list" where
  "created_service e = (case e of CreateServiceCall ns p r \<Rightarrow>
     (if r = None then [om_Name (svc_Meta p)] else []) | _ \<Rightarrow> [])"

lemma add_owner_simps [simp]:
  "om_Name (add_owner r m) = om_Name m" "om_Labels (add_owner r m) = om_Labels m"
  "om_Annotations (add_owner r m) = om_Annotations m" "om_Finalizers (add_owner r m) = om_Finalizers m"
  "om_Namespace (add_owner r m) = om_Namespace m" "om_UID (add_owner r m) = om_UID m"
  by (simp_all add: add_owner_def split: option.splits)

interpretation real_pods: object_control
  "CreatePodsWithControllerRef E" "DeletePod E" "PatchPod E" "\<lambda>t. om_Name (pt_Meta t)"
  "\<lambda>s. concat (map created_pod (trace s))"
  by unfold_locales
    (auto simp: CreatePodsWithControllerRef_def createPods_def DeletePod_def PatchPod_def
      GetPodFromTemplate_def created_pod_def wp Let_def split: prod.splits sum.splits option.splits)

interpretation fake_pods: object_control
  FakeCreatePodsWithControllerRef FakeDeletePod FakePatchPod "\<lambda>t. om_Name (pt_Meta t)"
  "\<lambda>f. map (\<lambda>t. om_Name (pt_Meta t)) (fc_Templates f)"
  by unfold_locales
    (auto simp: fake_defs wp_def Let_def ValidateControllerRef_def split: option.splits)

interpretation real_services: object_control
  "CreateServicesWithControllerRef E" "DeleteService E" "PatchService E" "\<lambda>t. om_Name (svc_Meta t)"
  "\<lambda>s. concat (map created_service (trace s))"
  by unfold_locales
    (auto simp: CreateServicesWithControllerRef_def createServices_def DeleteService_def PatchService_def
      GetServiceFromTemplate_def created_service_def wp Let_def split: prod.splits sum.splits option.splits)

interpretation fake_services: object_control
  FakeCreateServicesWithControllerRef FakeDeleteService FakePatchService "\<lambda>t. om_Name (svc_Meta t)"
  "\<lambda>f. map (\<lambda>t. om_Name (svc_Meta t)) (fc_Templates f)"
  by unfold_locales
    (auto simp: fake_defs wp_def Let_def ValidateControllerRef_def split: option.splits)

section \<open>What the real controls do to the state\<close>

lemma control_total [total_intros]:
  "total (DeletePod E ns nm)" "total (DeleteService E ns nm)" "total (DeleteConfigMap E ns nm)"
  "total (PatchPod E ns nm data)" "total (PatchService E ns nm data)"
  "total (CreatePodsWithControllerRef E ns t ref)" "total (CreateServicesWithControllerRef E ns v ref)"
  "total (CreateConfigMapWithControllerRef E ns cm ref)" "total (UpdateConfigMap E ns cm)"
  unfolding DeletePod_def DeleteService_def DeleteConfigMap_def PatchPod_def PatchService_def
    CreatePodsWithControllerRef_def createPods_def CreateServicesWithControllerRef_def createServices_def
    CreateConfigMapWithControllerRef_def createConfigMap_def UpdateConfigMap_def Let_def
  by (intro total_rules total_intros)+

lemma control_kcl [frame_intros]:
  "keeps (unchanged kcl) (DeletePod E ns nm)" "keeps (unchanged kcl) (DeleteService E ns nm)"
  "keeps (unchanged kcl) (DeleteConfigMap E ns nm)"
  "keeps (unchanged kcl) (PatchPod E ns nm data)" "keeps (unchanged kcl) (PatchService E ns nm data)"
  "keeps (unchanged kcl) (CreatePodsWithControllerRef E ns t ref)"
  "keeps (unchanged kcl) (CreateServicesWithControllerRef E ns v ref)"
  "keeps (unchanged kcl) (CreateConfigMapWithControllerRef E ns cm ref)"
  "keeps (unchanged kcl) (UpdateConfigMap E ns cm)"
  unfolding DeletePod_def DeleteService_def DeleteConfigMap_def PatchPod_def PatchService_def
    CreatePodsWithControllerRef_def createPods_def CreateServicesWithControllerRef_def createServices_def
    CreateConfigMapWithControllerRef_def createConfigMap_def UpdateConfigMap_def Let_def
  by (intro unchanged_rules frame_intros)+

lemma control_exps [frame_intros]:
  "keeps (unchanged exps) (DeletePod E ns nm)" "keeps (unchanged exps) (DeleteService E ns nm)"
  "keeps (unchanged exps) (DeleteConfigMap E ns nm)"
  "keeps (unchanged exps) (PatchPod E ns nm data)" "keeps (unchanged exps) (PatchService E ns nm data)"
  "keeps (unchanged exps) (CreatePodsWithControllerRef E ns t ref)"
  "keeps (unchanged exps) (CreateServicesWithControllerRef E ns v ref)"
  "keeps (unchanged exps) (CreateConfigMapWithControllerRef E ns cm ref)"
  "keeps (unchanged exps) (UpdateConfigMap E ns cm)"
  unfolding DeletePod_def DeleteService_def DeleteConfigMap_def PatchPod_def PatchService_def
    CreatePodsWithControllerRef_def createPods_def CreateServicesWithControllerRef_def createServices_def
    CreateConfigMapWithControllerRef_def createConfigMap_def UpdateConfigMap_def Let_def
  by (intro unchanged_rules frame_intros)+

lemma emits_DeletePod [emits_intros]:
  "(\<And>t r m. P (EventCall t r m)) \<Longrightarrow> (\<And>r. P (DeletePodCall ns nm r)) \<Longrightarrow> emits P (DeletePod E ns nm)"
  unfolding DeletePod_def by (intro emits_rules emits_intros) auto

lemma emits_DeleteService [emits_intros]:
  "(\<And>t r m. P (EventCall t r m)) \<Longrightarrow> (\<And>r. P (DeleteServiceCall ns nm r)) \<Longrightarrow> emits P (DeleteService E ns nm)"
  unfolding DeleteService_def by (intro emits_rules emits_intros) auto

lemma emits_DeleteConfigMap [emits_intros]:
  "(\<And>t r m. P (EventCall t r m)) \<Longrightarrow> (\<And>r. P (DeleteConfigMapCall ns nm r)) \<Longrightarrow> emits P (DeleteConfigMap E ns nm)"
  unfolding DeleteConfigMap_def by (intro emits_rules emits_intros) auto

lemma emits_UpdateConfigMap [emits_intros]:
  "(\<And>r. P (UpdateConfigMapCall ns cm r)) \<Longrightarrow> emits P (UpdateConfigMap E ns cm)"
  unfolding UpdateConfigMap_def by (intro emits_rules emits_intros) auto

lemma emits_PatchPod [emits_intros]:
  "(\<And>r. P (PatchPodCall ns nm data r)) \<Longrightarrow> emits P (PatchPod E ns nm data)"
  unfolding PatchPod_def by (intro emits_rules emits_intros) auto

lemma emits_PatchService [emits_intros]:
  "(\<And>r. P (PatchServiceCall ns nm data r)) \<Longrightarrow> emits P (PatchService E ns nm data)"
  unfolding PatchService_def by (intro emits_rules emits_intros) auto

lemma emits_CreatePodsRef [emits_intros]:
  assumes "\<And>t r m. P (EventCall t r m)"
    and "\<And>r. ValidateControllerRef ref = None \<Longrightarrow> P (CreatePodCall ns (GetPodFromTemplate t ref) r)"
  shows "emits P (CreatePodsWithControllerRef E ns t ref)"
  unfolding CreatePodsWithControllerRef_def createPods_def Let_def
  using assms by (intro emits_rules emits_intros) auto

lemma emits_CreateServicesRef [emits_intros]:
  assumes "\<And>t r m. P (EventCall t r m)"
    and "\<And>r. ValidateControllerRef ref = None \<Longrightarrow> P (CreateServiceCall ns (GetServiceFromTemplate v ref) r)"
  shows "emits P (CreateServicesWithControllerRef E ns v ref)"
  unfolding CreateServicesWithControllerRef_def createServices_def Let_def
  using assms by (intro emits_rules emits_intros) auto

lemma emits_CreateConfigMapRef [emits_intros]:
  assumes "\<And>t r m. P (EventCall t r m)"
    and "\<And>r. ValidateControllerRef ref = None \<Longrightarrow> P (CreateConfigMapCall ns (GetConfigMapFromTemplate cm ref) r)"
  shows "emits P (CreateConfigMapWithControllerRef E ns cm ref)"
  unfolding CreateConfigMapWithControllerRef_def createConfigMap_def Let_def
  using assms by (intro emits_rules emits_intros) auto

lemma ValidateControllerRef_iff:
  "ValidateControllerRef ref = None \<longleftrightarrow>
     (\<exists>r. ref = Some r \<and> or_APIVersion r \<noteq> [] \<and> or_Kind r \<noteq> [] \<and>
        or_Controller r = Some True \<and> or_BlockOwnerDeletion r = Some True)"
  by (auto simp: ValidateControllerRef_def split: option.splits)

lemma copy_map_distinct: "distinct (map fst m) \<Longrightarrow> map_of (copy_map m) = map_of m"
  by (simp add: copy_map_def map_of_foldl_update map_of_rev_distinct)

text \<open>The pod control sends a pod to the API server only with a valid controller reference, and
  then as the pod's only owner: the reference names an API version and a kind, is marked as the
  controller and blocks the owner's deletion. The pod has the name, the finalizers and the spec of
  the template. With an invalid reference the call returns the validation error and does nothing.\<close>

lemma created_pods_are_owned:
  "keeps (appends trace (\<lambda>e. is_note e \<or> (\<exists>p res r. e = CreatePodCall ns p res \<and> ref = Some r \<and>
       om_OwnerReferences (pod_Meta p) = [r] \<and> or_APIVersion r \<noteq> [] \<and> or_Kind r \<noteq> [] \<and>
       or_Controller r = Some True \<and> or_BlockOwnerDeletion r = Some True \<and>
       om_Name (pod_Meta p) = om_Name (pt_Meta template) \<and>
       om_Finalizers (pod_Meta p) = om_Finalizers (pt_Meta template) \<and> pod_Spec p = pt_Spec template)))
     (CreatePodsWithControllerRef E ns template ref) \<and>
   CreatePodsWithControllerRef E ns template None s = Ret (Some (PlainErr ''controllerRef is nil'')) s"
proof
  show "CreatePodsWithControllerRef E ns template None s = Ret (Some (PlainErr ''controllerRef is nil'')) s"
    by (simp add: CreatePodsWithControllerRef_def ValidateControllerRef_def go_run)
qed (auto intro!: emits_CreatePodsRef simp: ValidateControllerRef_iff GetPodFromTemplate_def
      add_owner_def empty_meta_def getPodsFinalizers_def)

end
