(* ===== verification/PodGroupControl.thy ===== *)
theory PodGroupControl
  imports Control
begin

text \<open>
  \<open>pkg/controller/control/podgroup_control.go\<close>: the two gang schedulers behind
  \<open>PodGroupControlInterface\<close>. A control is a value of \<open>pg_control\<close>; its methods dispatch on it. A
  \<open>metav1.Object\<close> that may be nil is an option; a type assertion to the other scheduler's pod group
  panics.
\<close>

datatype pg_control = VolcanoControl | SchedulerPluginsControl string

definition NewVolcanoControl :: pg_control where "NewVolcanoControl = VolcanoControl"
definition NewSchedulerPluginsControl :: "string \<Rightarrow> pg_control" where
  "NewSchedulerPluginsControl schedulerName = SchedulerPluginsControl schedulerName"

primrec pg_meta :: "PodGroup \<Rightarrow> ObjectMeta" where
  "pg_meta (VolcanoPodGroup m sp ph) = m"
| "pg_meta (SchedulerPluginsPodGroup m sp) = m"

primrec pg_set_meta :: "ObjectMeta \<Rightarrow> PodGroup \<Rightarrow> PodGroup" where
  "pg_set_meta m' (VolcanoPodGroup m sp ph) = VolcanoPodGroup m' sp ph"
| "pg_set_meta m' (SchedulerPluginsPodGroup m sp) = SchedulerPluginsPodGroup m' sp"

text \<open>\<open>klog.KObj\<close>.\<close>

definition KObj :: "ObjectMeta \<Rightarrow> string" where
  "KObj m = (if om_Namespace m \<noteq> [] then om_Namespace m @ ''/'' @ om_Name m else om_Name m)"

section \<open>VolcanoControl\<close>

definition Volcano_GetSchedulerName :: string where "Volcano_GetSchedulerName = ''volcano''"

definition Volcano_DecoratePodTemplateSpec ::
  "'w kenv \<Rightarrow> PodTemplateSpec \<Rightarrow> ObjectMeta \<Rightarrow> string \<Rightarrow> PodTemplateSpec" where
  "Volcano_DecoratePodTemplateSpec E pts cluster rtype =
     (let pts = (if length (ps_SchedulerName (pt_Spec pts)) = 0
                 then pts\<lparr>pt_Spec := (pt_Spec pts)\<lparr>ps_SchedulerName := Volcano_GetSchedulerName\<rparr>\<rparr> else pts)
      in pts\<lparr>pt_Meta := (pt_Meta pts)\<lparr>om_Annotations :=
           AList.update (ke_TaskSpecKey E) rtype
             (AList.update (ke_KubeGroupNameAnnotationKey E) (om_Name cluster) (om_Annotations (pt_Meta pts)))\<rparr>\<rparr>)"

definition Volcano_DelayPodCreationDueToPodGroup :: "'w kenv \<Rightarrow> PodGroup option \<Rightarrow> string + bool" where
  "Volcano_DelayPodCreationDueToPodGroup E pg =
     (case pg of
        None \<Rightarrow> Inr True
      | Some (VolcanoPodGroup m sp phase) \<Rightarrow> Inr (length phase = 0 \<or> phase = ke_PodGroupPending E)
      | Some _ \<Rightarrow> Inl ''interface conversion'')"

definition Volcano_NewEmptyPodGroup :: PodGroup where
  "Volcano_NewEmptyPodGroup = VolcanoPodGroup empty_meta
     \<lparr> vpg_MinMember = 0, vpg_Queue = [], vpg_PriorityClassName = [], vpg_MinResources = None \<rparr> []"

definition Volcano_GetPodGroup :: "'w kenv \<Rightarrow> string \<Rightarrow> string \<Rightarrow> ('w, 'st, gerr + PodGroup) ctl" where
  "Volcano_GetPodGroup E namespace name = call (cl_Get (ke_volcano E) namespace name)"

definition Volcano_DeletePodGroup :: "'w kenv \<Rightarrow> string \<Rightarrow> string \<Rightarrow> ('w, 'st, gerr option) ctl" where
  "Volcano_DeletePodGroup E namespace name =
     api (cl_Delete (ke_volcano E) namespace name) (DeletePodGroupCall namespace name)"

definition Volcano_UpdatePodGroup :: "'w kenv \<Rightarrow> PodGroup \<Rightarrow> ('w, 'st, gerr option) ctl" where
  "Volcano_UpdatePodGroup E pg =
     (case pg of
        VolcanoPodGroup m sp ph \<Rightarrow>
          go_bind (api (cl_Update (ke_volcano E) (om_Namespace m) pg)
                    (\<lambda>r. UpdatePodGroupCall (om_Namespace m) pg (err_of r))) (\<lambda>r.
          case r of
            Inl err \<Rightarrow> go_return (Some (errorf_v (''unable to update a PodGroup, '' @ KObj m @ '': '') err))
          | Inr _ \<Rightarrow> go_return None)
      | SchedulerPluginsPodGroup m sp \<Rightarrow> go_panic ''interface conversion'')"

definition Volcano_CreatePodGroup :: "'w kenv \<Rightarrow> PodGroup \<Rightarrow> ('w, 'st, gerr option) ctl" where
  "Volcano_CreatePodGroup E pg =
     (case pg of
        VolcanoPodGroup m sp ph \<Rightarrow>
          go_bind (api (cl_Create (ke_volcano E) (om_Namespace m) pg)
                    (\<lambda>r. CreatePodGroupCall (om_Namespace m) pg (err_of r))) (\<lambda>r.
          case r of
            Inl err \<Rightarrow> go_return (Some (errorf_v ''unable to create PodGroup: '' err))
          | Inr _ \<Rightarrow> go_return None)
      | SchedulerPluginsPodGroup m sp \<Rightarrow> go_panic ''interface conversion'')"

section \<open>SchedulerPluginsControl\<close>

definition SP_DecoratePodTemplateSpec ::
  "'w kenv \<Rightarrow> string \<Rightarrow> PodTemplateSpec \<Rightarrow> ObjectMeta \<Rightarrow> string \<Rightarrow> PodTemplateSpec" where
  "SP_DecoratePodTemplateSpec E schedulerName pts cluster rtype =
     (let pts = (if length (ps_SchedulerName (pt_Spec pts)) = 0
                 then pts\<lparr>pt_Spec := (pt_Spec pts)\<lparr>ps_SchedulerName := schedulerName\<rparr>\<rparr> else pts)
      in pts\<lparr>pt_Meta := (pt_Meta pts)\<lparr>om_Labels :=
           AList.update (ke_PodGroupLabel E) (om_Name cluster) (om_Labels (pt_Meta pts))\<rparr>\<rparr>)"

definition SP_DelayPodCreationDueToPodGroup :: "PodGroup option \<Rightarrow> string + bool" where
  "SP_DelayPodCreationDueToPodGroup pg = Inr False"

definition SP_NewEmptyPodGroup :: PodGroup where
  "SP_NewEmptyPodGroup = SchedulerPluginsPodGroup empty_meta
     \<lparr> spg_MinMember = 0, spg_MinResources = [], spg_ScheduleTimeoutSeconds = None \<rparr>"

definition SP_GetPodGroup :: "'w kenv \<Rightarrow> string \<Rightarrow> string \<Rightarrow> ('w, 'st, gerr + PodGroup) ctl" where
  "SP_GetPodGroup E namespace name = call (cl_Get (ke_schedplugins E) namespace name)"

definition SP_DeletePodGroup :: "'w kenv \<Rightarrow> string \<Rightarrow> string \<Rightarrow> ('w, 'st, gerr option) ctl" where
  "SP_DeletePodGroup E namespace name =
     (let pg = pg_set_meta (empty_meta\<lparr>om_Namespace := namespace, om_Name := name\<rparr>) SP_NewEmptyPodGroup
      in api (cl_Delete (ke_schedplugins E) (om_Namespace (pg_meta pg)) (om_Name (pg_meta pg)))
           (DeletePodGroupCall (om_Namespace (pg_meta pg)) (om_Name (pg_meta pg))))"

definition SP_UpdatePodGroup :: "'w kenv \<Rightarrow> PodGroup \<Rightarrow> ('w, 'st, gerr option) ctl" where
  "SP_UpdatePodGroup E pg =
     (case pg of
        SchedulerPluginsPodGroup m sp \<Rightarrow>
          go_bind (api (cl_Update (ke_schedplugins E) (om_Namespace m) pg)
                    (\<lambda>r. UpdatePodGroupCall (om_Namespace m) pg (err_of r))) (\<lambda>r.
          case r of
            Inl err \<Rightarrow> go_return (Some (errorf_v (''unable to update a PodGroup, '' @ KObj m @ '': '') err))
          | Inr _ \<Rightarrow> go_return None)
      | VolcanoPodGroup m sp ph \<Rightarrow> go_panic ''interface conversion'')"

definition SP_CreatePodGroup :: "'w kenv \<Rightarrow> PodGroup \<Rightarrow> ('w, 'st, gerr option) ctl" where
  "SP_CreatePodGroup E pg =
     (case pg of
        SchedulerPluginsPodGroup m sp \<Rightarrow>
          go_bind (api (cl_Create (ke_schedplugins E) (om_Namespace m) pg)
                    (\<lambda>r. CreatePodGroupCall (om_Namespace m) pg (err_of r))) (\<lambda>r.
          case r of
            Inl err \<Rightarrow> go_return (Some (errorf_v (''unable to create a PodGroup, '' @ KObj m @ '': '') err))
          | Inr _ \<Rightarrow> go_return None)
      | VolcanoPodGroup m sp ph \<Rightarrow> go_panic ''interface conversion'')"

section \<open>The interface\<close>

primrec GetSchedulerName :: "pg_control \<Rightarrow> string" where
  "GetSchedulerName VolcanoControl = Volcano_GetSchedulerName"
| "GetSchedulerName (SchedulerPluginsControl n) = n"

primrec DecoratePodTemplateSpec ::
  "'w kenv \<Rightarrow> pg_control \<Rightarrow> PodTemplateSpec \<Rightarrow> ObjectMeta \<Rightarrow> string \<Rightarrow> PodTemplateSpec" where
  "DecoratePodTemplateSpec E VolcanoControl = Volcano_DecoratePodTemplateSpec E"
| "DecoratePodTemplateSpec E (SchedulerPluginsControl n) = SP_DecoratePodTemplateSpec E n"

primrec DelayPodCreationDueToPodGroup :: "'w kenv \<Rightarrow> pg_control \<Rightarrow> PodGroup option \<Rightarrow> string + bool" where
  "DelayPodCreationDueToPodGroup E VolcanoControl = Volcano_DelayPodCreationDueToPodGroup E"
| "DelayPodCreationDueToPodGroup E (SchedulerPluginsControl n) = SP_DelayPodCreationDueToPodGroup"

primrec NewEmptyPodGroup :: "pg_control \<Rightarrow> PodGroup" where
  "NewEmptyPodGroup VolcanoControl = Volcano_NewEmptyPodGroup"
| "NewEmptyPodGroup (SchedulerPluginsControl n) = SP_NewEmptyPodGroup"

primrec PG_Get :: "'w kenv \<Rightarrow> pg_control \<Rightarrow> string \<Rightarrow> string \<Rightarrow> ('w, 'st, gerr + PodGroup) ctl" where
  "PG_Get E VolcanoControl = Volcano_GetPodGroup E"
| "PG_Get E (SchedulerPluginsControl n) = SP_GetPodGroup E"

primrec PG_Delete :: "'w kenv \<Rightarrow> pg_control \<Rightarrow> string \<Rightarrow> string \<Rightarrow> ('w, 'st, gerr option) ctl" where
  "PG_Delete E VolcanoControl = Volcano_DeletePodGroup E"
| "PG_Delete E (SchedulerPluginsControl n) = SP_DeletePodGroup E"

primrec PG_Update :: "'w kenv \<Rightarrow> pg_control \<Rightarrow> PodGroup \<Rightarrow> ('w, 'st, gerr option) ctl" where
  "PG_Update E VolcanoControl = Volcano_UpdatePodGroup E"
| "PG_Update E (SchedulerPluginsControl n) = SP_UpdatePodGroup E"

primrec PG_Create :: "'w kenv \<Rightarrow> pg_control \<Rightarrow> PodGroup \<Rightarrow> ('w, 'st, gerr option) ctl" where
  "PG_Create E VolcanoControl = Volcano_CreatePodGroup E"
| "PG_Create E (SchedulerPluginsControl n) = SP_CreatePodGroup E"

text \<open>Which pod groups a control understands.\<close>

fun pg_accepts :: "pg_control \<Rightarrow> PodGroup \<Rightarrow> bool" where
  "pg_accepts VolcanoControl (VolcanoPodGroup _ _ _) = True"
| "pg_accepts (SchedulerPluginsControl _) (SchedulerPluginsPodGroup _ _) = True"
| "pg_accepts _ _ = False"

text \<open>The contract of \<open>PodGroupControlInterface\<close>: a control accepts the group it makes, whatever its
  metadata; creating and updating an accepted group never panics; decorating sets the scheduler of
  a template that has none, and nothing of the pod's spec besides.\<close>

locale pod_group_control =
  fixes sched_name :: string
    and accepts :: "PodGroup \<Rightarrow> bool"
    and new_empty :: PodGroup
    and decorate :: "PodTemplateSpec \<Rightarrow> ObjectMeta \<Rightarrow> string \<Rightarrow> PodTemplateSpec"
    and create :: "PodGroup \<Rightarrow> ('w, 'st, gerr option) ctl"
    and update :: "PodGroup \<Rightarrow> ('w, 'st, gerr option) ctl"
    and delay :: "PodGroup option \<Rightarrow> string + bool"
  assumes empty_ok: "accepts (pg_set_meta m new_empty)"
    and create_total: "accepts pg \<Longrightarrow> total (create pg)"
    and update_total: "accepts pg \<Longrightarrow> total (update pg)"
    and delay_ok: "(\<And>pg. x = Some pg \<Longrightarrow> accepts pg) \<Longrightarrow> \<exists>b. delay x = Inr b"
    and decorate_spec: "pt_Spec (decorate t m rt) = (pt_Spec t)\<lparr>ps_SchedulerName :=
        (if ps_SchedulerName (pt_Spec t) = [] then sched_name else ps_SchedulerName (pt_Spec t))\<rparr>"
    and decorate_name: "om_Name (pt_Meta (decorate t m rt)) = om_Name (pt_Meta t)"
begin

lemma decorate_keeps_custom:
  "ps_SchedulerName (pt_Spec t) \<noteq> [] \<Longrightarrow> pt_Spec (decorate t m rt) = pt_Spec t"
  by (simp add: decorate_spec)

lemma decorate_sets: "sched_name \<noteq> [] \<Longrightarrow> ps_SchedulerName (pt_Spec (decorate t m rt)) \<noteq> []"
  by (simp add: decorate_spec)

lemma decorate_twice: "pt_Spec (decorate (decorate t m rt) m rt) = pt_Spec (decorate t m rt)"
  by (simp add: decorate_spec)

end

lemmas volcano_defs = Volcano_DecoratePodTemplateSpec_def Volcano_DelayPodCreationDueToPodGroup_def
  Volcano_NewEmptyPodGroup_def Volcano_GetPodGroup_def Volcano_DeletePodGroup_def
  Volcano_UpdatePodGroup_def Volcano_CreatePodGroup_def
lemmas sp_defs = SP_DecoratePodTemplateSpec_def SP_DelayPodCreationDueToPodGroup_def
  SP_NewEmptyPodGroup_def SP_GetPodGroup_def SP_DeletePodGroup_def SP_UpdatePodGroup_def
  SP_CreatePodGroup_def

lemma pg_accepts_cases:
  assumes "pg_accepts c pg"
  obtains m sp ph where "c = VolcanoControl" "pg = VolcanoPodGroup m sp ph"
  | n m sp where "c = SchedulerPluginsControl n" "pg = SchedulerPluginsPodGroup m sp"
  using assms by (cases c; cases pg) auto

lemma pg_create_total: "pg_accepts c pg \<Longrightarrow> total (PG_Create E c pg)"
  by (erule pg_accepts_cases) (auto simp: volcano_defs sp_defs intro!: total_rules total_intros)

lemma pg_update_total: "pg_accepts c pg \<Longrightarrow> total (PG_Update E c pg)"
  by (erule pg_accepts_cases) (auto simp: volcano_defs sp_defs intro!: total_rules total_intros)

lemma pg_delay_ok: "(\<And>pg. x = Some pg \<Longrightarrow> pg_accepts c pg) \<Longrightarrow> \<exists>b. DelayPodCreationDueToPodGroup E c x = Inr b"
  by (cases x; cases c) (auto simp: volcano_defs sp_defs split: PodGroup.splits)

interpretation pgc: pod_group_control "GetSchedulerName c" "pg_accepts c" "NewEmptyPodGroup c"
  "DecoratePodTemplateSpec E c" "PG_Create E c" "PG_Update E c" "DelayPodCreationDueToPodGroup E c"
proof
  show "pg_accepts c (pg_set_meta m (NewEmptyPodGroup c))" for m
    by (cases c) (simp_all add: volcano_defs sp_defs)
  show "pt_Spec (DecoratePodTemplateSpec E c t m rt) = (pt_Spec t)\<lparr>ps_SchedulerName :=
      (if ps_SchedulerName (pt_Spec t) = [] then GetSchedulerName c else ps_SchedulerName (pt_Spec t))\<rparr>" for t m rt
    by (cases c) (simp_all add: volcano_defs sp_defs Let_def)
  show "om_Name (pt_Meta (DecoratePodTemplateSpec E c t m rt)) = om_Name (pt_Meta t)" for t m rt
    by (cases c) (simp_all add: volcano_defs sp_defs Let_def)
qed (auto intro: pg_create_total pg_update_total pg_delay_ok)

section \<open>Frames\<close>

lemma pg_total [total_intros]: "total (PG_Get E c ns nm)" "total (PG_Delete E c ns nm)"
  by (cases c; auto simp: volcano_defs sp_defs Let_def intro!: total_intros)+

lemma pg_frames [frame_intros]:
  "keeps (unchanged kcl) (PG_Get E c ns nm)" "keeps (unchanged exps) (PG_Get E c ns nm)"
  "keeps (unchanged kcl) (PG_Delete E c ns nm)" "keeps (unchanged exps) (PG_Delete E c ns nm)"
  "keeps (unchanged kcl) (PG_Create E c pg)" "keeps (unchanged exps) (PG_Create E c pg)"
  "keeps (unchanged kcl) (PG_Update E c pg)" "keeps (unchanged exps) (PG_Update E c pg)"
  by (cases c; cases pg; auto simp: volcano_defs sp_defs Let_def intro!: unchanged_rules frame_intros)+

lemma emits_PG_Get [emits_intros]: "emits P (PG_Get E c ns nm)"
  by (cases c) (auto simp: volcano_defs sp_defs intro!: emits_intros)

lemma emits_PG_Delete [emits_intros]:
  "(\<And>r. P (DeletePodGroupCall ns nm r)) \<Longrightarrow> emits P (PG_Delete E c ns nm)"
  by (cases c) (auto simp: volcano_defs sp_defs Let_def intro!: emits_intros)

lemma emits_PG_Create [emits_intros]:
  "(\<And>r. P (CreatePodGroupCall (om_Namespace (pg_meta pg)) pg r)) \<Longrightarrow> emits P (PG_Create E c pg)"
  by (cases c; cases pg) (auto simp: volcano_defs sp_defs intro!: emits_rules emits_intros)

lemma emits_PG_Update [emits_intros]:
  "(\<And>r. P (UpdatePodGroupCall (om_Namespace (pg_meta pg)) pg r)) \<Longrightarrow> emits P (PG_Update E c pg)"
  by (cases c; cases pg) (auto simp: volcano_defs sp_defs intro!: emits_rules emits_intros)

text \<open>Decorating a pod template for gang scheduling. A scheduler the user chose is kept; else the
  control's scheduler is set; nothing else of the pod's spec changes and the name stays. The
  template is tied to the pod group, which has the cluster's name: by the group annotation for
  volcano, with the replica type as the task, and by the pod-group label for scheduler-plugins.\<close>

lemma decorate_correct:
  "pt_Spec (DecoratePodTemplateSpec E c t m rt) = (pt_Spec t)\<lparr>ps_SchedulerName :=
       (if ps_SchedulerName (pt_Spec t) = [] then GetSchedulerName c else ps_SchedulerName (pt_Spec t))\<rparr> \<and>
     om_Name (pt_Meta (DecoratePodTemplateSpec E c t m rt)) = om_Name (pt_Meta t) \<and>
     (case c of
        VolcanoControl \<Rightarrow>
          map_of (om_Annotations (pt_Meta (DecoratePodTemplateSpec E c t m rt))) =
            (map_of (om_Annotations (pt_Meta t)))(ke_KubeGroupNameAnnotationKey E \<mapsto> om_Name m, ke_TaskSpecKey E \<mapsto> rt) \<and>
          om_Labels (pt_Meta (DecoratePodTemplateSpec E c t m rt)) = om_Labels (pt_Meta t)
      | SchedulerPluginsControl n \<Rightarrow>
          map_of (om_Labels (pt_Meta (DecoratePodTemplateSpec E c t m rt))) =
            (map_of (om_Labels (pt_Meta t)))(ke_PodGroupLabel E \<mapsto> om_Name m) \<and>
          om_Annotations (pt_Meta (DecoratePodTemplateSpec E c t m rt)) = om_Annotations (pt_Meta t))"
  using pgc.decorate_spec [of E c t m rt] pgc.decorate_name [of E c t m rt]
  by (auto simp: volcano_defs sp_defs Let_def split: pg_control.splits)

end
