(* ===== verification/Schema.thy ===== *)
theory Schema
  imports Slurm PbsPro PodGroupControl
begin

text \<open>
  The cluster schemas as one interface: \<open>common.ClusterSchemaReconciler\<close> (\<open>pkg/common/schema.go\<close>), the
  registry of \<open>cluster_schema/register_cluster_schema.go\<close>, the configuration of the two schemas'
  init containers, and \<open>setupController\<close> of \<open>cmd/main.go\<close> with the parts of the \<open>ClusterController\<close>
  it fills in.

  The dynamic type behind the interface is the datatype \<open>schema\<close>, a method dispatches on it, and a nil
  interface is \<open>None\<close>: a method call on it panics. The expectations each reconciler embeds are in the
  state, under the cluster type the schema is registered for.
\<close>

section \<open>Configuration of the init containers\<close>

record schema_config =
  scf_TemplateFile :: string
  scf_Image :: string
  scf_MaxTries :: int

definition slurm_config_default :: schema_config where
  "slurm_config_default = \<lparr> scf_TemplateFile = ''/etc/config/initContainer.yaml'',
     scf_Image = ''registry.cn-shanghai.aliyuncs.com/eflops-bcp/slurm-minimal:v1'', scf_MaxTries = 100 \<rparr>"

definition pbs_config_default :: schema_config where
  "pbs_config_default = \<lparr> scf_TemplateFile = ''/etc/config/initContainer.yaml'',
     scf_Image = ''registry.cn-shanghai.aliyuncs.com/eflops-bcp/pbs-minimal:v1'', scf_MaxTries = 100 \<rparr>"

definition init_template :: "string \<Rightarrow> string" where
  "init_template name = Join [
     [],
     ''- name: '' @ name,
     ''  image: {{.InitContainerImage}}'',
     ''  imagePullPolicy: IfNotPresent'',
     ''  resources:'',
     ''    limits:'',
     ''      cpu: 100m'',
     ''      memory: 20Mi'',
     ''    requests:'',
     ''      cpu: 50m'',
     ''      memory: 10Mi'',
     ''  command: ['sh', '-c', 'err=1;for i in $(seq {{.MaxTries}}); do if nslookup {{.MasterAddr}}; then err=0 && break; fi;echo waiting for master; sleep 2; done; exit $err']''] nl"

definition slurm_initContainerTemplate :: string where
  "slurm_initContainerTemplate = init_template ''init-slurm''"

definition pbs_initContainerTemplate :: string where
  "pbs_initContainerTemplate = init_template ''init-pbspro''"

text \<open>\<open>os.ReadFile\<close> is the parameter \<open>readFile\<close>.\<close>

definition getInitContainerTemplateOrDefault :: "(string \<Rightarrow> gerr + string) \<Rightarrow> string \<Rightarrow> string \<Rightarrow> string" where
  "getInitContainerTemplateOrDefault readFile template file =
     (case readFile file of Inr b \<Rightarrow> b | Inl err \<Rightarrow> template)"

definition getInitContainerGenerator ::
  "(string \<Rightarrow> gerr + string) \<Rightarrow> string \<Rightarrow> schema_config \<Rightarrow> initContainerGenerator" where
  "getInitContainerGenerator readFile template config =
     \<lparr> icg_template = getInitContainerTemplateOrDefault readFile template (scf_TemplateFile config),
       icg_image = scf_Image config, icg_maxTries = scf_MaxTries config \<rparr>"

section \<open>The interface\<close>

datatype schema = SlurmSchema | PbsProSchema

text \<open>The controller: its gang scheduling, its registry, and what the model takes as given about the
  process it runs in (the store behind the expectations, the longest slice the runtime makes, the two
  init-container generators, which are made once).\<close>

record 'st ClusterController =
  cc_GangScheduling :: string
  cc_PodGroupControl :: "pg_control option"
  cc_SchemaReconcilerManager :: "(string \<times> schema) list"
  cc_store :: "'st cache_store"
  cc_maxlen :: int
  cc_slurm_icGenerator :: initContainerGenerator
  cc_pbs_icGenerator :: initContainerGenerator

primrec sr_GetDefaultContainerName :: "schema \<Rightarrow> string" where
  "sr_GetDefaultContainerName SlurmSchema = slurm_GetDefaultContainerName"
| "sr_GetDefaultContainerName PbsProSchema = pbs_GetDefaultContainerName"

primrec sr_ReconcileConfigMap :: "'w kenv \<Rightarrow> schema \<Rightarrow> ConfigMap \<Rightarrow> ('w, 'st, gerr option \<times> ConfigMap) ctl" where
  "sr_ReconcileConfigMap E SlurmSchema = slurm_ReconcileConfigMap E"
| "sr_ReconcileConfigMap E PbsProSchema = pbs_ReconcileConfigMap"

primrec sr_ValidateV1KubeCluster :: "schema \<Rightarrow> KubeCluster \<Rightarrow> string + gerr option" where
  "sr_ValidateV1KubeCluster SlurmSchema = slurm_ValidateV1KubeCluster"
| "sr_ValidateV1KubeCluster PbsProSchema = pbs_ValidateV1KubeCluster"

primrec sr_UpdateConfigMap :: "'w kenv \<Rightarrow> schema \<Rightarrow> ConfigMap \<Rightarrow> ('w, 'st, gerr option \<times> ConfigMap) ctl" where
  "sr_UpdateConfigMap E SlurmSchema = slurm_UpdateConfigMap E"
| "sr_UpdateConfigMap E PbsProSchema = pbs_UpdateConfigMap"

primrec sr_Default :: "schema \<Rightarrow> ('w, 'st, unit) ctl" where
  "sr_Default SlurmSchema = slurm_Default"
| "sr_Default PbsProSchema = pbs_Default"

primrec sr_SetClusterSpec ::
  "'w kenv \<Rightarrow> 'st ClusterController \<Rightarrow> schema \<Rightarrow> KubeCluster \<Rightarrow> PodTemplateSpec \<Rightarrow> string \<Rightarrow> string \<Rightarrow> ConfigMap \<Rightarrow>
   string + (gerr + PodTemplateSpec)" where
  "sr_SetClusterSpec E C SlurmSchema = slurm_SetClusterSpec E (cc_slurm_icGenerator C)"
| "sr_SetClusterSpec E C PbsProSchema = pbs_SetClusterSpec E (cc_pbs_icGenerator C)"

primrec sr_IsController :: "schema \<Rightarrow> string \<Rightarrow> bool" where
  "sr_IsController SlurmSchema = slurm_IsController"
| "sr_IsController PbsProSchema = pbs_IsController"

primrec sr_UpdateClusterStatus :: "'w kenv \<Rightarrow> schema \<Rightarrow> string \<Rightarrow> ('w, 'st, unit) ctl" where
  "sr_UpdateClusterStatus E SlurmSchema = slurm_UpdateClusterStatus E"
| "sr_UpdateClusterStatus E PbsProSchema = pbs_UpdateClusterStatus E"

text \<open>A method call on an interface value that may be nil.\<close>

definition sr_call :: "schema option \<Rightarrow> (schema \<Rightarrow> ('w, 'st, 'a) ctl) \<Rightarrow> ('w, 'st, 'a) ctl" where
  "sr_call schemaReconciler f = (case schemaReconciler of None \<Rightarrow> go_panic ''nil pointer dereference'' | Some sr \<Rightarrow> f sr)"

section \<open>Registration\<close>

definition NewSlurmClusterReconciler :: "'st cache_store \<Rightarrow> schema \<times> 'st expectations" where
  "NewSlurmClusterReconciler S = (SlurmSchema, NewControllerExpectations S)"

definition NewpbsproClusterReconciler :: "'st cache_store \<Rightarrow> schema \<times> 'st expectations" where
  "NewpbsproClusterReconciler S = (PbsProSchema, NewControllerExpectations S)"

definition SupportedClusterSchemaReconciler :: "'st cache_store \<Rightarrow> (string \<times> schema \<times> 'st expectations) list" where
  "SupportedClusterSchemaReconciler S =
     [(slurm_ClusterSchemaKind, NewSlurmClusterReconciler S), (pbs_ClusterSchemaKind, NewpbsproClusterReconciler S)]"

definition supported_kinds :: "string list" where
  "supported_kinds = [slurm_ClusterSchemaKind, pbs_ClusterSchemaKind]"

type_synonym EnabledSchemes = "string list"

definition ES_String :: "EnabledSchemes option \<Rightarrow> string" where
  "ES_String es = (case es of None \<Rightarrow> ''nil'' | Some s \<Rightarrow> Join s '','')"

text \<open>\<open>Set\<close> and \<open>FillAll\<close> range over the map of the supported schemas; \<open>kinds\<close> lists its keys in the
  order the loop visits them.\<close>

fun ES_Set :: "string list \<Rightarrow> EnabledSchemes \<Rightarrow> string \<Rightarrow> gerr + EnabledSchemes" where
  "ES_Set [] es kind = Inl (PlainErr (''cluster scheme '' @ kind @ '' is not supported yet''))"
| "ES_Set (supportedKind # kinds) es kind =
     (if ToLower supportedKind = ToLower kind then Inr (es @ [supportedKind]) else ES_Set kinds es kind)"

definition ES_FillAll :: "string list \<Rightarrow> EnabledSchemes \<Rightarrow> EnabledSchemes" where
  "ES_FillAll kinds es = es @ kinds"

definition ES_Empty :: "EnabledSchemes \<Rightarrow> bool" where
  "ES_Empty es \<longleftrightarrow> length es = 0"

text \<open>The flags \<open>--enable-scheme\<close>, each passed to \<open>Set\<close>.\<close>

fun parse_schemes :: "string list \<Rightarrow> EnabledSchemes \<Rightarrow> string list \<Rightarrow> gerr + EnabledSchemes" where
  "parse_schemes kinds es [] = Inr es"
| "parse_schemes kinds es (kind # flags) =
     (case ES_Set kinds es kind of Inl err \<Rightarrow> Inl err | Inr es \<Rightarrow> parse_schemes kinds es flags)"

definition RegisterSchema :: "'st ClusterController \<Rightarrow> string \<Rightarrow> schema \<Rightarrow> gerr + 'st ClusterController" where
  "RegisterSchema C sch reconciler =
     (if map_of (cc_SchemaReconcilerManager C) sch \<noteq> None
      then Inl (PlainErr (''cluster schema '' @ sch @ '' had been registered''))
      else Inr (C\<lparr>cc_SchemaReconcilerManager := AList.update sch reconciler (cc_SchemaReconcilerManager C)\<rparr>))"

definition GetSchemaReconciler :: "'st ClusterController \<Rightarrow> string \<Rightarrow> schema option" where
  "GetSchemaReconciler C clusterType = map_of (cc_SchemaReconcilerManager C) clusterType"

section \<open>Gang scheduling\<close>

definition GangSchedulerNone :: string where "GangSchedulerNone = ''None''"
definition GangSchedulerVolcano :: string where "GangSchedulerVolcano = ''volcano''"

definition EnableGangScheduling :: "'st ClusterController \<Rightarrow> bool" where
  "EnableGangScheduling C \<longleftrightarrow> cc_GangScheduling C \<noteq> [] \<and> cc_GangScheduling C \<noteq> GangSchedulerNone"

definition GenVolcanoSetupFunc :: "'st ClusterController \<Rightarrow> 'st ClusterController" where
  "GenVolcanoSetupFunc jc = jc\<lparr>cc_GangScheduling := GangSchedulerVolcano, cc_PodGroupControl := Some NewVolcanoControl\<rparr>"

definition GenSchedulerPluginsSetupFunc :: "string \<Rightarrow> 'st ClusterController \<Rightarrow> 'st ClusterController" where
  "GenSchedulerPluginsSetupFunc gangSchedulerName jc =
     jc\<lparr>cc_GangScheduling := gangSchedulerName, cc_PodGroupControl := Some (NewSchedulerPluginsControl gangSchedulerName)\<rparr>"

definition GenNonGangSchedulerSetupFunc :: "'st ClusterController \<Rightarrow> 'st ClusterController" where
  "GenNonGangSchedulerSetupFunc jc = jc\<lparr>cc_GangScheduling := [], cc_PodGroupControl := None\<rparr>"

section \<open>cmd/main.go\<close>

text \<open>\<open>C\<close> is the controller \<open>NewReconciler\<close> makes, before the gang scheduler is set up. \<open>os.Exit(1)\<close> is the
  left side of the sum. The expectations of the registered schemas are returned with the controller.\<close>

fun register_all ::
  "(string \<times> schema \<times> 'st expectations) list \<Rightarrow> string list \<Rightarrow> 'st ClusterController \<times> (string \<Rightarrow> 'st expectations) \<Rightarrow>
   string + 'st ClusterController \<times> (string \<Rightarrow> 'st expectations)" where
  "register_all supported [] (C, ex) = Inr (C, ex)"
| "register_all supported (s # ss) (C, ex) =
     (case map_of supported s of
        None \<Rightarrow> Inl ''cluster scheme is not supported''
      | Some (schemaReconciler, e) \<Rightarrow>
          (case RegisterSchema C s schemaReconciler of
             Inl err \<Rightarrow> Inl ''unable to register schema''
           | Inr C \<Rightarrow> register_all supported ss (C, ex(s := e))))"

definition NewReconciler :: "('st ClusterController \<Rightarrow> 'st ClusterController) \<Rightarrow> 'st ClusterController \<Rightarrow> 'st ClusterController" where
  "NewReconciler gangSchedulingSetupFunc C = gangSchedulingSetupFunc (C\<lparr>cc_SchemaReconcilerManager := []\<rparr>)"

definition setupController ::
  "string list \<Rightarrow> 'st ClusterController \<Rightarrow> EnabledSchemes \<Rightarrow> string \<Rightarrow>
   string + 'st ClusterController \<times> (string \<Rightarrow> 'st expectations)" where
  "setupController kinds C enabledSchemes gangSchedulerName =
     (let gangSchedulingSetupFunc =
            (if EqualFold gangSchedulerName GangSchedulerVolcano then GenVolcanoSetupFunc
             else if gangSchedulerName \<noteq> [] then GenSchedulerPluginsSetupFunc gangSchedulerName
             else GenNonGangSchedulerSetupFunc);
          C = NewReconciler gangSchedulingSetupFunc C;
          enabledSchemes = (if ES_Empty enabledSchemes then ES_FillAll kinds enabledSchemes else enabledSchemes)
      in register_all (SupportedClusterSchemaReconciler (cc_store C)) enabledSchemes
           (C, \<lambda>_. NewControllerExpectations (cc_store C)))"

section \<open>Both schemas keep the contract\<close>

primrec sr_controller :: "schema \<Rightarrow> string" where
  "sr_controller SlurmSchema = SchemaReplicaTypeController"
| "sr_controller PbsProSchema = SchemaReplicaTypeServer"

primrec sr_cm_complete :: "schema \<Rightarrow> ConfigMap \<Rightarrow> bool" where
  "sr_cm_complete SlurmSchema = slurm_cm_complete"
| "sr_cm_complete PbsProSchema = pbs_cm_complete"

interpretation sr: schema_reconciler "sr_controller sc" "sr_ValidateV1KubeCluster sc" "sr_IsController sc"
  "sr_cm_complete sc" "sr_ReconcileConfigMap E sc" "sr_SetClusterSpec E C sc" "sr_UpdateClusterStatus E sc"
  for sc and E :: "'w kenv" and C :: "'c ClusterController"
proof (cases sc)
  case SlurmSchema
  then show "schema_reconciler (sr_controller sc) (sr_ValidateV1KubeCluster sc) (sr_IsController sc)
      (sr_cm_complete sc) (sr_ReconcileConfigMap E sc) (sr_SetClusterSpec E C sc) (sr_UpdateClusterStatus E sc)"
    by (simp add: slurm.schema_reconciler_axioms)
next
  case PbsProSchema
  then show "schema_reconciler (sr_controller sc) (sr_ValidateV1KubeCluster sc) (sr_IsController sc)
      (sr_cm_complete sc) (sr_ReconcileConfigMap E sc) (sr_SetClusterSpec E C sc) (sr_UpdateClusterStatus E sc)"
    by (simp add: pbs.schema_reconciler_axioms)
qed

section \<open>What start-up establishes\<close>

text \<open>The gang scheduler and the pod group control match.\<close>

definition gang_ok :: "'st ClusterController \<Rightarrow> bool" where
  "gang_ok C \<longleftrightarrow> (case cc_PodGroupControl C of
       None \<Rightarrow> \<not> EnableGangScheduling C
     | Some VolcanoControl \<Rightarrow> cc_GangScheduling C = GangSchedulerVolcano
     | Some (SchedulerPluginsControl n) \<Rightarrow> cc_GangScheduling C = n \<and> n \<noteq> GangSchedulerVolcano)"

definition factory :: "string \<Rightarrow> schema option" where
  "factory = map_of [(slurm_ClusterSchemaKind, SlurmSchema), (pbs_ClusterSchemaKind, PbsProSchema)]"

lemma supported_of: "map_of (SupportedClusterSchemaReconciler S) s =
    map_option (\<lambda>sch. (sch, NewControllerExpectations S)) (factory s)"
  by (simp add: SupportedClusterSchemaReconciler_def factory_def NewSlurmClusterReconciler_def
      NewpbsproClusterReconciler_def)

lemma factory_None: "factory s = None \<longleftrightarrow> s \<notin> set supported_kinds"
  by (simp add: factory_def supported_kinds_def)

lemma register_all_ok:
  assumes "distinct ss" "set ss \<subseteq> set supported_kinds" "set ss \<inter> dom (map_of (cc_SchemaReconcilerManager C)) = {}"
  shows "\<exists>C'. register_all (SupportedClusterSchemaReconciler S) ss (C, ex) =
       Inr (C', \<lambda>s. if s \<in> set ss then NewControllerExpectations S else ex s) \<and>
     C'\<lparr>cc_SchemaReconcilerManager := []\<rparr> = C\<lparr>cc_SchemaReconcilerManager := []\<rparr> \<and>
     GetSchemaReconciler C' = (\<lambda>s. if s \<in> set ss then factory s else GetSchemaReconciler C s)"
  using assms
proof (induction ss arbitrary: C ex)
  case (Cons s ss)
  obtain sch where sch: "factory s = Some sch" using Cons.prems(2) factory_None [of s] by fastforce
  let ?C = "C\<lparr>cc_SchemaReconcilerManager := AList.update s sch (cc_SchemaReconcilerManager C)\<rparr>"
  let ?ex = "ex(s := NewControllerExpectations S)"
  have reg: "RegisterSchema C s sch = Inr ?C" using Cons.prems(3) by (auto simp: RegisterSchema_def)
  have "set ss \<inter> dom (map_of (cc_SchemaReconcilerManager ?C)) = {}" using Cons.prems(1,3) by auto
  moreover have "distinct ss" "set ss \<subseteq> set supported_kinds" using Cons.prems(1,2) by auto
  ultimately obtain C' where C': "register_all (SupportedClusterSchemaReconciler S) ss (?C, ?ex) =
       Inr (C', \<lambda>t. if t \<in> set ss then NewControllerExpectations S else ?ex t)"
    "C'\<lparr>cc_SchemaReconcilerManager := []\<rparr> = ?C\<lparr>cc_SchemaReconcilerManager := []\<rparr>"
    "GetSchemaReconciler C' = (\<lambda>t. if t \<in> set ss then factory t else GetSchemaReconciler ?C t)"
    using Cons.IH [of ?C ?ex] by blast
  have "(\<lambda>t. if t \<in> set ss then NewControllerExpectations S else ?ex t) =
      (\<lambda>t. if t \<in> set (s # ss) then NewControllerExpectations S else ex t)" by auto
  moreover have "GetSchemaReconciler C' = (\<lambda>t. if t \<in> set (s # ss) then factory t else GetSchemaReconciler C t)"
    by (auto simp: C'(3) GetSchemaReconciler_def sch)
  ultimately show ?case using C'(1,2) by (intro exI [of _ C']) (simp add: supported_of sch reg)
qed simp

lemma register_all_fails:
  assumes "\<not> (distinct ss \<and> set ss \<subseteq> set supported_kinds \<and> set ss \<inter> dom (map_of (cc_SchemaReconcilerManager C)) = {})"
  shows "\<exists>e. register_all (SupportedClusterSchemaReconciler S) ss (C, ex) = Inl e"
  using assms
proof (induction ss arbitrary: C ex)
  case (Cons s ss)
  show ?case
  proof (cases "factory s")
    case None
    then show ?thesis by (simp add: supported_of)
  next
    case (Some sch)
    show ?thesis
    proof (cases "map_of (cc_SchemaReconcilerManager C) s")
      case None
      let ?C = "C\<lparr>cc_SchemaReconcilerManager := AList.update s sch (cc_SchemaReconcilerManager C)\<rparr>"
      have "s \<in> set supported_kinds" using Some factory_None [of s] by auto
      with Cons.prems None have "\<not> (distinct ss \<and> set ss \<subseteq> set supported_kinds \<and>
          set ss \<inter> dom (map_of (cc_SchemaReconcilerManager ?C)) = {})" by auto
      from Cons.IH [OF this] show ?thesis using Some None by (simp add: supported_of RegisterSchema_def)
    qed (simp add: supported_of Some RegisterSchema_def)
  qed
qed simp


definition sample_controller :: "(string \<times> iface) list ClusterController" where
  "sample_controller = \<lparr> cc_GangScheduling = [], cc_PodGroupControl = None,
     cc_SchemaReconcilerManager = [(slurm_ClusterSchemaKind, SlurmSchema), (pbs_ClusterSchemaKind, PbsProSchema)],
     cc_store = map_store, cc_maxlen = 2 ^ 40, cc_slurm_icGenerator = sample_generator, cc_pbs_icGenerator = sample_generator \<rparr>"


end
