(* ===== verification/ClusterAccess.thy ===== *)
theory ClusterAccess
  imports Schema
begin

text \<open>
  The methods of \<open>KubeClusterReconciler\<close> (\<open>pkg/controller/cluster_controller.go\<close>) that the
  \<open>ClusterController\<close> reaches through \<open>common.ControllerInterface\<close>, with the list helpers of
  \<open>pkg/common/util.go\<close>, \<open>ClearGeneratedFields\<close> of \<open>pkg/common/update.go\<close>, the counters of
  \<open>pkg/metrics/metrics.go\<close>, the work queue of \<open>pkg/common/util/fake_workqueue.go\<close> and the owner
  references and labels of \<open>ctrlcommon/controller.go\<close>.

  Reads go through the informer cache, which is a client of the environment as well.
\<close>

section \<open>pkg/metrics\<close>

definition CreatedclustersCounterInc :: "string \<Rightarrow> string \<Rightarrow> ('w, 'st, unit) ctl" where
  "CreatedclustersCounterInc ns ctype = Inc (counter ''kubeclusters_restarted_total'' ns ctype)"

definition DeletedclustersCounterInc :: "string \<Rightarrow> string \<Rightarrow> ('w, 'st, unit) ctl" where
  "DeletedclustersCounterInc ns ctype = Inc (counter ''kubeclusters_deleted_total'' ns ctype)"

definition SuccessfulclustersCounterInc :: "string \<Rightarrow> string \<Rightarrow> ('w, 'st, unit) ctl" where
  "SuccessfulclustersCounterInc ns ctype = Inc (counter ''kubeclusters_successful_total'' ns ctype)"

definition FailedclustersCounterInc :: "string \<Rightarrow> string \<Rightarrow> ('w, 'st, unit) ctl" where
  "FailedclustersCounterInc ns ctype = Inc (counter ''kubeclusters_failed_total'' ns ctype)"

definition RestartedclustersCounterInc :: "string \<Rightarrow> string \<Rightarrow> ('w, 'st, unit) ctl" where
  "RestartedclustersCounterInc ns ctype = Inc (counter ''kubeclusters_restarted_total'' ns ctype)"

section \<open>The work queue\<close>

text \<open>\<open>FakeWorkQueue\<close> does nothing; these are the two methods the controller calls.\<close>

definition AddAfter :: "string \<Rightarrow> int \<Rightarrow> ('w, 'st, unit) ctl" where
  "AddAfter item duration = go_return ()"

definition NumRequeues :: "string \<Rightarrow> int" where
  "NumRequeues item = 0"

section \<open>Lists of objects\<close>

definition ConvertServiceList :: "Service list \<Rightarrow> Service list" where
  "ConvertServiceList items = map id items"

definition KubeClusterControlledPodList :: "'w kenv \<Rightarrow> Pod list \<Rightarrow> ObjectMeta \<Rightarrow> Pod list" where
  "KubeClusterControlledPodList E items cluster = filter (\<lambda>pod. ke_IsControlledBy E (pod_Meta pod) cluster) items"

definition GetReplicaTypes :: "ReplicaSpecs \<Rightarrow> string list" where
  "GetReplicaTypes specs = map fst specs"

definition ConvertPodListWithFilter :: "Pod list \<Rightarrow> (ObjectMeta \<Rightarrow> bool) option \<Rightarrow> Pod list" where
  "ConvertPodListWithFilter items pass =
     filter (\<lambda>pod. case pass of None \<Rightarrow> True | Some f \<Rightarrow> f (pod_Meta pod)) items"

definition ClearGeneratedFields :: "ObjectMeta \<Rightarrow> ObjectMeta" where
  "ClearGeneratedFields objmeta = objmeta\<lparr>om_UID := [], om_CreationTimestamp := None\<rparr>"

section \<open>Owner references and labels\<close>

definition GenOwnerReference :: "'w kenv \<Rightarrow> ObjectMeta \<Rightarrow> OwnerReference" where
  "GenOwnerReference E obj = \<lparr> or_APIVersion = ke_GroupVersion E, or_Kind = KubeClusterKind,
     or_Name = om_Name obj, or_UID = om_UID obj, or_BlockOwnerDeletion = Some True, or_Controller = Some True \<rparr>"

definition cc_GenLabels :: "string \<Rightarrow> smap" where
  "cc_GenLabels clusterType =
     [(ControllerNameLabel, ControllerName), (ClusterNameLabel, ReplaceAll ''/'' ''-'' clusterType)]"

definition GenLabelSelector :: "string \<Rightarrow> string \<Rightarrow> smap" where
  "GenLabelSelector clusterName rtype =
     AList.update ReplicaTypeLabel (GenReplicaTypeLabel rtype) (cc_GenLabels clusterName)"

section \<open>Reading the objects of a cluster\<close>

definition selector_error :: "gerr \<Rightarrow> gerr" where
  "selector_error err = errorf_v (''couldn'' @ CHR 0x27 # ''t convert Cluster selector: '') err"

definition GetPodsForCluster :: "'w kenv \<Rightarrow> KubeCluster \<Rightarrow> ('w, 'st, gerr + Pod list) ctl" where
  "GetPodsForCluster E kcluster =
     (let labels = GenLabels ControllerName (kc_Name kcluster) in
      case ke_LabelSelectorAsSelector E labels of
        Some err \<Rightarrow> go_return (Inl (selector_error err))
      | None \<Rightarrow> go_bind (call (cl_List (ke_pods E) (kc_Namespace kcluster) labels)) (\<lambda>r.
          case r of
            Inl err \<Rightarrow> go_return (Inl err)
          | Inr items \<Rightarrow> go_return (Inr (KubeClusterControlledPodList E items (kc_Meta kcluster)))))"

definition GetServicesForCluster :: "'w kenv \<Rightarrow> KubeCluster \<Rightarrow> ('w, 'st, gerr + Service list) ctl" where
  "GetServicesForCluster E kcluster =
     (let labels = GenLabels ControllerName (kc_Name kcluster) in
      case ke_LabelSelectorAsSelector E labels of
        Some err \<Rightarrow> go_return (Inl (selector_error err))
      | None \<Rightarrow> go_bind (call (cl_List (ke_services E) (kc_Namespace kcluster) labels)) (\<lambda>r.
          case r of
            Inl err \<Rightarrow> go_return (Inl err)
          | Inr items \<Rightarrow> go_return (Inr (ConvertServiceList items))))"

definition ErrResourceExists :: string where "ErrResourceExists = ''ErrResourceExists''"

text \<open>\<open>%q\<close> of a name that needs no escapes.\<close>

definition quoted :: "string \<Rightarrow> string" where
  "quoted s = CHR 0x22 # s @ [CHR 0x22]"

definition MessageResourceExists :: "string \<Rightarrow> string \<Rightarrow> string" where
  "MessageResourceExists name kind = ''Resource '' @ quoted name @ '' of SlurmClusterClusterKind '' @ quoted kind @
     '' already exists and is not managed by SlurmClusterCluster''"

definition GetConfigMapForCluster :: "'w kenv \<Rightarrow> KubeCluster \<Rightarrow> ('w, 'st, gerr + ConfigMap option) ctl" where
  "GetConfigMapForCluster E kcluster =
     go_bind (call (cl_Get (ke_cached_configmaps E) (kc_Namespace kcluster) (kc_Name kcluster))) (\<lambda>r.
     case r of
       Inl err \<Rightarrow> (case IgnoreNotFound err of None \<Rightarrow> go_return (Inr None) | Some e \<Rightarrow> go_return (Inl e))
     | Inr configMap \<Rightarrow>
         if \<not> ke_IsControlledBy E (cm_Meta configMap) (kc_Meta kcluster)
         then let msg = MessageResourceExists (om_Name (cm_Meta configMap)) (cm_Kind configMap)
              in go_seq (Event EventTypeWarning ErrResourceExists msg) (go_return (Inl (PlainErr msg)))
         else go_return (Inr (Some configMap)))"

definition GetClusterFromInformerCache :: "'w kenv \<Rightarrow> string \<Rightarrow> string \<Rightarrow> ('w, 'st, gerr + KubeCluster) ctl" where
  "GetClusterFromInformerCache E namespace name = call (cl_Get (ke_clusters E) namespace name)"

section \<open>Writing\<close>

definition clear_generated :: "('w, 'st, unit) ctl" where
  "clear_generated = go_modify (\<lambda>s. s\<lparr>kcl := (kcl s)\<lparr>kc_Meta := ClearGeneratedFields (kc_Meta (kcl s))\<rparr>\<rparr>)"

text \<open>The status passed in is always the status of the cluster itself, so the two are equal and no copy
  is made. The client decodes the server's answer into the object it was given.\<close>

definition UpdateClusterStatusInApiServer :: "'w kenv \<Rightarrow> ('w, 'st, gerr option) ctl" where
  "UpdateClusterStatusInApiServer E =
     go_seq (update_status (\<lambda>st. if st_ReplicaStatuses st = None then st\<lparr>st_ReplicaStatuses := Some []\<rparr> else st)) (
     go_seq clear_generated (
     go_bind get_cluster (\<lambda>kcluster.
     go_bind (api (cl_Update (ke_clusters E) (kc_Namespace kcluster) kcluster) (\<lambda>r. UpdateStatusCall kcluster (err_of r))) (\<lambda>r.
     case r of
       Inl err \<Rightarrow> go_return (Some err)
     | Inr kcluster' \<Rightarrow> go_seq (go_modify (\<lambda>s. s\<lparr>kcl := kcluster'\<rparr>)) (go_return None)))))"

definition UpdateConfigMapInApiServer :: "'w kenv \<Rightarrow> ConfigMap \<Rightarrow> ('w, 'st, gerr option \<times> ConfigMap) ctl" where
  "UpdateConfigMapInApiServer E configMap =
     go_seq clear_generated (
     go_bind get_cluster (\<lambda>kcluster. UpdateConfigMap E (kc_Namespace kcluster) configMap))"

definition DeleteCluster :: "'w kenv \<Rightarrow> KubeCluster \<Rightarrow> ('w, 'st, gerr option) ctl" where
  "DeleteCluster E kubecluster =
     go_bind (api (cl_Delete (ke_clusters E) (kc_Namespace kubecluster) (kc_Name kubecluster))
               (DeleteClusterCall (kc_Namespace kubecluster) (kc_Name kubecluster))) (\<lambda>r.
     case r of
       Some err \<Rightarrow> go_seq (Event EventTypeWarning FailedDeletePodReason (''Error deleting: '' @ err_text err))
                         (go_return (Some err))
     | None \<Rightarrow> go_seq (Event EventTypeNormal SuccessfulDeletePodReason (''Deleted cluster: '' @ kc_Name kubecluster)) (
         go_seq (DeletedclustersCounterInc (kc_Namespace kubecluster) (s_ClusterType (kc_Spec kubecluster))) (go_return None)))"

definition UpdateClusterStatus :: "'w kenv \<Rightarrow> 'st ClusterController \<Rightarrow> ('w, 'st, gerr option) ctl" where
  "UpdateClusterStatus E C =
     go_bind get_cluster (\<lambda>kcluster.
     case ke_KeyFunc E (kc_Meta kcluster) of
       Inl err \<Rightarrow> go_return (Some err)
     | Inr clusterKey \<Rightarrow>
         go_seq (if st_StartTime (kc_Status kcluster) = None
                 then go_bind (call (ke_Now E)) (\<lambda>now.
                   go_seq (update_status (\<lambda>st. st\<lparr>st_StartTime := Some now\<rparr>)) (
                   case rp_ActiveDeadlineSeconds (kc_RunPolicy kcluster) of
                     Some secs \<Rightarrow> AddAfter clusterKey (sint (secs * 1000000000))
                   | None \<Rightarrow> go_return ()))
                 else go_return ()) (
         go_seq (go_for (\<lambda>(rtype, spec). sr_call (GetSchemaReconciler C (s_ClusterType (kc_Spec kcluster)))
                           (\<lambda>sr. sr_UpdateClusterStatus E sr rtype)) (kc_Specs kcluster))
           (go_return None)))"

end
