(* ===== verification/Replicas.thy ===== *)
theory Replicas
  imports ClusterAccess
begin

text \<open>
  \<open>ctrlcommon/pod.go\<close>, \<open>service.go\<close>, \<open>configmap.go\<close> and \<open>status.go\<close>: creating, deleting and counting the
  pods and services of one replica type, and the config map of a cluster.

  The specification of a replica type is a pointer that may be nil and whose replica count may be nil;
  both dereferences panic. Log lines are not modelled.
\<close>

section \<open>util/clusterutil\<close>

definition IsRetryableExitCode :: "int32 \<Rightarrow> bool" where
  "IsRetryableExitCode exitCode \<longleftrightarrow> sint exitCode \<ge> 128"

definition IsClusterSuspended :: "RunPolicy \<Rightarrow> bool" where
  "IsClusterSuspended runPolicy = (case rp_Suspend runPolicy of None \<Rightarrow> False | Some b \<Rightarrow> b)"

section \<open>pod.go\<close>

definition podTemplateRestartPolicyReason :: string where
  "podTemplateRestartPolicyReason = ''SettedPodTemplateRestartPolicy''"
definition exitedWithCodeReason :: string where "exitedWithCodeReason = ''ExitedWithCode''"
definition podTemplateSchedulerNameReason :: string where
  "podTemplateSchedulerNameReason = ''SettedPodTemplateSchedulerName''"

fun isCustomSchedulerSet :: "ReplicaSpecs \<Rightarrow> string \<Rightarrow> string + bool" where
  "isCustomSchedulerSet [] gangSchedulerName = Inr False"
| "isCustomSchedulerSet ((rt, None) # specs) gangSchedulerName = Inl ''nil pointer dereference''"
| "isCustomSchedulerSet ((rt, Some spec) # specs) gangSchedulerName =
     (if ps_SchedulerName (pt_Spec (r_Template spec)) \<noteq> [] \<and> ps_SchedulerName (pt_Spec (r_Template spec)) \<noteq> gangSchedulerName
      then Inr True else isCustomSchedulerSet specs gangSchedulerName)"

text \<open>\<open>for key, value := range labels { m[key] = value }\<close>.\<close>

definition put_all :: "smap \<Rightarrow> smap \<Rightarrow> smap" where
  "put_all kvs m = foldl (\<lambda>m (k, v). AList.update k v m) m kvs"

definition pod_labels :: "KubeCluster \<Rightarrow> string \<Rightarrow> int \<Rightarrow> bool \<Rightarrow> smap" where
  "pod_labels kcluster rType index controller =
     (let labels = cc_GenLabels (kc_Name kcluster);
          labels = SetReplicaType labels (GenReplicaTypeLabel rType);
          labels = SetReplicaIndex labels index;
          labels = SetClusterType labels (s_ClusterType (kc_Spec kcluster))
      in if controller then SetClusterRole labels ''controller'' else labels)"

definition named_template :: "KubeCluster \<Rightarrow> string \<Rightarrow> int \<Rightarrow> ReplicaSpec \<Rightarrow> bool \<Rightarrow> PodTemplateSpec" where
  "named_template kcluster rType index spec controller =
     (let podTemplate = r_Template spec; m = pt_Meta podTemplate in
      podTemplate\<lparr>pt_Meta := m\<lparr>om_Name := GenGeneralName (kc_Name kcluster) rType (Itoa index),
         om_Labels := put_all (pod_labels kcluster rType index controller) (om_Labels m)\<rparr>\<rparr>)"

text \<open>Decorating the template for gang scheduling.\<close>

definition gang_template ::
  "'w kenv \<Rightarrow> 'st ClusterController \<Rightarrow> KubeCluster \<Rightarrow> string \<Rightarrow> ReplicaSpecs \<Rightarrow> PodTemplateSpec \<Rightarrow> ('w, 'st, PodTemplateSpec) ctl" where
  "gang_template E C kcluster rType replicas podTemplate =
     (if \<not> EnableGangScheduling C then go_return podTemplate
      else case cc_PodGroupControl C of
        None \<Rightarrow> go_panic ''nil pointer dereference''
      | Some pgctl \<Rightarrow>
          go_bind (go_lift (isCustomSchedulerSet replicas (GetSchedulerName pgctl))) (\<lambda>custom.
          go_seq (if custom then Event EventTypeWarning podTemplateSchedulerNameReason
                    ''Another scheduler is specified when gang-scheduling is enabled and it will not be overwritten''
                  else go_return ())
            (go_return (DecoratePodTemplateSpec E pgctl podTemplate (kc_Meta kcluster) rType))))"

definition expect :: "string \<Rightarrow> schema option \<Rightarrow> ('st expectations, unit) go \<Rightarrow> ('w, 'st, unit) ctl" where
  "expect clusterType schemaReconciler m = sr_call schemaReconciler (\<lambda>_. with_exp clusterType m)"

text \<open>The end of \<open>CreateNewPod\<close>: the creation itself, expected beforehand.\<close>

definition create_expected_pod ::
  "'w kenv \<Rightarrow> 'st ClusterController \<Rightarrow> KubeCluster \<Rightarrow> schema option \<Rightarrow> string \<Rightarrow> PodTemplateSpec \<Rightarrow> ('w, 'st, gerr option) ctl" where
  "create_expected_pod E C kcluster schemaReconciler expectationPodsKey podTemplate =
     go_seq (expect (s_ClusterType (kc_Spec kcluster)) schemaReconciler (RaiseExpectations (cc_store C) expectationPodsKey 1 0)) (
     go_bind (CreatePodsWithControllerRef E (kc_Namespace kcluster) podTemplate (Some (GenOwnerReference E (kc_Meta kcluster)))) (\<lambda>err.
     case err of
       Some e \<Rightarrow>
         if IsTimeout e then go_return None
         else go_seq (expect (s_ClusterType (kc_Spec kcluster)) schemaReconciler (CreationObserved (cc_store C) expectationPodsKey))
                (go_return (Some e))
     | None \<Rightarrow> go_seq (Inc ''created_pods_total'') (go_return None)))"

definition CreateNewPod ::
  "'w kenv \<Rightarrow> 'st ClusterController \<Rightarrow> string \<Rightarrow> int \<Rightarrow> ReplicaSpec \<Rightarrow> bool \<Rightarrow> ReplicaSpecs \<Rightarrow> ConfigMap \<Rightarrow> ('w, 'st, gerr option) ctl" where
  "CreateNewPod E C rType index spec controller replicas configMap =
     go_bind get_cluster (\<lambda>kcluster.
     case ke_KeyFunc E (kc_Meta kcluster) of
       Inl err \<Rightarrow> go_return (Some err)
     | Inr clusterKey \<Rightarrow>
         let schemaReconciler = GetSchemaReconciler C (s_ClusterType (kc_Spec kcluster)) in
         go_bind (sr_call schemaReconciler (\<lambda>sr. go_lift (sr_SetClusterSpec E C sr kcluster
                    (named_template kcluster rType index spec controller) rType (Itoa index) configMap))) (\<lambda>r.
         case r of
           Inl err \<Rightarrow> go_return (Some err)
         | Inr podTemplate \<Rightarrow>
             go_seq (if ps_RestartPolicy (pt_Spec podTemplate) \<noteq> []
                     then Event EventTypeWarning podTemplateRestartPolicyReason
                       ''Restart policy in pod template will be overwritten by restart policy in replica spec''
                     else go_return ()) (
             go_bind (gang_template E C kcluster rType replicas (SetRestartPolicy podTemplate spec)) (\<lambda>podTemplate.
             create_expected_pod E C kcluster schemaReconciler (GenExpectationPodsKey clusterKey rType) podTemplate))))"

section \<open>service.go: pods\<close>

text \<open>The exit code of the main container, when it has terminated; \<open>0xbeef\<close> otherwise.\<close>

definition terminated_main :: "ContainerStatus \<Rightarrow> bool" where
  "terminated_main status \<longleftrightarrow> cs_Name status = ClusterDefaultContainerName \<and> cs_Terminated status \<noteq> None"

definition exit_code :: "Pod \<Rightarrow> int32" where
  "exit_code pod = (case List.find terminated_main (pst_ContainerStatuses (pod_Status pod)) of
     Some status \<Rightarrow> (case cs_Terminated status of Some t \<Rightarrow> term_ExitCode t | None \<Rightarrow> 48879)
   | None \<Rightarrow> 48879)"

definition record_exit_code :: "Pod \<Rightarrow> ('w, 'st, unit) ctl" where
  "record_exit_code pod =
     (if list_ex terminated_main (pst_ContainerStatuses (pod_Status pod))
      then Event EventTypeNormal exitedWithCodeReason (''Pod: '' @ om_Namespace (pod_Meta pod) @ ''.'' @
             om_Name (pod_Meta pod) @ '' exited with code '' @ Itoa (sint (exit_code pod)))
      else go_return ())"

definition needs_restart :: "ReplicaSpec \<Rightarrow> Pod \<Rightarrow> bool" where
  "needs_restart spec pod \<longleftrightarrow> pst_Phase (pod_Status pod) = PodFailed \<and>
     (r_RestartPolicy spec = RestartPolicyExitCode \<and> IsRetryableExitCode (exit_code pod) \<or>
      r_RestartPolicy spec = RestartPolicyOnFailure \<or> r_RestartPolicy spec = RestartPolicyAlways)"

text \<open>\<open>PodControl.DeletePod(...)\<close> followed by the expectation of the deletion.\<close>

definition delete_expected_pod ::
  "'w kenv \<Rightarrow> 'st ClusterController \<Rightarrow> string \<Rightarrow> schema option \<Rightarrow> string \<Rightarrow> Pod \<Rightarrow> ('w, 'st, gerr option) ctl" where
  "delete_expected_pod E C clusterType schemaReconciler expectationPodsKey pod =
     go_try (DeletePod E (om_Namespace (pod_Meta pod)) (om_Name (pod_Meta pod)))
       (go_seq (expect clusterType schemaReconciler (RaiseExpectations (cc_store C) expectationPodsKey 0 1)) (go_return None))"

definition restart_pod ::
  "'w kenv \<Rightarrow> 'st ClusterController \<Rightarrow> KubeCluster \<Rightarrow> schema option \<Rightarrow> string \<Rightarrow> string \<Rightarrow> Pod \<Rightarrow> ('w, 'st, gerr option) ctl" where
  "restart_pod E C kcluster schemaReconciler expectationPodsKey rType pod =
     go_seq (Inc ''failed_pods_total'') (
     go_try (delete_expected_pod E C (s_ClusterType (kc_Spec kcluster)) schemaReconciler expectationPodsKey pod) (
     let msg = ''cluster '' @ kc_Name kcluster @ '' is restarting because '' @ rType @ '' replica(s) failed.'';
         reason = NewReason KubeClusterKind ClusterRestartingReason in
     go_seq (Event EventTypeWarning reason msg) (
     go_seq (set_condition E ClusterRestarting ConditionTrue reason msg) (
     go_seq (RestartedClustersCounterInc (kc_Namespace kcluster) (s_ClusterType (kc_Spec kcluster))) (go_return None)))))"

definition initializeReplicaStatuses :: "string \<Rightarrow> ('w, 'st, unit) ctl" where
  "initializeReplicaStatuses rtype = update_status (\<lambda>st. InitializeReplicaStatuses st rtype)"

definition updateClusterReplicaStatuses :: "string \<Rightarrow> Pod \<Rightarrow> ('w, 'st, unit) ctl" where
  "updateClusterReplicaStatuses rtype pod = go_bind get_cluster (\<lambda>k.
     go_bind (go_lift (UpdateClusterReplicaStatuses (kc_Status k) rtype pod)) (\<lambda>st. update_status (\<lambda>_. st)))"

text \<open>One iteration of the loop over the slices.\<close>

definition reconcile_present_pod ::
  "'w kenv \<Rightarrow> 'st ClusterController \<Rightarrow> KubeCluster \<Rightarrow> schema option \<Rightarrow> string \<Rightarrow> string \<Rightarrow> ReplicaSpec \<Rightarrow> int \<Rightarrow> int \<Rightarrow> Pod \<Rightarrow>
   ('w, 'st, gerr option) ctl" where
  "reconcile_present_pod E C kcluster schemaReconciler expectationPodsKey rType spec numReplicas index pod =
     go_try (if index < 0 \<or> index \<ge> numReplicas
             then delete_expected_pod E C (s_ClusterType (kc_Spec kcluster)) schemaReconciler expectationPodsKey pod
             else go_return None) (
     go_seq (record_exit_code pod) (
     go_try (if needs_restart spec pod then restart_pod E C kcluster schemaReconciler expectationPodsKey rType pod
             else go_return None) (
     go_seq (updateClusterReplicaStatuses rType pod) (go_return None))))"

definition reconcile_pod_slice ::
  "'w kenv \<Rightarrow> 'st ClusterController \<Rightarrow> KubeCluster \<Rightarrow> string \<Rightarrow> string \<Rightarrow> ReplicaSpec \<Rightarrow> int \<Rightarrow> ConfigMap \<Rightarrow> nat \<times> Pod list \<Rightarrow>
   ('w, 'st, gerr option) ctl" where
  "reconcile_pod_slice E C kcluster expectationPodsKey rType spec numReplicas configMap x =
     (let schemaReconciler = GetSchemaReconciler C (s_ClusterType (kc_Spec kcluster)); index = int (fst x) in
      case snd x of
        [] \<Rightarrow> sr_call schemaReconciler (\<lambda>sr.
          CreateNewPod E C rType index spec (sr_IsController sr rType) (kc_Specs kcluster) configMap)
      | [pod] \<Rightarrow> reconcile_present_pod E C kcluster schemaReconciler expectationPodsKey rType spec numReplicas index pod
      | _ \<Rightarrow> go_return None)"

definition ReconcilePods ::
  "'w kenv \<Rightarrow> 'st ClusterController \<Rightarrow> string \<Rightarrow> ReplicaSpec option \<Rightarrow> Pod list \<Rightarrow> ConfigMap \<Rightarrow> ('w, 'st, gerr option) ctl" where
  "ReconcilePods E C rType spec pods configMap =
     go_bind get_cluster (\<lambda>kcluster.
     case ke_KeyFunc E (kc_Meta kcluster) of
       Inl err \<Rightarrow> go_return (Some err)
     | Inr clusterKey \<Rightarrow>
         let pods = FilterPodsForReplicaType E pods (GenReplicaTypeLabel rType) in
         case spec of
           None \<Rightarrow> go_panic ''nil pointer dereference''
         | Some sp \<Rightarrow> (case r_Replicas sp of
             None \<Rightarrow> go_panic ''nil pointer dereference''
           | Some replicas \<Rightarrow>
               go_seq (initializeReplicaStatuses rType) (
               go_bind (go_lift (GetPodSlices (cc_maxlen C) pods (sint replicas))) (\<lambda>podSlices.
               go_forE (reconcile_pod_slice E C kcluster (GenExpectationPodsKey clusterKey rType) rType sp (sint replicas) configMap)
                 (enumerate 0 podSlices)))))"

section \<open>service.go: services\<close>

definition service_labels :: "KubeCluster \<Rightarrow> string \<Rightarrow> string \<Rightarrow> smap" where
  "service_labels kcluster rtype index =
     (let labels = GenLabels ControllerName (kc_Name kcluster);
          labels = SetReplicaType labels (GenReplicaTypeLabel rtype);
          labels = SetReplicaIndexStr labels index
      in SetClusterType labels (s_ClusterType (kc_Spec kcluster)))"

definition new_service :: "KubeCluster \<Rightarrow> string \<Rightarrow> string \<Rightarrow> (string \<times> int32) list \<Rightarrow> Service" where
  "new_service kcluster rtype index ports =
     \<lparr> svc_Meta = empty_meta\<lparr>om_Name := GenGeneralName (kc_Name kcluster) rtype index,
                             om_Labels := service_labels kcluster rtype index\<rparr>,
       svc_ClusterIP = ''None'', svc_Selector = service_labels kcluster rtype index,
       svc_Ports = map (\<lambda>(name, port). \<lparr> sp_Name = name, sp_Port = port \<rparr>) ports \<rparr>"

definition CreateNewService ::
  "'w kenv \<Rightarrow> 'st ClusterController \<Rightarrow> string \<Rightarrow> ReplicaSpec \<Rightarrow> string \<Rightarrow> string \<Rightarrow> schema option \<Rightarrow> ('w, 'st, gerr option) ctl" where
  "CreateNewService E C rtype spec index defaultContainerName expectations =
     go_bind get_cluster (\<lambda>kcluster.
     case ke_KeyFunc E (kc_Meta kcluster) of
       Inl err \<Rightarrow> go_return (Some err)
     | Inr clusterKey \<Rightarrow>
         (case GetPortsFromCluster spec defaultContainerName of
            Inl err \<Rightarrow> go_return (Some err)
          | Inr ports \<Rightarrow>
              let service = new_service kcluster rtype index ports;
                  expectationServicesKey = GenExpectationServicesKey clusterKey rtype;
                  clusterType = s_ClusterType (kc_Spec kcluster) in
              go_seq (expect clusterType expectations (RaiseExpectations (cc_store C) expectationServicesKey 1 0)) (
              go_bind (CreateServicesWithControllerRef E (kc_Namespace kcluster) service
                         (Some (GenOwnerReference E (kc_Meta kcluster)))) (\<lambda>err.
              case err of
                Some e \<Rightarrow>
                  if IsTimeout e then go_seq (Inc ''succeeded_service_creation_total'') (go_return None)
                  else go_seq (expect clusterType expectations (CreationObserved (cc_store C) expectationServicesKey)) (
                       go_seq (Inc ''failed_service_creation_total'') (go_return (Some e)))
              | None \<Rightarrow> go_seq (Inc ''succeeded_service_creation_total'') (go_return None)))))"

definition reconcile_service_slice ::
  "'w kenv \<Rightarrow> 'st ClusterController \<Rightarrow> schema option \<Rightarrow> string \<Rightarrow> ReplicaSpec \<Rightarrow> int \<Rightarrow> nat \<times> Service list \<Rightarrow> ('w, 'st, gerr option) ctl" where
  "reconcile_service_slice E C schemaReconciler rtype spec replicas x =
     (let index = int (fst x) in
      case snd x of
        [] \<Rightarrow> sr_call schemaReconciler (\<lambda>sr.
          CreateNewService E C rtype spec (Itoa index) (sr_GetDefaultContainerName sr) schemaReconciler)
      | [svc] \<Rightarrow>
          if index < 0 \<or> index \<ge> replicas then DeleteService E (om_Namespace (svc_Meta svc)) (om_Name (svc_Meta svc))
          else go_return None
      | _ \<Rightarrow> go_return None)"

definition ReconcileServices ::
  "'w kenv \<Rightarrow> 'st ClusterController \<Rightarrow> string \<Rightarrow> ReplicaSpec option \<Rightarrow> Service list \<Rightarrow> ('w, 'st, gerr option) ctl" where
  "ReconcileServices E C rtype spec services =
     go_bind get_cluster (\<lambda>kcluster.
     case spec of
       None \<Rightarrow> go_panic ''nil pointer dereference''
     | Some sp \<Rightarrow> (case r_Replicas sp of
         None \<Rightarrow> go_panic ''nil pointer dereference''
       | Some n \<Rightarrow>
           let replicas = sint n;
               services = FilterServicesForReplicaType E services (GenReplicaTypeLabel rtype);
               schemaReconciler = GetSchemaReconciler C (s_ClusterType (kc_Spec kcluster)) in
           go_bind (go_lift (GetServiceSlices (cc_maxlen C) services replicas)) (\<lambda>serviceSlices.
           go_forE (reconcile_service_slice E C schemaReconciler rtype sp replicas) (enumerate 0 serviceSlices))))"

section \<open>configmap.go\<close>

text \<open>\<open>reflect.DeepEqual\<close> of two maps: nil differs from empty, the order does not matter.\<close>

definition smap_equal :: "smap \<Rightarrow> smap \<Rightarrow> bool" where
  "smap_equal m n \<longleftrightarrow> list_all (\<lambda>(k, _). map_of m k = map_of n k) m \<and> list_all (\<lambda>(k, _). map_of m k = map_of n k) n"

definition DeepEqual_data :: "smap option \<Rightarrow> smap option \<Rightarrow> bool" where
  "DeepEqual_data a b = (case (a, b) of (None, None) \<Rightarrow> True | (Some m, Some n) \<Rightarrow> smap_equal m n | _ \<Rightarrow> False)"

definition CreateNewConfigMap ::
  "'w kenv \<Rightarrow> 'st ClusterController \<Rightarrow> schema option \<Rightarrow> ('w, 'st, gerr + ConfigMap) ctl" where
  "CreateNewConfigMap E C expectations =
     go_bind get_cluster (\<lambda>kcluster.
     case ke_KeyFunc E (kc_Meta kcluster) of
       Inl err \<Rightarrow> go_return (Inl err)
     | Inr clusetrKey \<Rightarrow>
         let expectationConfigmapsKey = GenExpectationConfigMapKey clusetrKey;
             clusterType = s_ClusterType (kc_Spec kcluster);
             configMap = empty_config_map\<lparr>cm_Data := Some [], cm_Meta := empty_meta\<lparr>om_Name := kc_Name kcluster\<rparr>\<rparr> in
         go_seq (expect clusterType expectations (RaiseExpectations (cc_store C) expectationConfigmapsKey 1 0)) (
         go_bind (CreateConfigMapWithControllerRef E (kc_Namespace kcluster) configMap
                    (Some (GenOwnerReference E (kc_Meta kcluster)))) (\<lambda>(err, configMap).
         case err of
           Some e \<Rightarrow>
             if IsTimeout e then go_seq (Inc ''succeeded_configmap_creation_total'') (go_return (Inr configMap))
             else go_seq (expect clusterType expectations (CreationObserved (cc_store C) expectationConfigmapsKey)) (
                  go_seq (Inc ''failed_configmap_creation_total'') (go_return (Inl e)))
         | None \<Rightarrow> go_seq (Inc ''succeeded_configmap_creation_total'') (go_return (Inr configMap)))))"

definition sync_config_map :: "'w kenv \<Rightarrow> schema option \<Rightarrow> ConfigMap \<Rightarrow> ('w, 'st, gerr + ConfigMap) ctl" where
  "sync_config_map E schemaReconciler configMap =
     go_bind (sr_call schemaReconciler (\<lambda>sr. sr_ReconcileConfigMap E sr configMap)) (\<lambda>(err, deepCopy).
     case err of
       Some e \<Rightarrow> go_return (Inl e)
     | None \<Rightarrow>
         if \<not> DeepEqual_data (cm_Data deepCopy) (cm_Data configMap)
         then go_bind (UpdateConfigMapInApiServer E deepCopy) (\<lambda>(err, deepCopy).
                case err of Some e \<Rightarrow> go_return (Inl e) | None \<Rightarrow> go_return (Inr deepCopy))
         else go_return (Inr deepCopy))"

definition ReconcileConfigMap :: "'w kenv \<Rightarrow> 'st ClusterController \<Rightarrow> ('w, 'st, gerr + ConfigMap) ctl" where
  "ReconcileConfigMap E C =
     go_bind get_cluster (\<lambda>kcluster.
     go_bind (GetConfigMapForCluster E kcluster) (\<lambda>r.
     case r of
       Inl err \<Rightarrow> go_return (Inl err)
     | Inr found \<Rightarrow>
         let schemaReconciler = GetSchemaReconciler C (s_ClusterType (kc_Spec kcluster)) in
         (case found of
            Some configMap \<Rightarrow> sync_config_map E schemaReconciler configMap
          | None \<Rightarrow> go_bind (CreateNewConfigMap E C schemaReconciler) (\<lambda>r.
              case r of Inl err \<Rightarrow> go_return (Inl err) | Inr configMap \<Rightarrow> sync_config_map E schemaReconciler configMap))))"

end
