(* ===== verification/ReconcileCluster.thy ===== *)
theory ReconcileCluster
  imports Replicas
begin

text \<open>
  \<open>ctrlcommon/controller.go\<close> and \<open>scheduling.go\<close>: pod groups and disruption budgets, the clean-up of a
  finished or suspended cluster, and \<open>ReconcileKubeCluster\<close>, which puts the parts together.

  \<open>runPolicy\<close>, \<open>metaObject\<close>, \<open>runtimeObject\<close> and \<open>&kcluster.Status\<close> all point into the cluster of the
  state; a status passed by value is the one of the moment of the call.
\<close>

section \<open>scheduling.go\<close>

text \<open>\<open>FillPodGroupSpecFunc\<close> writes the spec into the pod group it is given, or fails. The first component of
  the result of \<open>SyncPodGroup\<close> is the object, nil or not.\<close>

type_synonym FillPodGroupSpecFunc = "PodGroup \<Rightarrow> gerr + PodGroup"

text \<open>\<open>cmp.Diff(oldPodGroup, podGroup)\<close> compares a pointer to the interface with the object: the types
  differ, and the difference is never empty.\<close>

definition Diff_pointer_object :: "PodGroup \<Rightarrow> PodGroup \<Rightarrow> string" where
  "Diff_pointer_object oldPodGroup podGroup = ''types differ''"

definition fill_error :: "PodGroup \<Rightarrow> gerr \<Rightarrow> gerr" where
  "fill_error pg err = errorf_v (''unable to fill the spec of PodGroup, '' @ CHR 0x27 # KObj (pg_meta pg) @ CHR 0x27 # '': '') err"

definition create_pod_group ::
  "'w kenv \<Rightarrow> pg_control \<Rightarrow> KubeCluster \<Rightarrow> FillPodGroupSpecFunc \<Rightarrow> ('w, 'st, PodGroup option \<times> gerr option) ctl" where
  "create_pod_group E pgctl cluster specFunc =
     (let newPodGroup = NewEmptyPodGroup pgctl;
          newPodGroup = pg_set_meta ((pg_meta newPodGroup)\<lparr>om_Name := kc_Name cluster, om_Namespace := kc_Namespace cluster,
            om_Annotations := om_Annotations (kc_Meta cluster),
            om_OwnerReferences := [GenOwnerReference E (kc_Meta cluster)]\<rparr>) newPodGroup in
      case specFunc newPodGroup of
        Inl err \<Rightarrow> go_return (None, Some (fill_error newPodGroup err))
      | Inr newPodGroup \<Rightarrow>
          go_bind (PG_Create E pgctl newPodGroup) (\<lambda>err.
          case err of
            Some e \<Rightarrow> go_return (None, Some (errorf_v ''unable to create PodGroup: '' e))
          | None \<Rightarrow> go_seq (Inc ''created_pod_groups_total'') (
              go_bind (PG_Get E pgctl (kc_Namespace cluster) (kc_Name cluster)) (\<lambda>r.
              case r of
                Inl e \<Rightarrow> go_return (None, Some (errorf_v ''unable to get PodGroup after success creation: '' e))
              | Inr createdPodGroup \<Rightarrow> go_return (Some createdPodGroup, None)))))"

definition SyncPodGroup ::
  "'w kenv \<Rightarrow> 'st ClusterController \<Rightarrow> KubeCluster \<Rightarrow> FillPodGroupSpecFunc \<Rightarrow> ('w, 'st, PodGroup option \<times> gerr option) ctl" where
  "SyncPodGroup E C cluster specFunc =
     (case cc_PodGroupControl C of
        None \<Rightarrow> go_panic ''nil pointer dereference''
      | Some pgctl \<Rightarrow>
          go_bind (PG_Get E pgctl (kc_Namespace cluster) (kc_Name cluster)) (\<lambda>r.
          case r of
            Inr podGroup \<Rightarrow>
              (case specFunc podGroup of
                 Inl err \<Rightarrow> go_return (None, Some (fill_error podGroup err))
               | Inr podGroup' \<Rightarrow>
                   if length (Diff_pointer_object podGroup' podGroup') \<noteq> 0
                   then go_bind (PG_Update E pgctl podGroup') (\<lambda>err. go_return (Some podGroup', err))
                   else go_return (Some podGroup', None))
          | Inl err \<Rightarrow>
              if IgnoreNotFound err \<noteq> None then go_return (None, Some (errorf_v ''unable to get a PodGroup: '' err))
              else create_pod_group E pgctl cluster specFunc))"

definition DeletePodGroup :: "'w kenv \<Rightarrow> 'st ClusterController \<Rightarrow> KubeCluster \<Rightarrow> ('w, 'st, gerr option) ctl" where
  "DeletePodGroup E C cluster =
     (case cc_PodGroupControl C of
        None \<Rightarrow> go_panic ''nil pointer dereference''
      | Some pgctl \<Rightarrow>
          go_bind (PG_Get E pgctl (kc_Namespace cluster) (kc_Name cluster)) (\<lambda>r.
          if (case r of Inl err \<Rightarrow> IsNotFound err | Inr _ \<Rightarrow> False) then go_return None
          else go_bind (PG_Delete E pgctl (kc_Namespace cluster) (kc_Name cluster)) (\<lambda>err.
            case err of
              Some e \<Rightarrow> go_return (Some (errorf_v ''unable to delete PodGroup: '' e))
            | None \<Rightarrow> go_seq (Inc ''deleted_pod_groups_total'') (go_return None))))"

definition SyncPdb :: "'w kenv \<Rightarrow> KubeCluster \<Rightarrow> int32 \<Rightarrow> ('w, 'st, PodDisruptionBudget option \<times> gerr option) ctl" where
  "SyncPdb E kcluster minAvailableReplicas =
     go_bind (call (cl_Get (ke_pdbs E) (kc_Namespace kcluster) (kc_Name kcluster))) (\<lambda>r.
     case r of
       Inr pdb \<Rightarrow> go_return (Some pdb, Some (PlainErr ''AlreadyExists''))
     | Inl err \<Rightarrow>
         if \<not> IsNotFound err then go_return (None, Some err)
         else
           let createPdb = \<lparr> pdb_Meta = empty_meta\<lparr>om_Name := kc_Name kcluster,
                               om_OwnerReferences := [GenOwnerReference E (kc_Meta kcluster)]\<rparr>,
                             pdb_MinAvailable = minAvailableReplicas,
                             pdb_MatchLabels = [(ClusterNameLabel, kc_Name kcluster)] \<rparr> in
           go_bind (api (cl_Create (ke_pdbs E) (kc_Namespace kcluster) createPdb)
                     (\<lambda>r. CreatePdbCall (kc_Namespace kcluster) createPdb (err_of r))) (\<lambda>r.
           case r of
             Inl err \<Rightarrow> go_return (None, Some (errorf_v ''unable to create pdb: '' err))
           | Inr createdPdb \<Rightarrow> go_seq (Inc ''created_pod_disruption_policies_total'') (go_return (Some createdPdb, None))))"

definition DeletePdb :: "'w kenv \<Rightarrow> KubeCluster \<Rightarrow> ('w, 'st, gerr option) ctl" where
  "DeletePdb E cluster =
     go_bind (call (cl_Get (ke_pdbs E) (kc_Namespace cluster) (kc_Name cluster))) (\<lambda>r.
     if (case r of Inl err \<Rightarrow> IsNotFound err | Inr _ \<Rightarrow> False) then go_return None
     else go_bind (api (cl_Delete (ke_pdbs E) (kc_Namespace cluster) (kc_Name cluster))
                    (DeletePdbCall (kc_Namespace cluster) (kc_Name cluster))) (\<lambda>err.
       case err of
         Some e \<Rightarrow> go_return (Some (errorf_v ''unable to delete pdb: '' e))
       | None \<Rightarrow> go_seq (Inc ''deleted_pod_disruption_policies_total'') (go_return None)))"

section \<open>Clean-up\<close>

text \<open>Which pods the clean policy of a finished cluster spares.\<close>

definition spares :: "RunPolicy \<Rightarrow> ClusterStatus \<Rightarrow> Pod \<Rightarrow> string + bool" where
  "spares runPolicy clusterStatus pod =
     (if \<not> IsFinished clusterStatus then Inr False
      else case rp_CleanKubeNodePolicy runPolicy of
        None \<Rightarrow> Inl ''nil pointer dereference''
      | Some policy \<Rightarrow> Inr (policy = CleanKubeNodePolicyRunning \<and>
          pst_Phase (pod_Status pod) \<noteq> PodRunning \<and> pst_Phase (pod_Status pod) \<noteq> PodPending))"

definition delete_pod_and_service :: "'w kenv \<Rightarrow> RunPolicy \<Rightarrow> ClusterStatus \<Rightarrow> Pod \<Rightarrow> ('w, 'st, gerr option) ctl" where
  "delete_pod_and_service E runPolicy clusterStatus pod =
     (let ns = om_Namespace (pod_Meta pod); nm = om_Name (pod_Meta pod) in
      go_bind (go_lift (spares runPolicy clusterStatus pod)) (\<lambda>spare.
      if spare then go_return None
      else go_try (DeletePod E ns nm) (go_try (DeleteService E ns nm) (DeletePod E ns nm))))"

definition DeletePodAndServices :: "'w kenv \<Rightarrow> RunPolicy \<Rightarrow> ClusterStatus \<Rightarrow> Pod list \<Rightarrow> ('w, 'st, gerr option) ctl" where
  "DeletePodAndServices E runPolicy clusterStatus pods =
     (if length pods = 0 then go_return None
      else go_bind (go_lift (if \<not> IsFinished clusterStatus then Inr False
                             else case rp_CleanKubeNodePolicy runPolicy of
                               None \<Rightarrow> Inl ''nil pointer dereference''
                             | Some policy \<Rightarrow> Inr (policy = CleanKubeNodePolicyNone))) (\<lambda>keep_all.
        if keep_all then go_return None
        else go_forE (delete_pod_and_service E runPolicy clusterStatus) pods))"

definition CleanupCluster :: "'w kenv \<Rightarrow> RunPolicy \<Rightarrow> ClusterStatus \<Rightarrow> ('w, 'st, gerr option) ctl" where
  "CleanupCluster E runPolicy clusterStatus =
     go_bind (call (ke_Now E)) (\<lambda>currentTime.
     case rp_TTLSecondsAfterFinished runPolicy of
       None \<Rightarrow> go_return None
     | Some ttl \<Rightarrow>
         (case st_CompletionTime clusterStatus of
            None \<Rightarrow> go_return (Some (PlainErr ''job completion time is nil, cannot cleanup''))
          | Some finishTime \<Rightarrow>
              let duration = 1000000000 * sint ttl; expireTime = finishTime + duration in
              go_bind get_cluster (\<lambda>kcluster.
              if currentTime > expireTime
              then go_bind (DeleteCluster E kcluster) (\<lambda>err.
                     case err of
                       Some e \<Rightarrow> go_seq (Event EventTypeWarning ''FailedDeleteKubeCluster'' (err_text e)) (go_return (Some e))
                     | None \<Rightarrow> go_return None)
              else case ke_KeyFunc E (kc_Meta kcluster) of
                     Inl e \<Rightarrow> go_return (Some e)
                   | Inr key \<Rightarrow> go_seq (AddAfter key (sat64 (expireTime - currentTime))) (go_return None))))"

text \<open>Deleting the pod group of a terminated cluster, with its events.\<close>

definition terminate_pod_group :: "'w kenv \<Rightarrow> 'st ClusterController \<Rightarrow> ('w, 'st, gerr option) ctl" where
  "terminate_pod_group E C =
     (if EnableGangScheduling C
      then go_bind get_cluster (\<lambda>kcluster.
        go_seq (Event EventTypeNormal ''ClusterTerminated'' ''Kube cluster has been terminated. Deleting PodGroup'') (
        go_bind (DeletePodGroup E C kcluster) (\<lambda>err.
        case err of
          Some e \<Rightarrow> go_seq (Event EventTypeWarning ''FailedDeletePodGroup'' (''Error deleting: '' @ err_text e)) (go_return (Some e))
        | None \<Rightarrow> go_seq (Event EventTypeNormal ''SuccessfulDeletePodGroup'' (''Deleted PodGroup: '' @ kc_Name kcluster)) (go_return None))))
      else go_return None)"

definition CleanUpResources :: "'w kenv \<Rightarrow> 'st ClusterController \<Rightarrow> Pod list \<Rightarrow> ('w, 'st, gerr option) ctl" where
  "CleanUpResources E C pods =
     go_bind get_cluster (\<lambda>kcluster.
     let runPolicy = kc_RunPolicy kcluster; clusterStatus = kc_Status kcluster in
     go_try (DeletePodAndServices E runPolicy clusterStatus pods) (
     go_try (DeleteConfigMap E (kc_Namespace kcluster) (kc_Name kcluster)) (
     go_try (terminate_pod_group E C)
       (CleanupCluster E runPolicy clusterStatus))))"

section \<open>Expectations\<close>

text \<open>\<open>allErrs\<close> is nil until the first error on a pods key; wrapping a services error dereferences it.\<close>

fun ResetExpectations ::
  "'w kenv \<Rightarrow> 'st cache_store \<Rightarrow> string \<Rightarrow> string \<Rightarrow> schema option \<Rightarrow> gerr option \<Rightarrow> ReplicaSpecs \<Rightarrow> ('w, 'st, gerr option) ctl" where
  "ResetExpectations E S clusterKey clusterType reconciler allErrs [] = go_return allErrs"
| "ResetExpectations E S clusterKey clusterType reconciler allErrs ((rtype, _) # replicas) =
     go_bind (call (ke_Now E)) (\<lambda>now.
     go_bind (sr_call reconciler (\<lambda>_. with_exp clusterType (SetExpectations S now (GenExpectationPodsKey clusterKey rtype) 0 0))) (\<lambda>err.
     let allErrs = (case err of Some e \<Rightarrow> Some e | None \<Rightarrow> allErrs) in
     go_bind (call (ke_Now E)) (\<lambda>now.
     go_bind (sr_call reconciler (\<lambda>_. with_exp clusterType (SetExpectations S now (GenExpectationServicesKey clusterKey rtype) 0 0))) (\<lambda>err.
     case err of
       None \<Rightarrow> ResetExpectations E S clusterKey clusterType reconciler allErrs replicas
     | Some e \<Rightarrow> (case allErrs of
         None \<Rightarrow> go_panic ''nil pointer dereference''
       | Some a \<Rightarrow> ResetExpectations E S clusterKey clusterType reconciler
           (Some (PlainErr (err_text a @ '': '' @ err_text e))) replicas)))))"

section \<open>ReconcileKubeCluster\<close>

definition calcPGMinResources :: "'w kenv \<Rightarrow> int32 \<Rightarrow> ReplicaSpecs \<Rightarrow> ('w, 'st, ResourceList) ctl" where
  "calcPGMinResources E minMember replicas = CalcPGMinResources E minMember replicas"

text \<open>A suspended cluster: its resources are cleaned up and its status says so.\<close>

definition suspend_status :: "ClusterStatus \<Rightarrow> ClusterStatus" where
  "suspend_status st = st\<lparr>st_ReplicaStatuses := map_option (map (\<lambda>(rType, rs). (rType, rs\<lparr>rs_Active := 0, rs_Activating := 0\<rparr>)))
     (st_ReplicaStatuses st)\<rparr>"

definition suspend_cluster :: "'w kenv \<Rightarrow> 'st ClusterController \<Rightarrow> Pod list \<Rightarrow> ('w, 'st, gerr option) ctl" where
  "suspend_cluster E C pods =
     go_bind get_cluster (\<lambda>kcluster.
     let oldStatus = kc_Status kcluster;
         msg = KubeClusterKind @ '' '' @ kc_Name kcluster @ '' is suspended.'';
         reason = NewReason KubeClusterKind ClusterSuspendedReason in
     go_try (CleanUpResources E C pods) (
     go_seq (update_status suspend_status) (
     go_bind get_cluster (\<lambda>k.
     go_seq (if IsRunning (kc_Status k) then set_condition E ClusterRunning ConditionFalse reason msg else go_return ()) (
     go_bind get_cluster (\<lambda>k.
     go_seq (if \<not> IsSuspended (kc_Status k) then set_condition E ClusterSuspended ConditionTrue reason msg else go_return ()) (
     go_seq (Event EventTypeNormal reason msg) (
     go_bind get_cluster (\<lambda>k.
     if oldStatus \<noteq> kc_Status k then UpdateClusterStatusInApiServer E else go_return None)))))))))"

definition resume_cluster :: "'w kenv \<Rightarrow> ('w, 'st, unit) ctl" where
  "resume_cluster E =
     go_bind get_cluster (\<lambda>kcluster.
     let msg = KubeClusterKind @ '' '' @ kc_Name kcluster @ '' is resumed.'' in
     if IsSuspended (kc_Status kcluster)
     then go_seq (set_condition E ClusterSuspended ConditionFalse (NewReason KubeClusterKind ClusterSuspendedReason) msg) (
          go_bind (call (ke_Now E)) (\<lambda>now.
          go_seq (update_status (\<lambda>st. st\<lparr>st_StartTime := Some now\<rparr>))
            (Event EventTypeNormal (NewReason KubeClusterKind ClusterResumedReason) msg)))
     else go_return ())"

text \<open>Whether the cluster exceeds a limit: the message it fails with.\<close>

definition exceedsBackoffLimit :: "KubeCluster \<Rightarrow> string \<Rightarrow> Pod list \<Rightarrow> int32 \<Rightarrow> bool" where
  "exceedsBackoffLimit kcluster clusterKey pods totalReplicas =
     (case rp_BackoffLimit (kc_RunPolicy kcluster) of
        None \<Rightarrow> False
      | Some limit \<Rightarrow>
          let active = of_nat (length (FilterActivePods pods)); failed = FilterPodCount pods PodFailed;
              prevReplicasFailedNum = GetTotalFailedReplicas (case st_ReplicaStatuses (kc_Status kcluster) of None \<Rightarrow> [] | Some m \<Rightarrow> m)
          in sint failed > sint prevReplicasFailedNum \<and> active \<noteq> totalReplicas \<and>
             sint (word_of_int (NumRequeues clusterKey) + 1 :: int32) > sint limit)"

definition past_deadline :: "'w kenv \<Rightarrow> KubeCluster \<Rightarrow> ('w, 'st, bool) ctl" where
  "past_deadline E kcluster =
     (if rp_ActiveDeadlineSeconds (kc_RunPolicy kcluster) = None \<or> st_StartTime (kc_Status kcluster) = None then go_return False
      else go_bind (call (ke_Now E)) (\<lambda>now. go_return (PastActiveDeadline now (kc_RunPolicy kcluster) (kc_Status kcluster))))"

definition failure_message :: "'w kenv \<Rightarrow> string \<Rightarrow> Pod list \<Rightarrow> int32 \<Rightarrow> ('w, 'st, string option) ctl" where
  "failure_message E clusterKey pods totalReplicas =
     go_bind get_cluster (\<lambda>kcluster.
     go_bind (go_lift (PastBackoffLimit E (kc_RunPolicy kcluster) (kc_Specs kcluster) pods)) (\<lambda>pastBackoffLimit.
     if exceedsBackoffLimit kcluster clusterKey pods totalReplicas \<or> pastBackoffLimit
     then go_return (Some (''KubeCLuster '' @ kc_Name kcluster @ '' has failed because it has reached the specified backoff limit''))
     else go_bind (past_deadline E kcluster) (\<lambda>past.
       go_return (if past
         then Some (''KubeCLuster '' @ kc_Name kcluster @ '' has failed because it was active longer than specified deadline'')
         else None))))"

definition fail_cluster :: "'w kenv \<Rightarrow> 'st ClusterController \<Rightarrow> Pod list \<Rightarrow> string \<Rightarrow> ('w, 'st, gerr option) ctl" where
  "fail_cluster E C pods failureMessage =
     go_bind get_cluster (\<lambda>kcluster.
     let reason = NewReason KubeClusterKind ClusterFailedReason in
     go_try (DeletePodAndServices E (kc_RunPolicy kcluster) (kc_Status kcluster) pods) (
     go_try (CleanupCluster E (kc_RunPolicy kcluster) (kc_Status kcluster)) (
     go_try (terminate_pod_group E C) (
     go_seq (Event EventTypeNormal reason failureMessage) (
     go_seq (set_condition E ClusterFailed ConditionTrue reason failureMessage)
       (UpdateClusterStatusInApiServer E))))))"

text \<open>Gang scheduling: the pod group's spec, and whether the replicas may be synced.\<close>

definition recognize_error :: "PodGroup \<Rightarrow> gerr" where
  "recognize_error pg = PlainErr (''unable to recognize PodGroup: '' @ KObj (pg_meta pg))"

definition pgSpecFill ::
  "'st ClusterController \<Rightarrow> int32 \<Rightarrow> string \<Rightarrow> string \<Rightarrow> int32 option \<Rightarrow> ResourceList \<Rightarrow> FillPodGroupSpecFunc" where
  "pgSpecFill C minMember queue priorityClass schedulerTimeout minResources pg =
     (if cc_GangScheduling C = GangSchedulerVolcano
      then (case pg of
          VolcanoPodGroup m _ phase \<Rightarrow> Inr (VolcanoPodGroup m
            \<lparr> vpg_MinMember = minMember, vpg_Queue = queue, vpg_PriorityClassName = priorityClass,
              vpg_MinResources = Some minResources \<rparr> phase)
        | _ \<Rightarrow> Inl (recognize_error pg))
      else (case pg of
          SchedulerPluginsPodGroup m _ \<Rightarrow> Inr (SchedulerPluginsPodGroup m
            \<lparr> spg_MinMember = minMember, spg_MinResources = minResources, spg_ScheduleTimeoutSeconds = schedulerTimeout \<rparr>)
        | _ \<Rightarrow> Inl (recognize_error pg)))"

definition sync_gang :: "'w kenv \<Rightarrow> 'st ClusterController \<Rightarrow> int32 \<Rightarrow> ('w, 'st, bool) ctl" where
  "sync_gang E C totalReplicas =
     go_bind get_cluster (\<lambda>kcluster.
     let policy = rp_SchedulingPolicy (kc_RunPolicy kcluster);
         minMember = (case policy of None \<Rightarrow> totalReplicas
           | Some p \<Rightarrow> (case sch_MinAvailable p of None \<Rightarrow> totalReplicas | Some n \<Rightarrow> n));
         queue = (case policy of None \<Rightarrow> [] | Some p \<Rightarrow> sch_Queue p);
         priorityClass = (case policy of None \<Rightarrow> [] | Some p \<Rightarrow> sch_PriorityClass p);
         minResources = (case policy of None \<Rightarrow> None | Some p \<Rightarrow> sch_MinResources p);
         schedulerTimeout = (case policy of None \<Rightarrow> None | Some p \<Rightarrow> sch_ScheduleTimeoutSeconds p) in
     go_bind (case minResources of
         Some mr \<Rightarrow> go_return mr
       | None \<Rightarrow> calcPGMinResources E minMember (kc_Specs kcluster)) (\<lambda>minResources.
     go_bind (SyncPodGroup E C kcluster (pgSpecFill C minMember queue priorityClass schedulerTimeout minResources)) (\<lambda>(pg, err).
     case cc_PodGroupControl C of
       None \<Rightarrow> go_panic ''nil pointer dereference''
     | Some pgctl \<Rightarrow> go_bind (go_lift (DelayPodCreationDueToPodGroup E pgctl pg)) (\<lambda>delay.
         go_return (err = None \<and> \<not> delay)))))"

text \<open>The replicas, one type after the other, and then the status. \<open>reflect.DeepEqual\<close> of the old status and a
  pointer to the new one compares values of different types: it is always false, and what follows the
  update of the status is never reached.\<close>

definition DeepEqual_status_pointer :: "ClusterStatus \<Rightarrow> ClusterStatus \<Rightarrow> bool" where
  "DeepEqual_status_pointer oldStatus status = False"

definition reconcile_replicas ::
  "'w kenv \<Rightarrow> 'st ClusterController \<Rightarrow> Pod list \<Rightarrow> Service list \<Rightarrow> ConfigMap \<Rightarrow> ('w, 'st, gerr option) ctl" where
  "reconcile_replicas E C pods services configMap =
     go_bind get_cluster (\<lambda>kcluster. go_forE (\<lambda>(rtype, spec).
       go_try (ReconcilePods E C rtype spec pods configMap) (ReconcileServices E C rtype spec services)) (kc_Specs kcluster))"

definition finish_reconcile ::
  "'w kenv \<Rightarrow> 'st ClusterController \<Rightarrow> schema option \<Rightarrow> ClusterStatus \<Rightarrow> ConfigMap \<Rightarrow> ('w, 'st, gerr option) ctl" where
  "finish_reconcile E C schemaReconciler oldStatus configMap =
     go_try (UpdateClusterStatus E C) (
     go_bind get_cluster (\<lambda>kcluster.
     if \<not> DeepEqual_status_pointer oldStatus (kc_Status kcluster) then UpdateClusterStatusInApiServer E
     else go_bind (sr_call schemaReconciler (\<lambda>sr. sr_UpdateConfigMap E sr configMap)) (\<lambda>(err, configMapDeepCopy).
       case err of
         Some e \<Rightarrow> go_return (Some e)
       | None \<Rightarrow>
           if \<not> DeepEqual_data (cm_Data configMapDeepCopy) (cm_Data configMap)
           then go_bind (UpdateConfigMapInApiServer E configMapDeepCopy) (\<lambda>r. go_return (fst r))
           else go_return None)))"

definition sync_replicas ::
  "'w kenv \<Rightarrow> 'st ClusterController \<Rightarrow> schema option \<Rightarrow> ClusterStatus \<Rightarrow> Pod list \<Rightarrow> Service list \<Rightarrow> ('w, 'st, gerr option) ctl" where
  "sync_replicas E C schemaReconciler oldStatus pods services =
     go_try_val (ReconcileConfigMap E C) (\<lambda>configMap.
     go_try (reconcile_replicas E C pods services configMap)
       (finish_reconcile E C schemaReconciler oldStatus configMap))"

definition delay_replicas :: "'w kenv \<Rightarrow> ('w, 'st, gerr option) ctl" where
  "delay_replicas E = go_bind (call (ke_Now E)) (\<lambda>now.
     go_seq (update_status (\<lambda>st. st\<lparr>st_LastReconcileTime := Some now\<rparr>)) (UpdateClusterStatusInApiServer E))"

text \<open>A cluster that is neither finished nor suspended.\<close>

definition reconcile_active ::
  "'w kenv \<Rightarrow> 'st ClusterController \<Rightarrow> schema option \<Rightarrow> string \<Rightarrow> ClusterStatus \<Rightarrow> Pod list \<Rightarrow> Service list \<Rightarrow> ('w, 'st, gerr option) ctl" where
  "reconcile_active E C schemaReconciler clusterKey oldStatus pods services =
     go_seq (resume_cluster E) (
     go_seq (RecordAbnormalPods E (FilterActivePods pods)) (
     go_bind get_cluster (\<lambda>kcluster.
     go_bind (go_lift (GetTotalReplicas (kc_Specs kcluster))) (\<lambda>totalReplicas.
     go_bind (failure_message E clusterKey pods totalReplicas) (\<lambda>failure.
     case failure of
       Some failureMessage \<Rightarrow> fail_cluster E C pods failureMessage
     | None \<Rightarrow>
         go_bind (if EnableGangScheduling C then sync_gang E C totalReplicas else go_return True) (\<lambda>syncReplicas.
         if syncReplicas then sync_replicas E C schemaReconciler oldStatus pods services
         else delay_replicas E))))))"

definition ReconcileKubeCluster :: "'w kenv \<Rightarrow> 'st ClusterController \<Rightarrow> schema option \<Rightarrow> ('w, 'st, gerr option) ctl" where
  "ReconcileKubeCluster E C schemaReconciler =
     go_bind get_cluster (\<lambda>kcluster.
     case ke_KeyFunc E (kc_Meta kcluster) of
       Inl err \<Rightarrow> go_return (Some err)
     | Inr clusterKey \<Rightarrow>
         go_seq (ResetExpectations E (cc_store C) clusterKey (s_ClusterType (kc_Spec kcluster)) schemaReconciler None (kc_Specs kcluster)) (
         go_try_val (GetPodsForCluster E kcluster) (\<lambda>pods.
         go_try_val (GetServicesForCluster E kcluster) (\<lambda>services.
         if IsFinished (kc_Status kcluster) then CleanUpResources E C pods
         else if IsClusterSuspended (kc_RunPolicy kcluster) then suspend_cluster E C pods
         else reconcile_active E C schemaReconciler clusterKey (kc_Status kcluster) pods services))))"

end
