(* ===== verification/Operator.thy ===== *)
theory Operator
  imports ReconcileCluster
begin

text \<open>
  The entry points of the operator: \<open>Reconcile\<close> of \<open>pkg/controller/cluster_controller.go\<close>, and the
  predicates it installs on the events of clusters, pods, services and pod groups, from
  \<open>pkg/common/util/reconciler.go\<close> and \<open>reconcile_generic.go\<close>.
\<close>

section \<open>Reconcile\<close>

definition needReconcile :: "'w kenv \<Rightarrow> 'st ClusterController \<Rightarrow> KubeCluster \<Rightarrow> schema option \<Rightarrow> ('w, 'st, bool) ctl" where
  "needReconcile E C kcluster schemaReconciler =
     (let clusterKey = (case ke_KeyFunc E (kc_Meta kcluster) of Inl err \<Rightarrow> [] | Inr key \<Rightarrow> key);
          replicaTypes = GetReplicaTypes (kc_Specs kcluster) in
      go_bind (call (ke_Now E)) (\<lambda>now.
      go_bind (sr_call schemaReconciler (\<lambda>_. with_exp (s_ClusterType (kc_Spec kcluster))
                 (ClusterSatisfiedExpectations (cc_store C) now clusterKey replicaTypes))) (\<lambda>satisfied.
      go_return (\<not> satisfied))))"

definition validation_failed :: "string \<Rightarrow> gerr \<Rightarrow> ('w, 'st, gerr option) ctl" where
  "validation_failed what err =
     go_seq (Event EventTypeWarning (NewReason KubeClusterKind ClusterFailedValidationReason)
              (what @ '' failed validation because '' @ err_text err)) (go_return (Some err))"

text \<open>The cluster that was read becomes the cluster of the state; \<open>kcluster.DeepCopy()\<close> leaves it the only
  reference. The requeue result is always empty and is left out.\<close>

definition Reconcile :: "'w kenv \<Rightarrow> 'st ClusterController \<Rightarrow> string \<Rightarrow> string \<Rightarrow> ('w, 'st, gerr option) ctl" where
  "Reconcile E C namespace name =
     go_bind (call (cl_Get (ke_clusters E) namespace name)) (\<lambda>r.
     case r of
       Inl err \<Rightarrow> go_return (IgnoreNotFound err)
     | Inr kcluster \<Rightarrow>
         go_seq (go_modify (\<lambda>s. s\<lparr>kcl := kcluster\<rparr>)) (
         case ValidateV1alphaCluster (ke_NameIsDNS1035Label E) (ke_IsDNS1035Label E) kcluster of
           Some err \<Rightarrow> validation_failed ''KubeCLuster'' err
         | None \<Rightarrow>
             let schemaReconciler = GetSchemaReconciler C (s_ClusterType (kc_Spec kcluster)) in
             go_bind (sr_call schemaReconciler (\<lambda>sr. go_lift (sr_ValidateV1KubeCluster sr kcluster))) (\<lambda>verr.
             case verr of
               Some err \<Rightarrow> validation_failed ''KubeCluster'' err
             | None \<Rightarrow>
                 go_bind (needReconcile E C kcluster schemaReconciler) (\<lambda>need.
                 if \<not> need \<or> om_DeletionTimestamp (kc_Meta kcluster) \<noteq> None then go_return None
                 else
                   go_seq (go_modify (\<lambda>s. s\<lparr>kcl := SetDefaults_KubeCluster (kcl s)\<rparr>)) (
                   go_seq (sr_call schemaReconciler sr_Default)
                     (ReconcileKubeCluster E C schemaReconciler))))))"

section \<open>Events of clusters\<close>

text \<open>\<open>onOwnerCreateFunc\<close> changes the object of the event, which is the one in the informer cache.\<close>

definition onOwnerCreateFunc :: "'w kenv \<Rightarrow> KubeCluster \<Rightarrow> ('w, 'st, bool \<times> KubeCluster) ctl" where
  "onOwnerCreateFunc E kcluster =
     (let kcluster = SetDefaults_KubeCluster kcluster;
          msg = ''Kubecluster '' @ kc_Name kcluster @ '' is created.'' in
      go_seq (CreatedclustersCounterInc (kc_Namespace kcluster) (s_ClusterType (kc_Spec kcluster))) (
      go_bind (call (ke_Now E)) (\<lambda>t1. go_bind (call (ke_Now E)) (\<lambda>t2.
      go_return (True, kcluster\<lparr>kc_Status := UpdateClusterConditions t1 t2 (kc_Status kcluster) ClusterCreated ConditionTrue
        (NewReason KubeClusterKind ClusterCreatedReason) msg\<rparr>)))))"

section \<open>Events of dependents\<close>

text \<open>The dynamic type of the object of an event. Every object carries the kind of its type metadata.\<close>

datatype kobject = KPod ObjectMeta string | KService ObjectMeta string | KOther ObjectMeta string

primrec ko_meta :: "kobject \<Rightarrow> ObjectMeta" where
  "ko_meta (KPod m k) = m"
| "ko_meta (KService m k) = m"
| "ko_meta (KOther m k) = m"

primrec ko_kind :: "kobject \<Rightarrow> string" where
  "ko_kind (KPod m k) = k"
| "ko_kind (KService m k) = k"
| "ko_kind (KOther m k) = k"

definition label :: "ObjectMeta \<Rightarrow> string \<Rightarrow> string" where
  "label m k = (case map_of (om_Labels m) k of Some v \<Rightarrow> v | None \<Rightarrow> [])"

text \<open>The typed handlers for creations and deletions differ in the observation they pass on.\<close>

definition on_dependent ::
  "'w kenv \<Rightarrow> (string \<Rightarrow> ('st expectations, unit) go) \<Rightarrow> string \<Rightarrow> kobject \<Rightarrow> ('w, 'st, bool) ctl" where
  "on_dependent E observed clusterType obj =
     (let m = ko_meta obj; rtype = label m ReplicaTypeLabel in
      if length rtype = 0 then go_return False
      else case ke_GetControllerOf E m of
        None \<Rightarrow> go_return True
      | Some controllerRef \<Rightarrow>
          let clusterKey = om_Namespace m @ ''/'' @ or_Name controllerRef in
          (case obj of
             KPod _ _ \<Rightarrow> go_seq (with_exp clusterType (observed (GenExpectationPodsKey clusterKey rtype))) (go_return True)
           | KService _ _ \<Rightarrow> go_seq (with_exp clusterType (observed (GenExpectationServicesKey clusterKey rtype))) (go_return True)
           | KOther _ _ \<Rightarrow> go_return False))"

definition onDependentCreateFunc :: "'w kenv \<Rightarrow> 'st ClusterController \<Rightarrow> string \<Rightarrow> kobject \<Rightarrow> ('w, 'st, bool) ctl" where
  "onDependentCreateFunc E C clusterType obj = on_dependent E (CreationObserved (cc_store C)) clusterType obj"

definition onDependentDeleteFunc :: "'w kenv \<Rightarrow> 'st ClusterController \<Rightarrow> string \<Rightarrow> kobject \<Rightarrow> ('w, 'st, bool) ctl" where
  "onDependentDeleteFunc E C clusterType obj = on_dependent E (DeletionObserved (cc_store C)) clusterType obj"

text \<open>The guards both kinds of handler begin with.\<close>

definition if_registered :: "'st ClusterController \<Rightarrow> kobject \<Rightarrow> (string \<Rightarrow> ('w, 'st, bool) ctl) \<Rightarrow> ('w, 'st, bool) ctl" where
  "if_registered C obj f =
     (let clusterType = label (ko_meta obj) ClusterTypeLabel in
      if length clusterType = 0 then go_return False
      else if GetSchemaReconciler C clusterType = None then go_return False
      else f clusterType)"

definition OnDependentCreateFunc :: "'w kenv \<Rightarrow> 'st ClusterController \<Rightarrow> kobject \<Rightarrow> ('w, 'st, bool) ctl" where
  "OnDependentCreateFunc E C obj = if_registered C obj (\<lambda>clusterType. onDependentCreateFunc E C clusterType obj)"

definition OnDependentDeleteFunc :: "'w kenv \<Rightarrow> 'st ClusterController \<Rightarrow> kobject \<Rightarrow> ('w, 'st, bool) ctl" where
  "OnDependentDeleteFunc E C obj = if_registered C obj (\<lambda>clusterType. onDependentDeleteFunc E C clusterType obj)"

definition on_dependent_generic ::
  "'w kenv \<Rightarrow> (string \<Rightarrow> ('st expectations, unit) go) \<Rightarrow> string \<Rightarrow> kobject \<Rightarrow> ('w, 'st, bool) ctl" where
  "on_dependent_generic E observed clusterType obj =
     (let m = ko_meta obj; rtype = label m ReplicaTypeLabel in
      if length rtype = 0 then go_return False
      else case ke_GetControllerOf E m of
        None \<Rightarrow> go_return True
      | Some controllerRef \<Rightarrow>
          let clusterKey = om_Namespace m @ ''/'' @ or_Name controllerRef;
              pl = ToLower (ko_kind obj) @ ''s'' in
          go_seq (with_exp clusterType (observed (GenExpectationGenericKey clusterKey rtype pl))) (go_return True))"

definition OnDependentCreateFuncGeneric :: "'w kenv \<Rightarrow> 'st ClusterController \<Rightarrow> kobject \<Rightarrow> ('w, 'st, bool) ctl" where
  "OnDependentCreateFuncGeneric E C obj =
     if_registered C obj (\<lambda>clusterType. on_dependent_generic E (CreationObserved (cc_store C)) clusterType obj)"

definition OnDependentDeleteFuncGeneric :: "'w kenv \<Rightarrow> 'st ClusterController \<Rightarrow> kobject \<Rightarrow> ('w, 'st, bool) ctl" where
  "OnDependentDeleteFuncGeneric E C obj =
     if_registered C obj (\<lambda>clusterType. on_dependent_generic E (DeletionObserved (cc_store C)) clusterType obj)"

text \<open>Updates only decide whether the owner is queued.\<close>

definition resolveControllerRef :: "'w kenv \<Rightarrow> string \<Rightarrow> OwnerReference \<Rightarrow> ('w, 'st, KubeCluster option) ctl" where
  "resolveControllerRef E namespace controllerRef =
     (if or_Kind controllerRef \<noteq> KubeClusterKind then go_return None
      else go_bind (GetClusterFromInformerCache E namespace (or_Name controllerRef)) (\<lambda>r.
        case r of
          Inl err \<Rightarrow> go_return None
        | Inr cluster \<Rightarrow>
            if om_UID (kc_Meta cluster) \<noteq> or_UID controllerRef then go_return None else go_return (Some cluster)))"

definition OnDependentUpdateFuncGeneric :: "'w kenv \<Rightarrow> kobject \<Rightarrow> kobject \<Rightarrow> ('w, 'st, bool) ctl" where
  "OnDependentUpdateFuncGeneric E oldObj newObj =
     (let old = ko_meta oldObj; new = ko_meta newObj in
      if om_ResourceVersion new = om_ResourceVersion old then go_return False
      else
        let newControllerRef = ke_GetControllerOf E new; oldControllerRef = ke_GetControllerOf E old in
        go_bind (case oldControllerRef of
            Some ref \<Rightarrow> if newControllerRef \<noteq> oldControllerRef then resolveControllerRef E (om_Namespace old) ref else go_return None
          | None \<Rightarrow> go_return None) (\<lambda>old_cluster.
        if old_cluster \<noteq> None then go_return True
        else case newControllerRef of
          None \<Rightarrow> go_return False
        | Some ref \<Rightarrow> go_bind (resolveControllerRef E (om_Namespace new) ref) (\<lambda>cluster. go_return (cluster \<noteq> None))))"

definition OnDependentUpdateFunc :: "'w kenv \<Rightarrow> kobject \<Rightarrow> kobject \<Rightarrow> ('w, 'st, bool) ctl" where
  "OnDependentUpdateFunc E oldObj newObj =
     (if om_ResourceVersion (ko_meta newObj) = om_ResourceVersion (ko_meta oldObj) then go_return False
      else case newObj of
        KOther _ _ \<Rightarrow> go_return False
      | _ \<Rightarrow> OnDependentUpdateFuncGeneric E oldObj newObj)"

end
