(* ===== verification/Plans.thy ===== *)
theory Plans
  imports Replicas "HOL-Library.Sublist"
begin

text \<open>
  Plans: lists of operations that a part of a reconciliation asks of the API server. The locale \<open>plan_calls\<close> says when a plan is
  carried out between two states (the calls, the expectations, the counters) and when it is cut short by an
  error, and how the plans of compound programs are put together. It is interpreted for pods and for services.
\<close>

lemma wp_return_fun: "wp (go_return a) Q = Q a"
  by (rule ext) (simp add: wp)

section \<open>Expectations of a registered schema\<close>

text \<open>The state changed in the expectations of one cluster type only, by \<open>a\<close> creations and \<open>d\<close> deletions of one
  key.\<close>

definition expectation_changed ::
  "'st cache_store \<Rightarrow> string \<Rightarrow> string \<Rightarrow> int64 \<Rightarrow> int64 \<Rightarrow> ('w, 'st) cstate \<Rightarrow> ('w, 'st) cstate \<Rightarrow> bool" where
  "expectation_changed S ct key a d s s' \<longleftrightarrow> exps_ok S (exps s' ct) \<and> (\<forall>c. c \<noteq> ct \<longrightarrow> exps s' c = exps s c) \<and>
     entry_of S (exps s' ct) = (entry_of S (exps s ct))(key := map_option (\<lambda>e. ControlleeAdd e a d) (entry_of S (exps s ct) key))"

lemma ControlleeAdd_simps [simp]:
  "ControlleeAdd e 0 0 = e" "ControlleeAdd (ControlleeAdd e a d) a' d' = ControlleeAdd e (a + a') (d + d')"
  by (simp_all add: ControlleeAdd_def add.assoc)

lemma expectation_changed_refl: "exps_ok S (exps s ct) \<Longrightarrow> exps s' = exps s \<Longrightarrow> expectation_changed S ct key 0 0 s s'"
  by (simp add: expectation_changed_def option.map_ident)

lemma expectation_changed_same: "expectation_changed S ct key a d s t \<Longrightarrow> exps s' = exps t \<Longrightarrow> expectation_changed S ct key a d s s'"
  by (simp add: expectation_changed_def)

lemma expectation_changed_trans:
  "expectation_changed S ct key a d s t \<Longrightarrow> expectation_changed S ct key a' d' t u \<Longrightarrow>
   expectation_changed S ct key (a + a') (d + d') s u"
  by (auto simp: expectation_changed_def option.map_comp comp_def)

lemma expectation_changed_ok: "expectation_changed S ct key a d s t \<Longrightarrow> exps_ok S (exps t ct)"
  by (simp add: expectation_changed_def)

lemma wp_expect_add:
  assumes "thread_safe_store S" "exps_ok S (exps s ct)" "m = AddToEntry S key a d"
  shows "wp (expect ct (Some sr) m) (\<lambda>_ s'. kcl s' = kcl s \<and> trace s' = trace s \<and> expectation_changed S ct key a d s s') s"
  using thread_safe_store.add_entry_ok [OF assms(1,2), of key a d]
  by (auto simp: assms(3) expect_def sr_call_def wp_def with_exp_def expectation_changed_def split: outcome.splits)

lemmas wp_expect_raise = wp_expect_add [OF _ _ RaiseExpectations_def]

lemma wp_expect_observed:
  assumes "thread_safe_store S" "exps_ok S (exps s ct)"
  shows "wp (expect ct (Some sr) (CreationObserved S key))
     (\<lambda>_ s'. kcl s' = kcl s \<and> trace s' = trace s \<and> expectation_changed S ct key (- 1) 0 s s') s"
  by (rule wp_expect_add [OF assms]) (simp add: CreationObserved_def LowerExpectations_def)

section \<open>Calls\<close>

text \<open>The calls that change something, without the events and metrics.\<close>

definition calls :: "('w, 'st) cstate \<Rightarrow> effect list" where
  "calls s = filter (\<lambda>e. \<not> is_note e) (trace s)"

lemma calls_simps [simp]:
  "calls (s\<lparr>trace := trace s @ es\<rparr>) = calls s @ filter (\<lambda>e. \<not> is_note e) es"
  "calls (s\<lparr>world := w\<rparr>) = calls s" "calls (s\<lparr>exps := x\<rparr>) = calls s" "calls (s\<lparr>kcl := k\<rparr>) = calls s"
  "calls (s\<lparr>world := w, trace := trace s @ es\<rparr>) = calls s @ filter (\<lambda>e. \<not> is_note e) es"
  by (simp_all add: calls_def)

lemma calls_trace: "trace s' = trace s \<Longrightarrow> calls s' = calls s"
  by (simp add: calls_def)

section \<open>Carrying out a plan\<close>

definition add_counts :: "Pod list \<Rightarrow> ReplicaStatus \<Rightarrow> ReplicaStatus" where
  "add_counts cp rs = rs\<lparr>rs_Active := rs_Active rs + of_nat (length (filter counts_active cp)),
     rs_Failed := rs_Failed rs + of_nat (length (filter counts_failed cp))\<rparr>"

definition same_object :: "KubeCluster \<Rightarrow> KubeCluster \<Rightarrow> bool" where
  "same_object k k' \<longleftrightarrow> kc_Meta k' = kc_Meta k \<and> kc_Spec k' = kc_Spec k"

lemma same_object_trans: "same_object a b \<Longrightarrow> same_object b c \<Longrightarrow> same_object a c"
  by (simp add: same_object_def)

lemma add_counts_simps [simp]: "add_counts [] rs = rs" "add_counts cq (add_counts cp rs) = add_counts (cp @ cq) rs"
  by (simp_all add: add_counts_def add.assoc)

lemma add_counts_none [simp]: "add_counts [] = (\<lambda>rs. rs)"
  by (rule ext) simp

text \<open>\<open>op_of\<close> reads the operation off a call; \<open>is_add\<close> are the operations whose creation is expected and which may not be left
  out, \<open>is_del\<close> the ones whose deletion is expected.\<close>

locale plan_calls =
  fixes op_of :: "effect \<Rightarrow> 'op option" and is_add is_del :: "'op \<Rightarrow> bool"
  assumes note_no_op: "is_note e \<Longrightarrow> op_of e = None"
    and add_not_del: "is_add x \<Longrightarrow> \<not> is_del x"
begin

definition ops :: "effect list \<Rightarrow> 'op list" where
  "ops es = List.map_filter op_of es"

lemma ops_simps [simp]: "ops [] = []" "ops (xs @ ys) = ops xs @ ops ys"
  "ops (x # xs) = (case op_of x of None \<Rightarrow> ops xs | Some y \<Rightarrow> y # ops xs)"
  by (simp_all add: ops_def map_filter_def split: option.splits)

lemma ops_calls: "ops (calls s) = ops (trace s)"
proof -
  have "ops (filter (\<lambda>e. \<not> is_note e) es) = ops es" for es
    by (induction es) (auto simp: note_no_op split: option.splits)
  then show ?thesis by (simp add: calls_def)
qed

text \<open>The expectations a plan raises are at most one per operation.\<close>

lemma expected_le: "length (filter is_add p) + length (filter is_del p) \<le> length p"
  by (induction p) (auto dest: add_not_del)

text \<open>The plan \<open>p\<close> carried out between two states, with the pods \<open>cp\<close> counted; and carried out in part, when an
  error ends it.\<close>

definition carried_out ::
  "'st cache_store \<Rightarrow> string \<Rightarrow> string \<Rightarrow> string \<Rightarrow> 'op list \<Rightarrow> Pod list \<Rightarrow> ('w, 'st) cstate \<Rightarrow> ('w, 'st) cstate \<Rightarrow> bool" where
  "carried_out S ct key rt p cp s s' \<longleftrightarrow> same_object (kcl s) (kcl s') \<and>
     (\<exists>cs. calls s' = calls s @ cs \<and> subseq (ops cs) p \<and> filter is_add (ops cs) = filter is_add p) \<and>
     expectation_changed S ct key (of_nat (length (filter is_add p))) (of_nat (length (filter is_del p))) s s' \<and>
     replica_status (kc_Status (kcl s')) = (replica_status (kc_Status (kcl s)))(rt :=
        map_option (add_counts cp) (replica_status (kc_Status (kcl s)) rt))"

definition cut_short ::
  "'st cache_store \<Rightarrow> string \<Rightarrow> 'op list \<Rightarrow> ('w, 'st) cstate \<Rightarrow> ('w, 'st) cstate \<Rightarrow> bool" where
  "cut_short S ct p s s' \<longleftrightarrow> same_object (kcl s) (kcl s') \<and> exps_ok S (exps s' ct) \<and>
     (\<exists>cs. calls s' = calls s @ cs \<and> subseq (ops cs) p)"

definition does ::
  "'st cache_store \<Rightarrow> string \<Rightarrow> string \<Rightarrow> string \<Rightarrow> 'op list \<Rightarrow> Pod list \<Rightarrow> ('w, 'st, gerr option) ctl \<Rightarrow> ('w, 'st) cstate \<Rightarrow> bool" where
  "does S ct key rt p cp m s \<longleftrightarrow> wp m (\<lambda>r s'. if r = None then carried_out S ct key rt p cp s s' else cut_short S ct p s s') s"

lemma carried_out_trans:
  assumes "carried_out S ct key rt p cp s t" "carried_out S ct key rt q cq t u"
  shows "carried_out S ct key rt (p @ q) (cp @ cq) s u"
proof -
  from assms obtain cs ds where cs: "calls t = calls s @ cs" "subseq (ops cs) p" "filter is_add (ops cs) = filter is_add p"
    and ds: "calls u = calls t @ ds" "subseq (ops ds) q" "filter is_add (ops ds) = filter is_add q"
    by (auto simp: carried_out_def)
  have "\<exists>es. calls u = calls s @ es \<and> subseq (ops es) (p @ q) \<and> filter is_add (ops es) = filter is_add (p @ q)"
    using cs ds by (intro exI [of _ "cs @ ds"]) (simp add: list_emb_append_mono)
  moreover have "expectation_changed S ct key (of_nat (length (filter is_add (p @ q))))
      (of_nat (length (filter is_del (p @ q)))) s u"
    using assms expectation_changed_trans [of S ct key _ _ s t _ _ u] by (force simp: carried_out_def)
  moreover have "replica_status (kc_Status (kcl u)) = (replica_status (kc_Status (kcl s)))(rt :=
        map_option (add_counts (cp @ cq)) (replica_status (kc_Status (kcl s)) rt))"
    using assms by (simp add: carried_out_def option.map_comp comp_def)
  ultimately show ?thesis
    using assms same_object_trans unfolding carried_out_def by blast
qed

lemma cut_short_trans:
  assumes "carried_out S ct key rt p cp s t" "cut_short S ct q t u"
  shows "cut_short S ct (p @ q) s u"
proof -
  from assms obtain cs ds where "calls t = calls s @ cs" "subseq (ops cs) p" "calls u = calls t @ ds" "subseq (ops ds) q"
    by (auto simp: carried_out_def cut_short_def)
  then have "\<exists>es. calls u = calls s @ es \<and> subseq (ops es) (p @ q)"
    by (intro exI [of _ "cs @ ds"]) (simp add: list_emb_append_mono)
  with assms show ?thesis using same_object_trans by (auto simp: carried_out_def cut_short_def)
qed

lemma cut_short_more: "cut_short S ct p s t \<Longrightarrow> cut_short S ct (p @ q) s t"
  unfolding cut_short_def using list_emb_append_mono [of "(=)" _ p "[]" q] by fastforce

lemma does_try:
  assumes "does S ct key rt p cp m s" and "\<And>t. carried_out S ct key rt p cp s t \<Longrightarrow> does S ct key rt q cq n t"
  shows "does S ct key rt (p @ q) (cp @ cq) (go_try m n) s"
proof -
  have *: "wp n (\<lambda>r u. if r = None then carried_out S ct key rt (p @ q) (cp @ cq) s u else cut_short S ct (p @ q) s u) t"
    if "carried_out S ct key rt p cp s t" for t
    by (rule wp_mono [OF assms(2) [OF that, unfolded does_def]])
      (auto split: if_splits intro: carried_out_trans [OF that] cut_short_trans [OF that])
  show ?thesis
    unfolding does_def wp_try
  proof (rule wp_mono [OF assms(1) [unfolded does_def]])
    fix r t
    assume t: "if r = None then carried_out S ct key rt p cp s t else cut_short S ct p s t"
    show "case r of Some e \<Rightarrow> (if Some e = None then carried_out S ct key rt (p @ q) (cp @ cq) s t else cut_short S ct (p @ q) s t)
      | None \<Rightarrow> wp n (\<lambda>r u. if r = None then carried_out S ct key rt (p @ q) (cp @ cq) s u else cut_short S ct (p @ q) s u) t"
    proof (cases r)
      case None
      then show ?thesis using * [of t] t by (simp only: option.case if_True simp_thms)
    next
      case (Some e)
      then show ?thesis using t by (simp add: cut_short_more)
    qed
  qed
qed

lemma does_seq:
  assumes "wp m (\<lambda>_ t. carried_out S ct key rt p cp s t) s" and "\<And>t. carried_out S ct key rt p cp s t \<Longrightarrow> does S ct key rt q cq n t"
  shows "does S ct key rt (p @ q) (cp @ cq) (go_seq m n) s"
  unfolding does_def wp_seq
proof (rule wp_mono [OF assms(1)])
  fix t
  assume t: "carried_out S ct key rt p cp s t"
  show "wp n (\<lambda>r u. if r = None then carried_out S ct key rt (p @ q) (cp @ cq) s u else cut_short S ct (p @ q) s u) t"
    by (rule wp_mono [OF assms(2) [OF t, unfolded does_def]])
      (auto split: if_splits intro: carried_out_trans [OF t] cut_short_trans [OF t])
qed

lemma carried_out_nothing:
  assumes "exps_ok S (exps s ct)" "same_object (kcl s) (kcl t)" "calls t = calls s" "exps t = exps s"
    "replica_status (kc_Status (kcl t)) = replica_status (kc_Status (kcl s))"
  shows "carried_out S ct key rt [] [] s t"
  using assms by (auto simp: carried_out_def expectation_changed_refl option.map_ident)

lemma carried_out_ok: "carried_out S ct key rt p cp s t \<Longrightarrow> exps_ok S (exps t ct)"
  by (auto simp: carried_out_def dest: expectation_changed_ok)

lemma does_return: "exps_ok S (exps s ct) \<Longrightarrow> does S ct key rt [] [] (go_return None) s"
  by (simp add: does_def wp carried_out_nothing same_object_def)

lemma does_forE:
  assumes "I s" and step: "\<And>x t. I t \<Longrightarrow> does S ct key rt (pl x) (cnt x) (f x) t"
    and keep: "\<And>p cp t u. I t \<Longrightarrow> carried_out S ct key rt p cp t u \<Longrightarrow> I u" and ok: "\<And>t. I t \<Longrightarrow> exps_ok S (exps t ct)"
  shows "does S ct key rt (concat (map pl xs)) (concat (map cnt xs)) (go_forE f xs) s"
  using assms(1)
proof (induction xs arbitrary: s)
  case Nil
  then show ?case by (simp add: does_return ok)
next
  case (Cons x xs)
  then show ?case
    unfolding go_forE.simps list.map concat.simps
    by (intro does_try [OF step]) (auto intro: Cons.IH keep)
qed

lemma count_effect:
  assumes "replica_status (kc_Status (kcl s)) rt \<noteq> None" "exps_ok S (exps s ct)"
  shows "wp (updateClusterReplicaStatuses rt pod) (\<lambda>_ t. carried_out S ct key rt [] [pod] s t) s"
proof -
  from assms(1) obtain rs where rs: "replica_status (kc_Status (kcl s)) rt = Some rs" by auto
  from UpdateClusterReplicaStatuses_counts [OF rs, of pod] obtain st where
    "UpdateClusterReplicaStatuses (kc_Status (kcl s)) rt pod = Inr st"
    "replica_status st = (replica_status (kc_Status (kcl s)))(rt \<mapsto> add_counts [pod] rs)"
    by (auto simp: add_counts_def fun_eq_iff of_bool_def)
  with assms(2) rs show ?thesis
    by (simp add: updateClusterReplicaStatuses_def wp carried_out_def same_object_def expectation_changed_def option.map_ident)
qed

lemma note_effect:
  assumes "exps_ok S (exps s ct)" "is_note e"
  shows "wp (emit e) (\<lambda>_ t. carried_out S ct key rt [] [] s t) s"
  using assms by (simp add: wp carried_out_nothing same_object_def)

lemma condition_effect:
  assumes "exps_ok S (exps s ct)"
  shows "wp (set_condition E ty st r m) (\<lambda>_ t. carried_out S ct key rt [] [] s t) s"
  using assms by (auto simp: set_condition_def wp same_object_def replica_status_def fun_eq_iff split: prod.splits
      intro!: carried_out_nothing)

lemma record_effect:
  assumes "exps_ok S (exps s ct)"
  shows "wp (record_exit_code pod) (\<lambda>_ t. carried_out S ct key rt [] [] s t) s"
  using assms by (simp add: record_exit_code_def wp carried_out_nothing same_object_def)

lemmas does_seq_quiet = does_seq [where p = "[]" and cp = "[]", unfolded append_Nil]
lemmas does_try_quiet = does_try [where q = "[]" and cq = "[]", unfolded append_Nil2]

end

end
