(* ===== verification/PodPlan.thy ===== *)
theory PodPlan
  imports Plans
begin

text \<open>
  What \<open>CreateNewPod\<close> and \<open>ReconcilePods\<close> do to the API server, the expectations and the counters of a
  replica type: the calls of a reconciliation of the pods carry out a plan that is read off the slices.
\<close>

section \<open>Creating a pod\<close>

lemma GenOwnerReference_valid: "ke_GroupVersion E \<noteq> [] \<Longrightarrow> ValidateControllerRef (Some (GenOwnerReference E m)) = None"
  by (simp add: ValidateControllerRef_def GenOwnerReference_def KubeClusterKind_def)

lemma CreatePods_effect:
  assumes "ke_GroupVersion E \<noteq> []"
  shows "wp (CreatePodsWithControllerRef E ns t (Some (GenOwnerReference E m))) (\<lambda>r s'. kcl s' = kcl s \<and> exps s' = exps s \<and>
     (calls s' = calls s @ [CreatePodCall ns (GetPodFromTemplate t (Some (GenOwnerReference E m))) r] \<or> calls s' = calls s \<and> (\<exists>m. r = Some (PlainErr m)))) s"
  using GenOwnerReference_valid [OF assms, of m]
  by (auto simp: CreatePodsWithControllerRef_def createPods_def Let_def wp calls_def split: prod.splits sum.splits)

text \<open>What the creation of one expected pod does: at most the one call; when it returns no error the call was
  made and did not fail but for a timeout, and one more creation is expected; when it returns an error
  the expectations are what they were.\<close>

definition pod_created :: "(Pod \<Rightarrow> bool) \<Rightarrow> string \<Rightarrow> gerr option \<Rightarrow> ('w, 'st) cstate \<Rightarrow> ('w, 'st) cstate \<Rightarrow> bool" where
  "pod_created P ns r s s' \<longleftrightarrow>
     (\<exists>pod res. calls s' = calls s @ [CreatePodCall ns pod res] \<and> P pod \<and> (r = res \<or> r = None \<and> IsTimeout (the res))) \<or>
     calls s' = calls s \<and> r \<noteq> None"

lemma create_expected_pod_effect:
  fixes C :: "'st ClusterController" and s :: "('w, 'st) cstate"
  assumes "thread_safe_store (cc_store C)" "exps_ok (cc_store C) (exps s (s_ClusterType (kc_Spec k)))" "ke_GroupVersion E \<noteq> []"
  shows "wp (create_expected_pod E C k (Some sr) key t) (\<lambda>r s'. kcl s' = kcl s \<and>
     pod_created (\<lambda>p. p = GetPodFromTemplate t (Some (GenOwnerReference E (kc_Meta k)))) (kc_Namespace k) r s s' \<and>
     expectation_changed (cc_store C) (s_ClusterType (kc_Spec k)) key (of_bool (r = None)) 0 s s') s"
  unfolding create_expected_pod_def wp_seq
proof (rule wp_mono [OF wp_expect_raise [OF assms(1,2)]])
  fix s1 :: "('w, 'st) cstate"
  let ?S = "cc_store C" and ?ct = "s_ClusterType (kc_Spec k)"
    and ?pod = "GetPodFromTemplate t (Some (GenOwnerReference E (kc_Meta k)))"
  assume s1: "kcl s1 = kcl s \<and> trace s1 = trace s \<and> expectation_changed ?S ?ct key 1 0 s s1"
  show "wp (go_bind (CreatePodsWithControllerRef E (kc_Namespace k) t (Some (GenOwnerReference E (kc_Meta k)))) (\<lambda>err.
     case err of
       Some e \<Rightarrow>
         if IsTimeout e then go_return None
         else go_seq (expect ?ct (Some sr) (CreationObserved ?S key)) (go_return (Some e))
     | None \<Rightarrow> go_seq (Inc ''created_pods_total'') (go_return None))) (\<lambda>r s'. kcl s' = kcl s \<and>
     pod_created (\<lambda>p. p = ?pod) (kc_Namespace k) r s s' \<and>
     expectation_changed ?S ?ct key (of_bool (r = None)) 0 s s') s1"
    unfolding wp_bind
  proof (rule wp_mono [OF CreatePods_effect [OF assms(3)]])
    fix r and s2 :: "('w, 'st) cstate"
    assume s2: "kcl s2 = kcl s1 \<and> exps s2 = exps s1 \<and>
      (calls s2 = calls s1 @ [CreatePodCall (kc_Namespace k) ?pod r] \<or> calls s2 = calls s1 \<and> (\<exists>m. r = Some (PlainErr m)))"
    have c: "calls s1 = calls s" using s1 by (simp add: calls_def)
    have e2: "expectation_changed ?S ?ct key 1 0 s s2" using s1 s2 by (auto intro: expectation_changed_same)
    have low: "wp (expect ?ct (Some sr) (CreationObserved ?S key)) (\<lambda>_ s'. kcl s' = kcl s2 \<and> calls s' = calls s2 \<and>
        expectation_changed ?S ?ct key 0 0 s s') s2"
      by (rule wp_mono [OF wp_expect_observed [OF assms(1) expectation_changed_ok [OF e2]]])
        (use expectation_changed_trans [OF e2] calls_trace in fastforce)
    show "wp (case r of Some e \<Rightarrow> if IsTimeout e then go_return None
         else go_seq (expect ?ct (Some sr) (CreationObserved ?S key)) (go_return (Some e))
       | None \<Rightarrow> go_seq (Inc ''created_pods_total'') (go_return None))
       (\<lambda>r s'. kcl s' = kcl s \<and> pod_created (\<lambda>p. p = ?pod) (kc_Namespace k) r s s' \<and>
          expectation_changed ?S ?ct key (of_bool (r = None)) 0 s s') s2"
    proof (cases r)
      case None
      with s1 s2 c e2 show ?thesis
        by (auto simp: wp pod_created_def calls_def elim: expectation_changed_same)
    next
      case (Some e)
      show ?thesis
      proof (cases "IsTimeout e")
        case True
        with Some s1 s2 c e2 show ?thesis by (auto simp: wp pod_created_def)
      next
        case False
        with Some s1 s2 c show ?thesis
          by (auto simp: wp pod_created_def intro!: wp_mono [OF low])
      qed
    qed
  qed
qed

text \<open>What the functions that create rely on: the store keeps its contract, the schema of the cluster is
  registered, the cluster has a key, the API has a group version, and with gang scheduling the pod group
  control is there.\<close>

definition ready :: "'w kenv \<Rightarrow> 'st ClusterController \<Rightarrow> schema \<Rightarrow> string \<Rightarrow> KubeCluster \<Rightarrow> bool" where
  "ready E C sr key k \<longleftrightarrow> thread_safe_store (cc_store C) \<and> GetSchemaReconciler C (s_ClusterType (kc_Spec k)) = Some sr \<and>
     ke_KeyFunc E (kc_Meta k) = Inr key \<and> ke_GroupVersion E \<noteq> [] \<and> gang_ok C \<and> list_all (\<lambda>(_, v). v \<noteq> None) (kc_Specs k)"

definition spec_returns :: "'w kenv \<Rightarrow> 'st ClusterController \<Rightarrow> schema \<Rightarrow> KubeCluster \<Rightarrow> string \<Rightarrow> ConfigMap \<Rightarrow> bool" where
  "spec_returns E C sr k rt cm \<longleftrightarrow> (\<forall>t i. \<exists>r. sr_SetClusterSpec E C sr k t rt i cm = Inr r)"

lemma isCustomSchedulerSet_ok: "list_all (\<lambda>(_, v). v \<noteq> None) specs \<Longrightarrow> \<exists>b. isCustomSchedulerSet specs n = Inr b"
  by (induction specs n rule: isCustomSchedulerSet.induct) auto

definition decorated :: "'w kenv \<Rightarrow> KubeCluster \<Rightarrow> string \<Rightarrow> PodTemplateSpec \<Rightarrow> PodTemplateSpec \<Rightarrow> bool" where
  "decorated E k rt t t' \<longleftrightarrow> t' = t \<or> (\<exists>c. t' = DecoratePodTemplateSpec E c t (kc_Meta k) rt)"

lemma gang_template_effect:
  assumes "gang_ok C" "list_all (\<lambda>(_, v). v \<noteq> None) specs"
  shows "wp (gang_template E C k rt specs t) (\<lambda>t' s'. kcl s' = kcl s \<and> exps s' = exps s \<and> calls s' = calls s \<and> decorated E k rt t t') s"
proof (cases "EnableGangScheduling C")
  case True
  then obtain c where c: "cc_PodGroupControl C = Some c" using assms(1) by (auto simp: gang_ok_def split: option.splits)
  obtain b where "isCustomSchedulerSet specs (GetSchedulerName c) = Inr b" using isCustomSchedulerSet_ok [OF assms(2)] by blast
  then show ?thesis using True c by (auto simp: gang_template_def wp decorated_def calls_def)
qed (simp add: gang_template_def wp decorated_def)

definition final_template ::
  "'w kenv \<Rightarrow> 'st ClusterController \<Rightarrow> schema \<Rightarrow> KubeCluster \<Rightarrow> string \<Rightarrow> int \<Rightarrow> ReplicaSpec \<Rightarrow> bool \<Rightarrow> ConfigMap \<Rightarrow> PodTemplateSpec \<Rightarrow> bool" where
  "final_template E C sr k rt i sp ctl cm t \<longleftrightarrow> (\<exists>t0.
     sr_SetClusterSpec E C sr k (named_template k rt i sp ctl) rt (Itoa i) cm = Inr (Inr t0) \<and>
     decorated E k rt (SetRestartPolicy t0 sp) t)"

abbreviation owned_pod :: "'w kenv \<Rightarrow> KubeCluster \<Rightarrow> PodTemplateSpec \<Rightarrow> Pod" where
  "owned_pod E k t \<equiv> GetPodFromTemplate t (Some (GenOwnerReference E (kc_Meta k)))"

lemma CreateNewPod_effect:
  fixes C :: "'st ClusterController" and s :: "('w, 'st) cstate"
  assumes ready: "ready E C sr key (kcl s)" and spec: "spec_returns E C sr (kcl s) rt cm"
    and exps: "exps_ok (cc_store C) (exps s (s_ClusterType (kc_Spec (kcl s))))"
  shows "wp (CreateNewPod E C rt i sp ctl (kc_Specs (kcl s)) cm) (\<lambda>r s'. kcl s' = kcl s \<and>
     pod_created (\<lambda>p. \<exists>t. final_template E C sr (kcl s) rt i sp ctl cm t \<and> p = owned_pod E (kcl s) t) (kc_Namespace (kcl s)) r s s' \<and>
     expectation_changed (cc_store C) (s_ClusterType (kc_Spec (kcl s))) (GenExpectationPodsKey key rt) (of_bool (r = None)) 0 s s') s"
proof -
  let ?k = "kcl s"
  let ?ct = "s_ClusterType (kc_Spec ?k)"
  from ready have S: "thread_safe_store (cc_store C)" and reg: "GetSchemaReconciler C ?ct = Some sr"
    and key: "ke_KeyFunc E (kc_Meta ?k) = Inr key" and gv: "ke_GroupVersion E \<noteq> []" and gang: "gang_ok C"
    and specs: "list_all (\<lambda>(_, v). v \<noteq> None) (kc_Specs ?k)" by (auto simp: ready_def)
  obtain r0 where r0: "sr_SetClusterSpec E C sr ?k (named_template ?k rt i sp ctl) rt (Itoa i) cm = Inr r0"
    using spec by (auto simp: spec_returns_def)
  show ?thesis
  proof (cases r0)
    case (Inl err)
    with r0 exps reg key show ?thesis
      by (simp add: CreateNewPod_def wp Let_def sr_call_def pod_created_def expectation_changed_refl)
  next
    case (Inr t0)
    have create: "wp (go_bind (gang_template E C ?k rt (kc_Specs ?k) (SetRestartPolicy t0 sp)) (\<lambda>t.
        create_expected_pod E C ?k (Some sr) (GenExpectationPodsKey key rt) t)) (\<lambda>r s'. kcl s' = ?k \<and>
       pod_created (\<lambda>p. \<exists>t. final_template E C sr ?k rt i sp ctl cm t \<and> p = owned_pod E ?k t) (kc_Namespace ?k) r s s' \<and>
       expectation_changed (cc_store C) ?ct (GenExpectationPodsKey key rt) (of_bool (r = None)) 0 s s') s1"
      if s1: "kcl s1 = ?k" "exps s1 = exps s" "calls s1 = calls s" for s1 :: "('w, 'st) cstate"
      unfolding wp_bind
    proof (rule wp_mono [OF gang_template_effect [OF gang specs]], elim conjE)
      fix t and s2 :: "('w, 'st) cstate"
      assume s2: "kcl s2 = kcl s1" "exps s2 = exps s1" "calls s2 = calls s1" and t: "decorated E ?k rt (SetRestartPolicy t0 sp) t"
      have ft: "final_template E C sr ?k rt i sp ctl cm t" using r0 Inr t by (auto simp: final_template_def)
      have "exps_ok (cc_store C) (exps s2 ?ct)" using exps s1 s2 by simp
      from create_expected_pod_effect [OF S this gv] show "wp (create_expected_pod E C ?k (Some sr) (GenExpectationPodsKey key rt) t)
         (\<lambda>r s'. kcl s' = ?k \<and>
         pod_created (\<lambda>p. \<exists>t. final_template E C sr ?k rt i sp ctl cm t \<and> p = owned_pod E ?k t) (kc_Namespace ?k) r s s' \<and>
         expectation_changed (cc_store C) ?ct (GenExpectationPodsKey key rt) (of_bool (r = None)) 0 s s') s2"
        by (rule wp_mono) (use s1 s2 ft in \<open>fastforce simp: pod_created_def expectation_changed_def\<close>)
    qed
    show ?thesis
      using r0 Inr reg key create [of s] create [of "s\<lparr>trace := trace s @ [EventCall EventTypeWarning podTemplateRestartPolicyReason
          ''Restart policy in pod template will be overwritten by restart policy in replica spec'']\<rparr>"]
      by (simp add: CreateNewPod_def wp Let_def sr_call_def)
  qed
qed

text \<open>The labels by which the controller, the services and the event handlers find a pod again.\<close>

definition finding_labels :: "KubeCluster \<Rightarrow> string \<Rightarrow> int \<Rightarrow> bool \<Rightarrow> smap" where
  "finding_labels k rt i ctl =
     [(ControllerNameLabel, ControllerName), (ClusterNameLabel, ReplaceAll ''/'' ''-'' (kc_Name k)),
      (ReplicaTypeLabel, ToLower rt), (ReplicaIndexLabel, Itoa i), (ClusterTypeLabel, s_ClusterType (kc_Spec k))] @
     (if ctl then [(ClusterRoleLabel, ''controller'')] else [])"

lemma pod_labels_finding: "pod_labels k rt i ctl = finding_labels k rt i ctl"
  by (simp add: pod_labels_def finding_labels_def Let_def label_defs cc_GenLabels_def GenReplicaTypeLabel_def)

lemma finding_labels_distinct: "distinct (map fst (finding_labels k rt i ctl))"
  by (simp add: finding_labels_def label_defs)

lemma put_all_lookup:
  "distinct (map fst kvs) \<Longrightarrow> (l, v) \<in> set kvs \<Longrightarrow> map_of (put_all kvs m) l = Some v"
  by (simp add: put_all_def map_of_foldl_update map_of_rev_distinct)

lemma put_all_distinct: "distinct (map fst m) \<Longrightarrow> distinct (map fst (put_all kvs m))"
  unfolding put_all_def by (induction kvs arbitrary: m) auto

definition restart_policy_of :: "ReplicaSpec \<Rightarrow> string" where
  "restart_policy_of sp = (if r_RestartPolicy sp = RestartPolicyExitCode then RestartPolicyNever else r_RestartPolicy sp)"

definition image_names :: "PodSpec \<Rightarrow> (string \<times> string) list" where
  "image_names ps = map (\<lambda>c. (c_Name c, c_Image c)) (ps_Containers ps)"

text \<open>What is true of every pod the controller creates for index \<open>i\<close> of the replica type \<open>rt\<close>.\<close>

definition right_pod :: "'w kenv \<Rightarrow> KubeCluster \<Rightarrow> string \<Rightarrow> int \<Rightarrow> ReplicaSpec \<Rightarrow> bool \<Rightarrow> Pod \<Rightarrow> bool" where
  "right_pod E k rt i sp ctl pod \<longleftrightarrow>
     om_Name (pod_Meta pod) = GenGeneralName (kc_Name k) rt (Itoa i) \<and>
     om_OwnerReferences (pod_Meta pod) = [GenOwnerReference E (kc_Meta k)] \<and>
     list_all (\<lambda>(l, v). l = ke_PodGroupLabel E \<or> map_of (om_Labels (pod_Meta pod)) l = Some v) (finding_labels k rt i ctl) \<and>
     ps_RestartPolicy (pod_Spec pod) = restart_policy_of sp \<and>
     image_names (pod_Spec pod) = image_names (pt_Spec (r_Template sp))"

lemma Decorate_facts:
  "om_Name (pt_Meta (DecoratePodTemplateSpec E c t m rt)) = om_Name (pt_Meta t)"
  "l \<noteq> ke_PodGroupLabel E \<Longrightarrow> map_of (om_Labels (pt_Meta (DecoratePodTemplateSpec E c t m rt))) l = map_of (om_Labels (pt_Meta t)) l"
  "distinct (map fst (om_Labels (pt_Meta t))) \<Longrightarrow> distinct (map fst (om_Labels (pt_Meta (DecoratePodTemplateSpec E c t m rt))))"
  "ps_RestartPolicy (pt_Spec (DecoratePodTemplateSpec E c t m rt)) = ps_RestartPolicy (pt_Spec t)"
  "ps_Containers (pt_Spec (DecoratePodTemplateSpec E c t m rt)) = ps_Containers (pt_Spec t)"
  by (cases c; simp add: volcano_defs sp_defs Let_def)+

lemma decorated_facts:
  assumes "decorated E k rt t t'"
  shows "om_Name (pt_Meta t') = om_Name (pt_Meta t)"
    "l \<noteq> ke_PodGroupLabel E \<Longrightarrow> map_of (om_Labels (pt_Meta t')) l = map_of (om_Labels (pt_Meta t)) l"
    "distinct (map fst (om_Labels (pt_Meta t))) \<Longrightarrow> distinct (map fst (om_Labels (pt_Meta t')))"
    "ps_RestartPolicy (pt_Spec t') = ps_RestartPolicy (pt_Spec t)" "ps_Containers (pt_Spec t') = ps_Containers (pt_Spec t)"
  using assms by (auto simp: decorated_def Decorate_facts)

lemma SetRestartPolicy_facts [simp]:
  "pt_Meta (SetRestartPolicy t sp) = pt_Meta t" "ps_Containers (pt_Spec (SetRestartPolicy t sp)) = ps_Containers (pt_Spec t)"
  "ps_RestartPolicy (pt_Spec (SetRestartPolicy t sp)) = restart_policy_of sp"
  by (simp_all add: SetRestartPolicy_def restart_policy_of_def)

lemma final_template_right:
  assumes ft: "final_template E C sr k rt i sp ctl cm t" and d: "distinct (map fst (om_Labels (pt_Meta (r_Template sp))))"
  shows "right_pod E k rt i sp ctl (owned_pod E k t)"
proof -
  from ft obtain t0 where t0: "sr_SetClusterSpec E C sr k (named_template k rt i sp ctl) rt (Itoa i) cm = Inr (Inr t0)"
    and dec: "decorated E k rt (SetRestartPolicy t0 sp) t" by (auto simp: final_template_def)
  from sr.set_spec_containers [OF t0] have m: "pt_Meta t0 = pt_Meta (named_template k rt i sp ctl)"
    and c: "image_names (pt_Spec t0) = image_names (pt_Spec (r_Template sp))"
    by (simp_all add: image_names_def named_template_def Let_def)
  note facts = decorated_facts [OF dec]
  have labels: "om_Labels (pt_Meta t0) = put_all (finding_labels k rt i ctl) (om_Labels (pt_Meta (r_Template sp)))"
    by (simp add: m named_template_def Let_def pod_labels_finding)
  then have "distinct (map fst (om_Labels (pt_Meta t)))" using d by (intro facts(3)) (simp add: put_all_distinct)
  then have get: "map_of (om_Labels (pod_Meta (owned_pod E k t))) = map_of (om_Labels (pt_Meta t))"
    by (simp add: GetPodFromTemplate_def getPodsLabelSet_def copy_map_distinct)
  have "list_all (\<lambda>(l, v). l = ke_PodGroupLabel E \<or> map_of (om_Labels (pod_Meta (owned_pod E k t))) l = Some v) (finding_labels k rt i ctl)"
    unfolding get list_all_iff using facts(2) put_all_lookup [OF finding_labels_distinct] by (fastforce simp: labels)
  moreover have "om_Name (pod_Meta (owned_pod E k t)) = GenGeneralName (kc_Name k) rt (Itoa i)"
    using facts(1) by (simp add: GetPodFromTemplate_def m named_template_def Let_def)
  moreover have "om_OwnerReferences (pod_Meta (owned_pod E k t)) = [GenOwnerReference E (kc_Meta k)]"
    by (simp add: GetPodFromTemplate_def add_owner_def empty_meta_def)
  ultimately show ?thesis
    using facts(4,5) c by (simp add: right_pod_def GetPodFromTemplate_def image_names_def)
qed

text \<open>C8: creating a pod. With the schema registered, \<open>CreateNewPod\<close> never panics and makes at most one call:
  the creation of a pod in the cluster's namespace with the name of its replica, the cluster as its only
  owner, the labels by which the controller finds it again (over the labels of the template), the restart
  policy of the replica and the containers of the template. It returns no error only when that call
  succeeded or timed out, and then exactly one more creation is expected; when it returns an error the
  expectations are unchanged.\<close>

theorem CreateNewPod_correct:
  assumes "ready E C sr key (kcl s)" "spec_returns E C sr (kcl s) rt cm"
    and "exps_ok (cc_store C) (exps s (s_ClusterType (kc_Spec (kcl s))))"
    and "distinct (map fst (om_Labels (pt_Meta (r_Template sp))))"
  shows "wp (CreateNewPod E C rt i sp ctl (kc_Specs (kcl s)) cm) (\<lambda>r s'. kcl s' = kcl s \<and>
     pod_created (right_pod E (kcl s) rt i sp ctl) (kc_Namespace (kcl s)) r s s' \<and>
     expectation_changed (cc_store C) (s_ClusterType (kc_Spec (kcl s))) (GenExpectationPodsKey key rt) (of_bool (r = None)) 0 s s') s"
  by (rule wp_mono [OF CreateNewPod_effect [OF assms(1-3)]])
    (use final_template_right [OF _ assms(4)] in \<open>fastforce simp: pod_created_def\<close>)

lemma sample_ready: "ready sample_env sample_controller PbsProSchema ''ns/demo'' (sample_cluster ''pbspro'')"
  using mstore.thread_safe_store_axioms
  by (simp add: ready_def sample_defs sample_controller_def GetSchemaReconciler_def slurm_ClusterSchemaKind_def pbs_ClusterSchemaKind_def
      gang_ok_def EnableGangScheduling_def)

lemma sample_spec_returns: "spec_returns sample_env sample_controller PbsProSchema (sample_cluster ''pbspro'') rt cm"
  by (simp add: spec_returns_def pbs_SetClusterSpec_def Let_def pbs_setInitContainer_def append_init_def GetInitContainer_def sample_env_def)

lemma CreateNewPod_correct_witness:
  "wp (CreateNewPod sample_env sample_controller ''Worker'' 1 (sample_replica 2) False (kc_Specs (sample_cluster ''pbspro'')) sample_pbs_cm)
     (\<lambda>r s'. length (calls s') \<le> 1) (sample_state empty_world (sample_cluster ''pbspro''))"
proof -
  let ?s = "sample_state empty_world (sample_cluster ''pbspro'')"
  have k: "kcl ?s = sample_cluster ''pbspro''" "calls ?s = []" by (simp_all add: sample_state_def calls_def)
  have "wp (CreateNewPod sample_env sample_controller ''Worker'' 1 (sample_replica 2) False (kc_Specs (kcl ?s)) sample_pbs_cm)
     (\<lambda>r s'. length (calls s') \<le> 1) ?s"
    by (rule wp_mono [OF CreateNewPod_correct [where sr = PbsProSchema and key = "''ns/demo''"]])
      (use sample_ready sample_spec_returns sample_exps_ok in \<open>auto simp: k pod_created_def sample_replica_def sample_template_def
         empty_meta_def sample_controller_def\<close>)
  then show ?thesis by (simp only: k)
qed

section \<open>The pods of a replica type\<close>

text \<open>The specification of \<open>ReconcilePods\<close>: for every slice, the pod operations it asks for. A deletion may be
  found unnecessary when it is carried out (the pod is gone, or being deleted), a creation may not.\<close>

datatype pod_op = PodAdd string | PodDel string string

fun pod_op_of :: "effect \<Rightarrow> pod_op option" where
  "pod_op_of (CreatePodCall ns pod r) = Some (PodAdd (om_Name (pod_Meta pod)))"
| "pod_op_of (DeletePodCall ns nm r) = Some (PodDel ns nm)"
| "pod_op_of _ = None"

primrec is_add :: "pod_op \<Rightarrow> bool" where
  "is_add (PodAdd _) = True"
| "is_add (PodDel _ _) = False"

definition del_op :: "Pod \<Rightarrow> pod_op" where
  "del_op pod = PodDel (om_Namespace (pod_Meta pod)) (om_Name (pod_Meta pod))"

text \<open>The failed pods a restart policy restarts. Under \<open>ExitCode\<close> these are the ones whose main container ended with a code from
  128 on, and the ones of which no end of the main container is known.\<close>

definition main_ends :: "ContainerStatus list \<Rightarrow> ContainerStateTerminated list" where
  "main_ends cs = List.map_filter (\<lambda>c. if cs_Name c = ''kubenode'' then cs_Terminated c else None) cs"

definition restarted :: "ReplicaSpec \<Rightarrow> Pod \<Rightarrow> bool" where
  "restarted sp pod \<longleftrightarrow> pst_Phase (pod_Status pod) = PodFailed \<and>
     (r_RestartPolicy sp \<in> {RestartPolicyOnFailure, RestartPolicyAlways} \<or>
      r_RestartPolicy sp = RestartPolicyExitCode \<and>
      (case main_ends (pst_ContainerStatuses (pod_Status pod)) of
         [] \<Rightarrow> True | t # _ \<Rightarrow> sint (term_ExitCode t) \<ge> 128))"

lemma exit_code_first:
  "exit_code pod = (case main_ends (pst_ContainerStatuses (pod_Status pod)) of
     [] \<Rightarrow> 48879 | t # _ \<Rightarrow> term_ExitCode t)"
proof -
  have "(case List.find terminated_main cs of Some status \<Rightarrow> (case cs_Terminated status of Some t \<Rightarrow> term_ExitCode t | None \<Rightarrow> 48879) | None \<Rightarrow> 48879) =
      (case main_ends cs of [] \<Rightarrow> 48879 | t # _ \<Rightarrow> term_ExitCode t)"
    for cs :: "ContainerStatus list"
    by (induction cs) (auto simp: main_ends_def terminated_main_def ClusterDefaultContainerName_def List.map_filter_simps split: option.splits)
  then show ?thesis by (simp add: exit_code_def)
qed

lemma needs_restart_iff: "needs_restart sp pod \<longleftrightarrow> restarted sp pod"
  by (auto simp: needs_restart_def restarted_def IsRetryableExitCode_def exit_code_first split: list.splits)

definition slice_plan :: "string \<Rightarrow> string \<Rightarrow> ReplicaSpec \<Rightarrow> int \<Rightarrow> nat \<times> Pod list \<Rightarrow> pod_op list" where
  "slice_plan name rt sp n x = (case snd x of
       [] \<Rightarrow> [PodAdd (GenGeneralName name rt (Itoa (int (fst x))))]
     | [pod] \<Rightarrow> (if int (fst x) \<ge> n then [del_op pod] else []) @ (if restarted sp pod then [del_op pod] else [])
     | _ \<Rightarrow> [])"

definition slice_counted :: "nat \<times> Pod list \<Rightarrow> Pod list" where
  "slice_counted x = (case snd x of [pod] \<Rightarrow> [pod] | _ \<Rightarrow> [])"

interpretation pods: plan_calls pod_op_of is_add "\<lambda>x. \<not> is_add x"
proof
  show "is_note e \<Longrightarrow> pod_op_of e = None" for e by (cases e) auto
qed simp

abbreviation pod_ops :: "effect list \<Rightarrow> pod_op list" where
  "pod_ops \<equiv> pods.ops"

lemma DeletePod_effect:
  "wp (DeletePod E ns nm) (\<lambda>r t. kcl t = kcl s \<and> exps t = exps s \<and>
     (\<exists>cs. calls t = calls s @ cs \<and> subseq (pod_ops cs) [PodDel ns nm])) s"
  by (auto simp: DeletePod_def wp calls_def split: prod.splits sum.splits option.splits)

lemma does_delete:
  fixes C :: "'st ClusterController" and s :: "('w, 'st) cstate"
  assumes "thread_safe_store (cc_store C)" "exps_ok (cc_store C) (exps s ct)"
  shows "pods.does (cc_store C) ct key rt [del_op pod] [] (delete_expected_pod E C ct (Some sr) key pod) s"
  unfolding pods.does_def delete_expected_pod_def wp_try
proof (rule wp_mono [OF DeletePod_effect], elim conjE exE)
  fix r cs and t :: "('w, 'st) cstate"
  assume t: "kcl t = kcl s" "exps t = exps s" "calls t = calls s @ cs"
    "subseq (pod_ops cs) [PodDel (om_Namespace (pod_Meta pod)) (om_Name (pod_Meta pod))]"
  then have del: "filter is_add (pod_ops cs) = []"
    by (metis (no_types, lifting) filter.simps is_add.simps(2) list_emb_Nil2 subseq_filter)
  have ok: "exps_ok (cc_store C) (exps t ct)" using assms(2) t(2) by simp
  have "wp (expect ct (Some sr) (RaiseExpectations (cc_store C) key 0 1)) (\<lambda>_ u. pods.carried_out (cc_store C) ct key rt [del_op pod] [] s u) t"
    by (rule wp_mono [OF wp_expect_raise [OF assms(1) ok]])
      (use t del in \<open>auto simp: pods.carried_out_def del_op_def same_object_def calls_def expectation_changed_def option.map_ident\<close>)
  then show "case r of Some e \<Rightarrow> (if Some e = None then pods.carried_out (cc_store C) ct key rt [del_op pod] [] s t
        else pods.cut_short (cc_store C) ct [del_op pod] s t)
      | None \<Rightarrow> wp (go_seq (expect ct (Some sr) (RaiseExpectations (cc_store C) key 0 1)) (go_return None))
         (\<lambda>r u. if r = None then pods.carried_out (cc_store C) ct key rt [del_op pod] [] s u else pods.cut_short (cc_store C) ct [del_op pod] s u) t"
    using t ok by (cases r) (auto simp: wp wp_return_fun pods.cut_short_def same_object_def del_op_def)
qed

lemma does_restart:
  fixes C :: "'st ClusterController" and s :: "('w, 'st) cstate"
  assumes S: "thread_safe_store (cc_store C)" and ok: "exps_ok (cc_store C) (exps s (s_ClusterType (kc_Spec k)))"
  shows "pods.does (cc_store C) (s_ClusterType (kc_Spec k)) key rt [del_op pod] [] (restart_pod E C k (Some sr) key rt pod) s"
  unfolding restart_pod_def Let_def Inc_def Event_def RestartedClustersCounterInc_def
  by (intro pods.does_seq_quiet pods.note_effect pods.does_try_quiet does_delete [OF S] pods.condition_effect pods.does_return)
    (auto intro: ok pods.carried_out_ok)

lemma does_present:
  fixes C :: "'st ClusterController" and s :: "('w, 'st) cstate"
  assumes S: "thread_safe_store (cc_store C)" and ok: "exps_ok (cc_store C) (exps s (s_ClusterType (kc_Spec k)))"
    and rs: "replica_status (kc_Status (kcl s)) rt \<noteq> None"
  shows "pods.does (cc_store C) (s_ClusterType (kc_Spec k)) key rt
     ((if i < 0 \<or> i \<ge> n then [del_op pod] else []) @ (if restarted sp pod then [del_op pod] else [])) [pod]
     (reconcile_present_pod E C k (Some sr) key rt sp n i pod) s"
proof -
  let ?ct = "s_ClusterType (kc_Spec k)"
  have count: "pods.does (cc_store C) ?ct key rt [] [pod] (go_seq (updateClusterReplicaStatuses rt pod) (go_return None)) t"
    if "exps_ok (cc_store C) (exps t ?ct)" "replica_status (kc_Status (kcl t)) rt \<noteq> None" for t :: "('w, 'st) cstate"
    using pods.does_seq [OF pods.count_effect [OF that(2,1)] pods.does_return [OF pods.carried_out_ok]] by simp
  have kept: "replica_status (kc_Status (kcl u)) rt \<noteq> None"
    if "pods.carried_out (cc_store C) ?ct key rt p cp t u" "replica_status (kc_Status (kcl t)) rt \<noteq> None" for p cp and t u :: "('w, 'st) cstate"
    using that by (auto simp: pods.carried_out_def)
  have restart: "pods.does (cc_store C) ?ct key rt (if restarted sp pod then [del_op pod] else []) []
      (if restarted sp pod then restart_pod E C k (Some sr) key rt pod else go_return None) t"
    if "exps_ok (cc_store C) (exps t ?ct)" for t :: "('w, 'st) cstate"
    using does_restart [OF S that] pods.does_return [OF that] by simp
  have delete: "pods.does (cc_store C) ?ct key rt (if i < 0 \<or> i \<ge> n then [del_op pod] else []) []
      (if i < 0 \<or> i \<ge> n then delete_expected_pod E C ?ct (Some sr) key pod else go_return None) s"
    using does_delete [OF S ok] pods.does_return [OF ok] by simp
  show ?thesis
    unfolding reconcile_present_pod_def needs_restart_iff
    by (rule pods.does_try [where cp = "[]", unfolded append_Nil, OF delete])
      (rule pods.does_seq_quiet, rule pods.record_effect, erule pods.carried_out_ok,
        rule pods.does_try [where q = "[]" and cp = "[]", unfolded append_Nil append_Nil2], rule restart, erule pods.carried_out_ok, rule count,
        erule pods.carried_out_ok, rule kept, assumption, rule kept, assumption, rule kept, assumption, rule rs)
qed

lemma set_spec_same:
  assumes "same_object k k'"
  shows "sr_SetClusterSpec E C sr k' = sr_SetClusterSpec E C sr k"
proof -
  have spec: "replica_spec k' = replica_spec k" and env: "slurm_env k' = slurm_env k"
    using assms by (auto simp: same_object_def replica_spec_def slurm_env_def intro!: ext)
  have "worker_replicas k' = worker_replicas k"
    using assms unfolding worker_replicas_def getTotalReplicas_def spec by (simp add: same_object_def)
  note * = this spec env
  have "slurm_setPodEnv E k' = slurm_setPodEnv E k" "slurm_setInitContainer E g k' = slurm_setInitContainer E g k" for g
    unfolding fun_eq_iff slurm_setPodEnv_def slurm_setInitContainer_def * using assms by (simp_all add: same_object_def)
  note env = this
  have "slurm_SetClusterSpec E g k' = slurm_SetClusterSpec E g k" for g
    unfolding fun_eq_iff slurm_SetClusterSpec_def env by simp
  then show ?thesis
    using assms by (cases sr; intro ext)
      (simp_all add: same_object_def pbs_SetClusterSpec_def pbs_setPodEnv_def pbs_setInitContainer_def pbs_env_def)
qed

lemma ready_same: "same_object k k' \<Longrightarrow> ready E C sr key k' = ready E C sr key k"
  by (simp add: same_object_def ready_def)

lemma spec_returns_same: "same_object k k' \<Longrightarrow> spec_returns E C sr k' rt cm = spec_returns E C sr k rt cm"
  by (simp add: spec_returns_def set_spec_same)

lemma final_template_name:
  assumes "final_template E C sr k rt i sp ctl cm t"
  shows "om_Name (pod_Meta (owned_pod E k t)) = GenGeneralName (kc_Name k) rt (Itoa i)"
proof -
  from assms obtain t0 where t0: "sr_SetClusterSpec E C sr k (named_template k rt i sp ctl) rt (Itoa i) cm = Inr (Inr t0)"
    and dec: "decorated E k rt (SetRestartPolicy t0 sp) t" by (auto simp: final_template_def)
  from sr.set_spec_containers [OF t0] decorated_facts(1) [OF dec] show ?thesis
    by (simp add: GetPodFromTemplate_def named_template_def Let_def)
qed

lemma does_create:
  fixes C :: "'st ClusterController" and s :: "('w, 'st) cstate"
  assumes "ready E C sr key (kcl s)" "spec_returns E C sr (kcl s) rt cm" "exps_ok (cc_store C) (exps s (s_ClusterType (kc_Spec (kcl s))))"
  shows "pods.does (cc_store C) (s_ClusterType (kc_Spec (kcl s))) (GenExpectationPodsKey key rt) rt
     [PodAdd (GenGeneralName (kc_Name (kcl s)) rt (Itoa i))] [] (CreateNewPod E C rt i sp ctl (kc_Specs (kcl s)) cm) s"
  unfolding pods.does_def
proof (rule wp_mono [OF CreateNewPod_effect [OF assms]], elim conjE)
  fix r and t :: "('w, 'st) cstate"
  let ?S = "cc_store C" and ?ct = "s_ClusterType (kc_Spec (kcl s))" and ?nm = "GenGeneralName (kc_Name (kcl s)) rt (Itoa i)"
  assume t: "kcl t = kcl s" "expectation_changed ?S ?ct (GenExpectationPodsKey key rt) (of_bool (r = None)) 0 s t"
    and "pod_created (\<lambda>p. \<exists>t. final_template E C sr (kcl s) rt i sp ctl cm t \<and> p = owned_pod E (kcl s) t) (kc_Namespace (kcl s)) r s t"
  then have "pod_created (\<lambda>p. om_Name (pod_Meta p) = ?nm) (kc_Namespace (kcl s)) r s t"
    using final_template_name [of E C sr "kcl s" rt i sp ctl cm] by (fastforce simp: pod_created_def)
  with t show "if r = None then pods.carried_out ?S ?ct (GenExpectationPodsKey key rt) rt [PodAdd ?nm] [] s t
     else pods.cut_short ?S ?ct [PodAdd ?nm] s t"
    using expectation_changed_ok [OF t(2)]
    by (auto simp: pod_created_def pods.carried_out_def pods.cut_short_def same_object_def option.map_ident)
qed

text \<open>One slice, and the loop over all of them. The cluster of the state keeps its metadata and its specification.\<close>

lemma does_slice:
  fixes C :: "'st ClusterController" and s :: "('w, 'st) cstate"
  assumes ready: "ready E C sr key k" and spec: "spec_returns E C sr k rt cm" and same: "same_object k (kcl s)"
    and ok: "exps_ok (cc_store C) (exps s (s_ClusterType (kc_Spec k)))" and rs: "replica_status (kc_Status (kcl s)) rt \<noteq> None"
  shows "pods.does (cc_store C) (s_ClusterType (kc_Spec k)) (GenExpectationPodsKey key rt) rt
     (slice_plan (kc_Name k) rt sp n x) (slice_counted x) (reconcile_pod_slice E C k (GenExpectationPodsKey key rt) rt sp n cm x) s"
proof -
  obtain i sl where x: "x = (i, sl)" by (cases x)
  from ready have S: "thread_safe_store (cc_store C)" and reg: "GetSchemaReconciler C (s_ClusterType (kc_Spec k)) = Some sr"
    by (auto simp: ready_def)
  consider "sl = []" | pod where "sl = [pod]" | p q ps where "sl = p # q # ps" by (cases sl rule: remdups_adj.cases) auto
  then show ?thesis
  proof cases
    case 1
    have k: "s_ClusterType (kc_Spec (kcl s)) = s_ClusterType (kc_Spec k)" "kc_Specs (kcl s) = kc_Specs k" "kc_Name (kcl s) = kc_Name k"
      using same by (simp_all add: same_object_def)
    have "pods.does (cc_store C) (s_ClusterType (kc_Spec (kcl s))) (GenExpectationPodsKey key rt) rt
        [PodAdd (GenGeneralName (kc_Name (kcl s)) rt (Itoa (int i)))] []
        (CreateNewPod E C rt (int i) sp (sr_IsController sr rt) (kc_Specs (kcl s)) cm) s"
      by (rule does_create) (use ready spec ok same in \<open>simp_all add: ready_same [OF same] spec_returns_same [OF same] k\<close>)
    with 1 x reg show ?thesis
      by (simp add: k reconcile_pod_slice_def slice_plan_def slice_counted_def sr_call_def)
  next
    case 2
    with does_present [OF S ok rs, of "GenExpectationPodsKey key rt" "int i" n pod sp E sr] x reg show ?thesis
      by (simp add: reconcile_pod_slice_def slice_plan_def slice_counted_def)
  next
    case 3
    with x pods.does_return [OF ok] show ?thesis
      by (simp add: reconcile_pod_slice_def slice_plan_def slice_counted_def)
  qed
qed

lemma does_slices:
  fixes C :: "'st ClusterController" and s :: "('w, 'st) cstate"
  assumes "ready E C sr key k" "spec_returns E C sr k rt cm" "same_object k (kcl s)"
    "exps_ok (cc_store C) (exps s (s_ClusterType (kc_Spec k)))" "replica_status (kc_Status (kcl s)) rt \<noteq> None"
  shows "pods.does (cc_store C) (s_ClusterType (kc_Spec k)) (GenExpectationPodsKey key rt) rt
     (concat (map (slice_plan (kc_Name k) rt sp n) xs)) (concat (map slice_counted xs))
     (go_forE (reconcile_pod_slice E C k (GenExpectationPodsKey key rt) rt sp n cm) xs) s"
proof -
  let ?I = "\<lambda>t :: ('w, 'st) cstate. same_object k (kcl t) \<and> exps_ok (cc_store C) (exps t (s_ClusterType (kc_Spec k))) \<and>
    replica_status (kc_Status (kcl t)) rt \<noteq> None"
  show ?thesis
  proof (rule pods.does_forE [where I = ?I])
    fix p cp and t u :: "('w, 'st) cstate"
    assume "?I t" and u: "pods.carried_out (cc_store C) (s_ClusterType (kc_Spec k)) (GenExpectationPodsKey key rt) rt p cp t u"
    then show "?I u" using pods.carried_out_ok [OF u] by (auto simp: pods.carried_out_def intro: same_object_trans)
  qed (use assms in \<open>auto intro: does_slice\<close>)
qed

text \<open>C1: one reconciliation of the pods of a replica type carries out the plan read off the slices. With the
  schema registered and the spec of the replica type there, it does not panic. When it returns no error: the pods it
  asked to create are exactly the ones named after the empty slices, in the order of the slices; the pods it asked to
  delete are among the ones out of range and the failed ones the restart policy restarts (each one only if the API
  server still has it and it is not being deleted yet); the expectations of the replica type grew by one creation per empty slice and
  one deletion per planned deletion, those of other keys and cluster types are untouched; and the counters of the
  replica type are the running and the failed pods of the slices that hold one pod. When it returns an error, the calls made are
  those of a part of the plan. Metadata and specification of the cluster stay as they were.\<close>

theorem ReconcilePods_correct:
  fixes C :: "'st ClusterController" and s :: "('w, 'st) cstate"
  assumes "ready E C sr key (kcl s)" "spec_returns E C sr (kcl s) rt cm" "exps_ok (cc_store C) (exps s ct)"
    and "ct = s_ClusterType (kc_Spec (kcl s))" "r_Replicas sp = Some n"
    and "GetPodSlices (cc_maxlen C) (FilterPodsForReplicaType E pods (GenReplicaTypeLabel rt)) (sint n) = Inr slices"
    and "plan = concat (map (slice_plan (kc_Name (kcl s)) rt sp (sint n)) (enumerate 0 slices))"
  shows "wp (ReconcilePods E C rt (Some sp) pods cm) (\<lambda>r s'. same_object (kcl s) (kcl s') \<and>
     (\<exists>cs. calls s' = calls s @ cs \<and> subseq (pod_ops cs) plan \<and>
        (r = None \<longrightarrow> filter is_add (pod_ops cs) = filter is_add plan)) \<and>
     (r = None \<longrightarrow> expectation_changed (cc_store C) ct (GenExpectationPodsKey key rt)
          (of_nat (length (filter is_add plan))) (of_nat (length (filter (\<lambda>x. \<not> is_add x) plan))) s s' \<and>
        replica_status (kc_Status (kcl s')) = (replica_status (kc_Status (kcl s)))(rt \<mapsto>
          add_counts (concat (filter (\<lambda>sl. length sl = 1) slices)) zero_replica_status))) s"
proof -
  let ?s1 = "s\<lparr>kcl := (kcl s)\<lparr>kc_Status := InitializeReplicaStatuses (kc_Status (kcl s)) rt\<rparr>\<rparr>"
  have same: "same_object (kcl s) (kcl ?s1)" by (simp add: same_object_def)
  have counted: "concat (map slice_counted (enumerate m slices)) = concat (filter (\<lambda>sl. length sl = 1) slices)" for m
    by (induction slices arbitrary: m) (auto simp: slice_counted_def length_Suc_conv split: list.splits)
  have "pods.does (cc_store C) ct (GenExpectationPodsKey key rt) rt plan (concat (filter (\<lambda>sl. length sl = 1) slices))
     (go_forE (reconcile_pod_slice E C (kcl s) (GenExpectationPodsKey key rt) rt sp (sint n) cm) (enumerate 0 slices)) ?s1"
    unfolding assms(4,7) counted [symmetric, of 0]
    by (rule does_slices [OF assms(1,2) same]) (use assms(3,4) in simp_all)
  then have "wp (go_forE (reconcile_pod_slice E C (kcl s) (GenExpectationPodsKey key rt) rt sp (sint n) cm) (enumerate 0 slices))
     (\<lambda>r s'. if r = None then pods.carried_out (cc_store C) ct (GenExpectationPodsKey key rt) rt plan
        (concat (filter (\<lambda>sl. length sl = 1) slices)) ?s1 s' else pods.cut_short (cc_store C) ct plan ?s1 s') ?s1"
    by (simp only: pods.does_def)
  moreover have "ke_KeyFunc E (kc_Meta (kcl s)) = Inr key" using assms(1) by (simp add: ready_def)
  ultimately show ?thesis
    using assms(5,6) unfolding ReconcilePods_def
    by (simp add: wp initializeReplicaStatuses_def Let_def, elim wp_mono)
      (auto simp: pods.carried_out_def pods.cut_short_def same_object_def expectation_changed_def fun_eq_iff split: if_splits)
qed

lemma ReconcilePods_correct_witness:
  "wp (ReconcilePods sample_env sample_controller ''Worker'' (Some (sample_replica 2)) [] sample_pbs_cm)
     (\<lambda>r s'. r = None \<longrightarrow> map_option rs_Active (replica_status (kc_Status (kcl s')) ''Worker'') = Some 0)
     (sample_state empty_world (sample_cluster ''pbspro''))"
proof -
  let ?s = "sample_state empty_world (sample_cluster ''pbspro'')"
  have k: "kcl ?s = sample_cluster ''pbspro''" by (simp add: sample_state_def)
  have sl: "GetPodSlices (cc_maxlen sample_controller) (FilterPodsForReplicaType sample_env [] (GenReplicaTypeLabel ''Worker'')) (sint (2 :: int32))
      = Inr [[], []]"
    by code_simp
  show ?thesis
    by (rule wp_mono [OF ReconcilePods_correct [where sr = PbsProSchema and key = "''ns/demo''", OF _ _ _ refl _ sl refl]])
      (use sample_ready sample_spec_returns sample_exps_ok in \<open>auto simp: k sample_replica_def sample_controller_def zero_replica_status_def\<close>)
qed

end
