(* ===== verification/ServicePlan.thy ===== *)
theory ServicePlan
  imports PodPlan
begin

text \<open>
  What \<open>CreateNewService\<close> and \<open>ReconcileServices\<close> do: the plan of the services of a replica type, with the services it creates
  written out.
\<close>

datatype svc_op = SvcAdd string Service | SvcDel string string

fun svc_op_of :: "effect \<Rightarrow> svc_op option" where
  "svc_op_of (CreateServiceCall ns svc r) = Some (SvcAdd ns svc)"
| "svc_op_of (DeleteServiceCall ns nm r) = Some (SvcDel ns nm)"
| "svc_op_of _ = None"

primrec is_svc_add :: "svc_op \<Rightarrow> bool" where
  "is_svc_add (SvcAdd _ _) = True"
| "is_svc_add (SvcDel _ _) = False"

text \<open>The deletion of a service is not expected: \<open>ReconcileServices\<close> raises no expectation for it.\<close>

interpretation svcs: plan_calls svc_op_of is_svc_add "\<lambda>_. False"
proof
  show "is_note e \<Longrightarrow> svc_op_of e = None" for e by (cases e) auto
qed simp

definition owned_service :: "'w kenv \<Rightarrow> KubeCluster \<Rightarrow> string \<Rightarrow> int \<Rightarrow> (string \<times> int32) list \<Rightarrow> Service" where
  "owned_service E k rt i ports = GetServiceFromTemplate (new_service k rt (Itoa i) ports) (Some (GenOwnerReference E (kc_Meta k)))"

definition svc_plan :: "'w kenv \<Rightarrow> KubeCluster \<Rightarrow> string \<Rightarrow> ReplicaSpec \<Rightarrow> int \<Rightarrow> string \<Rightarrow> nat \<times> Service list \<Rightarrow> svc_op list" where
  "svc_plan E k rt sp n container x = (case snd x of
       [] \<Rightarrow> (case GetPortsFromCluster sp container of
           Inl _ \<Rightarrow> [] | Inr ports \<Rightarrow> [SvcAdd (kc_Namespace k) (owned_service E k rt (int (fst x)) ports)])
     | [svc] \<Rightarrow> (if int (fst x) \<ge> n then [SvcDel (om_Namespace (svc_Meta svc)) (om_Name (svc_Meta svc))] else [])
     | _ \<Rightarrow> [])"

lemma CreateServices_effect:
  assumes "ke_GroupVersion E \<noteq> []"
  shows "wp (CreateServicesWithControllerRef E ns svc (Some (GenOwnerReference E m))) (\<lambda>r t. kcl t = kcl s \<and> exps t = exps s \<and>
     (r = None \<or> (\<exists>msg. r = Some (PlainErr msg))) \<and>
     ((\<exists>res. calls t = calls s @ [CreateServiceCall ns (GetServiceFromTemplate svc (Some (GenOwnerReference E m))) res]) \<or>
      calls t = calls s \<and> r \<noteq> None)) s"
  using GenOwnerReference_valid [OF assms, of m]
  by (auto simp: CreateServicesWithControllerRef_def createServices_def Let_def wp calls_def errorf_v_def split: prod.splits sum.splits)

lemma svc_does_create:
  fixes C :: "'st ClusterController" and s :: "('w, 'st) cstate"
  assumes ready: "ready E C sr key (kcl s)" and ok: "exps_ok (cc_store C) (exps s (s_ClusterType (kc_Spec (kcl s))))"
  shows "svcs.does (cc_store C) (s_ClusterType (kc_Spec (kcl s))) (GenExpectationServicesKey key rt) rt
     (svc_plan E (kcl s) rt sp n container (i, [])) [] (CreateNewService E C rt sp (Itoa (int i)) container (Some sr)) s"
proof (cases "GetPortsFromCluster sp container")
  case (Inl err)
  moreover have "ke_KeyFunc E (kc_Meta (kcl s)) = Inr key" using ready by (simp add: ready_def)
  ultimately show ?thesis
    using ok by (simp add: CreateNewService_def svcs.does_def wp svcs.cut_short_def same_object_def)
next
  case (Inr ports)
  let ?k = "kcl s" and ?S = "cc_store C"
  let ?ct = "s_ClusterType (kc_Spec ?k)" and ?key = "GenExpectationServicesKey key rt" and ?svc = "new_service ?k rt (Itoa (int i)) ports"
  let ?p = "[SvcAdd (kc_Namespace ?k) (owned_service E ?k rt (int i) ports)]"
  let ?Q = "\<lambda>r t. if r = None then svcs.carried_out ?S ?ct ?key rt ?p [] s t else svcs.cut_short ?S ?ct ?p s t"
  let ?after = "\<lambda>r. case r of
        Some e \<Rightarrow>
          if IsTimeout e then go_seq (Inc ''succeeded_service_creation_total'') (go_return None)
          else go_seq (expect ?ct (Some sr) (CreationObserved ?S ?key)) (
               go_seq (Inc ''failed_service_creation_total'') (go_return (Some e)))
      | None \<Rightarrow> go_seq (Inc ''succeeded_service_creation_total'') (go_return None)"
  from ready have S: "thread_safe_store ?S" and gv: "ke_GroupVersion E \<noteq> []" and key: "ke_KeyFunc E (kc_Meta ?k) = Inr key"
    by (auto simp: ready_def)
  have finish: "wp (?after r) ?Q t"
    if r: "r = None \<or> (\<exists>msg. r = Some (PlainErr msg))" and kt: "kcl t = ?k" and e: "expectation_changed ?S ?ct ?key 1 0 s t"
      and c: "(\<exists>res. calls t = calls s @ [CreateServiceCall (kc_Namespace ?k) (owned_service E ?k rt (int i) ports) res]) \<or>
        calls t = calls s \<and> r \<noteq> None" for r and t :: "('w, 'st) cstate"
  proof (cases r)
    case None
    with kt e c show ?thesis
      by (auto simp: wp svcs.carried_out_def same_object_def expectation_changed_def option.map_ident calls_def)
  next
    case (Some er)
    then have er: "\<not> IsTimeout er" using r by auto
    have cs: "\<exists>cs. calls t = calls s @ cs \<and> subseq (svcs.ops cs) ?p" using c by auto
    have "wp (expect ?ct (Some sr) (CreationObserved ?S ?key)) (\<lambda>_ u. svcs.cut_short ?S ?ct ?p s u) t"
      by (rule wp_mono [OF wp_expect_observed [OF S expectation_changed_ok [OF e]]])
        (use kt cs in \<open>auto simp: svcs.cut_short_def same_object_def calls_def dest: expectation_changed_ok\<close>)
    then show ?thesis
      using Some er by (auto simp: wp svcs.cut_short_def elim!: wp_mono)
  qed
  have create: "wp (go_bind (CreateServicesWithControllerRef E (kc_Namespace ?k) ?svc (Some (GenOwnerReference E (kc_Meta ?k)))) ?after) ?Q t"
    if t: "kcl t = ?k" "trace t = trace s" "expectation_changed ?S ?ct ?key 1 0 s t" for t :: "('w, 'st) cstate"
    unfolding wp_bind
    by (rule wp_mono [OF CreateServices_effect [OF gv]], rule finish)
      (use t calls_trace [OF t(2)] in \<open>auto simp: owned_service_def intro: expectation_changed_same\<close>)
  have "wp (go_seq (expect ?ct (Some sr) (RaiseExpectations ?S ?key 1 0)) (
      go_bind (CreateServicesWithControllerRef E (kc_Namespace ?k) ?svc (Some (GenOwnerReference E (kc_Meta ?k)))) ?after)) ?Q s"
    unfolding wp_seq by (rule wp_mono [OF wp_expect_raise [OF S ok]]) (use create in blast)
  then show ?thesis
    using Inr key by (simp only: svcs.does_def CreateNewService_def wp Let_def sum.case svc_plan_def snd_conv fst_conv list.case)
qed

lemma DeleteService_effect:
  "wp (DeleteService E ns nm) (\<lambda>r t. kcl t = kcl s \<and> exps t = exps s \<and>
     (\<exists>cs. calls t = calls s @ cs \<and> subseq (svcs.ops cs) [SvcDel ns nm])) s"
  by (auto simp: DeleteService_def wp calls_def split: prod.splits sum.splits option.splits)

lemma svc_does_delete:
  fixes s :: "('w, 'st) cstate"
  assumes "exps_ok S (exps s ct)"
  shows "svcs.does S ct key rt [SvcDel ns nm] [] (DeleteService E ns nm) s"
  unfolding svcs.does_def
proof (rule wp_mono [OF DeleteService_effect], elim conjE exE)
  fix r cs and t :: "('w, 'st) cstate"
  assume t: "kcl t = kcl s" "exps t = exps s" "calls t = calls s @ cs" "subseq (svcs.ops cs) [SvcDel ns nm]"
  then have "filter is_svc_add (svcs.ops cs) = []"
    by (metis (no_types, lifting) filter.simps is_svc_add.simps(2) list_emb_Nil2 subseq_filter)
  with t assms show "if r = None then svcs.carried_out S ct key rt [SvcDel ns nm] [] s t else svcs.cut_short S ct [SvcDel ns nm] s t"
    by (auto simp: svcs.carried_out_def svcs.cut_short_def same_object_def expectation_changed_refl option.map_ident)
qed

lemma svc_plan_same: "same_object k k' \<Longrightarrow> svc_plan E k' = svc_plan E k"
  by (intro ext) (auto simp: same_object_def svc_plan_def owned_service_def new_service_def service_labels_def split: list.splits sum.splits)

lemma svc_does_slice:
  fixes C :: "'st ClusterController" and s :: "('w, 'st) cstate"
  assumes ready: "ready E C sr key k" and same: "same_object k (kcl s)" and ok: "exps_ok (cc_store C) (exps s (s_ClusterType (kc_Spec k)))"
  shows "svcs.does (cc_store C) (s_ClusterType (kc_Spec k)) (GenExpectationServicesKey key rt) rt
     (svc_plan E k rt sp n (sr_GetDefaultContainerName sr) x) [] (reconcile_service_slice E C (Some sr) rt sp n x) s"
proof -
  obtain i sl where x: "x = (i, sl)" by (cases x)
  have ct: "s_ClusterType (kc_Spec (kcl s)) = s_ClusterType (kc_Spec k)" using same by (simp add: same_object_def)
  consider "sl = []" | svc where "sl = [svc]" | p q ps where "sl = p # q # ps" by (cases sl rule: remdups_adj.cases) auto
  then show ?thesis
  proof cases
    case 1
    have "ready E C sr key (kcl s)" "exps_ok (cc_store C) (exps s (s_ClusterType (kc_Spec (kcl s))))"
      using ready ok by (simp_all add: ready_same [OF same] ct)
    from svc_does_create [OF this, of rt sp n "sr_GetDefaultContainerName sr" i] 1 x show ?thesis
      by (simp add: reconcile_service_slice_def sr_call_def svc_plan_same [OF same] ct)
  next
    case 2
    with x svc_does_delete [OF ok] svcs.does_return [OF ok] show ?thesis by (simp add: reconcile_service_slice_def svc_plan_def)
  next
    case 3
    with x svcs.does_return [OF ok] show ?thesis by (simp add: reconcile_service_slice_def svc_plan_def)
  qed
qed



section \<open>Services and pods\<close>

lemma service_labels_of_pod: "set (service_labels k rt (Itoa i)) \<subseteq> set (finding_labels k rt i ctl)"
  by (auto simp: service_labels_def finding_labels_def Let_def label_defs cc_GenLabels_def GenReplicaTypeLabel_def)

text \<open>C19: the headless service of a replica selects exactly the pod of that replica. For a pod created for index \<open>i\<close> and the
  service created for index \<open>j\<close> of the same replica type (the pod-group label of the gang scheduler being none of the
  selecting labels), the selector of the service holds of the labels of the pod if and only if \<open>i = j\<close>; and then pod and
  service have the same name, by which the clean-up deletes the service with the pod.\<close>

theorem service_selects_pod:
  assumes pod: "right_pod E k rt i sp ctl pod" and i: "0 \<le> i" and j: "0 \<le> j"
    and free: "ke_PodGroupLabel E \<notin> set (map fst (service_labels k rt (Itoa j)))"
  shows "(list_all (\<lambda>(l, v). map_of (om_Labels (pod_Meta pod)) l = Some v) (svc_Selector (owned_service E k rt j ports)) \<longleftrightarrow> i = j) \<and>
    om_Name (svc_Meta (owned_service E k rt i ports)) = om_Name (pod_Meta pod)"
proof (intro conjI)
  have sel: "svc_Selector (owned_service E k rt j ports) = service_labels k rt (Itoa j)"
    by (simp add: owned_service_def GetServiceFromTemplate_def new_service_def)
  have idx: "(ReplicaIndexLabel, Itoa n) \<in> set (service_labels k rt (Itoa n))" for n
    by (simp add: service_labels_def Let_def label_defs)
  have keys: "map fst (service_labels k rt a) = map fst (service_labels k rt b)" for a b
    by (simp add: service_labels_def Let_def label_defs)
  have has: "map_of (om_Labels (pod_Meta pod)) l = Some v" if "(l, v) \<in> set (service_labels k rt (Itoa i))" for l v
  proof -
    have "l \<noteq> ke_PodGroupLabel E" using that free keys [of "Itoa i" "Itoa j"] by (metis fst_conv image_eqI set_map)
    with that pod service_labels_of_pod [of k rt i ctl] show ?thesis by (auto simp: right_pod_def list_all_iff)
  qed
  show "list_all (\<lambda>(l, v). map_of (om_Labels (pod_Meta pod)) l = Some v) (svc_Selector (owned_service E k rt j ports)) \<longleftrightarrow> i = j"
  proof
    assume "list_all (\<lambda>(l, v). map_of (om_Labels (pod_Meta pod)) l = Some v) (svc_Selector (owned_service E k rt j ports))"
    then have "map_of (om_Labels (pod_Meta pod)) ReplicaIndexLabel = Some (Itoa j)" using idx [of j] by (auto simp: sel list_all_iff)
    with has [OF idx] show "i = j" using Itoa_inj_nonneg [OF i j] by simp
  next
    assume "i = j"
    with has show "list_all (\<lambda>(l, v). map_of (om_Labels (pod_Meta pod)) l = Some v) (svc_Selector (owned_service E k rt j ports))"
      by (auto simp: sel list_all_iff)
  qed
  show "om_Name (svc_Meta (owned_service E k rt i ports)) = om_Name (pod_Meta pod)"
    using pod by (simp add: right_pod_def owned_service_def GetServiceFromTemplate_def new_service_def)
qed

definition sample_worker_pod :: Pod where
  "sample_worker_pod = owned_pod sample_env (sample_cluster ''pbspro'')
     (SetRestartPolicy (named_template (sample_cluster ''pbspro'') ''Worker'' 1 (sample_replica 2) False) (sample_replica 2))"

lemma service_selects_pod_witness:
  "list_all (\<lambda>(l, v). map_of (om_Labels (pod_Meta sample_worker_pod)) l = Some v)
     (svc_Selector (owned_service sample_env (sample_cluster ''pbspro'') ''Worker'' 1 []))"
proof -
  have pod: "right_pod sample_env (sample_cluster ''pbspro'') ''Worker'' 1 (sample_replica 2) False sample_worker_pod" by code_simp
  have "ke_PodGroupLabel sample_env \<notin> set (map fst (service_labels (sample_cluster ''pbspro'') ''Worker'' (Itoa 1)))" by code_simp
  from service_selects_pod [OF pod _ _ this] show ?thesis by simp
qed

end
