(* ===== verification/Events.thy ===== *)
theory Events
  imports Operator ServicePlan
begin

text \<open>
  The entry points: what \<open>Reconcile\<close> does with clusters it must not reconcile, how the events of the created pods meet the
  expectations, and that the typed and the generic event handlers agree.
\<close>

section \<open>Handlers\<close>

lemma ToLower_kinds: "ToLower ''Pod'' @ ''s'' = ''pods''" "ToLower ''Service'' @ ''s'' = ''services''"
  by code_simp+


section \<open>Created pods are observed\<close>

text \<open>The metadata of the creation event of a pod: the server has set the namespace.\<close>

definition event_meta :: "KubeCluster \<Rightarrow> Pod \<Rightarrow> ObjectMeta" where
  "event_meta k pod = (pod_Meta pod)\<lparr>om_Namespace := kc_Namespace k\<rparr>"

text \<open>\<open>metav1.GetControllerOf\<close> finds the only owner when it is a controller.\<close>

definition finds_controller :: "'w kenv \<Rightarrow> bool" where
  "finds_controller E \<longleftrightarrow> (\<forall>m r. om_OwnerReferences m = [r] \<and> or_Controller r = Some True \<longrightarrow> ke_GetControllerOf E m = Some r)"

lemma created_pod_observed:
  fixes C :: "'st ClusterController" and s :: "('w, 'st) cstate"
  assumes pod: "right_pod E k rt i sp ctl pod" and E: "finds_controller E"
    and free: "ke_PodGroupLabel E \<notin> {ClusterTypeLabel, ReplicaTypeLabel}"
    and k: "s_ClusterType (kc_Spec k) = ct" "ct \<noteq> []" "rt \<noteq> []" "GetSchemaReconciler C ct \<noteq> None"
    and S: "thread_safe_store (cc_store C)" and ok: "exps_ok (cc_store C) (exps s ct)"
  shows "wp (OnDependentCreateFunc E C (KPod (event_meta k pod) kind)) (\<lambda>r t. r \<and> kcl t = kcl s \<and> trace t = trace s \<and>
     expectation_changed (cc_store C) ct (GenExpectationPodsKey (kc_Namespace k @ ''/'' @ kc_Name k) rt) (- 1) 0 s t) s"
proof -
  let ?m = "event_meta k pod"
  have lab: "map_of (om_Labels (pod_Meta pod)) l = Some v" if "(l, v) \<in> set (finding_labels k rt i ctl)" "l \<noteq> ke_PodGroupLabel E" for l v
    using pod that by (auto simp: right_pod_def list_all_iff)
  have "(ClusterTypeLabel, ct) \<in> set (finding_labels k rt i ctl)" "(ReplicaTypeLabel, ToLower rt) \<in> set (finding_labels k rt i ctl)"
    using k(1) by (simp_all add: finding_labels_def)
  then have labels: "label ?m ClusterTypeLabel = ct" "label ?m ReplicaTypeLabel = ToLower rt"
    using lab free by (auto simp: label_def event_meta_def)
  have owner: "ke_GetControllerOf E ?m = Some (GenOwnerReference E (kc_Meta k))"
    using pod E by (auto simp: finds_controller_def right_pod_def event_meta_def GenOwnerReference_def)
  have rt: "ToLower rt \<noteq> []" using k(3) by (simp add: ToLower_def)
  obtain sr where reg: "GetSchemaReconciler C ct = Some sr" using k(4) by auto
  have name: "or_Name (GenOwnerReference E (kc_Meta k)) = kc_Name k" "om_Namespace ?m = kc_Namespace k"
    by (simp_all add: GenOwnerReference_def event_meta_def)
  from wp_expect_observed [OF S ok, of sr "GenExpectationPodsKey (kc_Namespace k @ ''/'' @ kc_Name k) rt"] show ?thesis
    using k(2) rt
    by (simp add: OnDependentCreateFunc_def if_registered_def Let_def labels reg onDependentCreateFunc_def on_dependent_def owner name
        expect_def sr_call_def wp wp_return_fun)
qed



section \<open>What is not reconciled\<close>

text \<open>C18: what \<open>Reconcile\<close> refuses. A cluster that is not found is no error and nothing happens. A cluster that fails the general validation, or that
  of its schema, is answered with its validation error after one warning event, and nothing else happens. A valid
  cluster of a type no schema is registered for makes the operator panic. A valid cluster that is being deleted is left alone: no
  call, no event, no error.\<close>

theorem Reconcile_refuses:
  fixes C :: "'st ClusterController" and s :: "('w, 'st) cstate"
  assumes get: "cl_Get (ke_clusters E) ns nm (world s) = (r, w)"
  shows "case r of
      Inl err \<Rightarrow> Reconcile E C ns nm s = Ret (if IsNotFound err then None else Some err) (s\<lparr>world := w\<rparr>)
    | Inr k \<Rightarrow>
        (case ValidateV1alphaCluster (ke_NameIsDNS1035Label E) (ke_IsDNS1035Label E) k of
           Some err \<Rightarrow> \<exists>msg. Reconcile E C ns nm s = Ret (Some err) (s\<lparr>world := w, kcl := k, trace := trace s @
              [EventCall EventTypeWarning (NewReason KubeClusterKind ClusterFailedValidationReason) msg]\<rparr>)
         | None \<Rightarrow> (case GetSchemaReconciler C (s_ClusterType (kc_Spec k)) of
             None \<Rightarrow> panics (Reconcile E C ns nm s)
           | Some sr \<Rightarrow> (case sr_ValidateV1KubeCluster sr k of
               Inl _ \<Rightarrow> panics (Reconcile E C ns nm s)
             | Inr (Some err) \<Rightarrow> \<exists>msg. Reconcile E C ns nm s = Ret (Some err) (s\<lparr>world := w, kcl := k, trace := trace s @
                 [EventCall EventTypeWarning (NewReason KubeClusterKind ClusterFailedValidationReason) msg]\<rparr>)
             | Inr None \<Rightarrow> thread_safe_store (cc_store C) \<and> exps_ok (cc_store C) (exps s (s_ClusterType (kc_Spec k))) \<and>
                 om_DeletionTimestamp (kc_Meta k) \<noteq> None \<longrightarrow>
                 (\<exists>w'. Reconcile E C ns nm s = Ret None (s\<lparr>world := w', kcl := k\<rparr>)))))"
proof (cases r)
  case (Inl err)
  with get show ?thesis by (auto simp: Reconcile_def go_run call_def IgnoreNotFound_def)
next
  case (Inr k)
  let ?ct = "s_ClusterType (kc_Spec k)" and ?s = "s\<lparr>world := w, kcl := k\<rparr>"
  have need: "\<exists>w'. needReconcile E C k (Some sr) ?s = Ret True (?s\<lparr>world := w'\<rparr>)"
    if "thread_safe_store (cc_store C)" "exps_ok (cc_store C) (exps s ?ct)" for sr
    using thread_safe_store.pre_satisfied_never [OF that]
    by (simp add: needReconcile_def Let_def go_run call_def sr_call_def with_exp_def ClusterSatisfiedExpectations_def split: prod.splits) blast
  have deleted: "\<exists>w'. Reconcile E C ns nm s = Ret None (s\<lparr>world := w', kcl := k\<rparr>)"
    if "ValidateV1alphaCluster (ke_NameIsDNS1035Label E) (ke_IsDNS1035Label E) k = None" "GetSchemaReconciler C ?ct = Some sr"
      "sr_ValidateV1KubeCluster sr k = Inr None" "thread_safe_store (cc_store C)" "exps_ok (cc_store C) (exps s ?ct)"
      "om_DeletionTimestamp (kc_Meta k) \<noteq> None" for sr
  proof -
    note d = that
    obtain w' where "needReconcile E C k (Some sr) ?s = Ret True (?s\<lparr>world := w'\<rparr>)" using need [OF d(4,5)] by blast
    with d Inr get have "Reconcile E C ns nm s = Ret None (s\<lparr>world := w', kcl := k\<rparr>)"
      by (auto simp: Reconcile_def go_run call_def sr_call_def Let_def)
    then show ?thesis ..
  qed
  show ?thesis
    using Inr get deleted
    by (auto simp: Reconcile_def go_run call_def sr_call_def Let_def validation_failed_def Event_def emit_def split: option.splits sum.splits)
qed

lemma Reconcile_refuses_witness:
  "panics (Reconcile sample_env sample_controller ''ns'' ''demo'' (sample_state (empty_world\<lparr>w_clusters := [sample_cluster ''torque'']\<rparr>)
     (sample_cluster ''torque'')))"
proof -
  let ?k = "sample_cluster ''torque''" and ?w = "empty_world\<lparr>w_clusters := [sample_cluster ''torque'']\<rparr>"
  have get: "cl_Get (ke_clusters sample_env) ''ns'' ''demo'' (world (sample_state ?w ?k)) = (Inr ?k, ?w)"
    by (simp add: sample_defs)
  have "ValidateV1alphaCluster (ke_NameIsDNS1035Label sample_env) (ke_IsDNS1035Label sample_env) ?k = None"
    "GetSchemaReconciler sample_controller (s_ClusterType (kc_Spec ?k)) = None" by code_simp+
  then show ?thesis using Reconcile_refuses [OF get, of sample_controller] by simp
qed

end
