(* ===== verification/Lifecycle.thy ===== *)
theory Lifecycle
  imports ReconcileCluster ServicePlan
begin

text \<open>
  What a reconciliation does over the life of a cluster: nothing is created for a finished or suspended
  cluster, the clean-up keeps to the clean policy, a cluster past its limits is marked failed, and with volcano no
  pod is created before its pod group is admitted.
\<close>

section \<open>Calls of the clean-up\<close>

fun is_cleanup :: "effect \<Rightarrow> bool" where
  "is_cleanup (DeletePodCall _ _ _) = True"
| "is_cleanup (DeleteServiceCall _ _ _) = True"
| "is_cleanup (DeleteConfigMapCall _ _ _) = True"
| "is_cleanup (DeletePodGroupCall _ _ _) = True"
| "is_cleanup (DeleteClusterCall _ _ _) = True"
| "is_cleanup (UpdateStatusCall _ _) = True"
| "is_cleanup (EventCall _ _ _) = True"
| "is_cleanup (MetricInc _) = True"
| "is_cleanup _ = False"

lemma emits_sr_call [emits_intros]: "(\<And>sr. emits P (f sr)) \<Longrightarrow> emits P (sr_call x f)"
  unfolding sr_call_def by (intro emits_rules)

lemma emits_AddAfter [emits_intros]: "emits P (AddAfter k d)"
  by (simp add: AddAfter_def)

lemma emits_ResetExpectations [emits_intros]: "emits P (ResetExpectations E S key ct r errs specs)"
proof (induction specs arbitrary: errs)
  case (Cons x specs)
  then show ?case
    by (cases x) (auto simp: Let_def intro!: emits_rules emits_intros)
qed simp

lemma emits_reads [emits_intros]:
  "emits P (GetPodsForCluster E k)" "emits P (GetServicesForCluster E k)"
  unfolding GetPodsForCluster_def GetServicesForCluster_def Let_def by (intro emits_rules emits_intros)+

lemma emits_DeletePodAndServices [emits_intros]: "emits is_cleanup (DeletePodAndServices E rp st pods)"
  unfolding DeletePodAndServices_def delete_pod_and_service_def Let_def
  by (intro emits_rules emits_intros) auto

lemma emits_DeleteCluster [emits_intros]: "emits is_cleanup (DeleteCluster E k)"
  unfolding DeleteCluster_def DeletedclustersCounterInc_def by (intro emits_rules emits_intros) auto

lemma emits_CleanupCluster [emits_intros]: "emits is_cleanup (CleanupCluster E rp st)"
  unfolding CleanupCluster_def Let_def by (intro emits_rules emits_intros) auto

lemma emits_terminate [emits_intros]: "emits is_cleanup (terminate_pod_group E C)"
  unfolding terminate_pod_group_def DeletePodGroup_def by (intro emits_rules emits_intros) auto

lemma emits_CleanUpResources [emits_intros]: "emits is_cleanup (CleanUpResources E C pods)"
  unfolding CleanUpResources_def Let_def by (intro emits_rules emits_intros) auto

lemma emits_modify_kcl [emits_intros]: "emits P (go_modify (\<lambda>s. s\<lparr>kcl := f s\<rparr>))"
  by (auto simp: keeps_def go_modify_def appends_def)

lemma emits_UpdateStatus [emits_intros]: "(\<And>k r. P (UpdateStatusCall k r)) \<Longrightarrow> emits P (UpdateClusterStatusInApiServer E)"
  unfolding UpdateClusterStatusInApiServer_def clear_generated_def by (intro emits_rules emits_intros) auto

lemma emits_suspend [emits_intros]: "emits is_cleanup (suspend_cluster E C pods)"
  unfolding suspend_cluster_def Let_def by (intro emits_rules emits_intros) auto

text \<open>C11: nothing is created for a cluster that is finished or suspended. Whatever the environment answers, and even when
  the run ends in a panic, all that \<open>ReconcileKubeCluster\<close> does to such a cluster is to delete pods, services, the
  config map, the pod group or the cluster itself, to update its status and to record events and metrics.\<close>

theorem inactive_creates_nothing:
  assumes "IsFinished (kc_Status (kcl s)) \<or> IsClusterSuspended (kc_RunPolicy (kcl s))"
  shows "\<exists>es. trace (final_state (ReconcileKubeCluster E C sr s)) = trace s @ es \<and> list_all is_cleanup es \<and>
     \<not> list_ex is_create es"
proof -
  let ?k = "kcl s"
  define m where "m = (case ke_KeyFunc E (kc_Meta ?k) of
       Inl err \<Rightarrow> go_return (Some err)
     | Inr clusterKey \<Rightarrow>
         go_seq (ResetExpectations E (cc_store C) clusterKey (s_ClusterType (kc_Spec ?k)) sr None (kc_Specs ?k)) (
         go_try_val (GetPodsForCluster E ?k) (\<lambda>pods.
         go_try_val (GetServicesForCluster E ?k) (\<lambda>services.
         if IsFinished (kc_Status ?k) then CleanUpResources E C pods
         else if IsClusterSuspended (kc_RunPolicy ?k) then suspend_cluster E C pods
         else reconcile_active E C sr clusterKey (kc_Status ?k) pods services))))"
  have "ReconcileKubeCluster E C sr s = m s"
    by (simp add: ReconcileKubeCluster_def get_cluster_def go_run m_def)
  moreover have "emits is_cleanup m"
    unfolding m_def using assms by (intro emits_rules emits_intros) auto
  ultimately obtain es where "trace (final_state (ReconcileKubeCluster E C sr s)) = trace s @ es" "list_all is_cleanup es"
    using emits_final [of is_cleanup m s] by auto
  moreover have "\<not> is_create e" if "is_cleanup e" for e using that by (cases e) auto
  ultimately show ?thesis by (auto simp: list_all_iff list_ex_iff)
qed

lemma inactive_creates_nothing_witness:
  "\<exists>es. trace (final_state (ReconcileKubeCluster sample_env sample_controller (Some PbsProSchema)
     (sample_state empty_world ((sample_cluster ''pbspro'')\<lparr>kc_Status := empty_status\<lparr>st_Conditions :=
        [\<lparr> cc_Type = ClusterFailed, cc_Status = ConditionTrue, cc_Reason = ''r'', cc_Message = ''m'',
           cc_LastUpdateTime = 0, cc_LastTransitionTime = 0 \<rparr>]\<rparr>\<rparr>)))) = es \<and> \<not> list_ex is_create es"
proof -
  let ?k = "(sample_cluster ''pbspro'')\<lparr>kc_Status := empty_status\<lparr>st_Conditions :=
        [\<lparr> cc_Type = ClusterFailed, cc_Status = ConditionTrue, cc_Reason = ''r'', cc_Message = ''m'',
           cc_LastUpdateTime = 0, cc_LastTransitionTime = 0 \<rparr>]\<rparr>\<rparr>"
  have "IsFinished (kc_Status (kcl (sample_state empty_world ?k)))" by code_simp
  from inactive_creates_nothing [OF disjI1 [OF this], of sample_env sample_controller "Some PbsProSchema"] show ?thesis
    by (simp add: sample_state_def)
qed

section \<open>The clean policy\<close>

text \<open>An object is gone when the server does not have it or is deleting it.\<close>

definition gone :: "('w, 'o) client \<Rightarrow> ('o \<Rightarrow> ObjectMeta) \<Rightarrow> string \<Rightarrow> string \<Rightarrow> 'w \<Rightarrow> bool" where
  "gone c meta ns nm w \<longleftrightarrow> (case fst (cl_Get c ns nm w) of Inl err \<Rightarrow> IsNotFound err | Inr x \<Rightarrow> om_DeletionTimestamp (meta x) \<noteq> None)"

text \<open>Deletions stick: a deletion that succeeds leaves the object gone, and an object that is gone stays so while pods and
  services are read and deleted.\<close>

definition deletes_stick :: "'w kenv \<Rightarrow> bool" where
  "deletes_stick E \<longleftrightarrow> (\<forall>ns nm w.
     (fst (cl_Delete (ke_pods E) ns nm w) = None \<longrightarrow> gone (ke_pods E) pod_Meta ns nm (snd (cl_Delete (ke_pods E) ns nm w))) \<and>
     (fst (cl_Delete (ke_services E) ns nm w) = None \<longrightarrow> gone (ke_services E) svc_Meta ns nm (snd (cl_Delete (ke_services E) ns nm w)))) \<and>
   (\<forall>ns nm w ns' nm'. \<forall>w' \<in> {snd (cl_Get (ke_pods E) ns' nm' w), snd (cl_Delete (ke_pods E) ns' nm' w),
        snd (cl_Get (ke_services E) ns' nm' w), snd (cl_Delete (ke_services E) ns' nm' w)}.
     (gone (ke_pods E) pod_Meta ns nm w \<longrightarrow> gone (ke_pods E) pod_Meta ns nm w') \<and>
     (gone (ke_services E) svc_Meta ns nm w \<longrightarrow> gone (ke_services E) svc_Meta ns nm w'))"

abbreviation pod_gone :: "'w kenv \<Rightarrow> Pod \<Rightarrow> 'w \<Rightarrow> bool" where
  "pod_gone E p w \<equiv> gone (ke_pods E) pod_Meta (om_Namespace (pod_Meta p)) (om_Name (pod_Meta p)) w"

abbreviation service_gone :: "'w kenv \<Rightarrow> Pod \<Rightarrow> 'w \<Rightarrow> bool" where
  "service_gone E p w \<equiv> gone (ke_services E) svc_Meta (om_Namespace (pod_Meta p)) (om_Name (pod_Meta p)) w"

text \<open>The pods the clean-up deletes.\<close>

definition doomed :: "RunPolicy \<Rightarrow> ClusterStatus \<Rightarrow> Pod list \<Rightarrow> Pod list" where
  "doomed rp st pods =
     (if \<not> IsFinished st then pods
      else if rp_CleanKubeNodePolicy rp = Some CleanKubeNodePolicyNone then []
      else if rp_CleanKubeNodePolicy rp = Some CleanKubeNodePolicyRunning
      then filter (\<lambda>p. pst_Phase (pod_Status p) = PodRunning \<or> pst_Phase (pod_Status p) = PodPending) pods
      else pods)"

definition deletes_for :: "Pod list \<Rightarrow> effect \<Rightarrow> bool" where
  "deletes_for pods e \<longleftrightarrow> is_note e \<or> (\<exists>p \<in> set pods. \<exists>r.
     e = DeletePodCall (om_Namespace (pod_Meta p)) (om_Name (pod_Meta p)) r \<or>
     e = DeleteServiceCall (om_Namespace (pod_Meta p)) (om_Name (pod_Meta p)) r)"

text \<open>What is gone stays gone; and a step of the clean-up, which only deletes for the given pods.\<close>

definition stays_gone :: "'w kenv \<Rightarrow> 'w \<Rightarrow> 'w \<Rightarrow> bool" where
  "stays_gone E w w' \<longleftrightarrow> (\<forall>p. (pod_gone E p w \<longrightarrow> pod_gone E p w') \<and> (service_gone E p w \<longrightarrow> service_gone E p w'))"

definition cleans :: "'w kenv \<Rightarrow> Pod list \<Rightarrow> ('w, 'st) cstate \<Rightarrow> ('w, 'st) cstate \<Rightarrow> bool" where
  "cleans E pods s t \<longleftrightarrow> appends trace (deletes_for pods) s t \<and> kcl t = kcl s \<and> exps t = exps s \<and> stays_gone E (world s) (world t)"

lemma stays_gone_trans: "stays_gone E u v \<Longrightarrow> stays_gone E v w \<Longrightarrow> stays_gone E u w"
  by (simp add: stays_gone_def)

lemma cleans_refl: "cleans E ps s s"
  by (simp add: cleans_def appends.refl stays_gone_def)

lemma cleans_trans: "cleans E ps s t \<Longrightarrow> cleans E ps t u \<Longrightarrow> cleans E ps s u"
  unfolding cleans_def using appends.trans stays_gone_trans by fastforce

lemma stick_steps:
  assumes "deletes_stick E"
  shows "stays_gone E w (snd (cl_Get (ke_pods E) ns nm w))" "stays_gone E w (snd (cl_Delete (ke_pods E) ns nm w))"
    "stays_gone E w (snd (cl_Get (ke_services E) ns nm w))" "stays_gone E w (snd (cl_Delete (ke_services E) ns nm w))"
  using assms unfolding deletes_stick_def stays_gone_def by blast+

lemma cleans_step:
  assumes "stays_gone E (world s) w" "list_all (deletes_for pods) es"
  shows "cleans E pods s (s\<lparr>world := w, trace := trace s @ es\<rparr>)"
  using assms by (auto simp: cleans_def appends_def)

lemma DeletePod_cleans:
  assumes E: "deletes_stick E" and p: "p \<in> set pods"
  shows "wp (DeletePod E (om_Namespace (pod_Meta p)) (om_Name (pod_Meta p)))
     (\<lambda>r t. cleans E pods s t \<and> (r = None \<longrightarrow> pod_gone E p (world t))) s"
proof -
  let ?ns = "om_Namespace (pod_Meta p)" and ?nm = "om_Name (pod_Meta p)"
  obtain r w1 where get: "cl_Get (ke_pods E) ?ns ?nm (world s) = (r, w1)" by fastforce
  obtain d w2 where del: "cl_Delete (ke_pods E) ?ns ?nm w1 = (d, w2)" by fastforce
  have w1: "stays_gone E (world s) w1" using stick_steps(1) [OF E, of "world s" ?ns ?nm] get by simp
  have w2: "stays_gone E (world s) w2"
    using stays_gone_trans [OF w1] stick_steps(2) [OF E, of w1 ?ns ?nm] del by simp
  have d: "d = None \<Longrightarrow> pod_gone E p w2" using E del unfolding deletes_stick_def by (metis fst_conv snd_conv)
  have g: "(case r of Inl e \<Rightarrow> IsNotFound e | Inr x \<Rightarrow> om_DeletionTimestamp (pod_Meta x) \<noteq> None) \<Longrightarrow> pod_gone E p w1"
    using w1 get unfolding stays_gone_def by (simp add: gone_def)
  have n: "deletes_for pods (EventCall a b c)" "deletes_for pods (DeletePodCall ?ns ?nm x)" for a b c x
    using p by (auto simp: deletes_for_def)
  show ?thesis
    using w1 w2 d g n p cleans_step [OF w1, of pods "[]"] by (auto simp: DeletePod_def wp get del split: sum.splits option.splits intro!: cleans_step)
qed

lemma DeleteService_cleans:
  assumes E: "deletes_stick E" and p: "p \<in> set pods"
  shows "wp (DeleteService E (om_Namespace (pod_Meta p)) (om_Name (pod_Meta p)))
     (\<lambda>r t. cleans E pods s t \<and> (r = None \<longrightarrow> service_gone E p (world t))) s"
proof -
  let ?ns = "om_Namespace (pod_Meta p)" and ?nm = "om_Name (pod_Meta p)"
  obtain r w1 where get: "cl_Get (ke_services E) ?ns ?nm (world s) = (r, w1)" by fastforce
  obtain d w2 where del: "cl_Delete (ke_services E) ?ns ?nm w1 = (d, w2)" by fastforce
  have w1: "stays_gone E (world s) w1" using stick_steps(3) [OF E, of "world s" ?ns ?nm] get by simp
  have w2: "stays_gone E (world s) w2"
    using stays_gone_trans [OF w1] stick_steps(4) [OF E, of w1 ?ns ?nm] del by simp
  have d: "d = None \<Longrightarrow> service_gone E p w2" using E del unfolding deletes_stick_def by (metis fst_conv snd_conv)
  have g: "(case r of Inl e \<Rightarrow> IsNotFound e | Inr x \<Rightarrow> om_DeletionTimestamp (svc_Meta x) \<noteq> None) \<Longrightarrow> service_gone E p w1"
    using w1 get unfolding stays_gone_def by (simp add: gone_def)
  have n: "deletes_for pods (EventCall a b c)" "deletes_for pods (DeleteServiceCall ?ns ?nm x)" for a b c x
    using p by (auto simp: deletes_for_def)
  show ?thesis
    using w1 w2 d g n p cleans_step [OF w1, of pods "[]"] by (auto simp: DeleteService_def wp get del split: sum.splits option.splits intro!: cleans_step)
qed

lemma delete_one_cleans:
  fixes s :: "('w, 'st) cstate"
  assumes E: "deletes_stick E" and p: "p \<in> set pods"
  shows "wp (go_try (DeletePod E (om_Namespace (pod_Meta p)) (om_Name (pod_Meta p)))
      (go_try (DeleteService E (om_Namespace (pod_Meta p)) (om_Name (pod_Meta p)))
        (DeletePod E (om_Namespace (pod_Meta p)) (om_Name (pod_Meta p)))))
     (\<lambda>r t. cleans E pods s t \<and> (r = None \<longrightarrow> pod_gone E p (world t) \<and> service_gone E p (world t))) s"
proof -
  let ?dp = "DeletePod E (om_Namespace (pod_Meta p)) (om_Name (pod_Meta p))"
    and ?ds = "DeleteService E (om_Namespace (pod_Meta p)) (om_Name (pod_Meta p))"
  let ?Q = "\<lambda>r t. cleans E pods s t \<and> (r = None \<longrightarrow> pod_gone E p (world t) \<and> service_gone E p (world t))"
  have last: "wp ?dp ?Q u" if "cleans E pods s u" "service_gone E p (world u)" for u :: "('w, 'st) cstate"
    by (rule wp_mono [OF DeletePod_cleans [OF E p]])
      (use that cleans_trans [OF that(1)] in \<open>auto simp: cleans_def stays_gone_def\<close>)
  have middle: "wp (go_try ?ds ?dp) ?Q u" if "cleans E pods s u" for u :: "('w, 'st) cstate"
    unfolding wp_try by (rule wp_mono [OF DeleteService_cleans [OF E p]])
      (auto split: option.splits intro: last cleans_trans [OF that])
  show ?thesis
    unfolding wp_try [of ?dp] by (rule wp_mono [OF DeletePod_cleans [OF E p]]) (auto split: option.splits intro: middle)
qed

lemma doomed_iff:
  assumes "IsFinished st \<longrightarrow> rp_CleanKubeNodePolicy rp \<noteq> None" "rp_CleanKubeNodePolicy rp \<noteq> Some CleanKubeNodePolicyNone \<or> \<not> IsFinished st"
    "p \<in> set pods"
  shows "spares rp st p = Inr (p \<notin> set (doomed rp st pods))"
  using assms by (auto simp: spares_def doomed_def)

text \<open>C6: the clean-up keeps to the clean policy and gets it done. With the policy set (defaulting sets it), deleting the pods and
  services of a cluster does not panic. Whatever happens, the only calls delete the pods the policy dooms and the services of the same
  name: all pods of a cluster that is not finished; of a finished one none under \<open>None\<close>, the running and pending ones under
  \<open>Running\<close>, all under \<open>All\<close>. When it returns no error (deletions sticking at the server), each of these pods and its service is
  gone. The cluster object and the expectations are untouched.\<close>

theorem DeletePodAndServices_correct:
  fixes s :: "('w, 'st) cstate"
  assumes E: "deletes_stick E" and policy: "IsFinished st \<longrightarrow> rp_CleanKubeNodePolicy rp \<noteq> None"
  shows "wp (DeletePodAndServices E rp st pods) (\<lambda>r t.
     (\<exists>es. trace t = trace s @ es \<and> list_all (deletes_for (doomed rp st pods)) es) \<and> kcl t = kcl s \<and> exps t = exps s \<and>
     (r = None \<longrightarrow> (\<forall>p \<in> set (doomed rp st pods). pod_gone E p (world t) \<and> service_gone E p (world t)))) s"
proof (cases "pods = [] \<or> IsFinished st \<and> rp_CleanKubeNodePolicy rp = Some CleanKubeNodePolicyNone")
  case True
  then have "doomed rp st pods = []" by (auto simp: doomed_def)
  with True policy show ?thesis by (auto simp: DeletePodAndServices_def wp split: option.splits)
next
  case False
  let ?D = "doomed rp st pods"
  let ?G = "\<lambda>xs t. cleans E ?D s t \<and> (\<forall>p \<in> set ?D - set xs. pod_gone E p (world t) \<and> service_gone E p (world t)) \<and> set xs \<subseteq> set pods"
  have one: "wp (delete_pod_and_service E rp st p) (\<lambda>r u. cleans E ?D s u \<and> (r = None \<longrightarrow> ?G ps u)) t"
    if t: "?G (p # ps) t" for p ps and t :: "('w, 'st) cstate"
  proof (cases "p \<in> set ?D")
    case p: True
    have "spares rp st p = Inr False" using doomed_iff [OF policy, where pods = pods] False t p by auto
    then show ?thesis
      by (simp only: delete_pod_and_service_def Let_def wp_bind wp_lift sum.case if_False)
        (rule wp_mono [OF delete_one_cleans [OF E p]],
          use t cleans_trans [of E ?D s t] in \<open>auto simp: cleans_def stays_gone_def\<close>)
  next
    case p: False
    then have "spares rp st p = Inr True" using doomed_iff [OF policy, where pods = pods] False t by auto
    with t p show ?thesis by (auto simp: delete_pod_and_service_def wp Let_def)
  qed
  have "wp (go_forE (delete_pod_and_service E rp st) pods) (\<lambda>r u. cleans E ?D s u \<and> (r = None \<longrightarrow> ?G [] u)) s"
  proof (rule wp_forE [where I = ?G])
    show "?G pods s" by (auto simp: cleans_refl doomed_def split: if_splits)
    fix p ps and t :: "('w, 'st) cstate"
    assume "?G (p # ps) t"
    from one [OF this] show "wp (delete_pod_and_service E rp st p)
        (\<lambda>r u. case r of None \<Rightarrow> ?G ps u | Some e \<Rightarrow> cleans E ?D s u \<and> (Some e = None \<longrightarrow> ?G [] u)) t"
      by (rule wp_mono) (simp split: option.splits)
  qed simp
  then show ?thesis
    using False policy
    by (auto simp: DeletePodAndServices_def wp split: option.splits elim!: wp_mono simp: cleans_def appends_def)
qed

lemma find_filter: "(\<And>x. P x \<Longrightarrow> Q x) \<Longrightarrow> List.find P (filter Q xs) = List.find P xs"
  by (induction xs) auto

lemma mem_gone:
  assumes "\<And>f w. items (upd f w) = f (items w)"
    and c: "c = mem_client items upd meta sns"
  shows "fst (cl_Delete c ns nm w) = None \<Longrightarrow> gone c meta ns nm (snd (cl_Delete c ns nm w))"
    "gone c meta ns nm w \<Longrightarrow> gone c meta ns nm (snd (cl_Delete c ns' nm' w))"
    "snd (cl_Get c ns nm w) = w"
proof -
  have other: "List.find (\<lambda>y. key_is ns nm (meta y)) (filter (\<lambda>y. \<not> key_is ns' nm' (meta y)) xs) =
     (if ns = ns' \<and> nm = nm' then None else List.find (\<lambda>y. key_is ns nm (meta y)) xs)" for xs
    by (auto simp: key_is_def find_None_iff intro!: find_filter)
  have same: "List.find (\<lambda>y. key_is ns nm (meta y)) (filter (\<lambda>y. \<not> key_is ns nm (meta y)) xs) = None" for xs
    by (auto simp: find_None_iff)
  show "fst (cl_Delete c ns nm w) = None \<Longrightarrow> gone c meta ns nm (snd (cl_Delete c ns nm w))"
    by (auto simp: c gone_def mem_client_def IsNotFound_def assms(1) same split: if_splits)
  show "gone c meta ns nm w \<Longrightarrow> gone c meta ns nm (snd (cl_Delete c ns' nm' w))"
    by (auto simp: c gone_def mem_client_def IsNotFound_def assms(1) other split: if_splits)
  show "snd (cl_Get c ns nm w) = w" by (simp add: c mem_client_def)
qed

lemma sample_deletes_stick: "deletes_stick sample_env"
proof -
  have frame: "w_pods (snd (cl_Delete (ke_services sample_env) ns nm w)) = w_pods w" "w_services (snd (cl_Delete (ke_pods sample_env) ns nm w)) = w_services w" for ns nm w
    by (simp_all add: sample_env_def mem_client_def)
  have look: "w_pods w = w_pods w' \<Longrightarrow> gone (ke_pods sample_env) pod_Meta ns nm w = gone (ke_pods sample_env) pod_Meta ns nm w'"
     "w_services w = w_services w' \<Longrightarrow> gone (ke_services sample_env) svc_Meta ns nm w = gone (ke_services sample_env) svc_Meta ns nm w'" for ns nm w w'
    by (simp_all add: sample_env_def mem_client_def gone_def)
  have p: "ke_pods sample_env = mem_client w_pods w_pods_update pod_Meta (\<lambda>ns p. p\<lparr>pod_Meta := with_ns ns (pod_Meta p)\<rparr>)"
    and s: "ke_services sample_env = mem_client w_services w_services_update svc_Meta (\<lambda>ns p. p\<lparr>svc_Meta := with_ns ns (svc_Meta p)\<rparr>)"
    by (simp_all add: sample_env_def)
  note mp = mem_gone [OF _ p, simplified] and ms = mem_gone [OF _ s, simplified]
  show ?thesis
    unfolding deletes_stick_def
  proof (intro conjI allI ballI)
    fix ns nm ns' nm' w w'
    assume w': "w' \<in> {snd (cl_Get (ke_pods sample_env) ns' nm' w), snd (cl_Delete (ke_pods sample_env) ns' nm' w),
      snd (cl_Get (ke_services sample_env) ns' nm' w), snd (cl_Delete (ke_services sample_env) ns' nm' w)}"
    then consider "w' = w" | "w' = snd (cl_Delete (ke_pods sample_env) ns' nm' w)" | "w' = snd (cl_Delete (ke_services sample_env) ns' nm' w)"
      using mp(3) ms(3) by fastforce
    then show "gone (ke_pods sample_env) pod_Meta ns nm w \<longrightarrow> gone (ke_pods sample_env) pod_Meta ns nm w'"
      "gone (ke_services sample_env) svc_Meta ns nm w \<longrightarrow> gone (ke_services sample_env) svc_Meta ns nm w'"
      using mp(2) look(1) [OF frame(1)] ms(2) look(2) [OF frame(2)] by (cases, simp_all)+
  qed (use mp(1) ms(1) in blast)+
qed

lemma DeletePodAndServices_correct_witness:
  "wp (DeletePodAndServices sample_env empty_run_policy empty_status [sample_pod ''p'' ''worker'' ''0'' PodRunning])
     (\<lambda>r t. r = None \<longrightarrow> pod_gone sample_env (sample_pod ''p'' ''worker'' ''0'' PodRunning) (world t))
     (sample_state (empty_world\<lparr>w_pods := [sample_pod ''p'' ''worker'' ''0'' PodRunning]\<rparr>) (sample_cluster ''slurm''))"
proof -
  have "\<not> IsFinished empty_status" by code_simp
  then show ?thesis
    by (intro wp_mono [OF DeletePodAndServices_correct [OF sample_deletes_stick]]) (auto simp: doomed_def)
qed

section \<open>Limits\<close>

lemma wp_total: "total m \<Longrightarrow> keeps R m \<Longrightarrow> wp m (\<lambda>_ t. R s t) s"
  using total_keeps [of m R s] by (auto simp: wp_def)

lemma total_lift: "\<exists>a. r = Inr a \<Longrightarrow> total (go_lift r)"
  by (auto simp: total_def go_lift_def go_run)

lemma total_DeletePodAndServices:
  "\<not> IsFinished st \<or> rp_CleanKubeNodePolicy rp \<noteq> None \<Longrightarrow> total (DeletePodAndServices E rp st pods)"
  unfolding DeletePodAndServices_def delete_pod_and_service_def Let_def
  by (intro total_rules total_intros total_lift) (auto simp: spares_def)

lemma total_CleanupCluster: "total (CleanupCluster E rp st)"
  unfolding CleanupCluster_def DeleteCluster_def DeletedclustersCounterInc_def AddAfter_def Let_def
  by (intro total_rules total_intros)

lemma total_terminate: "gang_ok C \<Longrightarrow> total (terminate_pod_group E C)"
  unfolding terminate_pod_group_def DeletePodGroup_def
  by (intro total_rules total_intros) (auto simp: gang_ok_def)

lemma total_UpdateStatus: "total (UpdateClusterStatusInApiServer E)"
  unfolding UpdateClusterStatusInApiServer_def clear_generated_def by (intro total_rules total_intros)

lemma total_RecordAbnormalPods:
  "(\<And>cs. ke_sortConditions E cs = [] \<longleftrightarrow> cs = []) \<Longrightarrow> total (RecordAbnormalPods E pods)"
  unfolding RecordAbnormalPods_def RecordAbnormalPod_def recordContainerStatus_def Let_def
  by (intro total_rules total_intros) (auto intro!: total_rules total_intros split: list.splits)

text \<open>The status update, whatever the answer of the server, sends the conditions of the cluster.\<close>

lemma UpdateStatus_sends:
  "wp (UpdateClusterStatusInApiServer E) (\<lambda>r t. \<exists>k. trace t = trace s @ [UpdateStatusCall k r] \<and>
     st_Conditions (kc_Status k) = st_Conditions (kc_Status (kcl s))) s"
  by (auto simp: UpdateClusterStatusInApiServer_def clear_generated_def wp split: prod.splits sum.splits)

definition fails_in :: "effect list \<Rightarrow> gerr option \<Rightarrow> bool" where
  "fails_in es r \<longleftrightarrow> list_all is_cleanup es \<and>
     (r = None \<longrightarrow> (\<exists>k. es \<noteq> [] \<and> last es = UpdateStatusCall k None \<and> IsFailed (kc_Status k)))"

lemma fail_cluster_fails:
  fixes s :: "('w, 'st) cstate"
  assumes "rp_CleanKubeNodePolicy (kc_RunPolicy (kcl s)) \<noteq> None" "gang_ok C"
  shows "wp (fail_cluster E C pods msg) (\<lambda>r t. \<exists>es. trace t = trace s @ es \<and> fails_in es r) s"
proof -
  let ?Q = "\<lambda>r t. \<exists>es. trace t = trace s @ es \<and> fails_in es r"
  let ?reason = "NewReason KubeClusterKind ClusterFailedReason"
  have mark: "wp (go_seq (Event EventTypeNormal ?reason msg) (go_seq (set_condition E ClusterFailed ConditionTrue ?reason msg)
      (UpdateClusterStatusInApiServer E))) ?Q t" if t: "appends trace is_cleanup s t" for t :: "('w, 'st) cstate"
    using t IsFailed_UpdateClusterConditions
    by (auto simp: wp set_condition_def split: prod.splits intro!: wp_mono [OF UpdateStatus_sends])
      (auto simp: appends_def fails_in_def IsFailed_def isStatusConditionTrue_def)
  have step: "wp (go_try m n) ?Q t" if "total m" "emits is_cleanup m" "appends trace is_cleanup s t"
      "\<And>u. appends trace is_cleanup s u \<Longrightarrow> wp n ?Q u" for m n and t :: "('w, 'st) cstate"
    unfolding wp_try
    by (rule wp_mono [OF wp_total [OF that(1,2)]])
      (use that(4) appends.trans [OF that(3)] in \<open>auto simp: appends_def fails_in_def split: option.splits\<close>)
  show ?thesis
    unfolding fail_cluster_def wp_bind wp_get_cluster Let_def
    by (intro step mark total_DeletePodAndServices total_CleanupCluster total_terminate emits_intros appends.refl disjI2 assms)
qed

text \<open>When a cluster is over a limit: the restart counts of its pods reach the back-off limit, a new failure exceeds it,
  or the cluster, not suspended before, is past its deadline at whatever time the clock gives.\<close>

definition over_limit :: "'w kenv \<Rightarrow> KubeCluster \<Rightarrow> string \<Rightarrow> Pod list \<Rightarrow> int32 \<Rightarrow> bool" where
  "over_limit E k key pods n \<longleftrightarrow> (\<exists>past. PastBackoffLimit E (kc_RunPolicy k) (kc_Specs k) pods = Inr past \<and>
     (past \<or> exceedsBackoffLimit k key pods n \<or>
      \<not> IsSuspended (kc_Status k) \<and> rp_ActiveDeadlineSeconds (kc_RunPolicy k) \<noteq> None \<and> st_StartTime (kc_Status k) \<noteq> None \<and>
        (\<forall>w. PastActiveDeadline (fst (ke_Now E w)) (kc_RunPolicy k) (kc_Status k))))"

lemma resume_effect:
  "wp (resume_cluster E) (\<lambda>_ t. same_object (kcl s) (kcl t) \<and> st_ReplicaStatuses (kc_Status (kcl t)) = st_ReplicaStatuses (kc_Status (kcl s)) \<and>
     (\<not> IsSuspended (kc_Status (kcl s)) \<longrightarrow> kcl t = kcl s) \<and> appends trace is_cleanup s t) s"
  by (auto simp: resume_cluster_def Let_def wp set_condition_def same_object_def appends.refl appends_def split: prod.splits)

lemma over_limit_message:
  assumes "over_limit E k key pods n" "same_object k (kcl s)" "st_ReplicaStatuses (kc_Status (kcl s)) = st_ReplicaStatuses (kc_Status k)"
    "\<not> IsSuspended (kc_Status k) \<longrightarrow> kcl s = k"
  shows "wp (failure_message E key pods n) (\<lambda>m t. m \<noteq> None \<and> kcl t = kcl s \<and> trace t = trace s) s"
proof -
  from assms(1) obtain past where past: "PastBackoffLimit E (kc_RunPolicy k) (kc_Specs k) pods = Inr past"
    and cases: "past \<or> exceedsBackoffLimit k key pods n \<or> \<not> IsSuspended (kc_Status k) \<and>
      rp_ActiveDeadlineSeconds (kc_RunPolicy k) \<noteq> None \<and> st_StartTime (kc_Status k) \<noteq> None \<and>
      (\<forall>w. PastActiveDeadline (fst (ke_Now E w)) (kc_RunPolicy k) (kc_Status k))" by (auto simp: over_limit_def)
  have k: "kc_RunPolicy (kcl s) = kc_RunPolicy k" "kc_Specs (kcl s) = kc_Specs k" "kc_Name (kcl s) = kc_Name k"
    using assms(2) by (simp_all add: same_object_def)
  have ex: "exceedsBackoffLimit (kcl s) key pods n = exceedsBackoffLimit k key pods n"
    by (simp only: exceedsBackoffLimit_def k assms(3))
  show ?thesis
  proof (cases "past \<or> exceedsBackoffLimit k key pods n")
    case True
    then show ?thesis by (auto simp: failure_message_def wp k past ex)
  next
    case False
    with cases assms(4) have "kcl s = k" "rp_ActiveDeadlineSeconds (kc_RunPolicy k) \<noteq> None" "st_StartTime (kc_Status k) \<noteq> None"
      "\<And>w. PastActiveDeadline (fst (ke_Now E w)) (kc_RunPolicy k) (kc_Status k)" by auto
    with False show ?thesis
      by (auto simp: failure_message_def wp past past_deadline_def split: prod.splits) (metis fst_conv)
  qed
qed

text \<open>C5: a cluster over its limits fails. When its back-off limit is reached, exceeded by a new failure, or its deadline is past,
  the reconciliation of an active cluster creates nothing: it only cleans up. If it returns no error, its last call
  was a successful update of the status in which the cluster is \<open>Failed\<close>. (Assumed: defaulting set the clean policy, the replica counts are there, the
  gang scheduler was set up, and sorting conditions loses none.)\<close>

theorem over_limit_fails:
  fixes s :: "('w, 'st) cstate"
  assumes "over_limit E (kcl s) key pods n" "GetTotalReplicas (kc_Specs (kcl s)) = Inr n"
    and "rp_CleanKubeNodePolicy (kc_RunPolicy (kcl s)) \<noteq> None" "gang_ok C"
    and "\<And>cs. ke_sortConditions E cs = [] \<longleftrightarrow> cs = []"
  shows "wp (reconcile_active E C sr key oldStatus pods services) (\<lambda>r t. \<exists>es. trace t = trace s @ es \<and>
     list_all is_cleanup es \<and> (r = None \<longrightarrow> (\<exists>k. es \<noteq> [] \<and> last es = UpdateStatusCall k None \<and> IsFailed (kc_Status k)))) s"
  (is "wp _ ?Q s")
proof -
  let ?rest = "go_bind get_cluster (\<lambda>kcluster. go_bind (go_lift (GetTotalReplicas (kc_Specs kcluster))) (\<lambda>totalReplicas.
     go_bind (failure_message E key pods totalReplicas) (\<lambda>failure. case failure of
       Some failureMessage \<Rightarrow> fail_cluster E C pods failureMessage
     | None \<Rightarrow> go_bind (if EnableGangScheduling C then sync_gang E C totalReplicas else go_return True) (\<lambda>syncReplicas.
         if syncReplicas then sync_replicas E C sr oldStatus pods services else delay_replicas E))))"
  have rest: "wp ?rest ?Q t" if t: "same_object (kcl s) (kcl t)" "st_ReplicaStatuses (kc_Status (kcl t)) = st_ReplicaStatuses (kc_Status (kcl s))"
     "\<not> IsSuspended (kc_Status (kcl s)) \<longrightarrow> kcl t = kcl s" "appends trace is_cleanup s t" for t :: "('w, 'st) cstate"
  proof -
    have total: "GetTotalReplicas (kc_Specs (kcl t)) = Inr n" and pol: "rp_CleanKubeNodePolicy (kc_RunPolicy (kcl t)) \<noteq> None"
      using assms(2,3) t(1) by (simp_all add: same_object_def)
    have fail: "wp (fail_cluster E C pods m) ?Q u" if u: "kcl u = kcl t" "trace u = trace t" for m and u :: "('w, 'st) cstate"
      by (rule wp_mono [OF fail_cluster_fails [OF _ assms(4)]])
        (use pol t(4) u in \<open>auto simp: appends_def fails_in_def\<close>)
    show ?thesis
      unfolding wp_bind wp_get_cluster wp_lift total sum.case
      by (rule wp_mono [OF over_limit_message [OF assms(1) t(1-3)]]) (use fail in \<open>auto split: option.splits\<close>)
  qed
  have recorded: "wp (go_seq (RecordAbnormalPods E (FilterActivePods pods)) ?rest) ?Q t" if t: "same_object (kcl s) (kcl t)"
     "st_ReplicaStatuses (kc_Status (kcl t)) = st_ReplicaStatuses (kc_Status (kcl s))"
     "\<not> IsSuspended (kc_Status (kcl s)) \<longrightarrow> kcl t = kcl s" "appends trace is_cleanup s t" for t :: "('w, 'st) cstate"
    unfolding wp_seq
  proof (rule wp_mono [OF wp_conj [OF wp_total [OF total_RecordAbnormalPods [OF assms(5)] emits_RecordAbnormalPods [of is_cleanup]]
          wp_total [OF total_RecordAbnormalPods [OF assms(5)] RecordAbnormalPods_frames(1)]]])
    fix u :: "('w, 'st) cstate"
    assume "appends trace is_cleanup t u \<and> unchanged kcl t u"
    then show "wp ?rest ?Q u" using t appends.trans [OF t(4)] by (intro rest) (auto simp: unchanged_def)
  qed simp
  show ?thesis
    unfolding reconcile_active_def wp_seq [of "resume_cluster E"]
    by (rule wp_mono [OF resume_effect]) (use recorded in blast)
qed

lemma over_limit_fails_witness:
  "wp (reconcile_active sample_env sample_controller (Some PbsProSchema) ''ns/demo'' empty_status
        [(sample_pod ''p'' ''worker'' ''0'' PodRunning)\<lparr>pod_Status := empty_pod_status\<lparr>pst_Phase := PodRunning, pst_ContainerStatuses :=
           [\<lparr> cs_Name = ''c'', cs_Terminated = None, cs_Waiting = None, cs_RestartCount = 1 \<rparr>]\<rparr>\<rparr>] [])
     (\<lambda>r t. \<not> list_ex is_pod_create (trace t))
     (sample_state empty_world ((sample_cluster ''pbspro'')\<lparr>kc_Spec := (kc_Spec (sample_cluster ''pbspro''))\<lparr>s_RunPolicy :=
        empty_run_policy\<lparr>rp_CleanKubeNodePolicy := Some CleanKubeNodePolicyAll, rp_BackoffLimit := Some 0\<rparr>\<rparr>\<rparr>))"
  (is "wp (reconcile_active _ _ _ _ _ ?pods _) _ (sample_state _ ?k)")
proof -
  let ?s = "sample_state empty_world ?k"
  have "PastBackoffLimit sample_env (kc_RunPolicy ?k) (kc_Specs ?k) ?pods = Inr True" by code_simp
  then have "over_limit sample_env (kcl ?s) ''ns/demo'' ?pods 3" by (auto simp: over_limit_def sample_state_def)
  moreover have "GetTotalReplicas (kc_Specs (kcl ?s)) = Inr 3" "gang_ok sample_controller"
    "rp_CleanKubeNodePolicy (kc_RunPolicy (kcl ?s)) \<noteq> None" by code_simp+
  moreover have "ke_sortConditions sample_env cs = [] \<longleftrightarrow> cs = []" for cs by (simp add: sample_env_def) (metis length_0_conv length_sort)
  moreover have "\<not> is_pod_create e" if "is_cleanup e" for e using that by (cases e) auto
  ultimately show ?thesis
    by (intro wp_mono [OF over_limit_fails]) (auto simp: sample_state_def list_all_iff list_ex_iff)
qed

section \<open>Admission of the pod group\<close>

text \<open>A volcano pod group that is not admitted yet: its phase is empty or pending.\<close>

definition unadmitted :: "'w kenv \<Rightarrow> PodGroup \<Rightarrow> bool" where
  "unadmitted E g \<longleftrightarrow> (case g of VolcanoPodGroup m sp phase \<Rightarrow> phase = [] \<or> phase = ke_PodGroupPending E | _ \<Rightarrow> False)"

fun is_wait :: "effect \<Rightarrow> bool" where
  "is_wait (CreatePodGroupCall _ _ _) = True"
| "is_wait (UpdatePodGroupCall _ _ _) = True"
| "is_wait e = is_cleanup e"

lemma is_wait_cleanup: "is_cleanup e \<Longrightarrow> is_wait e"
  by (cases e) auto

lemma returns_SyncPodGroup:
  assumes volcano: "cc_PodGroupControl C = Some VolcanoControl"
    and unadmitted: "\<And>ns nm w g. fst (cl_Get (ke_volcano E) ns nm w) = Inr g \<Longrightarrow> unadmitted E g"
    and spec: "\<And>g g'. specFunc g = Inr g' \<Longrightarrow> unadmitted E g \<Longrightarrow> unadmitted E g'"
  shows "returns (\<lambda>(pg, err). \<forall>g. pg = Some g \<longrightarrow> unadmitted E g) (SyncPodGroup E C k specFunc)"
proof -
  have get: "returns (\<lambda>r. \<forall>g. r = Inr g \<longrightarrow> unadmitted E g) (PG_Get E VolcanoControl ns nm)" for ns nm
    using unadmitted by (auto simp: returns_def Volcano_GetPodGroup_def call_def split: prod.splits) (metis fst_conv)
  have create: "returns (\<lambda>(pg, err). \<forall>g. pg = Some g \<longrightarrow> unadmitted E g) (create_pod_group E VolcanoControl k specFunc)"
    unfolding create_pod_group_def Let_def
    by (rule returns_case_sum, simp add: returns_return, rule returns_bind [OF returns_any], rule returns_case_option, rule returns_seq,
        rule returns_bind [OF get]) (auto split: sum.splits intro!: returns_return)
  show ?thesis
    unfolding SyncPodGroup_def volcano Let_def option.case
    by (rule returns_bind [OF get])
      (auto split: sum.splits option.splits intro!: returns_return returns_bind [OF returns_any] create dest: spec)
qed

lemma returns_sync_gang:
  assumes "cc_PodGroupControl C = Some VolcanoControl"
    and "\<And>ns nm w g. fst (cl_Get (ke_volcano E) ns nm w) = Inr g \<Longrightarrow> unadmitted E g"
  shows "returns (\<lambda>b. \<not> b) (sync_gang E C n)"
proof -
  have sync: "returns (\<lambda>(pg, err). \<forall>g. pg = Some g \<longrightarrow> unadmitted E g) (SyncPodGroup E C k (pgSpecFill C mm q pc st mr))" for k mm q pc st mr
    by (rule returns_SyncPodGroup [OF assms(1)], erule assms(2))
      (auto simp: pgSpecFill_def unadmitted_def split: PodGroup.splits if_splits)
  have delay: "DelayPodCreationDueToPodGroup E VolcanoControl pg = Inr True" if "\<forall>g. pg = Some g \<longrightarrow> unadmitted E g" for pg
    using that by (cases pg) (auto simp: Volcano_DelayPodCreationDueToPodGroup_def unadmitted_def split: PodGroup.splits)
  show ?thesis
    unfolding sync_gang_def Let_def assms(1) option.case
    by (rule returns_bind [OF returns_any], rule returns_bind [OF returns_any], rule returns_bind [OF sync])
      (auto simp: delay go_bind_lift intro!: returns_return simp del: DelayPodCreationDueToPodGroup.simps)
qed

lemma emits_CalcPGMinResources [emits_intros]: "emits P (CalcPGMinResources E n specs)"
proof -
  have "emits P (replicasPriority E specs)"
    by (induction E specs rule: replicasPriority.induct) (auto intro!: emits_rules emits_intros)
  then show ?thesis unfolding CalcPGMinResources_def by (intro emits_rules)
qed

lemma emits_sync_gang: "emits is_wait (sync_gang E C n)"
  unfolding sync_gang_def SyncPodGroup_def create_pod_group_def calcPGMinResources_def Let_def
  by (intro emits_rules emits_intros) auto

lemma emits_resume [emits_intros]: "(\<And>t r m. P (EventCall t r m)) \<Longrightarrow> emits P (resume_cluster E)"
  unfolding resume_cluster_def Let_def by (intro emits_rules emits_intros)

lemma emits_fail_cluster: "emits is_wait (fail_cluster E C pods msg)"
proof -
  have "emits is_cleanup (fail_cluster E C pods msg)"
    unfolding fail_cluster_def Let_def by (intro emits_rules emits_intros) auto
  then show ?thesis using emits_mono is_wait_cleanup by blast
qed

text \<open>C7: with volcano, nothing of the cluster is created before its pod group is admitted. As long as every read of the pod group
  gives an error or a pod group whose phase is empty or pending, the reconciliation of an active cluster
  creates or updates the pod group, updates the status, or cleans up a cluster over its limits; no pod, service or config map
  is created, whatever the environment answers and even when the run ends in a panic.\<close>

theorem pods_wait_for_admission:
  assumes "cc_PodGroupControl C = Some VolcanoControl" "gang_ok C"
    and "\<And>ns nm w g. fst (cl_Get (ke_volcano E) ns nm w) = Inr g \<Longrightarrow> unadmitted E g"
  shows "\<exists>es. trace (final_state (reconcile_active E C sr key oldStatus pods services s)) = trace s @ es \<and> list_all is_wait es"
proof -
  have enabled: "EnableGangScheduling C" using assms(1,2) by (simp add: gang_ok_def EnableGangScheduling_def GangSchedulerVolcano_def GangSchedulerNone_def)
  define gang where "gang n = go_bind (sync_gang E C n) (\<lambda>syncReplicas.
      if syncReplicas then sync_replicas E C sr oldStatus pods services else delay_replicas E)" for n
  have wait: "emits is_wait (gang n)" for n
    unfolding gang_def
    by (rule appends.keeps_bind_returns [OF emits_sync_gang returns_sync_gang [OF assms(1,3)]])
      (auto simp: delay_replicas_def intro!: emits_rules emits_intros)
  have "emits is_wait (reconcile_active E C sr key oldStatus pods services)"
    unfolding reconcile_active_def failure_message_def past_deadline_def if_P [OF enabled] gang_def [symmetric]
    by (intro emits_rules emits_intros emits_fail_cluster wait) simp_all
  then show ?thesis by (rule emits_final)
qed

lemma pods_wait_for_admission_witness:
  "\<exists>es. trace (final_state (reconcile_active (sample_env\<lparr>ke_volcano := (ke_volcano sample_env)\<lparr>cl_Get := (\<lambda>ns nm w.
        (Inr (VolcanoPodGroup (sample_meta nm) \<lparr> vpg_MinMember = 1, vpg_Queue = [], vpg_PriorityClassName = [], vpg_MinResources = None \<rparr>
           ''Pending''), w))\<rparr>\<rparr>)
       (sample_controller\<lparr>cc_GangScheduling := GangSchedulerVolcano, cc_PodGroupControl := Some VolcanoControl\<rparr>) (Some PbsProSchema)
       ''ns/demo'' empty_status [] [] (sample_state empty_world (sample_cluster ''pbspro'')))) = es \<and> list_all is_wait es"
  (is "\<exists>es. trace (final_state (reconcile_active ?E ?C _ _ _ _ _ ?s)) = es \<and> _")
proof -
  have "gang_ok ?C" by code_simp
  moreover have "unadmitted ?E g" if "fst (cl_Get (ke_volcano ?E) ns nm w) = Inr g" for ns nm w g
    using that by (auto simp: unadmitted_def sample_env_def)
  ultimately show ?thesis
    using pods_wait_for_admission [of ?C ?E "Some PbsProSchema" "''ns/demo''" empty_status "[]" "[]" ?s] by (simp add: sample_state_def)
qed

section \<open>Panic freedom\<close>

lemma set_expectations_effect:
  fixes s :: "('w, 'st) cstate"
  assumes "thread_safe_store S" "exps_ok S (exps s ct)"
  shows "wp (sr_call (Some sr) (\<lambda>_. with_exp ct (SetExpectations S now k a d)))
     (\<lambda>r t. r = None \<and> kcl t = kcl s \<and> trace t = trace s \<and> exps_ok S (exps t ct)) s"
  using thread_safe_store.set_ok [OF assms, of now k a d] by (auto simp: sr_call_def wp_def with_exp_def split: outcome.splits)

lemma ResetExpectations_returns:
  fixes s :: "('w, 'st) cstate"
  assumes S: "thread_safe_store S" and "exps_ok S (exps s ct)"
  shows "wp (ResetExpectations E S key ct (Some sr) None specs) (\<lambda>r t. r = None \<and> kcl t = kcl s \<and> trace t = trace s \<and> exps_ok S (exps t ct)) s"
  using assms(2)
proof (induction specs arbitrary: s)
  case (Cons x specs)
  obtain rt sp where x: "x = (rt, sp)" by (cases x)
  let ?Q = "\<lambda>r t. r = None \<and> kcl t = kcl s \<and> trace t = trace s \<and> exps_ok S (exps t ct)"
  have rest: "wp (ResetExpectations E S key ct (Some sr) None specs) ?Q t" if "?Q None t" for t :: "('w, 'st) cstate"
    by (rule wp_mono [OF Cons.IH]) (use that in auto)
  have set: "wp (go_bind (call (ke_Now E)) (\<lambda>now. go_bind (sr_call (Some sr) (\<lambda>_. with_exp ct (SetExpectations S now k 0 0))) f)) ?Q t"
    if t: "?Q None t" and f: "\<And>u. ?Q None u \<Longrightarrow> wp (f None) ?Q u" for k f and t :: "('w, 'st) cstate"
    using t by (auto simp: wp_bind wp_call split: prod.splits intro!: wp_mono [OF set_expectations_effect [OF S]] f)
  show ?case
    unfolding x ResetExpectations.simps
    by (rule set) (use Cons.prems in \<open>auto simp: Let_def intro!: set rest\<close>)
qed (simp add: wp)

lemma total_suspend: "rp_CleanKubeNodePolicy rp \<noteq> None \<Longrightarrow> gang_ok C \<Longrightarrow>
    total (go_try (DeletePodAndServices E rp st pods) (go_try (DeleteConfigMap E ns nm) (go_try (terminate_pod_group E C) (CleanupCluster E rp st))))"
  by (intro total_try total_DeletePodAndServices total_CleanupCluster total_terminate total_intros) auto

lemma wp_any_total: "total m \<Longrightarrow> wp m (\<lambda>_ _. True) s"
  using total_Ret [of m s] by (auto simp: wp_def)

lemma CleanUpResources_returns:
  assumes "rp_CleanKubeNodePolicy (kc_RunPolicy (kcl s)) \<noteq> None" "gang_ok C"
  shows "wp (CleanUpResources E C pods) (\<lambda>_ _. True) s"
  unfolding CleanUpResources_def wp_bind wp_get_cluster Let_def by (rule wp_any_total [OF total_suspend [OF assms]])



end
