(* ===== verification/Execution.thy ===== *)
theory Execution
  imports Events Lifecycle
begin

text \<open>
  Executions of the operator: reconciliations, events and changes made by others, in any order, each reconciliation
  ended by a return or a panic. An invariant of all of them: what is created belongs to a cluster, the statuses
  that are written are well formed, and the expectations stay consistent.
\<close>

section \<open>Sound calls\<close>

text \<open>An object that belongs to a cluster: the cluster is its only owner and its controller, and its name begins with the
  name of the cluster.\<close>

definition owned_by :: "'w kenv \<Rightarrow> string \<Rightarrow> ObjectMeta \<Rightarrow> bool" where
  "owned_by E cluster m \<longleftrightarrow> (\<exists>r. om_OwnerReferences m = [r] \<and> or_Name r = cluster \<and> or_Kind r = KubeClusterKind \<and>
     or_APIVersion r = ke_GroupVersion E \<and> or_Controller r = Some True \<and> or_BlockOwnerDeletion r = Some True)"

definition replica_of :: "'w kenv \<Rightarrow> ObjectMeta \<Rightarrow> bool" where
  "replica_of E m \<longleftrightarrow> (\<exists>cluster rt i. owned_by E cluster m \<and> om_Name m = GenGeneralName cluster rt (Itoa (int i)))"

definition cluster_object :: "'w kenv \<Rightarrow> ObjectMeta \<Rightarrow> bool" where
  "cluster_object E m \<longleftrightarrow> owned_by E (om_Name m) m"

fun sound_call :: "'w kenv \<Rightarrow> effect \<Rightarrow> bool" where
  "sound_call E (CreatePodCall ns pod r) = replica_of E (pod_Meta pod)"
| "sound_call E (CreateServiceCall ns svc r) = replica_of E (svc_Meta svc)"
| "sound_call E (CreateConfigMapCall ns cm r) = cluster_object E (cm_Meta cm)"
| "sound_call E (CreatePodGroupCall ns pg r) = cluster_object E (pg_meta pg)"
| "sound_call E (UpdateStatusCall k r) = conditions_ok (kc_Status k)"
| "sound_call E (PatchPodCall ns nm d r) = False"
| "sound_call E (PatchServiceCall ns nm d r) = False"
| "sound_call E (CreatePdbCall ns pdb r) = False"
| "sound_call E _ = True"

section \<open>The invariant as a frame\<close>

definition op_inv :: "'st ClusterController \<Rightarrow> ('w, 'st) cstate \<Rightarrow> bool" where
  "op_inv C s \<longleftrightarrow> conditions_ok (kc_Status (kcl s)) \<and> (\<forall>ct. exps_ok (cc_store C) (exps s ct))"

definition sound :: "'w kenv \<Rightarrow> 'st ClusterController \<Rightarrow> ('w, 'st) cstate \<Rightarrow> ('w, 'st) cstate \<Rightarrow> bool" where
  "sound E C s t \<longleftrightarrow> (op_inv C s \<longrightarrow> op_inv C t \<and> appends trace (sound_call E) s t)"

interpretation sound: frame "sound E C"
proof
  show "sound E C s s" for s by (simp add: sound_def appends.refl)
  show "sound E C s t \<Longrightarrow> sound E C t u \<Longrightarrow> sound E C s u" for s t u
    unfolding sound_def by (blast intro: appends.trans)
qed

lemmas sound_rules = sound.keeps_return sound.keeps_panic sound.keeps_gets sound.keeps_lift sound.keeps_bind sound.keeps_seq
  sound.keeps_try sound.keeps_try_val sound.keeps_forE sound.keeps_for sound.keeps_if sound.keeps_let
  sound.keeps_case_option sound.keeps_case_sum sound.keeps_case_prod sound.keeps_case_list

named_theorems sound_intros \<open>operations that keep the invariant of the executions\<close>

text \<open>A program that leaves cluster and expectations alone need only make sound calls.\<close>

lemma sound_quiet:
  assumes "emits (sound_call E) m" "keeps (unchanged exps) m" "keeps (unchanged kcl) m"
  shows "keeps (sound E C) m"
  using assms by (auto simp: keeps_def sound_def op_inv_def unchanged_def)

lemma sound_kcl:
  assumes "emits (sound_call E) m" "keeps (unchanged exps) m"
    and "keeps (\<lambda>s t. conditions_ok (kc_Status (kcl s)) \<longrightarrow> conditions_ok (kc_Status (kcl t))) m"
  shows "keeps (sound E C) m"
  using assms by (auto simp: keeps_def sound_def op_inv_def unchanged_def)

lemma sound_modify [sound_intros]:
  "(\<And>s. conditions_ok (kc_Status (kcl s)) \<Longrightarrow> conditions_ok (kc_Status (f s))) \<Longrightarrow> keeps (sound E C) (go_modify (\<lambda>s. s\<lparr>kcl := f s\<rparr>))"
  by (rule sound.keeps_modify) (auto simp: sound_def op_inv_def appends_def)

lemma sound_update_status [sound_intros]:
  "(\<And>st. conditions_ok st \<Longrightarrow> conditions_ok (f st)) \<Longrightarrow> keeps (sound E C) (update_status f)"
  unfolding update_status_def by (intro sound_modify) simp

lemma sound_with_exp:
  assumes "\<And>e. exps_ok (cc_store C) e \<Longrightarrow> exps_ok (cc_store C) (final_state (m e))"
  shows "keeps (sound E C) (with_exp ct m)"
  using assms by (auto simp: keeps_def sound_def op_inv_def with_exp_def appends_def split: outcome.splits)
    (metis final_state.simps)+

lemma sound_ctl [sound_intros]:
  "keeps (sound E C) (call f)" "keeps (sound E C) (Event t r m)" "keeps (sound E C) (Inc n)" "keeps (sound E C) get_cluster"
  by (intro sound_quiet emits_intros frame_intros; simp)+

lemma sound_sr_call [sound_intros]: "(\<And>sr. keeps (sound E C) (f sr)) \<Longrightarrow> keeps (sound E C) (sr_call x f)"
  unfolding sr_call_def by (intro sound_rules)


lemma conditions_ok_fields [simp]:
  "conditions_ok (s\<lparr>st_ReplicaStatuses := r\<rparr>) = conditions_ok s" "conditions_ok (s\<lparr>st_StartTime := t\<rparr>) = conditions_ok s"
  "conditions_ok (s\<lparr>st_LastReconcileTime := t\<rparr>) = conditions_ok s"
  by (simp_all add: conditions_ok_def status_true_simps)

lemma sound_conditions [sound_intros]:
  "keeps (sound E C) (set_condition E' c st r m)" "keeps (sound E C) (set_completion_time E')"
  unfolding set_condition_def set_completion_time_def
  by (intro sound_rules sound_intros; simp add: UpdateClusterConditions_ok)+

lemma sound_small [sound_intros]:
  "keeps (sound E C) (AddAfter key d)" "keeps (sound E C) clear_generated" "keeps (sound E C) (initializeReplicaStatuses rt)"
  "keeps (sound E C) (CreatedClustersCounterInc ns ct)" "keeps (sound E C) (DeletedclustersCounterInc ns ct)" "keeps (sound E C) (CreatedclustersCounterInc ns ct)"
  "keeps (sound E C) (FailedClustersCounterInc ns ct)" "keeps (sound E C) (RestartedClustersCounterInc ns ct)"
  unfolding AddAfter_def clear_generated_def initializeReplicaStatuses_def metric_defs DeletedclustersCounterInc_def CreatedclustersCounterInc_def
  by (intro sound_rules sound_intros; simp add: InitializeReplicaStatuses_def)+

lemma sound_controls [sound_intros]:
  "keeps (sound E C) (DeletePod E ns nm)" "keeps (sound E C) (DeleteService E ns nm)" "keeps (sound E C) (DeleteConfigMap E ns nm)"
  "keeps (sound E C) (UpdateConfigMap E ns cm)" "keeps (sound E C) (RecordAbnormalPods E pods)"
  "keeps (sound E C) (PG_Get E c ns nm)" "keeps (sound E C) (PG_Delete E c ns nm)" "keeps (sound E C) (PG_Update E c pg)"
  by (intro sound_quiet emits_intros frame_intros; simp)+

lemma sound_delete_cluster [sound_intros]: "keeps (sound E C) (DeleteCluster E k)"
  unfolding DeleteCluster_def
  by (intro sound_rules sound_intros) (intro sound_quiet emits_intros frame_intros; simp)

section \<open>Expectations\<close>

lemma sound_expectations:
  assumes "thread_safe_store (cc_store C)"
  shows "keeps (sound E C) (with_exp ct (RaiseExpectations (cc_store C) key a d))"
    "keeps (sound E C) (with_exp ct (CreationObserved (cc_store C) key))" "keeps (sound E C) (with_exp ct (DeletionObserved (cc_store C) key))"
    "keeps (sound E C) (with_exp ct (SetExpectations (cc_store C) now key a d))"
    "keeps (sound E C) (with_exp ct (ClusterSatisfiedExpectations (cc_store C) now key rts))"
proof -
  note S = thread_safe_store.add_entry_ok [OF assms] thread_safe_store.set_ok [OF assms] thread_safe_store.pre_satisfied_never [OF assms]
  have add: "exps_ok (cc_store C) (final_state (AddToEntry (cc_store C) key a d e))" if "exps_ok (cc_store C) e" for e key a d
    using S(1) [OF that, of key a d] by auto
  show "keeps (sound E C) (with_exp ct (RaiseExpectations (cc_store C) key a d))"
    "keeps (sound E C) (with_exp ct (CreationObserved (cc_store C) key))" "keeps (sound E C) (with_exp ct (DeletionObserved (cc_store C) key))"
    by (intro sound_with_exp; simp add: RaiseExpectations_def CreationObserved_def DeletionObserved_def LowerExpectations_def add)+
  show "keeps (sound E C) (with_exp ct (SetExpectations (cc_store C) now key a d))"
    by (rule sound_with_exp) (metis S(2) final_state.simps(1))
  show "keeps (sound E C) (with_exp ct (ClusterSatisfiedExpectations (cc_store C) now key rts))"
    by (rule sound_with_exp) (simp add: ClusterSatisfiedExpectations_def go_run S(3))
qed

section \<open>Schemas\<close>

lemma sound_each_pod_spec [sound_intros]: "keeps (sound E C) (each_pod_spec f)"
  unfolding each_pod_spec_def by (intro sound_rules sound_intros) (simp add: put_pod_spec_def)

lemma sound_draws [sound_intros]: "keeps (sound E C) (slurm_random_ports E')" "keeps (sound E C) (genMungeKey E')"
proof -
  show "keeps (sound E C) (slurm_random_ports E')"
    by (auto simp: keeps_def slurm_random_ports_def sound_def op_inv_def appends_def split: option.splits)
  show "keeps (sound E C) (genMungeKey E')" unfolding genMungeKey_def by (intro sound_rules sound_intros)
qed

lemma sound_update_hosts [sound_intros]: "keeps (sound E C) (update_hosts E' k specs hosts conf)"
proof (induction specs arbitrary: hosts conf)
  case (Cons x specs)
  show ?case by (cases x) (simp only: update_hosts.simps Let_def, intro sound_rules sound_intros Cons)
qed simp

lemma sound_schema [sound_intros]:
  "keeps (sound E C) (sr_ReconcileConfigMap E' sr cm)" "keeps (sound E C) (sr_UpdateConfigMap E' sr cm)"
  "keeps (sound E C) (sr_Default sr)" "keeps (sound E C) (sr_UpdateClusterStatus E' sr rt)"
proof -
  have "keeps (sound E C) (slurm_ReconcileConfigMap E' cm)"
    unfolding slurm_ReconcileConfigMap_def fill_config_map_def finish_config_map_def genSlurmConf_def setSlurmPorts_def Let_def
    by (intro sound_rules sound_intros)
  moreover have "keeps (sound E C) (pbs_ReconcileConfigMap cm)"
    unfolding pbs_ReconcileConfigMap_def Let_def by (intro sound_rules sound_intros)
  ultimately show "keeps (sound E C) (sr_ReconcileConfigMap E' sr cm)" by (cases sr) simp_all
  have "keeps (sound E C) (slurm_UpdateConfigMap E' cm)"
    unfolding slurm_UpdateConfigMap_def Let_def by (intro sound_rules sound_intros)
  then show "keeps (sound E C) (sr_UpdateConfigMap E' sr cm)"
    by (cases sr) (simp_all add: pbs_UpdateConfigMap_def)
  have "keeps (sound E C) slurm_Default" "keeps (sound E C) pbs_Default"
    unfolding slurm_Default_def pbs_Default_def by (intro sound_rules sound_intros; simp)+
  then show "keeps (sound E C) (sr_Default sr)" by (cases sr) simp_all
  have "keeps (sound E C) (slurm_UpdateClusterStatus E' rt)" "keeps (sound E C) (pbs_UpdateClusterStatus E' rt)"
    unfolding slurm_UpdateClusterStatus_def slurm_failures_def pbs_UpdateClusterStatus_def pbs_failures_def
      mark_failed_def mark_restarting_def mark_running_def
    by (intro sound_rules sound_intros)+
  then show "keeps (sound E C) (sr_UpdateClusterStatus E' sr rt)" by (cases sr) simp_all
qed


section \<open>Creating objects\<close>

lemma owner_owned: "om_OwnerReferences m = [GenOwnerReference E (kc_Meta k)] \<Longrightarrow> owned_by E (kc_Name k) m"
  by (simp add: owned_by_def GenOwnerReference_def)

lemma sound_expect:
  assumes "thread_safe_store (cc_store C)"
  shows "keeps (sound E C) (expect ct x (RaiseExpectations (cc_store C) key a d))"
    "keeps (sound E C) (expect ct x (CreationObserved (cc_store C) key))"
  unfolding expect_def by (intro sound_sr_call sound_expectations [OF assms])+

lemma gang_template_name: "returns (\<lambda>t'. om_Name (pt_Meta t') = om_Name (pt_Meta t)) (gang_template E C k rt specs t)"
  unfolding gang_template_def
  by (auto split: option.splits intro!: returns_return returns_panic returns_seq returns_bind [OF returns_any] simp: Decorate_facts)

lemma sound_gang_template [sound_intros]: "keeps (sound E C) (gang_template E' C' k rt specs t)"
  unfolding gang_template_def by (intro sound_rules sound_intros)

lemma sound_create_expected_pod:
  assumes "thread_safe_store (cc_store C)" "om_Name (pt_Meta t) = GenGeneralName (kc_Name k) rt (Itoa (int i))"
  shows "keeps (sound E C) (create_expected_pod E C k x key t)"
proof -
  have "replica_of E (pod_Meta (owned_pod E k t))"
    unfolding replica_of_def using assms(2)
    by (intro exI conjI [rotated]) (auto intro!: owner_owned simp: GetPodFromTemplate_def add_owner_def empty_meta_def)
  then have "keeps (sound E C) (CreatePodsWithControllerRef E ns t (Some (GenOwnerReference E (kc_Meta k))))" for ns
    by (intro sound_quiet emits_intros frame_intros) simp_all
  then show ?thesis
    unfolding create_expected_pod_def by (intro sound_rules sound_intros sound_expect assms(1))
qed

lemma sound_CreateNewPod:
  assumes "thread_safe_store (cc_store C)"
  shows "keeps (sound E C) (CreateNewPod E C rt (int i) sp ctl specs cm)"
proof -
  define named :: "KubeCluster \<Rightarrow> PodTemplateSpec \<Rightarrow> bool"
    where "named k t \<longleftrightarrow> om_Name (pt_Meta t) = GenGeneralName (kc_Name k) rt (Itoa (int i))" for k t
  have spec: "returns (\<lambda>r. \<forall>t. r = Inr t \<longrightarrow> named k t)
      (sr_call x (\<lambda>sr. go_lift (sr_SetClusterSpec E C sr k (named_template k rt (int i) sp ctl) rt (Itoa (int i)) cm)))" for k x
  proof -
    have "named k t" if "sr_SetClusterSpec E C sr k (named_template k rt (int i) sp ctl) rt (Itoa (int i)) cm = Inr (Inr t)" for sr t
      using sr.set_spec_containers [OF that] by (simp add: named_def named_template_def Let_def)
    then show ?thesis by (auto simp: returns_def sr_call_def go_lift_def go_return_def go_panic_def split: option.splits sum.splits)
  qed
  have gang: "returns (named k) (gang_template E C k rt specs t)" if "named k t" for k t
    using gang_template_name [of t E C k rt specs] that by (simp add: named_def returns_def)
  have create: "keeps (sound E C) (create_expected_pod E C k x key t)" if "named k t" for k x key t
    using sound_create_expected_pod [OF assms] that by (simp add: named_def)
  show ?thesis
    unfolding CreateNewPod_def Let_def
    by (intro sound.keeps_bind sound.keeps_case_sum sound_rules(1) sound_intros sound.keeps_bind_returns [OF _ spec] sound.keeps_seq
        sound.keeps_if sound.keeps_lift sound.keeps_bind_returns [OF _ gang] create) (simp_all add: named_def)
qed


lemma sound_replica_statuses [sound_intros]: "keeps (sound E C) (updateClusterReplicaStatuses rt pod)"
proof -
  have "UpdateClusterReplicaStatuses st rt pod = Inr st' \<Longrightarrow> conditions_ok st \<Longrightarrow> conditions_ok st'" for st st'
    by (auto simp: UpdateClusterReplicaStatuses_def set_replica_status_def split: option.splits if_splits)
  then have "sound E C s (final_state (updateClusterReplicaStatuses rt pod s))" for s
    by (cases "UpdateClusterReplicaStatuses (kc_Status (kcl s)) rt pod")
      (auto simp: updateClusterReplicaStatuses_def get_cluster_def update_status_def go_run sound_def op_inv_def appends_def)
  then show ?thesis by (simp add: keeps_def)
qed

lemma sound_ReconcilePods:
  assumes "thread_safe_store (cc_store C)"
  shows "keeps (sound E C) (ReconcilePods E C rt sp pods cm)"
proof -
  have "keeps (sound E C) (reconcile_present_pod E C k x key rt sp n i pod)" for k x key sp n i pod
    unfolding reconcile_present_pod_def delete_expected_pod_def restart_pod_def record_exit_code_def Let_def
    by (intro sound_rules sound_intros sound_expect assms)
  then have "keeps (sound E C) (reconcile_pod_slice E C k key rt sp n cm y)" for k key sp n y
    unfolding reconcile_pod_slice_def Let_def by (intro sound_rules sound_intros sound_CreateNewPod assms)
  then show ?thesis
    unfolding ReconcilePods_def Let_def by (intro sound_rules sound_intros)
qed

lemma sound_ReconcileServices:
  assumes "thread_safe_store (cc_store C)"
  shows "keeps (sound E C) (ReconcileServices E C rt sp services)"
proof -
  have "replica_of E (svc_Meta (GetServiceFromTemplate (new_service k rt (Itoa (int i)) ports) (Some (GenOwnerReference E (kc_Meta k)))))" for k i ports
    unfolding replica_of_def
    by (intro exI conjI [rotated])
      (auto intro!: owner_owned simp: GetServiceFromTemplate_def new_service_def add_owner_def empty_meta_def)
  then have "keeps (sound E C) (CreateServicesWithControllerRef E ns (new_service k rt (Itoa (int i)) ports) (Some (GenOwnerReference E (kc_Meta k))))"
    for ns k i ports
    by (intro sound_quiet emits_intros frame_intros) simp_all
  then have "keeps (sound E C) (CreateNewService E C rt sp (Itoa (int i)) cn x)" for sp i cn x
    unfolding CreateNewService_def Let_def by (intro sound_rules sound_intros sound_expect assms)
  then have "keeps (sound E C) (reconcile_service_slice E C x rt sp n y)" for x sp n y
    unfolding reconcile_service_slice_def Let_def by (intro sound_rules sound_intros)
  then show ?thesis
    unfolding ReconcileServices_def Let_def by (intro sound_rules sound_intros)
qed

lemma sound_ReconcileConfigMap:
  assumes "thread_safe_store (cc_store C)"
  shows "keeps (sound E C) (ReconcileConfigMap E C)"
proof -
  have "cluster_object E (cm_Meta (GetConfigMapFromTemplate (empty_config_map\<lparr>cm_Data := Some [], cm_Meta := empty_meta\<lparr>om_Name := kc_Name k\<rparr>\<rparr>)
      (Some (GenOwnerReference E (kc_Meta k)))))" for k
    by (auto simp: cluster_object_def GetConfigMapFromTemplate_def add_owner_def empty_config_map_def empty_meta_def intro!: owner_owned)
  then have "keeps (sound E C) (CreateConfigMapWithControllerRef E ns (empty_config_map\<lparr>cm_Data := Some [], cm_Meta := empty_meta\<lparr>om_Name := kc_Name k\<rparr>\<rparr>)
      (Some (GenOwnerReference E (kc_Meta k))))" for ns k
    by (intro sound_quiet emits_intros frame_intros) simp_all
  then have "keeps (sound E C) (CreateNewConfigMap E C x)" for x
    unfolding CreateNewConfigMap_def Let_def by (intro sound_rules sound_intros sound_expect assms)
  moreover have "keeps (sound E C) (sync_config_map E x cm)" for x cm
    unfolding sync_config_map_def UpdateConfigMapInApiServer_def by (intro sound_rules sound_intros)
  moreover have "keeps (sound E C) (GetConfigMapForCluster E k)" for k
    unfolding GetConfigMapForCluster_def Let_def by (intro sound_rules sound_intros)
  ultimately show ?thesis
    unfolding ReconcileConfigMap_def Let_def by (intro sound_rules sound_intros)
qed


section \<open>A whole reconciliation\<close>

text \<open>The API server returns the statuses it was given: what is read is well formed, and so is the answer to an update with a well-formed status.\<close>

definition serves_ok :: "'w kenv \<Rightarrow> bool" where
  "serves_ok E \<longleftrightarrow> (\<forall>ns nm w k. fst (cl_Get (ke_clusters E) ns nm w) = Inr k \<longrightarrow> conditions_ok (kc_Status k)) \<and>
     (\<forall>ns k w k'. conditions_ok (kc_Status k) \<longrightarrow> fst (cl_Update (ke_clusters E) ns k w) = Inr k' \<longrightarrow> conditions_ok (kc_Status k'))"

lemma sound_UpdateStatus:
  fixes C :: "'st ClusterController" and E :: "'w kenv"
  assumes "serves_ok E"
  shows "keeps (sound E C) (UpdateClusterStatusInApiServer E)"
proof -
  let ?put = "go_bind get_cluster (\<lambda>k. go_bind (api (cl_Update (ke_clusters E) (kc_Namespace k) k) (\<lambda>r. UpdateStatusCall k (err_of r))) (\<lambda>r.
     case r of Inl err \<Rightarrow> go_return (Some err) | Inr k' \<Rightarrow> go_seq (go_modify (\<lambda>s. s\<lparr>kcl := k'\<rparr>)) (go_return None)))"
  have "sound E C s (final_state (?put s))" for s :: "('w, 'st) cstate"
  proof (cases "cl_Update (ke_clusters E) (kc_Namespace (kcl s)) (kcl s) (world s)")
    case (Pair r w)
    then have "conditions_ok (kc_Status (kcl s)) \<Longrightarrow> r = Inr k \<Longrightarrow> conditions_ok (kc_Status k)" for k
      using assms unfolding serves_ok_def by (metis fst_conv)
    with Pair show ?thesis
      by (cases r) (auto simp: sound_def op_inv_def appends_def api_def call_def emit_def get_cluster_def go_run)
  qed
  then have "keeps (sound E C) ?put" by (simp add: keeps_def)
  then show ?thesis
    unfolding UpdateClusterStatusInApiServer_def by (intro sound_rules(6) sound_intros) auto
qed

lemma sound_clean_up [sound_intros]:
  "keeps (sound E C) (DeletePodAndServices E rp st pods)" "keeps (sound E C) (CleanupCluster E rp st)"
  "keeps (sound E C) (terminate_pod_group E C')" "keeps (sound E C) (CleanUpResources E C' pods)"
proof -
  show pods: "keeps (sound E C) (DeletePodAndServices E rp st pods)" for rp st
    unfolding DeletePodAndServices_def delete_pod_and_service_def Let_def by (intro sound_rules sound_intros)
  show cluster: "keeps (sound E C) (CleanupCluster E rp st)" for rp st
    unfolding CleanupCluster_def Let_def by (intro sound_rules sound_intros)
  show group: "keeps (sound E C) (terminate_pod_group E C')"
    unfolding terminate_pod_group_def DeletePodGroup_def by (intro sound_rules sound_intros)
  show "keeps (sound E C) (CleanUpResources E C' pods)"
    unfolding CleanUpResources_def Let_def by (intro sound_rules sound_intros pods cluster group)
qed

lemma sound_suspend: "serves_ok E \<Longrightarrow> keeps (sound E C) (suspend_cluster E C' pods)"
  unfolding suspend_cluster_def Let_def
  by (intro sound_rules sound_intros sound_UpdateStatus) (simp_all add: suspend_status_def)

lemma sound_fail: "serves_ok E \<Longrightarrow> keeps (sound E C) (fail_cluster E C' pods msg)"
  unfolding fail_cluster_def Let_def by (intro sound_rules sound_intros sound_UpdateStatus)

lemma sound_resume [sound_intros]: "keeps (sound E C) (resume_cluster E')"
  unfolding resume_cluster_def Let_def by (intro sound_rules sound_intros) simp

lemma sound_calcPG [sound_intros]: "keeps (sound E C) (calcPGMinResources E' n specs)"
proof -
  have "keeps (sound E C) (replicasPriority E' specs)"
    by (induction E' specs rule: replicasPriority.induct) (auto intro!: sound_rules sound_intros)
  then show ?thesis unfolding calcPGMinResources_def CalcPGMinResources_def by (intro sound_rules)
qed

lemma pg_meta_set [simp]: "pg_meta (pg_set_meta m g) = m"
  by (cases g) simp_all

lemma sound_sync_gang [sound_intros]: "keeps (sound E C) (sync_gang E C' n)"
proof -
  have fill: "pg_meta g' = pg_meta g" if "pgSpecFill C' mm q pc t mr g = Inr g'" for mm q pc t mr g g'
    using that by (auto simp: pgSpecFill_def split: if_splits PodGroup.splits)
  have "keeps (sound E C) (create_pod_group E c k (pgSpecFill C' mm q pc t mr))" for c k mm q pc t mr
  proof -
    have "keeps (sound E C) (PG_Create E c g)" if "cluster_object E (pg_meta g)" for g
      using that by (intro sound_quiet emits_intros frame_intros) simp_all
    moreover have "cluster_object E (pg_meta g)"
      if "pgSpecFill C' mm q pc t mr (pg_set_meta (m\<lparr>om_Name := kc_Name k, om_Namespace := kc_Namespace k, om_Annotations := a,
          om_OwnerReferences := [GenOwnerReference E (kc_Meta k)]\<rparr>) g0) = Inr g" for g g0 m a
      using fill [OF that] by (simp add: cluster_object_def owner_owned)
    ultimately show ?thesis
      unfolding create_pod_group_def Let_def by (intro sound_rules sound_intros) blast+
  qed
  then show ?thesis
    unfolding sync_gang_def SyncPodGroup_def Let_def by (intro sound_rules sound_intros)
qed


lemma sound_active:
  assumes "thread_safe_store (cc_store C)" "serves_ok E"
  shows "keeps (sound E C) (reconcile_active E C x key oldStatus pods services)"
proof -
  have "keeps (sound E C) (UpdateClusterStatus E C)"
    unfolding UpdateClusterStatus_def by (intro sound_rules sound_intros) simp
  then have finish: "keeps (sound E C) (finish_reconcile E C x oldStatus cm)" for cm
    unfolding finish_reconcile_def UpdateConfigMapInApiServer_def by (intro sound_rules sound_intros sound_UpdateStatus assms)
  have replicas: "keeps (sound E C) (reconcile_replicas E C pods services cm)" for cm
    unfolding reconcile_replicas_def by (intro sound_rules sound_intros sound_ReconcilePods sound_ReconcileServices assms)
  have "keeps (sound E C) (sync_replicas E C x oldStatus pods services)"
    unfolding sync_replicas_def by (intro sound_rules sound_ReconcileConfigMap assms finish replicas)
  moreover have "keeps (sound E C) (delay_replicas E)"
    unfolding delay_replicas_def by (intro sound_rules sound_intros sound_UpdateStatus assms) simp
  moreover have "keeps (sound E C) (failure_message E key pods n)" for n
    unfolding failure_message_def past_deadline_def by (intro sound_rules sound_intros)
  ultimately show ?thesis
    unfolding reconcile_active_def by (intro sound_rules sound_intros sound_fail assms)
qed

lemma sound_reset:
  assumes "thread_safe_store (cc_store C)"
  shows "keeps (sound E C) (ResetExpectations E' (cc_store C) key ct x errs specs)"
proof (induction specs arbitrary: errs)
  case (Cons y specs)
  show ?case
    by (cases y) (simp only: ResetExpectations.simps Let_def, intro sound_rules sound_intros sound_expectations assms Cons)
qed simp

lemma sound_ReconcileKubeCluster:
  assumes "thread_safe_store (cc_store C)" "serves_ok E"
  shows "keeps (sound E C) (ReconcileKubeCluster E C x)"
proof -
  have "keeps (sound E C) (GetPodsForCluster E k)" "keeps (sound E C) (GetServicesForCluster E k)" for k
    unfolding GetPodsForCluster_def GetServicesForCluster_def Let_def by (intro sound_rules sound_intros)+
  then show ?thesis
    unfolding ReconcileKubeCluster_def by (intro sound_rules sound_intros sound_reset sound_suspend sound_active assms)
qed

lemma sound_Reconcile:
  assumes "thread_safe_store (cc_store C)" "serves_ok E"
  shows "keeps (sound E C) (Reconcile E C ns nm)"
proof -
  have get: "returns (\<lambda>r. \<forall>k. r = Inr k \<longrightarrow> conditions_ok (kc_Status k)) (call (cl_Get (ke_clusters E) ns nm))"
    using assms(2) unfolding serves_ok_def returns_def call_def by (auto split: prod.splits) (metis fst_conv)
  have "keeps (sound E C) (needReconcile E C k x)" for k x
    unfolding needReconcile_def Let_def by (intro sound_rules sound_intros sound_expectations assms)
  moreover have "keeps (sound E C) (validation_failed what err)" for what err
    unfolding validation_failed_def by (intro sound_rules sound_intros)
  moreover have "conditions_ok (kc_Status (SetDefaults_KubeCluster k)) = conditions_ok (kc_Status k)" for k
    by (simp add: SetDefaults_KubeCluster_def Let_def)
  ultimately show ?thesis
    unfolding Reconcile_def Let_def
    by (intro sound.keeps_bind_returns [OF _ get] sound_rules sound_intros sound_ReconcileKubeCluster assms) simp_all
qed

lemma sound_kobject:
  "(\<And>a b. keeps (sound E C) (f a b)) \<Longrightarrow> (\<And>a b. keeps (sound E C) (g a b)) \<Longrightarrow> (\<And>a b. keeps (sound E C) (h a b)) \<Longrightarrow>
   keeps (sound E C) (case obj of KPod a b \<Rightarrow> f a b | KService a b \<Rightarrow> g a b | KOther a b \<Rightarrow> h a b)"
  by (cases obj) simp_all

lemma sound_handlers:
  assumes "thread_safe_store (cc_store C)"
  shows "keeps (sound E C) (OnDependentCreateFunc E C obj)" "keeps (sound E C) (OnDependentDeleteFunc E C obj)"
    "keeps (sound E C) (OnDependentCreateFuncGeneric E C obj)" "keeps (sound E C) (OnDependentDeleteFuncGeneric E C obj)"
    "keeps (sound E C) (OnDependentUpdateFunc E old new)" "keeps (sound E C) (OnDependentUpdateFuncGeneric E old new)"
    "keeps (sound E C) (onOwnerCreateFunc E k)"
proof -
  show "keeps (sound E C) (OnDependentCreateFunc E C obj)" "keeps (sound E C) (OnDependentDeleteFunc E C obj)"
    "keeps (sound E C) (OnDependentCreateFuncGeneric E C obj)" "keeps (sound E C) (OnDependentDeleteFuncGeneric E C obj)"
    unfolding OnDependentCreateFunc_def OnDependentDeleteFunc_def OnDependentCreateFuncGeneric_def OnDependentDeleteFuncGeneric_def
      onDependentCreateFunc_def onDependentDeleteFunc_def on_dependent_def on_dependent_generic_def if_registered_def Let_def
    by (intro sound_rules sound_expectations assms sound_kobject)+
  show gen: "keeps (sound E C) (OnDependentUpdateFuncGeneric E old new)"
    unfolding OnDependentUpdateFuncGeneric_def resolveControllerRef_def GetClusterFromInformerCache_def Let_def
    by (intro sound_rules sound_intros)
  then show "keeps (sound E C) (OnDependentUpdateFunc E old new)"
    unfolding OnDependentUpdateFunc_def by (intro sound_rules sound_kobject)
  show "keeps (sound E C) (onOwnerCreateFunc E k)"
    unfolding onOwnerCreateFunc_def Let_def by (intro sound_rules sound_intros)
qed

section \<open>Executions\<close>

inductive op_step :: "'w kenv \<Rightarrow> 'st ClusterController \<Rightarrow> ('w, 'st) cstate \<Rightarrow> ('w, 'st) cstate \<Rightarrow> bool" for E C where
  reconcile: "op_step E C s (final_state (Reconcile E C ns nm s))"
| cluster_created: "op_step E C s (final_state (onOwnerCreateFunc E k s))"
| created: "op_step E C s (final_state (OnDependentCreateFunc E C obj s))"
| deleted: "op_step E C s (final_state (OnDependentDeleteFunc E C obj s))"
| updated: "op_step E C s (final_state (OnDependentUpdateFunc E old new s))"
| created_generic: "op_step E C s (final_state (OnDependentCreateFuncGeneric E C obj s))"
| deleted_generic: "op_step E C s (final_state (OnDependentDeleteFuncGeneric E C obj s))"
| updated_generic: "op_step E C s (final_state (OnDependentUpdateFuncGeneric E old new s))"
| others: "op_step E C s (s\<lparr>world := w\<rparr>)"

inductive_cases op_stepE: "op_step E C s t"

inductive op_reachable :: "'w kenv \<Rightarrow> 'st ClusterController \<Rightarrow> ('w, 'st) cstate \<Rightarrow> bool" for E C where
  start: "op_reachable E C s" if "trace s = []" "exps s = (\<lambda>_. NewControllerExpectations (cc_store C))" "st_Conditions (kc_Status (kcl s)) = []"
| step: "op_reachable E C t" if "op_reachable E C s" "op_step E C s t"

lemma keeps_final: "keeps R m \<Longrightarrow> R s (final_state (m s))"
  by (simp add: keeps_def)

lemma step_sound:
  assumes "thread_safe_store (cc_store C)" "serves_ok E" "op_step E C s t"
  shows "sound E C s t"
  using assms(3)
proof (cases rule: op_step.cases)
  case (others w)
  then show ?thesis by (simp add: sound_def op_inv_def appends_def)
qed (simp_all add: sound_Reconcile [OF assms(1,2), THEN keeps_final] sound_handlers [OF assms(1), THEN keeps_final])

text \<open>C2: soundness of every execution. Take any sequence of reconciliations, events of the watched objects and changes made by others, with an API server
  that gives back the statuses it was given and whatever else it answers, where a reconciliation may end in a panic at any point and the operator
  goes on. Then every pod and every service ever created has one owner, which is a cluster, its controller, and is named after that cluster, a
  replica type and an index; every config map and pod group has the name of its cluster and the cluster as its only owner; no status is
  ever written whose conditions are repeated, contradict each other or show a failed cluster running; no pod disruption budget is
  created and nothing is patched; and the expectations of every schema stay consistent, so that none of their operations can panic.\<close>

theorem executions_sound:
  assumes "op_reachable E C s" "thread_safe_store (cc_store C)" "serves_ok E"
  shows "list_all (sound_call E) (trace s) \<and> conditions_ok (kc_Status (kcl s)) \<and> (\<forall>ct. exps_ok (cc_store C) (exps s ct))"
  using assms(1)
proof (induction rule: op_reachable.induct)
  case (start s)
  then show ?case
    using thread_safe_store.new_ok(1) [OF assms(2)] by (simp add: conditions_ok_def cond_types_def status_true_simps)
next
  case (step s t)
  from step_sound [OF assms(2,3) step(2)] step(3) have "op_inv C t" "appends trace (sound_call E) s t"
    by (auto simp: sound_def op_inv_def)
  with step(3) show ?case by (auto simp: op_inv_def appends_def)
qed


text \<open>The in-memory server, made to serve well-formed statuses only, and a suspended cluster on it.\<close>

definition checked_env :: "sworld kenv" where
  "checked_env = sample_env\<lparr>ke_clusters := (ke_clusters sample_env)\<lparr>cl_Get := (\<lambda>ns nm w.
     (case fst (cl_Get (ke_clusters sample_env) ns nm w) of
        Inl e \<Rightarrow> Inl e
      | Inr k \<Rightarrow> if conditions_ok (kc_Status k) then Inr k else Inl (StatusErr NotFound ''not found''), w))\<rparr>\<rparr>"

definition suspended_cluster :: KubeCluster where
  "suspended_cluster = (sample_cluster ''slurm'')\<lparr>kc_Spec := (kc_Spec (sample_cluster ''slurm''))\<lparr>s_RunPolicy :=
     (kc_RunPolicy (sample_cluster ''slurm''))\<lparr>rp_Suspend := Some True\<rparr>\<rparr>\<rparr>"

definition suspended_start :: "(sworld, (string \<times> iface) list) cstate" where
  "suspended_start = sample_state (empty_world\<lparr>w_clusters := [suspended_cluster]\<rparr>) suspended_cluster"

lemma executions_sound_witness:
  "let t = final_state (Reconcile checked_env sample_controller ''ns'' ''demo'' suspended_start) in
   list_ex (\<lambda>e. case e of UpdateStatusCall k r \<Rightarrow> r = None \<and> IsSuspended (kc_Status k) | _ \<Rightarrow> False) (trace t) \<and>
   list_all (sound_call checked_env) (trace t)"
proof -
  let ?t = "final_state (Reconcile checked_env sample_controller ''ns'' ''demo'' suspended_start)"
  have "list_ex (\<lambda>e. case e of UpdateStatusCall k r \<Rightarrow> r = None \<and> IsSuspended (kc_Status k) | _ \<Rightarrow> False) (trace ?t)"
    by code_simp
  moreover have "list_all (sound_call checked_env) (trace ?t)"
  proof (rule executions_sound [THEN conjunct1])
    show "op_reachable checked_env sample_controller ?t"
      by (rule op_reachable.step [OF op_reachable.start op_step.reconcile])
        (simp_all add: suspended_start_def suspended_cluster_def sample_state_def sample_controller_def sample_cluster_def empty_status_def)
    show "thread_safe_store (cc_store sample_controller)" using mstore.thread_safe_store_axioms by (simp add: sample_controller_def)
    show "serves_ok checked_env"
      by (auto simp: serves_ok_def checked_env_def sample_env_def mem_client_def split: sum.splits option.splits if_splits)
  qed
  ultimately show ?thesis by simp
qed

end
