(* ===== verification/RefManager.thy ===== *)
theory RefManager
  imports Control SampleEnv
begin

text \<open>
  \<open>pkg/controller/control/controller_ref_manager.go\<close>: claiming the pods and services of a
  controller by adopting orphans and releasing what no longer matches.

  A manager runs \<open>CanAdoptFunc\<close> at most once (\<open>sync.Once\<close>) and keeps its verdict; that part of its
  state is \<open>once_state\<close>, threaded beside the controller's state. The variadic filters are a list of
  predicates. \<open>utilerrors.NewAggregate\<close> gives nil for an empty list of errors and an error that
  holds the list otherwise: the aggregate is represented by the list.
\<close>

record once_state =
  once_done :: bool
  once_err :: "gerr option"

type_synonym ('w, 'st) rstate = "once_state \<times> ('w, 'st) cstate"

record ref_manager =
  rm_Controller :: ObjectMeta
  rm_Selector :: smap
  rm_GroupVersion :: string
  rm_Kind :: string

definition new_once :: once_state where
  "new_once = \<lparr> once_done = False, once_err = None \<rparr>"

text \<open>A step of the controller inside a manager.\<close>

definition in_ctl :: "('w, 'st, 'a) ctl \<Rightarrow> (('w, 'st) rstate, 'a) go" where
  "in_ctl m = (\<lambda>(o1, s). case m s of Ret a s' \<Rightarrow> Ret a (o1, s') | Panic p s' \<Rightarrow> Panic p (o1, s'))"

definition CanAdopt :: "('w, 'st, gerr option) ctl option \<Rightarrow> (('w, 'st) rstate, gerr option) go" where
  "CanAdopt CanAdoptFunc = (\<lambda>(o1, s).
     if once_done o1 then Ret (once_err o1) (o1, s)
     else case CanAdoptFunc of
       None \<Rightarrow> Ret (once_err o1) (o1\<lparr>once_done := True\<rparr>, s)
     | Some f \<Rightarrow> (case f s of
         Ret err s' \<Rightarrow> Ret err (\<lparr> once_done = True, once_err = err \<rparr>, s')
       | Panic p s' \<Rightarrow> Panic p (o1\<lparr>once_done := True\<rparr>, s')))"

definition ClaimObject ::
  "'w kenv \<Rightarrow> ref_manager \<Rightarrow> ObjectMeta \<Rightarrow> bool \<Rightarrow> ('s, gerr option) go \<Rightarrow> ('s, gerr option) go
     \<Rightarrow> ('s, bool \<times> gerr option) go" where
  "ClaimObject E m obj matches adopt release =
     (case ke_GetControllerOf E obj of
        Some controllerRef \<Rightarrow>
          if or_UID controllerRef \<noteq> om_UID (rm_Controller m) then go_return (False, None)
          else if matches then go_return (True, None)
          else if om_DeletionTimestamp (rm_Controller m) \<noteq> None then go_return (False, None)
          else go_bind release (\<lambda>r. case r of
                 Some err \<Rightarrow> if IsNotFound err then go_return (False, None) else go_return (False, Some err)
               | None \<Rightarrow> go_return (False, None))
      | None \<Rightarrow>
          if om_DeletionTimestamp (rm_Controller m) \<noteq> None \<or> \<not> matches then go_return (False, None)
          else if om_DeletionTimestamp obj \<noteq> None then go_return (False, None)
          else go_bind adopt (\<lambda>r. case r of
                 Some err \<Rightarrow> if IsNotFound err then go_return (False, None) else go_return (False, Some err)
               | None \<Rightarrow> go_return (True, None)))"

section \<open>Patches\<close>

definition addControllerPatch :: "ref_manager \<Rightarrow> string \<Rightarrow> string" where
  "addControllerPatch m uid =
     ''{\"metadata\":{\"ownerReferences\":[{\"apiVersion\":\"'' @ rm_GroupVersion m @
     ''\",\"kind\":\"'' @ rm_Kind m @ ''\",\"name\":\"'' @ om_Name (rm_Controller m) @
     ''\",\"uid\":\"'' @ om_UID (rm_Controller m) @
     ''\",\"controller\":true,\"blockOwnerDeletion\":true}],\"uid\":\"'' @ uid @ ''\"}}''"

definition deleteOwnerRefPatch :: "ref_manager \<Rightarrow> string \<Rightarrow> string" where
  "deleteOwnerRefPatch m uid =
     ''{\"metadata\":{\"ownerReferences\":[{\"$patch\":\"delete\",\"uid\":\"'' @ om_UID (rm_Controller m) @
     ''\"}],\"uid\":\"'' @ uid @ ''\"}}''"

definition cant_adopt :: "string \<Rightarrow> ObjectMeta \<Rightarrow> gerr \<Rightarrow> gerr" where
  "cant_adopt kind o1 err = errorf_v (''can't adopt '' @ kind @ '' '' @ om_Namespace o1 @ ''/'' @ om_Name o1 @
     '' ('' @ om_UID o1 @ ''): '') err"

definition ignore_gone :: "gerr option \<Rightarrow> gerr option" where
  "ignore_gone err = (case err of None \<Rightarrow> None
     | Some e \<Rightarrow> if IsNotFound e then None else if IsInvalid e then None else Some e)"

section \<open>PodControllerRefManager\<close>

definition NewPodControllerRefManager :: "ObjectMeta \<Rightarrow> smap \<Rightarrow> string \<Rightarrow> string \<Rightarrow> ref_manager" where
  "NewPodControllerRefManager ctrl selector gv kind =
     \<lparr> rm_Controller = ctrl, rm_Selector = selector, rm_GroupVersion = gv, rm_Kind = kind \<rparr>"

definition AdoptPod ::
  "'w kenv \<Rightarrow> ref_manager \<Rightarrow> ('w, 'st, gerr option) ctl option \<Rightarrow> Pod \<Rightarrow> (('w, 'st) rstate, gerr option) go" where
  "AdoptPod E m canAdopt pod =
     go_bind (CanAdopt canAdopt) (\<lambda>r. case r of
       Some err \<Rightarrow> go_return (Some (cant_adopt ''Pod'' (pod_Meta pod) err))
     | None \<Rightarrow> in_ctl (PatchPod E (om_Namespace (pod_Meta pod)) (om_Name (pod_Meta pod))
                 (addControllerPatch m (om_UID (pod_Meta pod)))))"

definition ReleasePod :: "'w kenv \<Rightarrow> ref_manager \<Rightarrow> Pod \<Rightarrow> (('w, 'st) rstate, gerr option) go" where
  "ReleasePod E m pod =
     go_bind (in_ctl (PatchPod E (om_Namespace (pod_Meta pod)) (om_Name (pod_Meta pod))
                (deleteOwnerRefPatch m (om_UID (pod_Meta pod))))) (\<lambda>err. go_return (ignore_gone err))"

definition matches_filters :: "'w kenv \<Rightarrow> ref_manager \<Rightarrow> ('o \<Rightarrow> bool) list \<Rightarrow> smap \<Rightarrow> 'o \<Rightarrow> bool" where
  "matches_filters E m filters ls obj \<longleftrightarrow>
     ke_SelectorMatches E (rm_Selector m) ls \<and> list_all (\<lambda>f. f obj) filters"

text \<open>The claim loop: errors are collected and the loop goes on.\<close>

fun claim_loop :: "('o \<Rightarrow> ('s, bool \<times> gerr option) go) \<Rightarrow> 'o list \<Rightarrow> ('s, 'o list \<times> gerr list) go" where
  "claim_loop f [] = go_return ([], [])"
| "claim_loop f (x # xs) =
     go_bind (f x) (\<lambda>(ok, err). go_bind (claim_loop f xs) (\<lambda>(claimed, errlist).
       case err of
         Some e \<Rightarrow> go_return (claimed, e # errlist)
       | None \<Rightarrow> go_return (if ok then x # claimed else claimed, errlist)))"

definition ClaimPods ::
  "'w kenv \<Rightarrow> ref_manager \<Rightarrow> ('w, 'st, gerr option) ctl option \<Rightarrow> Pod list \<Rightarrow> (Pod \<Rightarrow> bool) list
     \<Rightarrow> (('w, 'st) rstate, Pod list \<times> gerr list) go" where
  "ClaimPods E m canAdopt pods filters =
     claim_loop (\<lambda>pod. ClaimObject E m (pod_Meta pod)
        (matches_filters E m filters (om_Labels (pod_Meta pod)) pod)
        (AdoptPod E m canAdopt pod) (ReleasePod E m pod)) pods"

section \<open>ServiceControllerRefManager\<close>

definition NewServiceControllerRefManager :: "ObjectMeta \<Rightarrow> smap \<Rightarrow> string \<Rightarrow> string \<Rightarrow> ref_manager" where
  "NewServiceControllerRefManager ctr selector gv kind =
     \<lparr> rm_Controller = ctr, rm_Selector = selector, rm_GroupVersion = gv, rm_Kind = kind \<rparr>"

definition AdoptService ::
  "'w kenv \<Rightarrow> ref_manager \<Rightarrow> ('w, 'st, gerr option) ctl option \<Rightarrow> Service \<Rightarrow> (('w, 'st) rstate, gerr option) go" where
  "AdoptService E m canAdopt service =
     go_bind (CanAdopt canAdopt) (\<lambda>r. case r of
       Some err \<Rightarrow> go_return (Some (cant_adopt ''Service'' (svc_Meta service) err))
     | None \<Rightarrow> in_ctl (PatchService E (om_Namespace (svc_Meta service)) (om_Name (svc_Meta service))
                 (addControllerPatch m (om_UID (svc_Meta service)))))"

definition ReleaseService :: "'w kenv \<Rightarrow> ref_manager \<Rightarrow> Service \<Rightarrow> (('w, 'st) rstate, gerr option) go" where
  "ReleaseService E m service =
     go_bind (in_ctl (PatchService E (om_Namespace (svc_Meta service)) (om_Name (svc_Meta service))
                (deleteOwnerRefPatch m (om_UID (svc_Meta service))))) (\<lambda>err. go_return (ignore_gone err))"

definition ClaimServices ::
  "'w kenv \<Rightarrow> ref_manager \<Rightarrow> ('w, 'st, gerr option) ctl option \<Rightarrow> Service list \<Rightarrow> (Service \<Rightarrow> bool) list
     \<Rightarrow> (('w, 'st) rstate, Service list \<times> gerr list) go" where
  "ClaimServices E m canAdopt services filters =
     claim_loop (\<lambda>service. ClaimObject E m (svc_Meta service)
        (matches_filters E m filters (om_Labels (svc_Meta service)) service)
        (AdoptService E m canAdopt service) (ReleaseService E m service)) services"

section \<open>The claim protocol\<close>

text \<open>Who owns an object, as the manager reads it.\<close>

definition owned :: "'w kenv \<Rightarrow> ref_manager \<Rightarrow> ObjectMeta \<Rightarrow> bool" where
  "owned E m obj \<longleftrightarrow> (\<exists>r. ke_GetControllerOf E obj = Some r \<and> or_UID r = om_UID (rm_Controller m))"

definition orphan :: "'w kenv \<Rightarrow> ObjectMeta \<Rightarrow> bool" where
  "orphan E obj \<longleftrightarrow> ke_GetControllerOf E obj = None"

definition may_release :: "'w kenv \<Rightarrow> ref_manager \<Rightarrow> bool \<Rightarrow> ObjectMeta \<Rightarrow> bool" where
  "may_release E m matches obj \<longleftrightarrow>
     owned E m obj \<and> \<not> matches \<and> om_DeletionTimestamp (rm_Controller m) = None"

definition may_adopt :: "'w kenv \<Rightarrow> ref_manager \<Rightarrow> bool \<Rightarrow> ObjectMeta \<Rightarrow> bool" where
  "may_adopt E m matches obj \<longleftrightarrow>
     orphan E obj \<and> matches \<and> om_DeletionTimestamp (rm_Controller m) = None \<and> om_DeletionTimestamp obj = None"

text \<open>A manager for one kind of object: how an object is adopted and released.\<close>

locale claimer =
  fixes E :: "'w kenv" and m :: ref_manager
    and meta :: "'o \<Rightarrow> ObjectMeta" and matches :: "'o \<Rightarrow> bool"
    and adopt :: "'o \<Rightarrow> ('s, gerr option) go" and release :: "'o \<Rightarrow> ('s, gerr option) go"
    and R :: "'o \<Rightarrow> 's \<Rightarrow> 's \<Rightarrow> bool"
  assumes adopt_R: "may_adopt E m (matches x) (meta x) \<Longrightarrow> wp (adopt x) (\<lambda>_. R x s) s"
    and release_R: "may_release E m (matches x) (meta x) \<Longrightarrow> wp (release x) (\<lambda>_. R x s) s"
begin

abbreviation claim :: "'o \<Rightarrow> ('s, bool \<times> gerr option) go" where
  "claim x \<equiv> ClaimObject E m (meta x) (matches x) (adopt x) (release x)"

lemma claim_verdict:
  "wp (claim x) (\<lambda>(ok, err) s'.
      (ok \<longrightarrow> err = None \<and> matches x \<and> (owned E m (meta x) \<or> may_adopt E m (matches x) (meta x))) \<and>
      (owned E m (meta x) \<and> matches x \<longrightarrow> ok) \<and>
      (s' = s \<or> (may_adopt E m (matches x) (meta x) \<or> may_release E m (matches x) (meta x)) \<and> R x s s')) s"
proof (cases "may_adopt E m (matches x) (meta x)")
  case True
  then have ev: "claim x = go_bind (adopt x) (\<lambda>r. case r of
      Some err \<Rightarrow> if IsNotFound err then go_return (False, None) else go_return (False, Some err)
    | None \<Rightarrow> go_return (True, None))"
    by (simp add: ClaimObject_def may_adopt_def orphan_def)
  show ?thesis
    unfolding ev wp_bind
    by (rule wp_mono [OF adopt_R [OF True]])
      (use True in \<open>auto simp: wp owned_def may_adopt_def orphan_def split: option.splits\<close>)
next
  case nadopt: False
  show ?thesis
  proof (cases "may_release E m (matches x) (meta x)")
    case True
    then have ev: "claim x = go_bind (release x) (\<lambda>r. case r of
        Some err \<Rightarrow> if IsNotFound err then go_return (False, None) else go_return (False, Some err)
      | None \<Rightarrow> go_return (False, None))"
      by (auto simp: ClaimObject_def may_release_def owned_def)
    show ?thesis
      unfolding ev wp_bind
      by (rule wp_mono [OF release_R [OF True]])
        (use True in \<open>auto simp: wp may_release_def split: option.splits\<close>)
  next
    case False
    with nadopt show ?thesis
      by (auto simp: ClaimObject_def may_adopt_def may_release_def orphan_def owned_def wp
          split: option.splits)
  qed
qed

definition kept :: "'o \<Rightarrow> bool" where
  "kept x \<longleftrightarrow> owned E m (meta x) \<and> matches x"

definition claimable :: "'o \<Rightarrow> bool" where
  "claimable x \<longleftrightarrow> matches x \<and> (owned E m (meta x) \<or> may_adopt E m (matches x) (meta x))"

lemma claim_ok: "wp (claim x) (\<lambda>v _. (fst v \<longrightarrow> snd v = None \<and> claimable x) \<and> (kept x \<longrightarrow> fst v)) s"
  by (rule wp_mono [OF claim_verdict]) (auto simp: kept_def claimable_def)

lemma claim_loop_claims:
  "wp (claim_loop claim xs) (\<lambda>(claimed, errs) s'.
      (\<forall>y \<in> set claimed. y \<in> set xs \<and> claimable y) \<and> (\<forall>y \<in> set xs. kept y \<longrightarrow> y \<in> set claimed)) s"
proof (induction xs arbitrary: s)
  case Nil
  then show ?case by (simp add: wp)
next
  case (Cons x xs)
  show ?case
    unfolding claim_loop.simps wp_bind
  proof (rule wp_mono [OF claim_ok])
    fix a :: "bool \<times> gerr option" and s1
    obtain ok err where a: "a = (ok, err)" by (cases a)
    assume "(fst a \<longrightarrow> snd a = None \<and> claimable x) \<and> (kept x \<longrightarrow> fst a)"
    then have v: "ok \<Longrightarrow> err = None" "ok \<Longrightarrow> claimable x" "kept x \<Longrightarrow> ok" by (auto simp: a)
    show "wp (case a of (ok, err) \<Rightarrow> go_bind (claim_loop claim xs) (\<lambda>(claimed, errlist). case err of
        Some e \<Rightarrow> go_return (claimed, e # errlist)
      | None \<Rightarrow> go_return (if ok then x # claimed else claimed, errlist))) (\<lambda>(claimed, errs) s'.
        (\<forall>y \<in> set claimed. y \<in> set (x # xs) \<and> claimable y) \<and> (\<forall>y \<in> set (x # xs). kept y \<longrightarrow> y \<in> set claimed)) s1"
      unfolding a prod.case wp_bind
      by (rule wp_mono [OF Cons.IH]) (use v in \<open>auto simp: wp split: option.splits\<close>)
  qed
qed

definition touches :: "'o list \<Rightarrow> 's \<Rightarrow> 's \<Rightarrow> bool" where
  "touches xs a b \<longleftrightarrow>
     (\<exists>x \<in> set xs. (may_adopt E m (matches x) (meta x) \<or> may_release E m (matches x) (meta x)) \<and> R x a b)"

lemma touches_deleting: "om_DeletionTimestamp (rm_Controller m) \<noteq> None \<Longrightarrow> (touches xs)\<^sup>*\<^sup>* a b \<Longrightarrow> b = a"
  by (erule rtranclp.cases) (auto simp: touches_def may_adopt_def may_release_def)

lemma claim_loop_touches:
  assumes "\<And>x. x \<in> set xs \<Longrightarrow> x \<in> set ys"
  shows "wp (claim_loop claim xs) (\<lambda>_ s'. (touches ys)\<^sup>*\<^sup>* s s') s"
  using assms
proof (induction xs arbitrary: s)
  case Nil
  then show ?case by (simp add: wp)
next
  case (Cons x xs)
  have one: "wp (claim x) (\<lambda>_ s'. (touches ys)\<^sup>*\<^sup>* s s') s"
  proof (rule wp_mono [OF claim_verdict], clarsimp)
    fix s' assume "s' = s \<or> (may_adopt E m (matches x) (meta x) \<or> may_release E m (matches x) (meta x)) \<and> R x s s'"
    then have "s' = s \<or> touches ys s s'" using Cons.prems by (auto simp: touches_def)
    then show "(touches ys)\<^sup>*\<^sup>* s s'" by (rule disjE) (simp, erule r_into_rtranclp)
  qed
  have rest: "wp (claim_loop claim xs) (\<lambda>_ s'. (touches ys)\<^sup>*\<^sup>* t s') t" for t
    using Cons by simp
  show ?case
    unfolding claim_loop.simps wp_bind
    by (rule wp_mono [OF one], clarsimp simp: wp, rule wp_mono [OF rest])
      (auto simp: wp split: option.splits intro: rtranclp_trans)
qed

end

section \<open>Pods and services\<close>

text \<open>What the caller promises of \<open>CanAdoptFunc\<close>: it only reads (typically a live GET).\<close>

locale can_adopt =
  fixes ca :: "('w, 'st, gerr option) ctl option"
  assumes ca_total: "ca = Some f \<Longrightarrow> total f"
    and ca_quiet: "ca = Some f \<Longrightarrow> keeps (unchanged trace) f"
begin

lemma CanAdopt_quiet: "wp (CanAdopt ca) (\<lambda>r s'. trace (snd s') = trace (snd s) \<and> once_done (fst s')) s"
proof (cases s)
  case (Pair o1 t)
  show ?thesis
  proof (cases ca)
    case None
    then show ?thesis by (auto simp: CanAdopt_def wp_def Pair)
  next
    case (Some f)
    then obtain a t' where "f t = Ret a t'" "trace t' = trace t"
      using total_keeps [where s = t, OF ca_total [OF Some] ca_quiet [OF Some]] by (auto simp: unchanged_def)
    then show ?thesis by (auto simp: CanAdopt_def wp_def Pair Some)
  qed
qed

text \<open>The verdict is asked for once and then fixed.\<close>

lemma CanAdopt_once: "once_done o1 \<Longrightarrow> CanAdopt ca (o1, t) = Ret (once_err o1) (o1, t)"
  by (simp add: CanAdopt_def)

end

interpretation no_check: can_adopt None
  by unfold_locales auto

definition patched ::
  "(string \<Rightarrow> string \<Rightarrow> string \<Rightarrow> gerr option \<Rightarrow> effect) \<Rightarrow> ref_manager \<Rightarrow> bool \<Rightarrow> ObjectMeta
     \<Rightarrow> ('w, 'st) rstate \<Rightarrow> ('w, 'st) rstate \<Rightarrow> bool" where
  "patched patch_call m adopted obj a b \<longleftrightarrow> trace (snd b) = trace (snd a) \<or>
     (\<exists>r. trace (snd b) = trace (snd a) @ [patch_call (om_Namespace obj) (om_Name obj)
        ((if adopted then addControllerPatch else deleteOwnerRefPatch) m (om_UID obj)) r])"

lemma wp_in_ctl: "wp (in_ctl n) Q s = wp n (\<lambda>a t. Q a (fst s, t)) (snd s)"
  by (cases s) (simp add: wp_def in_ctl_def split: outcome.splits)

lemma not_adopt_release: "\<not> (may_adopt E m b obj \<and> may_release E m b obj)"
  by (auto simp: may_adopt_def may_release_def)

context can_adopt
begin

lemma AdoptPod_patched: "wp (AdoptPod E m ca x) (\<lambda>_. patched PatchPodCall m True (pod_Meta x) s) s"
  unfolding AdoptPod_def wp_bind
  by (rule wp_mono [OF CanAdopt_quiet])
    (auto simp: wp wp_in_ctl PatchPod_def patched_def split: option.splits prod.splits)

lemma ReleasePod_patched: "wp (ReleasePod E m x) (\<lambda>_. patched PatchPodCall m False (pod_Meta x) s) s"
  by (auto simp: ReleasePod_def wp wp_in_ctl PatchPod_def patched_def split: prod.splits)

lemma AdoptService_patched: "wp (AdoptService E m ca x) (\<lambda>_. patched PatchServiceCall m True (svc_Meta x) s) s"
  unfolding AdoptService_def wp_bind
  by (rule wp_mono [OF CanAdopt_quiet])
    (auto simp: wp wp_in_ctl PatchService_def patched_def split: option.splits prod.splits)

lemma ReleaseService_patched: "wp (ReleaseService E m x) (\<lambda>_. patched PatchServiceCall m False (svc_Meta x) s) s"
  by (auto simp: ReleaseService_def wp wp_in_ctl PatchService_def patched_def split: prod.splits)

end

sublocale can_adopt \<subseteq> pods: claimer E m pod_Meta "\<lambda>p. matches_filters E m filters (om_Labels (pod_Meta p)) p"
  "AdoptPod E m ca" "ReleasePod E m"
  "\<lambda>p. patched PatchPodCall m (orphan E (pod_Meta p)) (pod_Meta p)" for E m filters
  using AdoptPod_patched ReleasePod_patched
  by unfold_locales (auto simp: may_adopt_def may_release_def owned_def orphan_def)

sublocale can_adopt \<subseteq> services: claimer E m svc_Meta "\<lambda>p. matches_filters E m filters (om_Labels (svc_Meta p)) p"
  "AdoptService E m ca" "ReleaseService E m"
  "\<lambda>p. patched PatchServiceCall m (orphan E (svc_Meta p)) (svc_Meta p)" for E m filters
  using AdoptService_patched ReleaseService_patched
  by unfold_locales (auto simp: may_adopt_def may_release_def owned_def orphan_def)

section \<open>What claiming promises\<close>

lemma rtranclp_trace:
  assumes "T\<^sup>*\<^sup>* a b"
    and "\<And>a b. T a b \<Longrightarrow> trace (snd b) = trace (snd a) \<or> (\<exists>e. P e \<and> trace (snd b) = trace (snd a) @ [e])"
  shows "\<exists>es. trace (snd b) = trace (snd a) @ es \<and> list_all P es"
  using assms(1)
proof induction
  case base
  then show ?case by simp
next
  case (step b c)
  then obtain es where es: "trace (snd b) = trace (snd a) @ es" "list_all P es" by blast
  from assms(2) [OF step.hyps(2)] show ?case
    by (elim disjE exE conjE) (use es in \<open>auto intro: exI [of _ "es @ [_]"]\<close>)
qed

text \<open>The patches a claim may send: the adoption of an orphan that matches, or the release of an
  owned object that does not; neither while the controller is being deleted.\<close>

definition legal_patch ::
  "(string \<Rightarrow> string \<Rightarrow> string \<Rightarrow> gerr option \<Rightarrow> effect) \<Rightarrow> 'w kenv \<Rightarrow> ref_manager
     \<Rightarrow> (('o \<Rightarrow> bool) list) \<Rightarrow> ('o \<Rightarrow> ObjectMeta) \<Rightarrow> 'o list \<Rightarrow> effect \<Rightarrow> bool" where
  "legal_patch patch_call E m filters meta objs e \<longleftrightarrow>
     (\<exists>x \<in> set objs. \<exists>r. let matches = matches_filters E m filters (om_Labels (meta x)) x in
        may_adopt E m matches (meta x) \<and>
          e = patch_call (om_Namespace (meta x)) (om_Name (meta x)) (addControllerPatch m (om_UID (meta x))) r \<or>
        may_release E m matches (meta x) \<and>
          e = patch_call (om_Namespace (meta x)) (om_Name (meta x)) (deleteOwnerRefPatch m (om_UID (meta x))) r)"

context can_adopt
begin

lemma pod_touch_legal:
  assumes "pods.touches E m filters pods a b"
  shows "trace (snd b) = trace (snd a) \<or>
    (\<exists>e. legal_patch PatchPodCall E m filters pod_Meta pods e \<and> trace (snd b) = trace (snd a) @ [e])"
  using assms unfolding pods.touches_def patched_def legal_patch_def
  by (fastforce simp: Let_def may_adopt_def may_release_def owned_def orphan_def)

lemma service_touch_legal:
  assumes "services.touches E m filters svcs a b"
  shows "trace (snd b) = trace (snd a) \<or>
    (\<exists>e. legal_patch PatchServiceCall E m filters svc_Meta svcs e \<and> trace (snd b) = trace (snd a) @ [e])"
  using assms unfolding services.touches_def patched_def legal_patch_def
  by (fastforce simp: Let_def may_adopt_def may_release_def owned_def orphan_def)

lemma ClaimPods_wp:
  "wp (ClaimPods E m ca pods filters) (\<lambda>(claimed, errs) s'.
     (\<forall>p \<in> set claimed. p \<in> set pods \<and> pods.claimable E m filters p) \<and>
     (\<forall>p \<in> set pods. pods.kept E m filters p \<longrightarrow> p \<in> set claimed)) s"
  "wp (ClaimPods E m ca pods filters) (\<lambda>_ s'. (pods.touches E m filters pods)\<^sup>*\<^sup>* s s') s"
  unfolding ClaimPods_def by (rule pods.claim_loop_claims pods.claim_loop_touches; simp)+

lemma ClaimServices_wp:
  "wp (ClaimServices E m ca svcs filters) (\<lambda>(claimed, errs) s'.
     (\<forall>p \<in> set claimed. p \<in> set svcs \<and> services.claimable E m filters p) \<and>
     (\<forall>p \<in> set svcs. services.kept E m filters p \<longrightarrow> p \<in> set claimed)) s"
  "wp (ClaimServices E m ca svcs filters) (\<lambda>_ s'. (services.touches E m filters svcs)\<^sup>*\<^sup>* s s') s"
  unfolding ClaimServices_def by (rule services.claim_loop_claims services.claim_loop_touches; simp)+

lemma ClaimPods_main:
  "\<exists>claimed errs s'. ClaimPods E m ca pods filters s = Ret (claimed, errs) s' \<and>
     (\<forall>p \<in> set claimed. p \<in> set pods \<and> matches_filters E m filters (om_Labels (pod_Meta p)) p \<and>
        (owned E m (pod_Meta p) \<or> may_adopt E m True (pod_Meta p))) \<and>
     (\<forall>p \<in> set pods. owned E m (pod_Meta p) \<and> matches_filters E m filters (om_Labels (pod_Meta p)) p \<longrightarrow>
        p \<in> set claimed) \<and>
     (\<exists>es. trace (snd s') = trace (snd s) @ es \<and> list_all (legal_patch PatchPodCall E m filters pod_Meta pods) es) \<and>
     (om_DeletionTimestamp (rm_Controller m) \<noteq> None \<longrightarrow> trace (snd s') = trace (snd s))"
proof -
  obtain c errs s' where run: "ClaimPods E m ca pods filters s = Ret (c, errs) s'"
    and claims: "\<forall>p \<in> set c. p \<in> set pods \<and> pods.claimable E m filters p"
      "\<forall>p \<in> set pods. pods.kept E m filters p \<longrightarrow> p \<in> set c"
    using ClaimPods_wp(1) [of E m pods filters s] by (auto simp: wp_iff_Ret)
  from run have T: "(pods.touches E m filters pods)\<^sup>*\<^sup>* s s'"
    using ClaimPods_wp(2) [of E m pods filters s] by (simp add: wp_def)
  have "\<exists>es. trace (snd s') = trace (snd s) @ es \<and> list_all (legal_patch PatchPodCall E m filters pod_Meta pods) es"
    by (rule rtranclp_trace [OF T pod_touch_legal])
  with run claims pods.touches_deleting [OF _ T] show ?thesis
    by (auto simp: pods.claimable_def pods.kept_def)
qed

lemma ClaimServices_main:
  "\<exists>claimed errs s'. ClaimServices E m ca svcs filters s = Ret (claimed, errs) s' \<and>
     (\<forall>p \<in> set claimed. p \<in> set svcs \<and> matches_filters E m filters (om_Labels (svc_Meta p)) p \<and>
        (owned E m (svc_Meta p) \<or> may_adopt E m True (svc_Meta p))) \<and>
     (\<forall>p \<in> set svcs. owned E m (svc_Meta p) \<and> matches_filters E m filters (om_Labels (svc_Meta p)) p \<longrightarrow>
        p \<in> set claimed) \<and>
     (\<exists>es. trace (snd s') = trace (snd s) @ es \<and> list_all (legal_patch PatchServiceCall E m filters svc_Meta svcs) es) \<and>
     (om_DeletionTimestamp (rm_Controller m) \<noteq> None \<longrightarrow> trace (snd s') = trace (snd s))"
proof -
  obtain c errs s' where run: "ClaimServices E m ca svcs filters s = Ret (c, errs) s'"
    and claims: "\<forall>p \<in> set c. p \<in> set svcs \<and> services.claimable E m filters p"
      "\<forall>p \<in> set svcs. services.kept E m filters p \<longrightarrow> p \<in> set c"
    using ClaimServices_wp(1) [of E m svcs filters s] by (auto simp: wp_iff_Ret)
  from run have T: "(services.touches E m filters svcs)\<^sup>*\<^sup>* s s'"
    using ClaimServices_wp(2) [of E m svcs filters s] by (simp add: wp_def)
  have "\<exists>es. trace (snd s') = trace (snd s) @ es \<and> list_all (legal_patch PatchServiceCall E m filters svc_Meta svcs) es"
    by (rule rtranclp_trace [OF T service_touch_legal])
  with run claims services.touches_deleting [OF _ T] show ?thesis
    by (auto simp: services.claimable_def services.kept_def)
qed

end

text \<open>C17: claiming pods. Whatever the API server answers, \<open>ClaimPods\<close> returns; it claims every
  owned pod that matches the selector and the filters, and only matching pods that are owned or
  adoptable orphans. It patches nothing but the pods given, adopts only matching orphans that are
  not being deleted, releases only owned pods that no longer match, and patches nothing at all
  while the controller itself is being deleted.\<close>

theorem ClaimPods_correct:
  assumes "can_adopt ca"
  shows "\<exists>claimed errs s'. ClaimPods E m ca pods filters s = Ret (claimed, errs) s' \<and>
     (\<forall>p \<in> set claimed. p \<in> set pods \<and> matches_filters E m filters (om_Labels (pod_Meta p)) p \<and>
        (owned E m (pod_Meta p) \<or> may_adopt E m True (pod_Meta p))) \<and>
     (\<forall>p \<in> set pods. owned E m (pod_Meta p) \<and> matches_filters E m filters (om_Labels (pod_Meta p)) p \<longrightarrow>
        p \<in> set claimed) \<and>
     (\<exists>es. trace (snd s') = trace (snd s) @ es \<and> list_all (legal_patch PatchPodCall E m filters pod_Meta pods) es) \<and>
     (om_DeletionTimestamp (rm_Controller m) \<noteq> None \<longrightarrow> trace (snd s') = trace (snd s))"
  using can_adopt.ClaimPods_main [OF assms] by blast

lemma ClaimPods_correct_witness:
  "\<exists>claimed errs s'. ClaimPods sample_env
       (NewPodControllerRefManager (sample_meta ''demo'') [] ''kubecluster.org/v1alpha1'' KubeClusterKind) None
       [sample_pod ''demo-worker-0'' ''worker'' ''0'' PodRunning] []
       (new_once, sample_state empty_world (sample_cluster ''slurm'')) = Ret (claimed, errs) s' \<and>
     sample_pod ''demo-worker-0'' ''worker'' ''0'' PodRunning \<in> set claimed"
  using ClaimPods_correct [OF no_check.can_adopt_axioms, of sample_env
      "NewPodControllerRefManager (sample_meta ''demo'') [] ''kubecluster.org/v1alpha1'' KubeClusterKind"
      "[sample_pod ''demo-worker-0'' ''worker'' ''0'' PodRunning]" "[]"
      "(new_once, sample_state empty_world (sample_cluster ''slurm''))"]
  by (auto simp: owned_def matches_filters_def NewPodControllerRefManager_def sample_defs)

text \<open>Claiming services, with the same promises as for pods.\<close>

lemma ClaimServices_correct:
  assumes "can_adopt ca"
  shows "\<exists>claimed errs s'. ClaimServices E m ca svcs filters s = Ret (claimed, errs) s' \<and>
     (\<forall>p \<in> set claimed. p \<in> set svcs \<and> matches_filters E m filters (om_Labels (svc_Meta p)) p \<and>
        (owned E m (svc_Meta p) \<or> may_adopt E m True (svc_Meta p))) \<and>
     (\<forall>p \<in> set svcs. owned E m (svc_Meta p) \<and> matches_filters E m filters (om_Labels (svc_Meta p)) p \<longrightarrow>
        p \<in> set claimed) \<and>
     (\<exists>es. trace (snd s') = trace (snd s) @ es \<and> list_all (legal_patch PatchServiceCall E m filters svc_Meta svcs) es) \<and>
     (om_DeletionTimestamp (rm_Controller m) \<noteq> None \<longrightarrow> trace (snd s') = trace (snd s))"
  using can_adopt.ClaimServices_main [OF assms] by blast

end
