(* ===== verification/GoHeap.thy ===== *)
theory GoHeap
  imports Prelude
begin

text \<open>
  Memory with pointers. A Go heap is a list of cells, an address is an index into it, and allocation appends a cell; a nil pointer is
  \<open>None\<close>. The locale \<open>deep_copy\<close> is the contract of a generated \<open>DeepCopyInto\<close>: the copy reads as the original, old cells are left
  alone, and the cells the copy reaches are new ones, but for a stated set of shared ones. It is closed under pointers, slices, maps and
  structs, so that the contract of a type follows from its fields.
\<close>

type_synonym addr = nat

section \<open>Allocation, loads and stores\<close>

definition go_new :: "'c \<Rightarrow> ('c list, addr) go" where
  "go_new c = (\<lambda>h. Ret (length h) (h @ [c]))"

definition go_load :: "('c \<Rightarrow> 'a option) \<Rightarrow> addr \<Rightarrow> ('c list, 'a) go" where
  "go_load sel a = (\<lambda>h. if a < length h then (case sel (h ! a) of Some x \<Rightarrow> Ret x h | None \<Rightarrow> Panic ''invalid cell'' h)
     else Panic ''invalid memory address'' h)"

definition go_store :: "addr \<Rightarrow> 'c \<Rightarrow> ('c list, unit) go" where
  "go_store a c = (\<lambda>h. if a < length h then Ret () (h[a := c]) else Panic ''invalid memory address'' h)"

text \<open>\<open>*out = new(T); (*in).DeepCopyInto(*out)\<close>: the cell is allocated first, zeroed, and filled last.\<close>

definition copy_new :: "('c \<Rightarrow> 'a option) \<Rightarrow> ('a \<Rightarrow> 'c) \<Rightarrow> 'c \<Rightarrow> ('a \<Rightarrow> ('c list, 'a) go) \<Rightarrow> addr \<Rightarrow> ('c list, addr) go" where
  "copy_new sel mk zero copy a =
     go_bind (go_new zero) (\<lambda>out. go_bind (go_load sel a) (\<lambda>x. go_bind (copy x) (\<lambda>y. go_seq (go_store out (mk y)) (go_return out))))"

text \<open>\<open>if in != nil { ... }\<close> around it.\<close>

definition copy_ptr :: "('c \<Rightarrow> 'a option) \<Rightarrow> ('a \<Rightarrow> 'c) \<Rightarrow> 'c \<Rightarrow> ('a \<Rightarrow> ('c list, 'a) go) \<Rightarrow> addr option \<Rightarrow> ('c list, addr option) go" where
  "copy_ptr sel mk zero copy p = (case p of None \<Rightarrow> go_return None | Some a \<Rightarrow> go_bind (copy_new sel mk zero copy a) (\<lambda>out. go_return (Some out)))"

text \<open>A loop over a slice or over the entries of a map: \<open>(*in)[i].DeepCopyInto(&(*out)[i])\<close>.\<close>

fun copy_list :: "('a \<Rightarrow> ('c list, 'a) go) \<Rightarrow> 'a list \<Rightarrow> ('c list, 'a list) go" where
  "copy_list copy [] = go_return []"
| "copy_list copy (x # xs) = go_bind (copy x) (\<lambda>y. go_bind (copy_list copy xs) (\<lambda>ys. go_return (y # ys)))"

definition copy_pair :: "('a \<Rightarrow> ('c list, 'a) go) \<Rightarrow> ('b \<Rightarrow> ('c list, 'b) go) \<Rightarrow> 'a \<times> 'b \<Rightarrow> ('c list, 'a \<times> 'b) go" where
  "copy_pair copy1 copy2 x = go_bind (copy1 (fst x)) (\<lambda>y. go_bind (copy2 (snd x)) (\<lambda>z. go_return (y, z)))"

section \<open>The contract\<close>

definition extends :: "'c list \<Rightarrow> 'c list \<Rightarrow> bool" where
  "extends h h' \<longleftrightarrow> (\<exists>cs. h' = h @ cs)"

definition agree :: "addr set \<Rightarrow> 'c list \<Rightarrow> 'c list \<Rightarrow> bool" where
  "agree A h h' \<longleftrightarrow> (\<forall>a \<in> A. a < length h' \<and> h' ! a = h ! a)"

lemma extends_refl [simp]: "extends h h"
  by (simp add: extends_def)

lemma extends_trans: "extends h h' \<Longrightarrow> extends h' h'' \<Longrightarrow> extends h h''"
  by (auto simp: extends_def)

lemma extends_new [simp]: "extends h (h @ cs)"
  by (simp add: extends_def)

lemma extends_length: "extends h h' \<Longrightarrow> length h \<le> length h'"
  by (auto simp: extends_def)

lemma extends_nth: "extends h h' \<Longrightarrow> a < length h \<Longrightarrow> h' ! a = h ! a"
  by (auto simp: extends_def nth_append)

lemma extends_agree: "extends h h' \<Longrightarrow> A \<subseteq> {..<length h} \<Longrightarrow> agree A h h'"
  by (fastforce simp: agree_def extends_nth dest: extends_length)

lemma extends_update: "extends h h' \<Longrightarrow> length h \<le> a \<Longrightarrow> extends h (h'[a := c])"
  by (auto simp: extends_def list_update_append split: if_splits)

lemma agree_subset: "agree B h h' \<Longrightarrow> A \<subseteq> B \<Longrightarrow> agree A h h'"
  by (auto simp: agree_def)

lemma agree_update: "a \<notin> A \<Longrightarrow> A \<subseteq> {..<length h} \<Longrightarrow> agree A h (h[a := c])"
  by (auto simp: agree_def nth_list_update subset_iff) (metis nth_list_update_neq)

text \<open>The cells allocated between two heaps.\<close>

definition fresh :: "'c list \<Rightarrow> 'c list \<Rightarrow> addr set" where
  "fresh h h' = {length h ..< length h'}"

lemma fresh_mono: "extends h0 h \<Longrightarrow> extends h h' \<Longrightarrow> fresh h0 h \<subseteq> fresh h0 h' \<and> fresh h h' \<subseteq> fresh h0 h'"
  by (auto simp: fresh_def dest: extends_length)

locale deep_copy =
  fixes copy :: "'a \<Rightarrow> ('c list, 'a) go"
    and val :: "'c list \<Rightarrow> 'a \<Rightarrow> 'v option"
    and foot :: "'c list \<Rightarrow> 'a \<Rightarrow> addr set"
    and shared :: "'c list \<Rightarrow> 'a \<Rightarrow> addr set"
  assumes copies: "val h x = Some v \<Longrightarrow> \<exists>y h'. copy x h = Ret y h' \<and> extends h h' \<and> val h' y = Some v \<and> foot h' y \<subseteq> fresh h h' \<union> shared h x"
    and local_val: "val h x = Some v \<Longrightarrow> agree (foot h x) h h' \<Longrightarrow> val h' x = Some v \<and> foot h' x = foot h x \<and> shared h' x = shared h x"
    and foot_in: "val h x = Some v \<Longrightarrow> shared h x \<subseteq> foot h x \<and> foot h x \<subseteq> {..<length h}"
begin

lemma val_extends: "val h x = Some v \<Longrightarrow> extends h h' \<Longrightarrow> val h' x = Some v \<and> foot h' x = foot h x \<and> shared h' x = shared h x"
  by (rule local_val) (auto intro: extends_agree dest: foot_in)

text \<open>Writes to cells that are not new leave the copy alone, if they spare the shared cells; writes to new cells leave the original alone.\<close>

lemma independent:
  assumes "val h x = Some v"
  obtains y h' where "copy x h = Ret y h'" "extends h h'" "val h' y = Some v"
    "\<And>k. agree (fresh h h' \<union> shared h x) h' k \<Longrightarrow> val k y = Some v" "\<And>k. agree {..<length h} h k \<Longrightarrow> val k x = Some v"
proof -
  obtain y h' where c: "copy x h = Ret y h'" "extends h h'" "val h' y = Some v" "foot h' y \<subseteq> fresh h h' \<union> shared h x"
    using copies [OF assms] by blast
  have "val k y = Some v" if "agree (fresh h h' \<union> shared h x) h' k" for k
    using local_val [OF c(3)] agree_subset [OF that c(4)] by blast
  moreover have "val k x = Some v" if "agree {..<length h} h k" for k
    using local_val [OF assms] foot_in [OF assms] agree_subset [OF that] by blast
  ultimately show thesis using that c by blast
qed

end

section \<open>Composition\<close>

text \<open>A field without pointers.\<close>

lemma deep_copy_plain: "deep_copy go_return (\<lambda>h x. Some (f x)) (\<lambda>h x. {}) (\<lambda>h x. {})"
  by unfold_locales (auto simp: go_return_def intro: extends_refl)

text \<open>A pointer that \<open>*out = *in\<close> copies and nothing replaces.\<close>

definition ptr_val :: "('c \<Rightarrow> 'a option) \<Rightarrow> ('c list \<Rightarrow> 'a \<Rightarrow> 'v option) \<Rightarrow> 'c list \<Rightarrow> addr option \<Rightarrow> 'v option option" where
  "ptr_val sel val h p = (case p of None \<Rightarrow> Some None
     | Some a \<Rightarrow> if a < length h then (case sel (h ! a) of None \<Rightarrow> None | Some x \<Rightarrow> map_option Some (val h x)) else None)"

definition ptr_cells :: "('c \<Rightarrow> 'a option) \<Rightarrow> ('c list \<Rightarrow> 'a \<Rightarrow> addr set) \<Rightarrow> 'c list \<Rightarrow> addr option \<Rightarrow> addr set" where
  "ptr_cells sel cells h p = (case p of None \<Rightarrow> {} | Some a \<Rightarrow> (case sel (h ! a) of None \<Rightarrow> {} | Some x \<Rightarrow> cells h x))"

definition ptr_foot :: "('c \<Rightarrow> 'a option) \<Rightarrow> ('c list \<Rightarrow> 'a \<Rightarrow> addr set) \<Rightarrow> 'c list \<Rightarrow> addr option \<Rightarrow> addr set" where
  "ptr_foot sel foot h p = set_option p \<union> ptr_cells sel foot h p"

lemma ptr_local:
  assumes "deep_copy copy val foot shared" "ptr_val sel val h p = Some v" "agree (ptr_foot sel foot h p) h h'"
  shows "ptr_val sel val h' p = Some v" "ptr_foot sel foot h' p = ptr_foot sel foot h p" "ptr_cells sel shared h' p = ptr_cells sel shared h p"
proof (atomize (full), cases p)
  case None
  with assms show "ptr_val sel val h' p = Some v \<and> ptr_foot sel foot h' p = ptr_foot sel foot h p \<and> ptr_cells sel shared h' p = ptr_cells sel shared h p"
    by (simp add: ptr_val_def ptr_foot_def ptr_cells_def)
next
  case (Some a)
  with assms(2) obtain x u where x: "a < length h" "sel (h ! a) = Some x" "val h x = Some u" "v = Some u"
    by (auto simp: ptr_val_def split: if_splits option.splits)
  with Some assms(3) have same: "a < length h'" "h' ! a = h ! a" "agree (foot h x) h h'"
    by (auto simp: ptr_foot_def ptr_cells_def agree_def)
  from deep_copy.local_val [OF assms(1) x(3) same(3)] x same Some
  show "ptr_val sel val h' p = Some v \<and> ptr_foot sel foot h' p = ptr_foot sel foot h p \<and> ptr_cells sel shared h' p = ptr_cells sel shared h p"
    by (simp add: ptr_val_def ptr_foot_def ptr_cells_def)
qed

lemma ptr_foot_in:
  assumes "deep_copy copy val foot shared" "ptr_val sel val h p = Some v"
  shows "ptr_cells sel shared h p \<subseteq> ptr_foot sel foot h p" "ptr_foot sel foot h p \<subseteq> {..<length h}"
  using assms(2) deep_copy.foot_in [OF assms(1)]
  by (auto simp: ptr_val_def ptr_foot_def ptr_cells_def split: option.splits if_splits) blast+

lemma deep_copy_alias:
  assumes "deep_copy copy val foot shared"
  shows "deep_copy go_return (ptr_val sel val) (ptr_foot sel foot) (ptr_foot sel foot)"
proof
  fix h p v
  assume v: "ptr_val sel val h p = Some v"
  then show "\<exists>y h'. go_return p h = Ret y h' \<and> extends h h' \<and> ptr_val sel val h' y = Some v \<and> ptr_foot sel foot h' y \<subseteq> fresh h h' \<union> ptr_foot sel foot h p"
    by (auto simp: go_return_def)
  show "ptr_foot sel foot h p \<subseteq> ptr_foot sel foot h p \<and> ptr_foot sel foot h p \<subseteq> {..<length h}"
    using ptr_foot_in [OF assms v] by simp
  fix h'
  assume "agree (ptr_foot sel foot h p) h h'"
  from ptr_local [OF assms v this]
  show "ptr_val sel val h' p = Some v \<and> ptr_foot sel foot h' p = ptr_foot sel foot h p \<and> ptr_foot sel foot h' p = ptr_foot sel foot h p" by simp
qed

text \<open>A pointer to a new cell that holds the copy of what the old one points to.\<close>

lemma copy_ptr_Some:
  assumes dc: "deep_copy copy val foot shared" and sel: "\<And>x. sel (mk x) = Some x" and x: "a < length h" "sel (h ! a) = Some x" "val h x = Some u"
  shows "\<exists>h'. copy_ptr sel mk zero copy (Some a) h = Ret (Some (length h)) h' \<and> extends h h' \<and> ptr_val sel val h' (Some (length h)) = Some (Some u)
     \<and> ptr_foot sel foot h' (Some (length h)) \<subseteq> fresh h h' \<union> shared h x"
proof -
  let ?h = "h @ [zero]"
  have old: "val ?h x = Some u" "shared ?h x = shared h x" "shared h x \<subseteq> {..<length h}"
    using deep_copy.val_extends [OF dc x(3) extends_new] deep_copy.foot_in [OF dc x(3)] by auto
  obtain y h1 where y: "copy x ?h = Ret y h1" "extends ?h h1" "val h1 y = Some u" "foot h1 y \<subseteq> fresh ?h h1 \<union> shared h x"
    using deep_copy.copies [OF dc old(1)] old(2) by auto
  let ?k = "h1[length h := mk y]"
  have len: "length h < length h1" "length ?h \<le> length h1" using extends_length [OF y(2)] by auto
  have "agree (foot h1 y) h1 ?k"
    using y(4) old(3) deep_copy.foot_in [OF dc y(3)] by (intro agree_update) (auto simp: fresh_def)
  from deep_copy.local_val [OF dc y(3) this] have new: "val ?k y = Some u" "foot ?k y = foot h1 y" by auto
  have "extends h ?k" using extends_trans [OF extends_new y(2)] by (rule extends_update) simp
  moreover have "copy_ptr sel mk zero copy (Some a) h = Ret (Some (length h)) ?k"
    using x y(1) len by (simp add: copy_ptr_def copy_new_def go_new_def go_load_def go_store_def go_run nth_append)
  moreover have "ptr_val sel val ?k (Some (length h)) = Some (Some u)" using new len sel by (simp add: ptr_val_def)
  moreover have "ptr_foot sel foot ?k (Some (length h)) \<subseteq> fresh h ?k \<union> shared h x"
    using new len sel y(4) by (auto simp: ptr_foot_def ptr_cells_def fresh_def)
  ultimately show ?thesis by blast
qed

lemma deep_copy_ptr:
  assumes dc: "deep_copy copy val foot shared" and sel: "\<And>x. sel (mk x) = Some x"
  shows "deep_copy (copy_ptr sel mk zero copy) (ptr_val sel val) (ptr_foot sel foot) (ptr_cells sel shared)"
proof
  fix h p v
  assume v: "ptr_val sel val h p = Some v"
  show "\<exists>y h'. copy_ptr sel mk zero copy p h = Ret y h' \<and> extends h h' \<and> ptr_val sel val h' y = Some v
     \<and> ptr_foot sel foot h' y \<subseteq> fresh h h' \<union> ptr_cells sel shared h p"
  proof (cases p)
    case None
    with v show ?thesis by (auto simp: copy_ptr_def go_return_def ptr_val_def ptr_foot_def ptr_cells_def)
  next
    case (Some a)
    with v obtain x u where x: "a < length h" "sel (h ! a) = Some x" "val h x = Some u" "v = Some u"
      by (auto simp: ptr_val_def split: if_splits option.splits)
    from copy_ptr_Some [OF dc sel x(1-3)] x Some show ?thesis by (force simp: ptr_cells_def)
  qed
  show "ptr_cells sel shared h p \<subseteq> ptr_foot sel foot h p \<and> ptr_foot sel foot h p \<subseteq> {..<length h}"
    using ptr_foot_in [OF dc v] by simp
  fix h'
  assume "agree (ptr_foot sel foot h p) h h'"
  from ptr_local [OF dc v this]
  show "ptr_val sel val h' p = Some v \<and> ptr_foot sel foot h' p = ptr_foot sel foot h p \<and> ptr_cells sel shared h' p = ptr_cells sel shared h p" by simp
qed

text \<open>Two fields, the one copied after the other.\<close>

definition pair_val :: "('c list \<Rightarrow> 'a \<Rightarrow> 'v option) \<Rightarrow> ('c list \<Rightarrow> 'b \<Rightarrow> 'w option) \<Rightarrow> 'c list \<Rightarrow> 'a \<times> 'b \<Rightarrow> ('v \<times> 'w) option" where
  "pair_val val1 val2 h x = (case val1 h (fst x) of None \<Rightarrow> None | Some v \<Rightarrow> map_option (Pair v) (val2 h (snd x)))"

definition pair_cells :: "('c list \<Rightarrow> 'a \<Rightarrow> addr set) \<Rightarrow> ('c list \<Rightarrow> 'b \<Rightarrow> addr set) \<Rightarrow> 'c list \<Rightarrow> 'a \<times> 'b \<Rightarrow> addr set" where
  "pair_cells cells1 cells2 h x = cells1 h (fst x) \<union> cells2 h (snd x)"

lemma agree_Un: "agree (A \<union> B) h h' \<longleftrightarrow> agree A h h' \<and> agree B h h'"
  by (auto simp: agree_def)

lemma deep_copy_pair:
  assumes dc1: "deep_copy copy1 val1 foot1 shared1" and dc2: "deep_copy copy2 val2 foot2 shared2"
  shows "deep_copy (copy_pair copy1 copy2) (pair_val val1 val2) (pair_cells foot1 foot2) (pair_cells shared1 shared2)"
proof
  fix h :: "'b list" and x v
  assume "pair_val val1 val2 h x = Some v"
  then obtain u w where v: "val1 h (fst x) = Some u" "val2 h (snd x) = Some w" "v = (u, w)"
    by (auto simp: pair_val_def split: option.splits)
  show "pair_cells shared1 shared2 h x \<subseteq> pair_cells foot1 foot2 h x \<and> pair_cells foot1 foot2 h x \<subseteq> {..<length h}"
    using deep_copy.foot_in [OF dc1 v(1)] deep_copy.foot_in [OF dc2 v(2)] by (auto simp: pair_cells_def)
  obtain y h1 where y: "copy1 (fst x) h = Ret y h1" "extends h h1" "val1 h1 y = Some u" "foot1 h1 y \<subseteq> fresh h h1 \<union> shared1 h (fst x)"
    using deep_copy.copies [OF dc1 v(1)] by blast
  have v2: "val2 h1 (snd x) = Some w" "shared2 h1 (snd x) = shared2 h (snd x)"
    using deep_copy.val_extends [OF dc2 v(2) y(2)] by auto
  obtain z h2 where z: "copy2 (snd x) h1 = Ret z h2" "extends h1 h2" "val2 h2 z = Some w" "foot2 h2 z \<subseteq> fresh h1 h2 \<union> shared2 h (snd x)"
    using deep_copy.copies [OF dc2 v2(1)] v2(2) by auto
  have y2: "val1 h2 y = Some u" "foot1 h2 y = foot1 h1 y" using deep_copy.val_extends [OF dc1 y(3) z(2)] by auto
  have "pair_cells foot1 foot2 h2 (y, z) \<subseteq> fresh h h2 \<union> pair_cells shared1 shared2 h x"
    using y2(2) y(4) z(4) fresh_mono [OF y(2) z(2)] by (auto simp: pair_cells_def)
  then show "\<exists>y h'. copy_pair copy1 copy2 x h = Ret y h' \<and> extends h h' \<and> pair_val val1 val2 h' y = Some v
     \<and> pair_cells foot1 foot2 h' y \<subseteq> fresh h h' \<union> pair_cells shared1 shared2 h x"
    using y z y2 v(3) extends_trans [OF y(2) z(2)]
    by (intro exI [of _ "(y, z)"] exI [of _ h2]) (simp add: copy_pair_def go_run pair_val_def)
  fix h'
  assume "agree (pair_cells foot1 foot2 h x) h h'"
  then have "agree (foot1 h (fst x)) h h'" "agree (foot2 h (snd x)) h h'" by (auto simp: pair_cells_def agree_Un)
  from deep_copy.local_val [OF dc1 v(1) this(1)] deep_copy.local_val [OF dc2 v(2) this(2)] v(3)
  show "pair_val val1 val2 h' x = Some v \<and> pair_cells foot1 foot2 h' x = pair_cells foot1 foot2 h x
     \<and> pair_cells shared1 shared2 h' x = pair_cells shared1 shared2 h x" by (simp add: pair_val_def pair_cells_def)
qed

text \<open>A struct is read and copied through the tuple of its fields.\<close>

definition struct_val :: "('s \<Rightarrow> 'a) \<Rightarrow> ('c list \<Rightarrow> 'a \<Rightarrow> 'v) \<Rightarrow> 'c list \<Rightarrow> 's \<Rightarrow> 'v" where
  "struct_val dest val h x = val h (dest x)"

lemma deep_copy_struct:
  assumes dc: "deep_copy copy val foot shared" and eq: "\<And>x. copy' x = go_bind (copy (dest x)) (\<lambda>y. go_return (mk x y))"
    and inv: "\<And>x y. dest (mk x y) = y"
  shows "deep_copy copy' (struct_val dest val) (struct_val dest foot) (struct_val dest shared)"
  unfolding struct_val_def [abs_def]
proof
  fix h x v
  assume v: "val h (dest x) = Some v"
  from deep_copy.copies [OF dc v] obtain y h' where "copy (dest x) h = Ret y h'" "extends h h'" "val h' y = Some v"
    "foot h' y \<subseteq> fresh h h' \<union> shared h (dest x)" by blast
  then show "\<exists>y h'. copy' x h = Ret y h' \<and> extends h h' \<and> val h' (dest y) = Some v \<and> foot h' (dest y) \<subseteq> fresh h h' \<union> shared h (dest x)"
    by (intro exI [of _ "mk x y"] exI [of _ h']) (simp add: eq inv go_run)
  show "shared h (dest x) \<subseteq> foot h (dest x) \<and> foot h (dest x) \<subseteq> {..<length h}" by (rule deep_copy.foot_in [OF dc v])
  show "val h' (dest x) = Some v \<and> foot h' (dest x) = foot h (dest x) \<and> shared h' (dest x) = shared h (dest x)"
    if "agree (foot h (dest x)) h h'" for h' by (rule deep_copy.local_val [OF dc v that])
qed

text \<open>The elements of a slice, or the entries of a map.\<close>

fun list_val :: "('c list \<Rightarrow> 'a \<Rightarrow> 'v option) \<Rightarrow> 'c list \<Rightarrow> 'a list \<Rightarrow> 'v list option" where
  "list_val val h [] = Some []"
| "list_val val h (x # xs) = (case val h x of None \<Rightarrow> None | Some v \<Rightarrow> map_option (Cons v) (list_val val h xs))"

definition list_cells :: "('c list \<Rightarrow> 'a \<Rightarrow> addr set) \<Rightarrow> 'c list \<Rightarrow> 'a list \<Rightarrow> addr set" where
  "list_cells cells h xs = (\<Union>x \<in> set xs. cells h x)"

lemma list_cells_simps [simp]:
  "list_cells cells h [] = {}" "list_cells cells h (x # xs) = cells h x \<union> list_cells cells h xs"
  by (simp_all add: list_cells_def)

lemma list_val_Cons: "list_val val h (x # xs) = Some v \<Longrightarrow> \<exists>u w. val h x = Some u \<and> list_val val h xs = Some w \<and> v = u # w"
  by (auto split: option.splits)

lemma list_foot_in:
  assumes dc: "deep_copy copy val foot shared" and "list_val val h xs = Some v"
  shows "list_cells shared h xs \<subseteq> list_cells foot h xs \<and> list_cells foot h xs \<subseteq> {..<length h}"
  using assms(2)
proof (induction xs arbitrary: v)
  case (Cons x xs)
  then show ?case using list_val_Cons [OF Cons.prems] deep_copy.foot_in [OF dc] by fastforce
qed simp

lemma list_local:
  assumes dc: "deep_copy copy val foot shared" and "list_val val h xs = Some v" "agree (list_cells foot h xs) h h'"
  shows "list_val val h' xs = Some v \<and> list_cells foot h' xs = list_cells foot h xs \<and> list_cells shared h' xs = list_cells shared h xs"
  using assms(2-)
proof (induction xs arbitrary: v)
  case (Cons x xs)
  from list_val_Cons [OF Cons.prems(1)] obtain u w where v: "val h x = Some u" "list_val val h xs = Some w" "v = u # w" by blast
  from Cons.prems have "agree (foot h x) h h'" "agree (list_cells foot h xs) h h'" by (auto simp: agree_Un)
  with deep_copy.local_val [OF dc v(1)] Cons.IH [OF v(2)] v(3) show ?case by simp
qed simp

lemma copy_list_copies:
  assumes dc: "deep_copy copy val foot shared" and "list_val val h xs = Some v"
  shows "\<exists>ys h'. copy_list copy xs h = Ret ys h' \<and> extends h h' \<and> list_val val h' ys = Some v
     \<and> list_cells foot h' ys \<subseteq> fresh h h' \<union> list_cells shared h xs"
  using assms(2)
proof (induction xs arbitrary: v h)
  case (Cons x xs)
  from list_val_Cons [OF Cons.prems(1)] obtain u w where v: "val h x = Some u" "list_val val h xs = Some w" "v = u # w" by blast
  obtain y h1 where y: "copy x h = Ret y h1" "extends h h1" "val h1 y = Some u" "foot h1 y \<subseteq> fresh h h1 \<union> shared h x"
    using deep_copy.copies [OF dc v(1)] by blast
  have v2: "list_val val h1 xs = Some w" "list_cells shared h1 xs = list_cells shared h xs"
    using list_local [OF dc v(2) extends_agree [OF y(2)]] list_foot_in [OF dc v(2)] by auto
  obtain ys h2 where z: "copy_list copy xs h1 = Ret ys h2" "extends h1 h2" "list_val val h2 ys = Some w"
    "list_cells foot h2 ys \<subseteq> fresh h1 h2 \<union> list_cells shared h xs" using Cons.IH [OF v2(1)] v2(2) by auto
  have y2: "val h2 y = Some u" "foot h2 y = foot h1 y" using deep_copy.val_extends [OF dc y(3) z(2)] by auto
  have "list_cells foot h2 (y # ys) \<subseteq> fresh h h2 \<union> list_cells shared h (x # xs)"
    using y2(2) y(4) z(4) fresh_mono [OF y(2) z(2)] by auto
  then show ?case using y z y2 v(3) extends_trans [OF y(2) z(2)]
    by (intro exI [of _ "y # ys"] exI [of _ h2]) (simp add: go_run)
qed (auto simp: go_run)

lemma deep_copy_list:
  assumes dc: "deep_copy copy val foot shared"
  shows "deep_copy (copy_list copy) (list_val val) (list_cells foot) (list_cells shared)"
  by unfold_locales (rule copy_list_copies [OF dc] list_local [OF dc] list_foot_in [OF dc], assumption+)+

section \<open>The contract without the footprint\<close>

definition plain :: "'c list \<Rightarrow> 'a \<Rightarrow> 'a option" where
  "plain h x = Some x"

definition no_cells :: "'c list \<Rightarrow> 'a \<Rightarrow> addr set" where
  "no_cells h x = {}"

definition deep_copies :: "('a \<Rightarrow> ('c list, 'a) go) \<Rightarrow> ('c list \<Rightarrow> 'a \<Rightarrow> 'v option) \<Rightarrow> ('c list \<Rightarrow> 'a \<Rightarrow> addr set) \<Rightarrow> bool" where
  "deep_copies copy val shared \<longleftrightarrow> (\<exists>foot. deep_copy copy val foot shared)"

lemma no_cells_collapse [simp]:
  "ptr_cells sel no_cells = no_cells" "list_cells no_cells = no_cells" "pair_cells no_cells no_cells = no_cells"
  by (rule ext, rule ext, simp add: ptr_cells_def list_cells_def pair_cells_def no_cells_def split: option.splits)+

lemma deep_copiesI: "deep_copy copy val foot shared \<Longrightarrow> deep_copies copy val shared"
  by (auto simp: deep_copies_def)

lemma deep_copiesE: "deep_copies copy val shared \<Longrightarrow> (\<And>foot. deep_copy copy val foot shared \<Longrightarrow> P) \<Longrightarrow> P"
  by (auto simp: deep_copies_def)

lemma plain_conv: "plain = (\<lambda>h x. Some (id x))" "no_cells = (\<lambda>h x. {})"
  by (auto simp: fun_eq_iff plain_def no_cells_def)

lemma deep_copies_plain: "deep_copies go_return plain no_cells"
  unfolding plain_conv by (rule deep_copiesI, rule deep_copy_plain)

lemma deep_copies_ptr: "(\<And>x. sel (mk x) = Some x) \<Longrightarrow> deep_copies copy val shared \<Longrightarrow>
    deep_copies (copy_ptr sel mk zero copy) (ptr_val sel val) (ptr_cells sel shared)"
  by (elim deep_copiesE) (rule deep_copiesI, rule deep_copy_ptr)

lemma deep_copies_list: "deep_copies copy val shared \<Longrightarrow> deep_copies (copy_list copy) (list_val val) (list_cells shared)"
  by (elim deep_copiesE) (rule deep_copiesI, rule deep_copy_list)

lemma deep_copies_pair: "deep_copies copy1 val1 shared1 \<Longrightarrow> deep_copies copy2 val2 shared2 \<Longrightarrow>
    deep_copies (copy_pair copy1 copy2) (pair_val val1 val2) (pair_cells shared1 shared2)"
  by (elim deep_copiesE) (rule deep_copiesI, rule deep_copy_pair)

lemma deep_copies_alias: "deep_copies go_return (ptr_val sel plain) (ptr_foot sel no_cells)"
  unfolding plain_conv by (rule deep_copiesI, rule deep_copy_alias, rule deep_copy_plain)

lemma deep_copies_struct:
  assumes "deep_copies copy val shared" "\<And>x. copy' x = go_bind (copy (dest x)) (\<lambda>y. go_return (mk x y))" "\<And>x y. dest (mk x y) = y"
  shows "deep_copies copy' (struct_val dest val) (struct_val dest shared)"
proof -
  from assms(1) obtain foot where "deep_copy copy val foot shared" by (rule deep_copiesE)
  then have "deep_copy copy' (struct_val dest val) (struct_val dest foot) (struct_val dest shared)"
    using assms(2,3) by (rule deep_copy_struct)
  then show ?thesis by (rule deep_copiesI)
qed

lemma deep_copies_shared: "deep_copies copy val shared \<Longrightarrow> shared' = shared \<Longrightarrow> deep_copies copy val shared'"
  by simp

text \<open>\<open>if in.F != nil { out.F = in.F.DeepCopy() }\<close>.\<close>

definition copy_if_set :: "(addr option \<Rightarrow> ('c list, addr option) go) \<Rightarrow> addr option \<Rightarrow> ('c list, addr option) go" where
  "copy_if_set copy p = (case p of None \<Rightarrow> go_return None | Some a \<Rightarrow> copy (Some a))"

lemma deep_copies_if_set:
  assumes "deep_copies copy (ptr_val sel val) no_cells"
  shows "deep_copies (copy_if_set copy) (ptr_val sel val) no_cells"
proof -
  from assms obtain foot where dc: "deep_copy copy (ptr_val sel val) foot no_cells" by (rule deep_copiesE)
  let ?foot = "\<lambda>h p. case p of None \<Rightarrow> {} | Some a \<Rightarrow> foot h (Some a)"
  have "deep_copy (copy_if_set copy) (ptr_val sel val) ?foot no_cells"
  proof
    fix h p v
    assume v: "ptr_val sel val h p = Some v"
    show "\<exists>y h'. copy_if_set copy p h = Ret y h' \<and> extends h h' \<and> ptr_val sel val h' y = Some v \<and> ?foot h' y \<subseteq> fresh h h' \<union> no_cells h p"
    proof (cases p)
      case None
      with v show ?thesis by (simp add: copy_if_set_def go_run ptr_val_def)
    next
      case (Some a)
      obtain y h' where "copy p h = Ret y h'" "extends h h'" "ptr_val sel val h' y = Some v" "foot h' y \<subseteq> fresh h h'"
        using deep_copy.copies [OF dc v] by (auto simp: no_cells_def)
      with Some show ?thesis
        by (intro exI [of _ y] exI [of _ h']) (auto simp: copy_if_set_def split: option.splits)
    qed
    show "no_cells h p \<subseteq> ?foot h p \<and> ?foot h p \<subseteq> {..<length h}"
      using deep_copy.foot_in [OF dc v] by (auto simp: no_cells_def split: option.splits)
    fix h'
    assume "agree (?foot h p) h h'"
    then show "ptr_val sel val h' p = Some v \<and> ?foot h' p = ?foot h p \<and> no_cells h' p = no_cells h p"
      using v deep_copy.local_val [OF dc v, of h'] by (cases p) (auto simp: no_cells_def ptr_val_def)
  qed
  then show ?thesis by (rule deep_copiesI)
qed

text \<open>The same rules where nothing is shared.\<close>

lemma deep_copies_ptr_all: "(\<And>x. sel (mk x) = Some x) \<Longrightarrow> deep_copies copy val no_cells \<Longrightarrow>
    deep_copies (copy_ptr sel mk zero copy) (ptr_val sel val) no_cells"
  using deep_copies_ptr [of sel mk copy val no_cells zero] by simp

lemma deep_copies_list_all: "deep_copies copy val no_cells \<Longrightarrow> deep_copies (copy_list copy) (list_val val) no_cells"
  using deep_copies_list [of copy val no_cells] by simp

lemma deep_copies_pair_all: "deep_copies copy1 val1 no_cells \<Longrightarrow> deep_copies copy2 val2 no_cells \<Longrightarrow>
    deep_copies (copy_pair copy1 copy2) (pair_val val1 val2) no_cells"
  using deep_copies_pair [of copy1 val1 no_cells copy2 val2 no_cells] by simp

lemma deep_copies_struct_all:
  assumes "deep_copies copy val no_cells" "\<And>x. copy' x = go_bind (copy (dest x)) (\<lambda>y. go_return (mk x y))" "\<And>x y. dest (mk x y) = y"
  shows "deep_copies copy' (struct_val dest val) no_cells"
  using deep_copies_struct [OF assms] by (simp add: no_cells_def [abs_def] struct_val_def [abs_def])

lemmas deep_copies_rules = deep_copies_plain deep_copies_ptr_all deep_copies_list_all deep_copies_pair_all deep_copies_if_set

lemmas deep_copies_general = deep_copies_plain deep_copies_ptr deep_copies_list deep_copies_pair deep_copies_alias

lemmas cells_simps = fun_eq_iff struct_val_def pair_cells_def ptr_foot_def ptr_cells_def no_cells_def

lemma deep_copies_shared_in: "deep_copies copy val shared \<Longrightarrow> val h x = Some v \<Longrightarrow> shared h x \<subseteq> {..<length h}"
  by (elim deep_copiesE) (blast dest: deep_copy.foot_in)

lemma deep_copies_independent:
  assumes "deep_copies copy val shared" "val h x = Some v"
  obtains y h' where "copy x h = Ret y h'" "extends h h'" "val h' y = Some v"
    "\<And>k. agree (fresh h h' \<union> shared h x) h' k \<Longrightarrow> val k y = Some v" "\<And>k. agree {..<length h} h k \<Longrightarrow> val k x = Some v"
proof -
  from assms(1) obtain foot where "deep_copy copy val foot shared" by (auto simp: deep_copies_def)
  from deep_copy.independent [OF this assms(2)] that show thesis by metis
qed

end
