(* ===== verification/DeepCopy.thy ===== *)
theory DeepCopy
  imports GoHeap ApiTypes
begin

text \<open>
  The generated deep copies of the API types (\<open>apis/kubecluster.org/v1alpha1/zz_generated.deepcopy.go\<close>), over memory with pointers. A
  struct is a record whose pointer, slice and map fields are addresses; a slice is a pointer to its backing array, a map a pointer to its
  entries. \<open>DeepCopyInto\<close> takes the struct behind \<open>in\<close> and gives the one it leaves behind \<open>out\<close>; it begins with \<open>*out = *in\<close>, so a field
  that it does not name is the field of \<open>in\<close>, pointer and all. The structs of the Kubernetes libraries are of an arbitrary type \<open>'e\<close>, their
  copies are arguments.
\<close>

section \<open>Structs\<close>

record 'e ClusterConditionMem =
  ccm_Type :: string
  ccm_Status :: string
  ccm_Reason :: string
  ccm_Message :: string
  ccm_LastUpdateTime :: 'e
  ccm_LastTransitionTime :: 'e

record SchedulingPolicyMem =
  spm_MinAvailable :: "addr option"
  spm_Queue :: string
  spm_MinResources :: "addr option"
  spm_PriorityClass :: string
  spm_ScheduleTimeoutSeconds :: "addr option"

record RunPolicyMem =
  rpm_CleanKubeNodePolicy :: "addr option"
  rpm_TTLSecondsAfterFinished :: "addr option"
  rpm_ActiveDeadlineSeconds :: "addr option"
  rpm_BackoffLimit :: "addr option"
  rpm_SchedulingPolicy :: "addr option"
  rpm_Suspend :: "addr option"

record 'e KubeNodeMem =
  knm_ObjectMeta :: 'e
  knm_Spec :: 'e

type_synonym 'e ReplicaTemplateMem = "'e KubeNodeMem"

record 'e ReplicaSpecMem =
  rsm_Replicas :: "addr option"
  rsm_Template :: "'e ReplicaTemplateMem"
  rsm_RestartPolicy :: string

record ClusterSpecMem =
  csm_ClusterType :: string
  csm_ClusterReplicaSpec :: "addr option"
  csm_MainContainer :: string
  csm_RunPolicy :: RunPolicyMem

record ClusterStatusMem =
  stm_Conditions :: "addr option"
  stm_ReplicaStatuses :: "addr option"
  stm_StartTime :: "addr option"
  stm_LastReconcileTime :: "addr option"
  stm_CompletionTime :: "addr option"

record 'e KubeClusterMem =
  kcm_TypeMeta :: "string \<times> string"
  kcm_ObjectMeta :: 'e
  kcm_Spec :: ClusterSpecMem
  kcm_Status :: ClusterStatusMem

record 'e KubeClusterListMem =
  klm_TypeMeta :: "string \<times> string"
  klm_ListMeta :: 'e
  klm_Items :: "addr option"

text \<open>What an address may hold: a scalar, a struct, the array behind a slice, the entries of a map, a variable that holds a map, or
  something of the libraries. \<open>Zeroed\<close> is memory fresh from \<open>new\<close> or \<open>make\<close>.\<close>

datatype 'e cell = Zeroed | CInt32 int32 | CInt64 int64 | CBool bool | CString string | CTime 'e
  | CMapVar "addr option" | CQuantities "(string \<times> 'e) list"
  | CReplicaStatus ReplicaStatus | CReplicaSpec "'e ReplicaSpecMem" | CScheduling SchedulingPolicyMem
  | CSpecs "(string \<times> addr option) list" | CStatuses "(string \<times> addr option) list"
  | CConditions "'e ClusterConditionMem list" | CClusters "'e KubeClusterMem list"
  | CCondition "'e ClusterConditionMem" | CRunPolicy RunPolicyMem | CKubeNode "'e KubeNodeMem" | CReplicaTemplate "'e ReplicaTemplateMem"
  | CClusterSpec ClusterSpecMem | CClusterStatus ClusterStatusMem | CCluster "'e KubeClusterMem" | CClusterList "'e KubeClusterListMem"
  | CExt 'e

definition get_CInt32 :: "'e cell \<Rightarrow> int32 option" where "get_CInt32 c = (case c of CInt32 x \<Rightarrow> Some x | _ \<Rightarrow> None)"
definition get_CInt64 :: "'e cell \<Rightarrow> int64 option" where "get_CInt64 c = (case c of CInt64 x \<Rightarrow> Some x | _ \<Rightarrow> None)"
definition get_CBool :: "'e cell \<Rightarrow> bool option" where "get_CBool c = (case c of CBool x \<Rightarrow> Some x | _ \<Rightarrow> None)"
definition get_CString :: "'e cell \<Rightarrow> string option" where "get_CString c = (case c of CString x \<Rightarrow> Some x | _ \<Rightarrow> None)"
definition get_CTime :: "'e cell \<Rightarrow> 'e option" where "get_CTime c = (case c of CTime x \<Rightarrow> Some x | _ \<Rightarrow> None)"
definition get_CMapVar :: "'e cell \<Rightarrow> addr option option" where "get_CMapVar c = (case c of CMapVar x \<Rightarrow> Some x | _ \<Rightarrow> None)"
definition get_CQuantities :: "'e cell \<Rightarrow> (string \<times> 'e) list option" where "get_CQuantities c = (case c of CQuantities x \<Rightarrow> Some x | _ \<Rightarrow> None)"
definition get_CReplicaStatus :: "'e cell \<Rightarrow> ReplicaStatus option" where "get_CReplicaStatus c = (case c of CReplicaStatus x \<Rightarrow> Some x | _ \<Rightarrow> None)"
definition get_CReplicaSpec :: "'e cell \<Rightarrow> 'e ReplicaSpecMem option" where "get_CReplicaSpec c = (case c of CReplicaSpec x \<Rightarrow> Some x | _ \<Rightarrow> None)"
definition get_CScheduling :: "'e cell \<Rightarrow> SchedulingPolicyMem option" where "get_CScheduling c = (case c of CScheduling x \<Rightarrow> Some x | _ \<Rightarrow> None)"
definition get_CSpecs :: "'e cell \<Rightarrow> (string \<times> addr option) list option" where "get_CSpecs c = (case c of CSpecs x \<Rightarrow> Some x | _ \<Rightarrow> None)"
definition get_CStatuses :: "'e cell \<Rightarrow> (string \<times> addr option) list option" where "get_CStatuses c = (case c of CStatuses x \<Rightarrow> Some x | _ \<Rightarrow> None)"
definition get_CConditions :: "'e cell \<Rightarrow> 'e ClusterConditionMem list option" where "get_CConditions c = (case c of CConditions x \<Rightarrow> Some x | _ \<Rightarrow> None)"
definition get_CClusters :: "'e cell \<Rightarrow> 'e KubeClusterMem list option" where "get_CClusters c = (case c of CClusters x \<Rightarrow> Some x | _ \<Rightarrow> None)"
definition get_CCondition :: "'e cell \<Rightarrow> 'e ClusterConditionMem option" where "get_CCondition c = (case c of CCondition x \<Rightarrow> Some x | _ \<Rightarrow> None)"
definition get_CRunPolicy :: "'e cell \<Rightarrow> RunPolicyMem option" where "get_CRunPolicy c = (case c of CRunPolicy x \<Rightarrow> Some x | _ \<Rightarrow> None)"
definition get_CKubeNode :: "'e cell \<Rightarrow> 'e KubeNodeMem option" where "get_CKubeNode c = (case c of CKubeNode x \<Rightarrow> Some x | _ \<Rightarrow> None)"
definition get_CReplicaTemplate :: "'e cell \<Rightarrow> 'e ReplicaTemplateMem option" where "get_CReplicaTemplate c = (case c of CReplicaTemplate x \<Rightarrow> Some x | _ \<Rightarrow> None)"
definition get_CClusterSpec :: "'e cell \<Rightarrow> ClusterSpecMem option" where "get_CClusterSpec c = (case c of CClusterSpec x \<Rightarrow> Some x | _ \<Rightarrow> None)"
definition get_CClusterStatus :: "'e cell \<Rightarrow> ClusterStatusMem option" where "get_CClusterStatus c = (case c of CClusterStatus x \<Rightarrow> Some x | _ \<Rightarrow> None)"
definition get_CCluster :: "'e cell \<Rightarrow> 'e KubeClusterMem option" where "get_CCluster c = (case c of CCluster x \<Rightarrow> Some x | _ \<Rightarrow> None)"
definition get_CClusterList :: "'e cell \<Rightarrow> 'e KubeClusterListMem option" where "get_CClusterList c = (case c of CClusterList x \<Rightarrow> Some x | _ \<Rightarrow> None)"

lemmas cell_get_defs = get_CInt32_def get_CInt64_def get_CBool_def get_CString_def get_CTime_def get_CMapVar_def get_CQuantities_def
  get_CReplicaStatus_def get_CReplicaSpec_def get_CScheduling_def get_CSpecs_def get_CStatuses_def get_CConditions_def get_CClusters_def
  get_CCondition_def get_CRunPolicy_def get_CKubeNode_def get_CReplicaTemplate_def get_CClusterSpec_def get_CClusterStatus_def
  get_CCluster_def get_CClusterList_def

type_synonym 'e heap = "'e cell list"

text \<open>The copies of the structs of the Kubernetes libraries.\<close>

record 'e library =
  ObjectMeta_DeepCopyInto :: "'e \<Rightarrow> ('e heap, 'e) go"
  ListMeta_DeepCopyInto :: "'e \<Rightarrow> ('e heap, 'e) go"
  PodSpec_DeepCopyInto :: "'e \<Rightarrow> ('e heap, 'e) go"
  Time_DeepCopyInto :: "'e \<Rightarrow> ('e heap, 'e) go"
  Time_DeepCopy :: "addr option \<Rightarrow> ('e heap, addr option) go"
  Quantity_DeepCopy :: "'e \<Rightarrow> ('e heap, 'e) go"

section \<open>The generated copies\<close>

definition ClusterCondition_DeepCopyInto :: "'e library \<Rightarrow> 'e ClusterConditionMem \<Rightarrow> ('e heap, 'e ClusterConditionMem) go" where
  "ClusterCondition_DeepCopyInto L i =
     go_bind (Time_DeepCopyInto L (ccm_LastUpdateTime i)) (\<lambda>update.
     go_bind (Time_DeepCopyInto L (ccm_LastTransitionTime i)) (\<lambda>transition.
     go_return (i\<lparr>ccm_LastUpdateTime := update, ccm_LastTransitionTime := transition\<rparr>)))"

definition ClusterCondition_DeepCopy :: "'e library \<Rightarrow> addr option \<Rightarrow> ('e heap, addr option) go" where
  "ClusterCondition_DeepCopy L = copy_ptr get_CCondition CCondition Zeroed (ClusterCondition_DeepCopyInto L)"

definition KubeNode_DeepCopyInto :: "'e library \<Rightarrow> 'e KubeNodeMem \<Rightarrow> ('e heap, 'e KubeNodeMem) go" where
  "KubeNode_DeepCopyInto L i =
     go_bind (ObjectMeta_DeepCopyInto L (knm_ObjectMeta i)) (\<lambda>meta.
     go_bind (PodSpec_DeepCopyInto L (knm_Spec i)) (\<lambda>spec.
     go_return (i\<lparr>knm_ObjectMeta := meta, knm_Spec := spec\<rparr>)))"

definition KubeNode_DeepCopy :: "'e library \<Rightarrow> addr option \<Rightarrow> ('e heap, addr option) go" where
  "KubeNode_DeepCopy L = copy_ptr get_CKubeNode CKubeNode Zeroed (KubeNode_DeepCopyInto L)"

definition ReplicaTemplate_DeepCopyInto :: "'e library \<Rightarrow> 'e ReplicaTemplateMem \<Rightarrow> ('e heap, 'e ReplicaTemplateMem) go" where
  "ReplicaTemplate_DeepCopyInto L i =
     go_bind (ObjectMeta_DeepCopyInto L (knm_ObjectMeta i)) (\<lambda>meta.
     go_bind (PodSpec_DeepCopyInto L (knm_Spec i)) (\<lambda>spec.
     go_return (i\<lparr>knm_ObjectMeta := meta, knm_Spec := spec\<rparr>)))"

definition ReplicaTemplate_DeepCopy :: "'e library \<Rightarrow> addr option \<Rightarrow> ('e heap, addr option) go" where
  "ReplicaTemplate_DeepCopy L = copy_ptr get_CReplicaTemplate CReplicaTemplate Zeroed (ReplicaTemplate_DeepCopyInto L)"

definition ReplicaSpec_DeepCopyInto :: "'e library \<Rightarrow> 'e ReplicaSpecMem \<Rightarrow> ('e heap, 'e ReplicaSpecMem) go" where
  "ReplicaSpec_DeepCopyInto L i =
     go_bind (copy_ptr get_CInt32 CInt32 Zeroed go_return (rsm_Replicas i)) (\<lambda>replicas.
     go_bind (ReplicaTemplate_DeepCopyInto L (rsm_Template i)) (\<lambda>template.
     go_return (i\<lparr>rsm_Replicas := replicas, rsm_Template := template\<rparr>)))"

definition ReplicaSpec_DeepCopy :: "'e library \<Rightarrow> addr option \<Rightarrow> ('e heap, addr option) go" where
  "ReplicaSpec_DeepCopy L = copy_ptr get_CReplicaSpec CReplicaSpec Zeroed (ReplicaSpec_DeepCopyInto L)"

definition ReplicaStatus_DeepCopyInto :: "ReplicaStatus \<Rightarrow> ('e heap, ReplicaStatus) go" where
  "ReplicaStatus_DeepCopyInto i = go_return i"

definition ReplicaStatus_DeepCopy :: "addr option \<Rightarrow> ('e heap, addr option) go" where
  "ReplicaStatus_DeepCopy = copy_ptr get_CReplicaStatus CReplicaStatus Zeroed ReplicaStatus_DeepCopyInto"

definition SchedulingPolicy_DeepCopyInto :: "'e library \<Rightarrow> SchedulingPolicyMem \<Rightarrow> ('e heap, SchedulingPolicyMem) go" where
  "SchedulingPolicy_DeepCopyInto L i =
     go_bind (copy_ptr get_CInt32 CInt32 Zeroed go_return (spm_MinAvailable i)) (\<lambda>available.
     go_bind (copy_ptr get_CMapVar CMapVar Zeroed
       (copy_ptr get_CQuantities CQuantities Zeroed (copy_list (copy_pair go_return (Quantity_DeepCopy L)))) (spm_MinResources i)) (\<lambda>resources.
     go_bind (copy_ptr get_CInt32 CInt32 Zeroed go_return (spm_ScheduleTimeoutSeconds i)) (\<lambda>seconds.
     go_return (i\<lparr>spm_MinAvailable := available, spm_MinResources := resources, spm_ScheduleTimeoutSeconds := seconds\<rparr>))))"

definition SchedulingPolicy_DeepCopy :: "'e library \<Rightarrow> addr option \<Rightarrow> ('e heap, addr option) go" where
  "SchedulingPolicy_DeepCopy L = copy_ptr get_CScheduling CScheduling Zeroed (SchedulingPolicy_DeepCopyInto L)"

text \<open>\<open>TTLSecondsAfterFinished\<close> is a pointer too, and none of the assignments is to it.\<close>

definition RunPolicy_DeepCopyInto :: "'e library \<Rightarrow> RunPolicyMem \<Rightarrow> ('e heap, RunPolicyMem) go" where
  "RunPolicy_DeepCopyInto L i =
     go_bind (copy_ptr get_CString CString Zeroed go_return (rpm_CleanKubeNodePolicy i)) (\<lambda>clean.
     go_bind (copy_ptr get_CInt64 CInt64 Zeroed go_return (rpm_ActiveDeadlineSeconds i)) (\<lambda>deadline.
     go_bind (copy_ptr get_CInt32 CInt32 Zeroed go_return (rpm_BackoffLimit i)) (\<lambda>backoff.
     go_bind (copy_ptr get_CScheduling CScheduling Zeroed (SchedulingPolicy_DeepCopyInto L) (rpm_SchedulingPolicy i)) (\<lambda>scheduling.
     go_bind (copy_ptr get_CBool CBool Zeroed go_return (rpm_Suspend i)) (\<lambda>suspend.
     go_return (i\<lparr>rpm_CleanKubeNodePolicy := clean, rpm_ActiveDeadlineSeconds := deadline, rpm_BackoffLimit := backoff,
       rpm_SchedulingPolicy := scheduling, rpm_Suspend := suspend\<rparr>))))))"

definition RunPolicy_DeepCopy :: "'e library \<Rightarrow> addr option \<Rightarrow> ('e heap, addr option) go" where
  "RunPolicy_DeepCopy L = copy_ptr get_CRunPolicy CRunPolicy Zeroed (RunPolicy_DeepCopyInto L)"

definition ClusterSpec_DeepCopyInto :: "'e library \<Rightarrow> ClusterSpecMem \<Rightarrow> ('e heap, ClusterSpecMem) go" where
  "ClusterSpec_DeepCopyInto L i =
     go_bind (copy_ptr get_CSpecs CSpecs Zeroed
       (copy_list (copy_pair go_return (copy_ptr get_CReplicaSpec CReplicaSpec Zeroed (ReplicaSpec_DeepCopyInto L)))) (csm_ClusterReplicaSpec i)) (\<lambda>specs.
     go_bind (RunPolicy_DeepCopyInto L (csm_RunPolicy i)) (\<lambda>policy.
     go_return (i\<lparr>csm_ClusterReplicaSpec := specs, csm_RunPolicy := policy\<rparr>)))"

definition ClusterSpec_DeepCopy :: "'e library \<Rightarrow> addr option \<Rightarrow> ('e heap, addr option) go" where
  "ClusterSpec_DeepCopy L = copy_ptr get_CClusterSpec CClusterSpec Zeroed (ClusterSpec_DeepCopyInto L)"

definition ClusterStatus_DeepCopyInto :: "'e library \<Rightarrow> ClusterStatusMem \<Rightarrow> ('e heap, ClusterStatusMem) go" where
  "ClusterStatus_DeepCopyInto L i =
     go_bind (copy_ptr get_CConditions CConditions Zeroed (copy_list (ClusterCondition_DeepCopyInto L)) (stm_Conditions i)) (\<lambda>conditions.
     go_bind (copy_ptr get_CStatuses CStatuses Zeroed
       (copy_list (copy_pair go_return (copy_ptr get_CReplicaStatus CReplicaStatus Zeroed go_return))) (stm_ReplicaStatuses i)) (\<lambda>statuses.
     go_bind (copy_if_set (Time_DeepCopy L) (stm_StartTime i)) (\<lambda>start.
     go_bind (copy_if_set (Time_DeepCopy L) (stm_LastReconcileTime i)) (\<lambda>reconcile.
     go_bind (copy_if_set (Time_DeepCopy L) (stm_CompletionTime i)) (\<lambda>completion.
     go_return (i\<lparr>stm_Conditions := conditions, stm_ReplicaStatuses := statuses, stm_StartTime := start,
       stm_LastReconcileTime := reconcile, stm_CompletionTime := completion\<rparr>))))))"

definition ClusterStatus_DeepCopy :: "'e library \<Rightarrow> addr option \<Rightarrow> ('e heap, addr option) go" where
  "ClusterStatus_DeepCopy L = copy_ptr get_CClusterStatus CClusterStatus Zeroed (ClusterStatus_DeepCopyInto L)"

definition KubeCluster_DeepCopyInto :: "'e library \<Rightarrow> 'e KubeClusterMem \<Rightarrow> ('e heap, 'e KubeClusterMem) go" where
  "KubeCluster_DeepCopyInto L i =
     go_bind (ObjectMeta_DeepCopyInto L (kcm_ObjectMeta i)) (\<lambda>meta.
     go_bind (ClusterSpec_DeepCopyInto L (kcm_Spec i)) (\<lambda>spec.
     go_bind (ClusterStatus_DeepCopyInto L (kcm_Status i)) (\<lambda>status.
     go_return (i\<lparr>kcm_TypeMeta := kcm_TypeMeta i, kcm_ObjectMeta := meta, kcm_Spec := spec, kcm_Status := status\<rparr>))))"

definition KubeCluster_DeepCopy :: "'e library \<Rightarrow> addr option \<Rightarrow> ('e heap, addr option) go" where
  "KubeCluster_DeepCopy L = copy_ptr get_CCluster CCluster Zeroed (KubeCluster_DeepCopyInto L)"

definition KubeClusterList_DeepCopyInto :: "'e library \<Rightarrow> 'e KubeClusterListMem \<Rightarrow> ('e heap, 'e KubeClusterListMem) go" where
  "KubeClusterList_DeepCopyInto L i =
     go_bind (ListMeta_DeepCopyInto L (klm_ListMeta i)) (\<lambda>meta.
     go_bind (copy_ptr get_CClusters CClusters Zeroed (copy_list (KubeCluster_DeepCopyInto L)) (klm_Items i)) (\<lambda>items.
     go_return (i\<lparr>klm_TypeMeta := klm_TypeMeta i, klm_ListMeta := meta, klm_Items := items\<rparr>)))"

definition KubeClusterList_DeepCopy :: "'e library \<Rightarrow> addr option \<Rightarrow> ('e heap, addr option) go" where
  "KubeClusterList_DeepCopy L = copy_ptr get_CClusterList CClusterList Zeroed (KubeClusterList_DeepCopyInto L)"

text \<open>A \<open>runtime.Object\<close> is the nil interface or a pointer with its type; a typed nil pointer would be an object that is not nil.\<close>

datatype Object = NilObject | KubeClusterObject "addr option" | KubeClusterListObject "addr option"

definition KubeCluster_DeepCopyObject :: "'e library \<Rightarrow> addr option \<Rightarrow> ('e heap, Object) go" where
  "KubeCluster_DeepCopyObject L i =
     go_bind (KubeCluster_DeepCopy L i) (\<lambda>c. if c \<noteq> None then go_return (KubeClusterObject c) else go_return NilObject)"

definition KubeClusterList_DeepCopyObject :: "'e library \<Rightarrow> addr option \<Rightarrow> ('e heap, Object) go" where
  "KubeClusterList_DeepCopyObject L i =
     go_bind (KubeClusterList_DeepCopy L i) (\<lambda>c. if c \<noteq> None then go_return (KubeClusterListObject c) else go_return NilObject)"

section \<open>Reading memory\<close>

text \<open>What is behind a struct, pointers followed: nil or the value pointed to. \<open>None\<close> is memory that a Go program cannot have, a pointer to
  nowhere or to a cell of another type. The values of the library structs are given by a \<open>reading\<close>.\<close>

record ('e, 'v) reading =
  meta_val :: "'e heap \<Rightarrow> 'e \<Rightarrow> 'v option"
  listmeta_val :: "'e heap \<Rightarrow> 'e \<Rightarrow> 'v option"
  podspec_val :: "'e heap \<Rightarrow> 'e \<Rightarrow> 'v option"
  time_val :: "'e heap \<Rightarrow> 'e \<Rightarrow> 'v option"
  quantity_val :: "'e heap \<Rightarrow> 'e \<Rightarrow> 'v option"

definition library_copies :: "'e library \<Rightarrow> ('e, 'v) reading \<Rightarrow> bool" where
  "library_copies L R \<longleftrightarrow> deep_copies (ObjectMeta_DeepCopyInto L) (meta_val R) no_cells \<and> deep_copies (ListMeta_DeepCopyInto L) (listmeta_val R) no_cells
     \<and> deep_copies (PodSpec_DeepCopyInto L) (podspec_val R) no_cells \<and> deep_copies (Time_DeepCopyInto L) (time_val R) no_cells
     \<and> deep_copies (Time_DeepCopy L) (ptr_val get_CTime (time_val R)) no_cells \<and> deep_copies (Quantity_DeepCopy L) (quantity_val R) no_cells"

definition ClusterCondition_val where
  "ClusterCondition_val R = struct_val (\<lambda>x. (ccm_LastUpdateTime x, ccm_LastTransitionTime x, ccm_Type x, ccm_Status x, ccm_Reason x, ccm_Message x))
     (pair_val (time_val R) (pair_val (time_val R) plain))"

definition KubeNode_val where
  "KubeNode_val R = struct_val (\<lambda>x. (knm_ObjectMeta x, knm_Spec x))
     (pair_val (meta_val R) (podspec_val R))"

definition ReplicaSpec_val where
  "ReplicaSpec_val R = struct_val (\<lambda>x. (rsm_Replicas x, rsm_Template x, rsm_RestartPolicy x))
     (pair_val (ptr_val get_CInt32 plain) (pair_val (KubeNode_val R) plain))"

definition SchedulingPolicy_val where
  "SchedulingPolicy_val R = struct_val (\<lambda>x. (spm_MinAvailable x, spm_MinResources x, spm_ScheduleTimeoutSeconds x, spm_Queue x, spm_PriorityClass x))
     (pair_val (ptr_val get_CInt32 plain)
     (pair_val (ptr_val get_CMapVar (ptr_val get_CQuantities (list_val (pair_val plain (quantity_val R)))))
     (pair_val (ptr_val get_CInt32 plain) plain)))"

definition RunPolicy_val where
  "RunPolicy_val R = struct_val (\<lambda>x. (rpm_CleanKubeNodePolicy x, rpm_ActiveDeadlineSeconds x, rpm_BackoffLimit x, rpm_SchedulingPolicy x, rpm_Suspend x, rpm_TTLSecondsAfterFinished x))
     (pair_val (ptr_val get_CString plain) (pair_val (ptr_val get_CInt64 plain) (pair_val (ptr_val get_CInt32 plain)
     (pair_val (ptr_val get_CScheduling (SchedulingPolicy_val R)) (pair_val (ptr_val get_CBool plain) (ptr_val get_CInt32 plain))))))"

definition ClusterSpec_val where
  "ClusterSpec_val R = struct_val (\<lambda>x. (csm_ClusterReplicaSpec x, csm_RunPolicy x, csm_ClusterType x, csm_MainContainer x))
     (pair_val (ptr_val get_CSpecs (list_val (pair_val plain (ptr_val get_CReplicaSpec (ReplicaSpec_val R)))))
     (pair_val (RunPolicy_val R) plain))"

definition ClusterStatus_val where
  "ClusterStatus_val R = struct_val (\<lambda>x. (stm_Conditions x, stm_ReplicaStatuses x, stm_StartTime x, stm_LastReconcileTime x, stm_CompletionTime x))
     (pair_val (ptr_val get_CConditions (list_val (ClusterCondition_val R)))
     (pair_val (ptr_val get_CStatuses (list_val (pair_val plain (ptr_val get_CReplicaStatus plain))))
     (pair_val (ptr_val get_CTime (time_val R)) (pair_val (ptr_val get_CTime (time_val R)) (ptr_val get_CTime (time_val R))))))"

definition KubeCluster_val where
  "KubeCluster_val R = struct_val (\<lambda>x. (kcm_ObjectMeta x, kcm_Spec x, kcm_Status x, kcm_TypeMeta x))
     (pair_val (meta_val R) (pair_val (ClusterSpec_val R) (pair_val (ClusterStatus_val R) plain)))"

definition KubeClusterList_val where
  "KubeClusterList_val R = struct_val (\<lambda>x. (klm_ListMeta x, klm_Items x, klm_TypeMeta x))
     (pair_val (listmeta_val R) (pair_val (ptr_val get_CClusters (list_val (KubeCluster_val R))) plain))"

text \<open>The one cell that a copy of a cluster has in common with the cluster.\<close>

definition ttl_cell :: "'e heap \<Rightarrow> RunPolicyMem \<Rightarrow> addr set" where
  "ttl_cell h x = set_option (rpm_TTLSecondsAfterFinished x)"

definition cluster_ttl_cell :: "'e heap \<Rightarrow> 'e KubeClusterMem \<Rightarrow> addr set" where
  "cluster_ttl_cell h x = ttl_cell h (csm_RunPolicy (kcm_Spec x))"

section \<open>Each copy meets the contract\<close>

lemma bind_return [simp]: "go_bind (go_return a) f = f a"
  by (rule ext) (simp add: go_run)

interpretation replica_status: deep_copy ReplicaStatus_DeepCopyInto "\<lambda>h x. Some (id x)" "\<lambda>h x. {}" "\<lambda>h x. {}"
  unfolding ReplicaStatus_DeepCopyInto_def [abs_def] by (rule deep_copy_plain)

interpretation replica_status_ptr: deep_copy ReplicaStatus_DeepCopy "ptr_val get_CReplicaStatus (\<lambda>h x. Some (id x))"
    "ptr_foot get_CReplicaStatus (\<lambda>h x. {})" "ptr_cells get_CReplicaStatus (\<lambda>h x. {})"
  unfolding ReplicaStatus_DeepCopy_def
  by (rule deep_copy_ptr [OF replica_status.deep_copy_axioms]) (simp add: get_CReplicaStatus_def)

lemma ReplicaTemplate_is_KubeNode: "ReplicaTemplate_DeepCopyInto = KubeNode_DeepCopyInto"
  by (rule ext)+ (simp add: ReplicaTemplate_DeepCopyInto_def KubeNode_DeepCopyInto_def)

lemma ClusterCondition_copies: "library_copies L R \<Longrightarrow> deep_copies (ClusterCondition_DeepCopyInto L) (ClusterCondition_val R) no_cells"
  unfolding ClusterCondition_val_def
  by (rule deep_copies_struct_all [where copy = "copy_pair (Time_DeepCopyInto L) (copy_pair (Time_DeepCopyInto L) go_return)"
       and mk = "\<lambda>x (u, t, a, b, c, d). x\<lparr>ccm_Type := a, ccm_Status := b, ccm_Reason := c, ccm_Message := d, ccm_LastUpdateTime := u, ccm_LastTransitionTime := t\<rparr>"], intro deep_copies_rules)
     (auto simp: library_copies_def cell_get_defs ClusterCondition_DeepCopyInto_def copy_pair_def go_bind_assoc)

lemma KubeNode_copies: "library_copies L R \<Longrightarrow> deep_copies (KubeNode_DeepCopyInto L) (KubeNode_val R) no_cells"
  unfolding KubeNode_val_def
  by (rule deep_copies_struct_all [where copy = "copy_pair (ObjectMeta_DeepCopyInto L) (PodSpec_DeepCopyInto L)"
       and mk = "\<lambda>x (m, s). x\<lparr>knm_ObjectMeta := m, knm_Spec := s\<rparr>"], intro deep_copies_rules)
     (auto simp: library_copies_def cell_get_defs KubeNode_DeepCopyInto_def copy_pair_def go_bind_assoc)

lemma ReplicaSpec_copies: "library_copies L R \<Longrightarrow> deep_copies (ReplicaSpec_DeepCopyInto L) (ReplicaSpec_val R) no_cells"
  unfolding ReplicaSpec_val_def
  by (rule deep_copies_struct_all [where copy = "copy_pair (copy_ptr get_CInt32 CInt32 Zeroed go_return) (copy_pair (KubeNode_DeepCopyInto L) go_return)"
       and mk = "\<lambda>x (r, t, p). x\<lparr>rsm_Replicas := r, rsm_Template := t, rsm_RestartPolicy := p\<rparr>"], intro deep_copies_rules KubeNode_copies)
     (auto simp: library_copies_def cell_get_defs ReplicaSpec_DeepCopyInto_def ReplicaTemplate_is_KubeNode copy_pair_def go_bind_assoc)

lemma SchedulingPolicy_copies: "library_copies L R \<Longrightarrow> deep_copies (SchedulingPolicy_DeepCopyInto L) (SchedulingPolicy_val R) no_cells"
  unfolding SchedulingPolicy_val_def
  by (rule deep_copies_struct_all [where copy = "copy_pair (copy_ptr get_CInt32 CInt32 Zeroed go_return) (copy_pair (copy_ptr get_CMapVar CMapVar Zeroed
         (copy_ptr get_CQuantities CQuantities Zeroed (copy_list (copy_pair go_return (Quantity_DeepCopy L))))) (copy_pair (copy_ptr get_CInt32 CInt32 Zeroed go_return) go_return))"
       and mk = "\<lambda>x (a, r, t, q, p). x\<lparr>spm_MinAvailable := a, spm_Queue := q, spm_MinResources := r, spm_PriorityClass := p, spm_ScheduleTimeoutSeconds := t\<rparr>"], intro deep_copies_rules)
     (auto simp: library_copies_def cell_get_defs SchedulingPolicy_DeepCopyInto_def copy_pair_def go_bind_assoc)

lemma ClusterStatus_copies: "library_copies L R \<Longrightarrow> deep_copies (ClusterStatus_DeepCopyInto L) (ClusterStatus_val R) no_cells"
  unfolding ClusterStatus_val_def
  by (rule deep_copies_struct_all [where copy = "copy_pair (copy_ptr get_CConditions CConditions Zeroed (copy_list (ClusterCondition_DeepCopyInto L)))
         (copy_pair (copy_ptr get_CStatuses CStatuses Zeroed (copy_list (copy_pair go_return (copy_ptr get_CReplicaStatus CReplicaStatus Zeroed go_return))))
         (copy_pair (copy_if_set (Time_DeepCopy L)) (copy_pair (copy_if_set (Time_DeepCopy L)) (copy_if_set (Time_DeepCopy L)))))"
       and mk = "\<lambda>x (c, r, s, l, e). x\<lparr>stm_Conditions := c, stm_ReplicaStatuses := r, stm_StartTime := s, stm_LastReconcileTime := l, stm_CompletionTime := e\<rparr>"], intro deep_copies_rules ClusterCondition_copies)
     (auto simp: library_copies_def cell_get_defs ClusterStatus_DeepCopyInto_def copy_pair_def go_bind_assoc)

lemma RunPolicy_copies: "library_copies L R \<Longrightarrow> deep_copies (RunPolicy_DeepCopyInto L) (RunPolicy_val R) ttl_cell"
  unfolding RunPolicy_val_def
  by (rule deep_copies_shared, rule deep_copies_struct [where shared = "pair_cells no_cells (pair_cells no_cells (pair_cells no_cells (pair_cells no_cells (pair_cells no_cells (ptr_foot get_CInt32 no_cells)))))"
       and copy = "copy_pair (copy_ptr get_CString CString Zeroed go_return) (copy_pair (copy_ptr get_CInt64 CInt64 Zeroed go_return) (copy_pair (copy_ptr get_CInt32 CInt32 Zeroed go_return)
         (copy_pair (copy_ptr get_CScheduling CScheduling Zeroed (SchedulingPolicy_DeepCopyInto L)) (copy_pair (copy_ptr get_CBool CBool Zeroed go_return) go_return))))"
       and mk = "\<lambda>x (c, d, b, s, p, t). x\<lparr>rpm_CleanKubeNodePolicy := c, rpm_ActiveDeadlineSeconds := d, rpm_BackoffLimit := b, rpm_SchedulingPolicy := s, rpm_Suspend := p, rpm_TTLSecondsAfterFinished := t\<rparr>"], intro deep_copies_rules deep_copies_general SchedulingPolicy_copies)
     (auto simp: library_copies_def cell_get_defs RunPolicy_DeepCopyInto_def copy_pair_def go_bind_assoc cells_simps ttl_cell_def split: option.splits)

lemma ClusterSpec_copies: "library_copies L R \<Longrightarrow> deep_copies (ClusterSpec_DeepCopyInto L) (ClusterSpec_val R) (struct_val csm_RunPolicy ttl_cell)"
  unfolding ClusterSpec_val_def
  by (rule deep_copies_shared, rule deep_copies_struct [where shared = "pair_cells no_cells (pair_cells ttl_cell no_cells)"
       and copy = "copy_pair (copy_ptr get_CSpecs CSpecs Zeroed (copy_list (copy_pair go_return (copy_ptr get_CReplicaSpec CReplicaSpec Zeroed (ReplicaSpec_DeepCopyInto L)))))
         (copy_pair (RunPolicy_DeepCopyInto L) go_return)"
       and mk = "\<lambda>x (s, r, t, m). x\<lparr>csm_ClusterReplicaSpec := s, csm_RunPolicy := r, csm_ClusterType := t, csm_MainContainer := m\<rparr>"], intro deep_copies_rules deep_copies_general RunPolicy_copies ReplicaSpec_copies)
     (auto simp: library_copies_def cell_get_defs ClusterSpec_DeepCopyInto_def copy_pair_def go_bind_assoc cells_simps ttl_cell_def list_cells_def split: option.splits)

lemma KubeCluster_copies: "library_copies L R \<Longrightarrow> deep_copies (KubeCluster_DeepCopyInto L) (KubeCluster_val R) cluster_ttl_cell"
  unfolding KubeCluster_val_def
  by (rule deep_copies_shared, rule deep_copies_struct [where shared = "pair_cells no_cells (pair_cells (struct_val csm_RunPolicy ttl_cell) no_cells)"
       and copy = "copy_pair (ObjectMeta_DeepCopyInto L) (copy_pair (ClusterSpec_DeepCopyInto L) (copy_pair (ClusterStatus_DeepCopyInto L) go_return))"
       and mk = "\<lambda>x (m, s, t, k). x\<lparr>kcm_ObjectMeta := m, kcm_Spec := s, kcm_Status := t, kcm_TypeMeta := k\<rparr>"], intro deep_copies_rules deep_copies_general ClusterSpec_copies ClusterStatus_copies)
     (auto simp: library_copies_def cell_get_defs KubeCluster_DeepCopyInto_def copy_pair_def go_bind_assoc cells_simps cluster_ttl_cell_def split: option.splits)

lemma KubeClusterList_copies: "library_copies L R \<Longrightarrow> deep_copies (KubeClusterList_DeepCopyInto L) (KubeClusterList_val R) (struct_val klm_Items (ptr_cells get_CClusters (list_cells cluster_ttl_cell)))"
  unfolding KubeClusterList_val_def
  by (rule deep_copies_shared, rule deep_copies_struct [where shared = "pair_cells no_cells (pair_cells (ptr_cells get_CClusters (list_cells cluster_ttl_cell)) no_cells)"
       and copy = "copy_pair (ListMeta_DeepCopyInto L) (copy_pair (copy_ptr get_CClusters CClusters Zeroed (copy_list (KubeCluster_DeepCopyInto L))) go_return)"
       and mk = "\<lambda>x (m, i, k). x\<lparr>klm_ListMeta := m, klm_Items := i, klm_TypeMeta := k\<rparr>"], intro deep_copies_rules deep_copies_general KubeCluster_copies)
     (auto simp: library_copies_def cell_get_defs KubeClusterList_DeepCopyInto_def copy_pair_def go_bind_assoc cells_simps  split: option.splits)

section \<open>A copy is independent of the original\<close>

definition cluster_behind where
  "cluster_behind R = ptr_val get_CCluster (KubeCluster_val R)"

definition status_behind where
  "status_behind R = ptr_val get_CClusterStatus (ClusterStatus_val R)"

text \<open>The cell of \<open>TTLSecondsAfterFinished\<close> of the cluster behind a pointer, and what it holds.\<close>

definition ttl_cells :: "'e heap \<Rightarrow> addr option \<Rightarrow> addr set" where
  "ttl_cells = ptr_cells get_CCluster cluster_ttl_cell"

definition ttl_behind :: "'e heap \<Rightarrow> addr option \<Rightarrow> int32 option" where
  "ttl_behind h p = (case p of None \<Rightarrow> None | Some a \<Rightarrow> (case get_CCluster (h ! a) of None \<Rightarrow> None
     | Some c \<Rightarrow> (case rpm_TTLSecondsAfterFinished (csm_RunPolicy (kcm_Spec c)) of None \<Rightarrow> None | Some t \<Rightarrow> get_CInt32 (h ! t))))"

lemma KubeCluster_DeepCopy_copies:
  "library_copies L R \<Longrightarrow> deep_copies (KubeCluster_DeepCopy L) (cluster_behind R) ttl_cells"
  unfolding KubeCluster_DeepCopy_def cluster_behind_def ttl_cells_def
  by (rule deep_copies_ptr [OF _ KubeCluster_copies]) (simp add: get_CCluster_def)

lemma ClusterStatus_DeepCopy_copies:
  "library_copies L R \<Longrightarrow> deep_copies (ClusterStatus_DeepCopy L) (status_behind R) no_cells"
  unfolding ClusterStatus_DeepCopy_def status_behind_def
  by (rule deep_copies_ptr_all [OF _ ClusterStatus_copies]) (simp add: get_CClusterStatus_def)

text \<open>The status that \<open>ReconcileKubeCluster\<close> keeps as \<open>oldStatus\<close> still reads as it did, whatever is then done to the memory of the cluster.\<close>

lemma ClusterStatus_DeepCopy_keeps:
  assumes "library_copies L R" "status_behind R h p = Some v"
  shows "\<exists>q h'. ClusterStatus_DeepCopy L p h = Ret q h' \<and> extends h h' \<and> status_behind R h' q = Some v
     \<and> (\<forall>k. agree (fresh h h') h' k \<longrightarrow> status_behind R k q = Some v)"
  using deep_copies_independent [OF ClusterStatus_DeepCopy_copies [OF assms(1)] assms(2)] by (simp add: no_cells_def) metis

lemma DeepCopyObject_nil: "KubeCluster_DeepCopyObject L None h = Ret NilObject h" "KubeClusterList_DeepCopyObject L None h = Ret NilObject h"
  by (simp_all add: KubeCluster_DeepCopyObject_def KubeClusterList_DeepCopyObject_def KubeCluster_DeepCopy_def KubeClusterList_DeepCopy_def
      copy_ptr_def go_run)

lemma DeepCopyObject_copies:
  assumes "library_copies L R" "cluster_behind R h (Some a) = Some v"
  shows "\<exists>b h'. KubeCluster_DeepCopyObject L (Some a) h = Ret (KubeClusterObject (Some b)) h' \<and> cluster_behind R h' (Some b) = Some v"
proof -
  obtain q h' where q: "KubeCluster_DeepCopy L (Some a) h = Ret q h'" "cluster_behind R h' q = Some v"
    using deep_copies_independent [OF KubeCluster_DeepCopy_copies [OF assms(1)] assms(2)] by metis
  have "q \<noteq> None"
    using q(1) by (auto simp: KubeCluster_DeepCopy_def copy_ptr_def go_run split: outcome.splits)
  with q show ?thesis by (auto simp: KubeCluster_DeepCopyObject_def go_run)
qed

text \<open>C14: \<open>KubeCluster.DeepCopy\<close>, for every cluster whose pointers lead somewhere and library copies that are deep: it returns, does not change
  a cell that was there, and its result reads as the original does, every pointer, slice and map followed and nil told from empty. The copy
  goes on reading so whatever later happens to memory, if the cells allocated for it and the cell of the original's
  \<open>TTLSecondsAfterFinished\<close> are not written; and the original does, whatever is written to the cells that are new.\<close>

theorem KubeCluster_DeepCopy_independent:
  assumes "library_copies L R" "cluster_behind R h p = Some v"
  shows "\<exists>q h'. KubeCluster_DeepCopy L p h = Ret q h' \<and> extends h h' \<and> cluster_behind R h' q = Some v
     \<and> (\<forall>k. agree (fresh h h' \<union> ttl_cells h p) h' k \<longrightarrow> cluster_behind R k q = Some v)
     \<and> (\<forall>k. agree {..<length h} h k \<longrightarrow> cluster_behind R k p = Some v)"
  by (rule deep_copies_independent [OF KubeCluster_DeepCopy_copies [OF assms(1)] assms(2)]) blast

lemma copy_keeps_ttl: "KubeCluster_DeepCopyInto L c h = Ret c' h' \<Longrightarrow>
    rpm_TTLSecondsAfterFinished (csm_RunPolicy (kcm_Spec c')) = rpm_TTLSecondsAfterFinished (csm_RunPolicy (kcm_Spec c))"
  by (auto simp: KubeCluster_DeepCopyInto_def ClusterSpec_DeepCopyInto_def RunPolicy_DeepCopyInto_def go_run split: outcome.splits)

lemma copy_new_result: "copy_new sel mk zero copy a h = Ret b h' \<Longrightarrow> b = length h \<and> (\<exists>x y h1. copy x (h @ [zero]) = Ret y h1 \<and> sel ((h @ [zero]) ! a) = Some x \<and> h' = h1[b := mk y] \<and> b < length h1)"
  by (auto simp: copy_new_def go_new_def go_load_def go_store_def go_run split: outcome.splits if_splits option.splits)

text \<open>C31: The one exception is real. A copy of a cluster with a \<open>TTLSecondsAfterFinished\<close> holds the same pointer as the original: a number written
  through the copy is read through the original.\<close>

theorem DeepCopy_shares_ttl:
  assumes "library_copies L R" "cluster_behind R h (Some a) = Some v" "ttl_behind h (Some a) = Some n"
  shows "\<exists>b h' t. KubeCluster_DeepCopy L (Some a) h = Ret (Some b) h' \<and> b \<noteq> a \<and> ttl_cells h' (Some b) = {t} \<and> t < length h
     \<and> ttl_behind (h'[t := CInt32 m]) (Some b) = Some m \<and> ttl_behind (h'[t := CInt32 m]) (Some a) = Some m"
proof -
  note copies = KubeCluster_DeepCopy_copies [OF assms(1)]
  from assms(2,3) obtain c t where c: "a < length h" "h ! a = CCluster c" "h ! t = CInt32 n"
      "rpm_TTLSecondsAfterFinished (csm_RunPolicy (kcm_Spec c)) = Some t"
    by (auto simp: ttl_behind_def cluster_behind_def ptr_val_def cell_get_defs split: option.splits if_splits cell.splits)
  then have t: "t < length h" "t \<noteq> a"
    using deep_copies_shared_in [OF copies assms(2)] by (auto simp: ttl_cells_def ptr_cells_def cluster_ttl_cell_def ttl_cell_def get_CCluster_def)
  obtain q h' where q: "KubeCluster_DeepCopy L (Some a) h = Ret q h'" "extends h h'"
    using deep_copies_independent [OF copies assms(2)] by metis
  then obtain b where b: "q = Some b" "copy_new get_CCluster CCluster Zeroed (KubeCluster_DeepCopyInto L) a h = Ret b h'"
    by (auto simp: KubeCluster_DeepCopy_def copy_ptr_def go_run split: outcome.splits)
  with copy_new_result [OF b(2)] c obtain c' h1 where c': "KubeCluster_DeepCopyInto L c (h @ [Zeroed]) = Ret c' h1" "b = length h" "b < length h'" "h' ! b = CCluster c'"
    by (auto simp: nth_append get_CCluster_def)
  have old: "h' ! a = CCluster c" "a < length h'" using c q(2) by (auto simp: extends_nth dest: extends_length)
  have "ttl_cells h' (Some b) = {t}" "ttl_behind (h'[t := CInt32 m]) (Some b) = Some m" "ttl_behind (h'[t := CInt32 m]) (Some a) = Some m"
    using c c' t old copy_keeps_ttl [OF c'(1)]
    by (simp_all add: ttl_behind_def ttl_cells_def ptr_cells_def cluster_ttl_cell_def ttl_cell_def cell_get_defs nth_list_update)
  then show ?thesis using q(1) b(1) c' c(1) t(1) by blast
qed

text \<open>A concrete heap: library structs with a pointer to a string of their own and a string by value.\<close>

type_synonym sample = "addr option \<times> string"

definition sample_copy :: "sample \<Rightarrow> (sample heap, sample) go" where
  "sample_copy = copy_pair (copy_ptr get_CString CString Zeroed go_return) go_return"

definition sample_library :: "sample library" where
  "sample_library = \<lparr>ObjectMeta_DeepCopyInto = sample_copy, ListMeta_DeepCopyInto = sample_copy, PodSpec_DeepCopyInto = sample_copy,
     Time_DeepCopyInto = sample_copy, Time_DeepCopy = copy_ptr get_CTime CTime Zeroed sample_copy, Quantity_DeepCopy = sample_copy\<rparr>"

definition sample_val :: "sample heap \<Rightarrow> sample \<Rightarrow> (string option \<times> string) option" where
  "sample_val = pair_val (ptr_val get_CString plain) plain"

definition sample_reading :: "(sample, string option \<times> string) reading" where
  "sample_reading = \<lparr>meta_val = sample_val, listmeta_val = sample_val, podspec_val = sample_val, time_val = sample_val, quantity_val = sample_val\<rparr>"

lemma sample_library_copies: "library_copies sample_library sample_reading"
proof -
  have "deep_copies sample_copy sample_val no_cells"
    unfolding sample_copy_def sample_val_def by (intro deep_copies_rules) (simp add: get_CString_def)
  then show ?thesis
    by (auto simp: library_copies_def sample_library_def sample_reading_def get_CTime_def intro!: deep_copies_ptr_all)
qed

definition sample_heap :: "sample heap" where
  "sample_heap = [CString ''uid'', CInt32 60, CReplicaStatus \<lparr>rs_Active = 1, rs_Activating = 0, rs_Failed = 0, rs_Selector = []\<rparr>,
     CStatuses [(''Master'', Some 2)], CTime (None, ''noon''), CInt32 2, CReplicaSpec \<lparr>rsm_Replicas = Some 5,
       rsm_Template = \<lparr>knm_ObjectMeta = (None, []), knm_Spec = (Some 0, [])\<rparr>, rsm_RestartPolicy = ''Never''\<rparr>, CSpecs [(''Master'', Some 6), (''Worker'', None)],
     CCluster \<lparr>kcm_TypeMeta = ([], []), kcm_ObjectMeta = (Some 0, ''k''),
       kcm_Spec = \<lparr>csm_ClusterType = ''slurm'', csm_ClusterReplicaSpec = Some 7, csm_MainContainer = [],
         csm_RunPolicy = \<lparr>rpm_CleanKubeNodePolicy = None, rpm_TTLSecondsAfterFinished = Some 1, rpm_ActiveDeadlineSeconds = None,
           rpm_BackoffLimit = Some 5, rpm_SchedulingPolicy = None, rpm_Suspend = None\<rparr>\<rparr>,
       kcm_Status = \<lparr>stm_Conditions = None, stm_ReplicaStatuses = Some 3, stm_StartTime = Some 4, stm_LastReconcileTime = None, stm_CompletionTime = None\<rparr>\<rparr>]"

lemmas sample_eval = cluster_behind_def KubeCluster_val_def ClusterSpec_val_def RunPolicy_val_def ClusterStatus_val_def ReplicaSpec_val_def KubeNode_val_def
  sample_heap_def sample_reading_def sample_val_def ptr_val_def pair_val_def struct_val_def plain_def cell_get_defs

lemma sample_readable: "\<exists>v. cluster_behind sample_reading sample_heap (Some 8) = Some v"
  by (simp add: sample_eval)

lemma KubeCluster_DeepCopy_independent_witness:
  "\<exists>q h' v. KubeCluster_DeepCopy sample_library (Some 8) sample_heap = Ret q h' \<and> cluster_behind sample_reading sample_heap (Some 8) = Some v
     \<and> cluster_behind sample_reading h' q = Some v
     \<and> cluster_behind sample_reading (h'[2 := Zeroed, 5 := CInt32 9]) q = Some v"
proof -
  obtain v where v: "cluster_behind sample_reading sample_heap (Some 8) = Some v" using sample_readable by blast
  obtain q h' where q: "KubeCluster_DeepCopy sample_library (Some 8) sample_heap = Ret q h'" "extends sample_heap h'" "cluster_behind sample_reading h' q = Some v"
    and keeps: "\<forall>k. agree (fresh sample_heap h' \<union> ttl_cells sample_heap (Some 8)) h' k \<longrightarrow> cluster_behind sample_reading k q = Some v"
    using KubeCluster_DeepCopy_independent [OF sample_library_copies v] by blast
  have "length sample_heap = 9" "ttl_cells sample_heap (Some 8) = {1}"
    by (simp_all add: sample_heap_def ttl_cells_def ptr_cells_def cluster_ttl_cell_def ttl_cell_def get_CCluster_def)
  with extends_length [OF q(2)] have "agree (fresh sample_heap h' \<union> ttl_cells sample_heap (Some 8)) h' (h'[2 := Zeroed, 5 := CInt32 9])"
    by (auto simp: agree_def fresh_def)
  with keeps q v show ?thesis by blast
qed

lemma DeepCopy_shares_ttl_witness:
  "\<exists>b h' t. KubeCluster_DeepCopy sample_library (Some 8) sample_heap = Ret (Some b) h'
     \<and> ttl_behind (h'[t := CInt32 7]) (Some b) = Some 7 \<and> ttl_behind (h'[t := CInt32 7]) (Some 8) = Some 7"
proof -
  obtain v where "cluster_behind sample_reading sample_heap (Some 8) = Some v" using sample_readable by blast
  moreover have "ttl_behind sample_heap (Some 8) = Some 60" by (simp add: ttl_behind_def sample_heap_def cell_get_defs)
  ultimately show ?thesis using DeepCopy_shares_ttl [OF sample_library_copies, of sample_heap 8 v 60 7] by blast
qed

end
