(* ===== verification/Manager.thy ===== *)
theory Manager
  imports Operator
begin

text \<open>
  Start-up of the operator: \<open>main\<close> of \<open>cmd/main.go\<close> and \<open>SetupWithManager\<close> of \<open>pkg/controller/cluster_controller.go\<close>, which makes the
  controller and installs the predicates of the theory \<open>Operator\<close> on the events of clusters, pods, services and pod groups.

  Controller-runtime is a parameter: the function that answers the calls made to it, with an error or without. The calls are kept with
  their answers, in order. \<open>os.Exit\<close> is a result.
\<close>

section \<open>The calls to controller-runtime\<close>

datatype watched = Clusters | Pods | Services | VolcanoPodGroups | SchedulerPluginsPodGroups

datatype event_handler = EnqueueRequestForObject | EnqueueRequestForOwner

datatype predicates = OwnerPredicates | DependentPredicates | GenericPredicates

record manager_options =
  mo_Metrics :: string
  mo_HealthProbeBindAddress :: string
  mo_LeaderElection :: bool
  mo_LeaderElectionID :: string

datatype setup_call =
    NewManager manager_options
  | NewController string int
  | Watch watched event_handler predicates
  | RESTMapping watched
  | AddHealthzCheck
  | AddReadyzCheck
  | Start

type_synonym 'm runtime = "setup_call \<Rightarrow> 'm \<Rightarrow> gerr option \<times> 'm"

record 'm mstate =
  rt :: 'm
  made :: "(setup_call \<times> gerr option) list"

definition rt_call :: "'m runtime \<Rightarrow> setup_call \<Rightarrow> ('m mstate, gerr option) go" where
  "rt_call R c = (\<lambda>s. let (r, m) = R c (rt s) in Ret r (s\<lparr>rt := m, made := made s @ [(c, r)]\<rparr>))"

section \<open>SetupWithManager\<close>

text \<open>\<open>RESTMapping\<close> asks whether the kind is installed; its error means that it is not.\<close>

definition watch_if_installed :: "'m runtime \<Rightarrow> watched \<Rightarrow> ('m mstate, gerr option) go" where
  "watch_if_installed R w =
     go_bind (rt_call R (RESTMapping w)) (\<lambda>err.
     if err = None then rt_call R (Watch w EnqueueRequestForOwner GenericPredicates) else go_return None)"

definition SetupWithManager :: "'m runtime \<Rightarrow> int \<Rightarrow> ('m mstate, gerr option) go" where
  "SetupWithManager R controllerThreads =
     go_try (rt_call R (NewController ControllerName controllerThreads)) (
     go_try (rt_call R (Watch Clusters EnqueueRequestForObject OwnerPredicates)) (
     go_try (rt_call R (Watch Pods EnqueueRequestForOwner DependentPredicates)) (
     go_try (rt_call R (Watch Services EnqueueRequestForOwner DependentPredicates)) (
     go_try (watch_if_installed R VolcanoPodGroups) (
     go_try (watch_if_installed R SchedulerPluginsPodGroups) (
     go_return None))))))"

text \<open>What the predicates of a watch do with an event of a dependent; a predicate that is not set lets the event through.\<close>

primrec on_create :: "'w kenv \<Rightarrow> 'st ClusterController \<Rightarrow> predicates \<Rightarrow> kobject \<Rightarrow> ('w, 'st, bool) ctl" where
  "on_create E C OwnerPredicates obj = go_return True"
| "on_create E C DependentPredicates obj = OnDependentCreateFunc E C obj"
| "on_create E C GenericPredicates obj = OnDependentCreateFuncGeneric E C obj"

primrec on_delete :: "'w kenv \<Rightarrow> 'st ClusterController \<Rightarrow> predicates \<Rightarrow> kobject \<Rightarrow> ('w, 'st, bool) ctl" where
  "on_delete E C OwnerPredicates obj = go_return True"
| "on_delete E C DependentPredicates obj = OnDependentDeleteFunc E C obj"
| "on_delete E C GenericPredicates obj = OnDependentDeleteFuncGeneric E C obj"

primrec on_update :: "'w kenv \<Rightarrow> predicates \<Rightarrow> kobject \<Rightarrow> kobject \<Rightarrow> ('w, 'st, bool) ctl" where
  "on_update E OwnerPredicates old new = go_return True"
| "on_update E DependentPredicates old new = OnDependentUpdateFunc E old new"
| "on_update E GenericPredicates old new = OnDependentUpdateFuncGeneric E old new"

section \<open>main\<close>

record flags =
  fl_metricsAddr :: string
  fl_probeAddr :: string
  fl_enableLeaderElection :: bool
  fl_enabledSchemes :: "string list"
  fl_controllerThreads :: int
  fl_gangSchedulerName :: string

text \<open>The defaults of the flags.\<close>

definition default_flags :: flags where
  "default_flags = \<lparr>fl_metricsAddr = '':8080'', fl_probeAddr = '':8081'', fl_enableLeaderElection = False, fl_enabledSchemes = [],
     fl_controllerThreads = 1, fl_gangSchedulerName = []\<rparr>"

text \<open>The process ends with a status, or \<open>main\<close> returns after the manager has stopped. \<open>flag.Parse\<close> exits with 2.\<close>

datatype ending = Exited int string | Returned

definition setup_or_exit :: "'m runtime \<Rightarrow> setup_call \<Rightarrow> string \<Rightarrow> ('m mstate, ending) go \<Rightarrow> ('m mstate, ending) go" where
  "setup_or_exit R c msg k = go_bind (rt_call R c) (\<lambda>err. if err \<noteq> None then go_return (Exited 1 msg) else k)"

definition start_controller ::
  "'m runtime \<Rightarrow> string list \<Rightarrow> 'st ClusterController \<Rightarrow> EnabledSchemes \<Rightarrow> flags \<Rightarrow>
   ('st ClusterController \<times> (string \<Rightarrow> 'st expectations) \<Rightarrow> ('m mstate, ending) go) \<Rightarrow> ('m mstate, ending) go" where
  "start_controller R kinds C enabledSchemes fl k =
     (case setupController kinds C enabledSchemes (fl_gangSchedulerName fl) of
        Inl msg \<Rightarrow> go_return (Exited 1 msg)
      | Inr reconciler \<Rightarrow> go_bind (SetupWithManager R (fl_controllerThreads fl)) (\<lambda>err.
          if err \<noteq> None then go_return (Exited 1 ''unable to create controller'') else k reconciler))"

definition main :: "'m runtime \<Rightarrow> string list \<Rightarrow> 'st ClusterController \<Rightarrow> flags \<Rightarrow> ('m mstate, ending) go" where
  "main R kinds C fl =
     (case parse_schemes kinds [] (fl_enabledSchemes fl) of
        Inl err \<Rightarrow> go_return (Exited 2 (err_text err))
      | Inr enabledSchemes \<Rightarrow>
          setup_or_exit R (NewManager \<lparr>mo_Metrics = fl_metricsAddr fl, mo_HealthProbeBindAddress = fl_probeAddr fl,
            mo_LeaderElection = fl_enableLeaderElection fl, mo_LeaderElectionID = ''33b15c27''\<rparr>) ''unable to start manager'' (
          start_controller R kinds C enabledSchemes fl (\<lambda>_.
          setup_or_exit R AddHealthzCheck ''unable to set up health check'' (
          setup_or_exit R AddReadyzCheck ''unable to set up ready check'' (
          setup_or_exit R Start ''problem running manager'' (go_return Returned))))))"

section \<open>What is watched\<close>

text \<open>The watches that were accepted.\<close>

definition watches :: "(setup_call \<times> gerr option) list \<Rightarrow> (watched \<times> event_handler \<times> predicates) list" where
  "watches cs = concat (map (\<lambda>(c, r). case (c, r) of (Watch w h p, None) \<Rightarrow> [(w, h, p)] | _ \<Rightarrow> []) cs)"

text \<open>What is to be watched, given which kinds of pod group are installed: clusters queue themselves, dependents their owner; pods and services
  pass the typed handlers, and pod groups the generic ones.\<close>

definition installed :: "(setup_call \<times> gerr option) list \<Rightarrow> watched \<Rightarrow> bool" where
  "installed cs w \<longleftrightarrow> (RESTMapping w, None) \<in> set cs"

definition intended :: "(watched \<Rightarrow> bool) \<Rightarrow> (watched \<times> event_handler \<times> predicates) list" where
  "intended inst = [(Clusters, EnqueueRequestForObject, OwnerPredicates), (Pods, EnqueueRequestForOwner, DependentPredicates),
     (Services, EnqueueRequestForOwner, DependentPredicates)] @
     map (\<lambda>w. (w, EnqueueRequestForOwner, GenericPredicates)) (filter inst [VolcanoPodGroups, SchedulerPluginsPodGroups])"

lemma watches_simps [simp]:
  "watches [] = []" "watches (cs @ ds) = watches cs @ watches ds"
  "watches ((c, r) # cs) = (case (c, r) of (Watch w h p, None) \<Rightarrow> [(w, h, p)] | _ \<Rightarrow> []) @ watches cs"
  by (simp_all add: watches_def)

lemma run_rt_call [go_run]: "rt_call R c s = (let (r, m) = R c (rt s) in Ret r (s\<lparr>rt := m, made := made s @ [(c, r)]\<rparr>))"
  by (simp add: rt_call_def)

text \<open>The outcome of the set-up: all calls were accepted and everything intended is watched, or the last call was refused and its error is
  returned.\<close>

definition setup_outcome :: "gerr option \<Rightarrow> (setup_call \<times> gerr option) list \<Rightarrow> bool" where
  "setup_outcome err cs \<longleftrightarrow> (case err of None \<Rightarrow> watches cs = intended (installed cs)
     | Some e \<Rightarrow> cs \<noteq> [] \<and> snd (last cs) = Some e \<and> (\<forall>w. fst (last cs) \<noteq> RESTMapping w) \<and>
         (\<forall>(c, r) \<in> set (butlast cs). r \<noteq> None \<longrightarrow> (\<exists>w. c = RESTMapping w)))"

lemma SetupWithManager_outcome:
  "\<exists>err s' cs. SetupWithManager R n s = Ret err s' \<and> made s' = made s @ cs \<and> setup_outcome err cs \<and> Start \<notin> fst ` set cs"
  unfolding SetupWithManager_def watch_if_installed_def go_run
  by (auto simp: setup_outcome_def intended_def installed_def Let_def split: prod.splits option.splits)

text \<open>The process is ready to start the manager: everything intended is watched, both checks are installed and no start was tried.\<close>

definition watching_and_checked :: "(setup_call \<times> gerr option) list \<Rightarrow> bool" where
  "watching_and_checked cs \<longleftrightarrow> watches cs = intended (installed cs) \<and> (AddHealthzCheck, None) \<in> set cs \<and> (AddReadyzCheck, None) \<in> set cs \<and> Start \<notin> fst ` set cs"


text \<open>A cluster where volcano is not installed.\<close>

definition sample_runtime :: "unit runtime" where
  "sample_runtime c m = (if c = RESTMapping VolcanoPodGroups then Some (PlainErr ''no matches for kind'') else None, m)"


end
