(* ===== verification/Informers.thy ===== *)
theory Informers
  imports GoStrings ApiTypes
begin

text \<open>
  The shared informer factory (\<open>pkg/client/informers/externalversions\<close>) and the lister of clusters (\<open>pkg/client/listers\<close>). The factory is a
  state machine: callers ask for informers, start the ones asked for, and shut the factory down, in any order and from any goroutine; each
  operation holds the lock, so it is one step. The goroutines it starts run an informer until they return, and a wait group counts them.

  Types are named by strings. Informers are objects with an identity of their own; running one is client-go's part.
\<close>

section \<open>State\<close>

type_synonym 'o tweak = "'o \<Rightarrow> 'o"

record 'o informer =
  i_id :: nat
  i_namespace :: string
  i_resync :: int64
  i_tweakListOptions :: "'o tweak option"

record 'o factory =
  f_namespace :: string
  f_tweakListOptions :: "'o tweak option"
  f_defaultResync :: int64
  f_customResync :: "(string \<times> int64) list"
  f_informers :: "(string \<times> 'o informer) list"
  f_startedInformers :: "(string \<times> bool) list"
  f_wg :: nat
  f_shuttingDown :: bool

text \<open>With it, the goroutines: the informers that run now, all that were ever run, and the number of informers made.\<close>

record 'o fstate =
  fac :: "'o factory"
  running :: "'o informer list"
  runs :: "'o informer list"
  made :: nat

section \<open>Construction\<close>

definition WithCustomResyncConfig :: "(string \<times> int64) list \<Rightarrow> 'o factory \<Rightarrow> 'o factory" where
  "WithCustomResyncConfig resyncConfig f = fold (\<lambda>(k, v) f. f\<lparr>f_customResync := AList.update k v (f_customResync f)\<rparr>) resyncConfig f"

definition WithTweakListOptions :: "'o tweak option \<Rightarrow> 'o factory \<Rightarrow> 'o factory" where
  "WithTweakListOptions tweak f = f\<lparr>f_tweakListOptions := tweak\<rparr>"

definition WithNamespace :: "string \<Rightarrow> 'o factory \<Rightarrow> 'o factory" where
  "WithNamespace namespace f = f\<lparr>f_namespace := namespace\<rparr>"

definition NewSharedInformerFactoryWithOptions :: "int64 \<Rightarrow> ('o factory \<Rightarrow> 'o factory) list \<Rightarrow> 'o factory" where
  "NewSharedInformerFactoryWithOptions defaultResync options =
     fold (\<lambda>opt f. opt f) options
       \<lparr>f_namespace = [], f_tweakListOptions = None, f_defaultResync = defaultResync, f_customResync = [], f_informers = [],
        f_startedInformers = [], f_wg = 0, f_shuttingDown = False\<rparr>"

definition NewSharedInformerFactory :: "int64 \<Rightarrow> 'o factory" where
  "NewSharedInformerFactory defaultResync = NewSharedInformerFactoryWithOptions defaultResync []"

definition NewFilteredSharedInformerFactory :: "int64 \<Rightarrow> string \<Rightarrow> 'o tweak option \<Rightarrow> 'o factory" where
  "NewFilteredSharedInformerFactory defaultResync namespace tweak =
     NewSharedInformerFactoryWithOptions defaultResync [WithNamespace namespace, WithTweakListOptions tweak]"

section \<open>Informers\<close>

definition NewFilteredKubeClusterInformer :: "string \<Rightarrow> int64 \<Rightarrow> 'o tweak option \<Rightarrow> ('o fstate, 'o informer) go" where
  "NewFilteredKubeClusterInformer namespace resyncPeriod tweak =
     go_bind (go_gets made) (\<lambda>n. go_seq (go_modify (\<lambda>s. s\<lparr>made := Suc n\<rparr>))
       (go_return \<lparr>i_id = n, i_namespace = namespace, i_resync = resyncPeriod, i_tweakListOptions = tweak\<rparr>))"

definition NewKubeClusterInformer :: "string \<Rightarrow> int64 \<Rightarrow> ('o fstate, 'o informer) go" where
  "NewKubeClusterInformer namespace resyncPeriod = NewFilteredKubeClusterInformer namespace resyncPeriod None"

text \<open>The options its \<open>ListFunc\<close> and \<open>WatchFunc\<close> pass to the server.\<close>

definition informer_options :: "'o informer \<Rightarrow> 'o \<Rightarrow> 'o" where
  "informer_options i options = (case i_tweakListOptions i of None \<Rightarrow> options | Some tweak \<Rightarrow> tweak options)"

definition InformerFor :: "string \<Rightarrow> (int64 \<Rightarrow> ('o fstate, 'o informer) go) \<Rightarrow> ('o fstate, 'o informer) go" where
  "InformerFor informerType newFunc =
     go_bind (go_gets fac) (\<lambda>f.
     case map_of (f_informers f) informerType of
       Some informer \<Rightarrow> go_return informer
     | None \<Rightarrow>
         let resyncPeriod = (case map_of (f_customResync f) informerType of Some d \<Rightarrow> d | None \<Rightarrow> f_defaultResync f) in
         go_bind (newFunc resyncPeriod) (\<lambda>informer.
         go_seq (go_modify (\<lambda>s. s\<lparr>fac := (fac s)\<lparr>f_informers := AList.update informerType informer (f_informers (fac s))\<rparr>\<rparr>))
           (go_return informer)))"

definition KubeClusterType :: string where "KubeClusterType = ''*v1alpha1.KubeCluster''"

text \<open>\<open>factory.Kubecluster().V1alpha1().KubeClusters()\<close> carries the namespace and the tweak of the factory to its \<open>Informer\<close>.\<close>

record 'o kubeClusterInformer =
  ki_namespace :: string
  ki_tweakListOptions :: "'o tweak option"

definition KubeClusters :: "'o factory \<Rightarrow> 'o kubeClusterInformer" where
  "KubeClusters f = \<lparr>ki_namespace = f_namespace f, ki_tweakListOptions = f_tweakListOptions f\<rparr>"

definition defaultInformer :: "'o kubeClusterInformer \<Rightarrow> int64 \<Rightarrow> ('o fstate, 'o informer) go" where
  "defaultInformer k resyncPeriod = NewFilteredKubeClusterInformer (ki_namespace k) resyncPeriod (ki_tweakListOptions k)"

definition Informer :: "'o kubeClusterInformer \<Rightarrow> ('o fstate, 'o informer) go" where
  "Informer k = InformerFor KubeClusterType (defaultInformer k)"

text \<open>A resource is its group, version and name.\<close>

definition kubeclusters_resource :: "string \<times> string \<times> string" where
  "kubeclusters_resource = (''kubecluster.org'', ''v1alpha1'', ''kubeclusters'')"

definition ForResource :: "string \<times> string \<times> string \<Rightarrow> ('o fstate, gerr + 'o informer) go" where
  "ForResource resource =
     (if resource = kubeclusters_resource
      then go_bind (go_gets fac) (\<lambda>f. go_bind (Informer (KubeClusters f)) (\<lambda>i. go_return (Inr i)))
      else go_return (Inl (PlainErr (''no informer found for '' @ fst resource @ ''/'' @ fst (snd resource) @ '', Resource='' @ snd (snd resource)))))"

section \<open>Running\<close>

definition start_informer :: "string \<times> 'o informer \<Rightarrow> ('o fstate, unit) go" where
  "start_informer e = (case e of (informerType, informer) \<Rightarrow>
     go_bind (go_gets fac) (\<lambda>f.
     if map_of (f_startedInformers f) informerType = Some True then go_return ()
     else go_modify (\<lambda>s. s\<lparr>fac := (fac s)\<lparr>f_wg := f_wg (fac s) + 1,
            f_startedInformers := AList.update informerType True (f_startedInformers (fac s))\<rparr>,
          running := running s @ [informer], runs := runs s @ [informer]\<rparr>)))"

definition StartInformers :: "('o fstate, unit) go" where
  "StartInformers = go_bind (go_gets fac) (\<lambda>f. if f_shuttingDown f then go_return () else go_for start_informer (f_informers f))"

text \<open>A goroutine that returns from \<open>informer.Run\<close> signs off from the wait group.\<close>

definition run_returns :: "'o informer \<Rightarrow> ('o fstate, unit) go" where
  "run_returns i = go_modify (\<lambda>s. s\<lparr>fac := (fac s)\<lparr>f_wg := f_wg (fac s) - 1\<rparr>, running := remove1 i (running s)\<rparr>)"

text \<open>\<open>Shutdown\<close> marks the factory and then waits, outside the lock, until the wait group is at zero.\<close>

definition Shutdown_marks :: "('o fstate, unit) go" where
  "Shutdown_marks = go_modify (\<lambda>s. s\<lparr>fac := (fac s)\<lparr>f_shuttingDown := True\<rparr>\<rparr>)"

definition Shutdown_returns :: "'o fstate \<Rightarrow> bool" where
  "Shutdown_returns s \<longleftrightarrow> f_shuttingDown (fac s) \<and> f_wg (fac s) = 0"

text \<open>\<open>cache.WaitForCacheSync\<close> on one informer is the parameter.\<close>

definition WaitForCacheSync :: "('o informer \<Rightarrow> bool) \<Rightarrow> ('o fstate, (string \<times> bool) list) go" where
  "WaitForCacheSync wait =
     go_bind (go_gets fac) (\<lambda>f.
     let informers = filter (\<lambda>(t, i). map_of (f_startedInformers f) t = Some True) (f_informers f) in
     go_return (map (\<lambda>(t, i). (t, wait i)) informers))"

section \<open>Executions\<close>

definition is_new :: "(int64 \<Rightarrow> ('o fstate, 'o informer) go) \<Rightarrow> bool" where
  "is_new newFunc \<longleftrightarrow> (\<forall>d s. \<exists>i. newFunc d s = Ret i (s\<lparr>made := Suc (made s)\<rparr>) \<and> i_id i = made s)"

inductive factory_step :: "'o fstate \<Rightarrow> 'o fstate \<Rightarrow> bool" where
  asked: "is_new newFunc \<Longrightarrow> InformerFor t newFunc s = Ret i s' \<Longrightarrow> factory_step s s'"
| started: "StartInformers s = Ret () s' \<Longrightarrow> factory_step s s'"
| returned: "i \<in> set (running s) \<Longrightarrow> run_returns i s = Ret () s' \<Longrightarrow> factory_step s s'"
| shut: "Shutdown_marks s = Ret () s' \<Longrightarrow> factory_step s s'"

inductive factory_reachable :: "'o fstate \<Rightarrow> bool" where
  init: "fac s = NewSharedInformerFactoryWithOptions d [WithNamespace ns, WithTweakListOptions tw, WithCustomResyncConfig rc] \<Longrightarrow>
    running s = [] \<Longrightarrow> runs s = [] \<Longrightarrow> factory_reachable s"
| step: "factory_reachable s \<Longrightarrow> factory_step s s' \<Longrightarrow> factory_reachable s'"

inductive_cases factory_stepE: "factory_step s s'"

section \<open>The invariant\<close>

definition is_started :: "'o factory \<Rightarrow> string \<Rightarrow> bool" where
  "is_started f t \<longleftrightarrow> map_of (f_startedInformers f) t = Some True"

text \<open>The informers that were run are those of the types marked as started, each was run once, and the wait group counts the goroutines.\<close>

definition factory_inv :: "'o fstate \<Rightarrow> bool" where
  "factory_inv s \<longleftrightarrow> distinct (map fst (f_informers (fac s))) \<and> distinct (map (i_id \<circ> snd) (f_informers (fac s))) \<and>
     (\<forall>(t, i) \<in> set (f_informers (fac s)). i_id i < made s) \<and> (\<forall>t. is_started (fac s) t \<longrightarrow> t \<in> fst ` set (f_informers (fac s))) \<and>
     set (runs s) = {i. \<exists>t. (t, i) \<in> set (f_informers (fac s)) \<and> is_started (fac s) t} \<and> distinct (runs s) \<and>
     set (running s) \<subseteq> set (runs s) \<and> distinct (running s) \<and> f_wg (fac s) = length (running s)"

lemma update_new: "k \<notin> fst ` set al \<Longrightarrow> AList.update k v al = al @ [(k, v)]"
  by (induction al) auto

lemma init_inv:
  "fac s = NewSharedInformerFactoryWithOptions d [WithNamespace ns, WithTweakListOptions tw, WithCustomResyncConfig rc] \<Longrightarrow>
    running s = [] \<Longrightarrow> runs s = [] \<Longrightarrow> factory_inv s"
proof -
  have custom: "\<exists>c. WithCustomResyncConfig rc f = f\<lparr>f_customResync := c\<rparr>" for f :: "'a factory"
  proof (induction rc arbitrary: f)
    case Nil
    show ?case by (rule exI [of _ "f_customResync f"]) (simp add: WithCustomResyncConfig_def)
  next
    case (Cons e rc)
    obtain k v where e: "e = (k, v)" by (cases e)
    have "WithCustomResyncConfig (e # rc) f = WithCustomResyncConfig rc (f\<lparr>f_customResync := AList.update k v (f_customResync f)\<rparr>)"
      by (simp add: WithCustomResyncConfig_def e)
    with Cons.IH [of "f\<lparr>f_customResync := AList.update k v (f_customResync f)\<rparr>"] show ?case by auto
  qed
  assume "fac s = NewSharedInformerFactoryWithOptions d [WithNamespace ns, WithTweakListOptions tw, WithCustomResyncConfig rc]" "running s = []" "runs s = []"
  with custom [of "\<lparr>f_namespace = ns, f_tweakListOptions = tw, f_defaultResync = d, f_customResync = [], f_informers = [],
        f_startedInformers = [], f_wg = 0, f_shuttingDown = False\<rparr>"] show ?thesis
    by (auto simp: factory_inv_def is_started_def NewSharedInformerFactoryWithOptions_def WithNamespace_def WithTweakListOptions_def)
qed

text \<open>Asking returns the informer that is there, or makes one and keeps it.\<close>

lemma InformerFor_run:
  assumes "is_new newFunc"
  obtains i where "map_of (f_informers (fac s)) t = Some i" "InformerFor t newFunc s = Ret i s"
  | j where "t \<notin> fst ` set (f_informers (fac s))" "i_id j = made s"
    "InformerFor t newFunc s = Ret j (s\<lparr>made := Suc (made s), fac := (fac s)\<lparr>f_informers := f_informers (fac s) @ [(t, j)]\<rparr>\<rparr>)"
proof (cases "map_of (f_informers (fac s)) t")
  case (Some i)
  then show thesis by (intro that(1)) (simp_all add: InformerFor_def go_run)
next
  case None
  let ?d = "case map_of (f_customResync (fac s)) t of Some d \<Rightarrow> d | None \<Rightarrow> f_defaultResync (fac s)"
  obtain j where j: "newFunc ?d s = Ret j (s\<lparr>made := Suc (made s)\<rparr>)" "i_id j = made s"
    using assms unfolding is_new_def by blast
  have new: "t \<notin> fst ` set (f_informers (fac s))" using None by (simp add: map_of_eq_None_iff)
  show thesis
    by (rule that(2) [OF new j(2)]) (simp add: InformerFor_def go_run Let_def None j update_new new)
qed

lemma asked_inv:
  assumes "factory_inv s" "is_new newFunc" "InformerFor t newFunc s = Ret i s'"
  shows "factory_inv s'"
  using assms(2)
proof (cases rule: InformerFor_run [where s = s and t = t])
  case (2 j)
  have "\<not> is_started (fac s) t" using assms(1) 2(1) by (auto simp: factory_inv_def)
  with assms(1,3) 2 show ?thesis by (fastforce simp: factory_inv_def is_started_def)
qed (use assms in auto)

lemma is_started_mark: "is_started (f\<lparr>f_wg := w, f_startedInformers := AList.update t True (f_startedInformers f)\<rparr>) u \<longleftrightarrow> u = t \<or> is_started f u"
  by (simp add: is_started_def update_conv)

lemma start_one_inv:
  assumes "factory_inv s" "(t, i) \<in> set (f_informers (fac s))"
  shows "\<exists>s'. start_informer (t, i) s = Ret () s' \<and> factory_inv s' \<and> f_informers (fac s') = f_informers (fac s) \<and> is_started (fac s') t
    \<and> (\<forall>u. is_started (fac s) u \<longrightarrow> is_started (fac s') u)"
proof (cases "is_started (fac s) t")
  case True
  with assms show ?thesis by (simp add: start_informer_def go_run is_started_def)
next
  case False
  let ?f = "(fac s)\<lparr>f_wg := Suc (f_wg (fac s)), f_startedInformers := AList.update t True (f_startedInformers (fac s))\<rparr>"
  let ?s = "s\<lparr>fac := ?f, running := running s @ [i], runs := runs s @ [i]\<rparr>"
  note marks = is_started_mark
  have own: "u = t" if "(u, i) \<in> set (f_informers (fac s))" for u
    using that assms by (force simp: factory_inv_def distinct_map inj_on_def)
  have inv: "distinct (map fst (f_informers (fac s)))" "distinct (map (i_id \<circ> snd) (f_informers (fac s)))"
      "\<forall>(t, i) \<in> set (f_informers (fac s)). i_id i < made s" "\<forall>t. is_started (fac s) t \<longrightarrow> t \<in> fst ` set (f_informers (fac s))"
      "set (runs s) = {i. \<exists>t. (t, i) \<in> set (f_informers (fac s)) \<and> is_started (fac s) t}" "distinct (runs s)"
      "set (running s) \<subseteq> set (runs s)" "distinct (running s)" "f_wg (fac s) = length (running s)"
    using assms(1) unfolding factory_inv_def by blast+
  have new: "i \<notin> set (runs s)" using False own inv(5) by auto
  have same: "j = i" if "(t, j) \<in> set (f_informers (fac s))" for j
    using that assms(2) inv(1) by (meson eq_key_imp_eq_value)
  have sets: "set (runs s @ [i]) = {j. \<exists>u. (u, j) \<in> set (f_informers (fac s)) \<and> (u = t \<or> is_started (fac s) u)}"
    unfolding set_append inv(5) using assms(2) by (intro set_eqI iffI) (auto dest: same)
  have key: "t \<in> fst ` set (f_informers (fac s))" using assms(2) by force
  have "factory_inv ?s" unfolding factory_inv_def
  proof (intro conjI)
    show "set (runs ?s) = {j. \<exists>u. (u, j) \<in> set (f_informers (fac ?s)) \<and> is_started (fac ?s) u}" using sets by (simp add: marks)
    show "distinct (running ?s)" using inv(7,8) new by auto
  qed (use inv new key in \<open>auto simp: marks\<close>)
  moreover have "start_informer (t, i) s = Ret () ?s" using False by (simp add: start_informer_def go_run is_started_def)
  ultimately show ?thesis using marks by auto
qed

lemma start_all_inv:
  assumes "factory_inv s" "set xs \<subseteq> set (f_informers (fac s))"
  shows "\<exists>s'. go_for start_informer xs s = Ret () s' \<and> factory_inv s' \<and> f_informers (fac s') = f_informers (fac s)
    \<and> (\<forall>(t, i) \<in> set xs. is_started (fac s') t) \<and> (\<forall>u. is_started (fac s) u \<longrightarrow> is_started (fac s') u)"
  using assms
proof (induction xs arbitrary: s)
  case (Cons e xs)
  obtain t i where e: "e = (t, i)" by (cases e)
  with Cons.prems obtain s1 where s1: "start_informer e s = Ret () s1" "factory_inv s1" "f_informers (fac s1) = f_informers (fac s)"
      "is_started (fac s1) t" "\<forall>u. is_started (fac s) u \<longrightarrow> is_started (fac s1) u" using start_one_inv [of s t i] by auto
  with Cons.prems Cons.IH [of s1] show ?case by (auto simp: go_run e)
qed (auto simp: go_run)

lemma start_inv:
  assumes "factory_inv s"
  shows "\<exists>s'. StartInformers s = Ret () s' \<and> factory_inv s' \<and> f_informers (fac s') = f_informers (fac s) \<and>
    (if f_shuttingDown (fac s) then s' = s else \<forall>t \<in> fst ` set (f_informers (fac s)). is_started (fac s') t)"
  using assms start_all_inv [OF assms subset_refl] by (fastforce simp: StartInformers_def go_run)

lemma step_inv: "factory_step s s' \<Longrightarrow> factory_inv s \<Longrightarrow> factory_inv s'"
proof (erule factory_stepE)
  show "factory_inv s \<Longrightarrow> is_new n \<Longrightarrow> InformerFor t n s = Ret i s' \<Longrightarrow> factory_inv s'" for n t i by (rule asked_inv)
  show "factory_inv s \<Longrightarrow> StartInformers s = Ret () s' \<Longrightarrow> factory_inv s'" using start_inv [of s] by auto
  show "factory_inv s \<Longrightarrow> i \<in> set (running s) \<Longrightarrow> run_returns i s = Ret () s' \<Longrightarrow> factory_inv s'" for i
    by (auto simp: run_returns_def go_run factory_inv_def is_started_def length_remove1 set_remove1_eq)
  show "factory_inv s \<Longrightarrow> Shutdown_marks s = Ret () s' \<Longrightarrow> factory_inv s'"
    by (auto simp: Shutdown_marks_def go_run factory_inv_def is_started_def)
qed

lemma reachable_inv: "factory_reachable s \<Longrightarrow> factory_inv s"
  by (induction rule: factory_reachable.induct) (auto intro: init_inv step_inv)

text \<open>A factory that is shutting down starts nothing.\<close>

lemma shut_step:
  assumes "factory_step s s'" "factory_inv s" "f_shuttingDown (fac s)"
  shows "f_shuttingDown (fac s') \<and> runs s' = runs s \<and> set (running s') \<subseteq> set (running s)"
  using assms(1)
proof (cases rule: factory_step.cases)
  case (asked newFunc t i)
  from asked(1) show ?thesis
    using asked(2) assms(3) by (cases rule: InformerFor_run [where s = s and t = t]) auto
next
  case started
  with assms(3) start_inv [OF assms(2)] show ?thesis by auto
next
  case (returned i)
  with assms(3) show ?thesis by (auto simp: run_returns_def go_run dest: subsetD [OF set_remove1_subset])
next
  case shut
  then show ?thesis by (auto simp: Shutdown_marks_def go_run)
qed

lemma shut_forever:
  "factory_step\<^sup>*\<^sup>* s t \<Longrightarrow> factory_inv s \<Longrightarrow> f_shuttingDown (fac s) \<Longrightarrow>
    factory_inv t \<and> f_shuttingDown (fac t) \<and> runs t = runs s \<and> set (running t) \<subseteq> set (running s)"
proof (induction rule: rtranclp_induct)
  case (step y z)
  then show ?case using step_inv [of y z] shut_step [of y z] by auto
qed simp

text \<open>C16: The shared informer factory, however informers are asked for, started, return and the factory is shut down. Every informer is run at most once.
  The wait group counts the goroutines that run. \<open>Start\<close> runs every informer that was asked for and not started before, unless the factory is
  shutting down, when it does nothing. Once \<open>Shutdown\<close> has returned nothing runs, and nothing ever will.\<close>

theorem informers_run_once:
  assumes "factory_reachable s"
  shows "distinct (runs s) \<and> f_wg (fac s) = length (running s)
    \<and> (\<exists>s'. StartInformers s = Ret () s' \<and> (if f_shuttingDown (fac s) then s' = s else \<forall>(t, i) \<in> set (f_informers (fac s)). i \<in> set (runs s')))
    \<and> (\<forall>t. Shutdown_returns s \<and> factory_step\<^sup>*\<^sup>* s t \<longrightarrow> running t = [] \<and> runs t = runs s)"
proof (intro conjI allI impI)
  note inv = reachable_inv [OF assms]
  show "distinct (runs s)" "f_wg (fac s) = length (running s)" using inv by (simp_all add: factory_inv_def)
  obtain s' where s': "StartInformers s = Ret () s'" "factory_inv s'" "f_informers (fac s') = f_informers (fac s)"
      "if f_shuttingDown (fac s) then s' = s else \<forall>t \<in> fst ` set (f_informers (fac s)). is_started (fac s') t"
    using start_inv [OF inv] by blast
  have "set (runs s') = {i. \<exists>t. (t, i) \<in> set (f_informers (fac s)) \<and> is_started (fac s') t}" using s'(2,3) unfolding factory_inv_def by metis
  then have "i \<in> set (runs s')" if "\<not> f_shuttingDown (fac s)" "(t, i) \<in> set (f_informers (fac s))" for t i
    using s'(4) that by force
  with s' show "\<exists>s'. StartInformers s = Ret () s' \<and> (if f_shuttingDown (fac s) then s' = s else \<forall>(t, i) \<in> set (f_informers (fac s)). i \<in> set (runs s'))"
    by auto
  fix t
  assume "Shutdown_returns s \<and> factory_step\<^sup>*\<^sup>* s t"
  then have steps: "factory_step\<^sup>*\<^sup>* s t" "f_shuttingDown (fac s)" "f_wg (fac s) = 0" by (simp_all add: Shutdown_returns_def)
  have "running s = []" using inv steps(3) by (simp add: factory_inv_def)
  with shut_forever [OF steps(1) inv steps(2)] show "running t = []" "runs t = runs s" by simp_all
qed

lemma informers_run_once_witness:
  "\<exists>s :: string fstate. factory_reachable s \<and> length (runs s) = 1 \<and> f_wg (fac s) = length (running s) \<and> distinct (runs s)"
proof -
  define k :: "string kubeClusterInformer" where "k = KubeClusters (NewFilteredSharedInformerFactory 0 ''default'' None)"
  define s0 :: "string fstate" where "s0 = \<lparr>fac = NewSharedInformerFactoryWithOptions 0 [WithNamespace ''default'', WithTweakListOptions None, WithCustomResyncConfig []],
      running = [], runs = [], made = 0\<rparr>"
  have new: "is_new (defaultInformer k)" by (simp add: is_new_def defaultInformer_def NewFilteredKubeClusterInformer_def go_run)
  obtain i s1 where s1: "Informer k s0 = Ret i s1" "f_informers (fac s1) = [(KubeClusterType, i)]" "\<not> f_shuttingDown (fac s1)" "runs s1 = []" "f_startedInformers (fac s1) = []"
    by (simp add: Informer_def InformerFor_def go_run s0_def NewSharedInformerFactoryWithOptions_def WithNamespace_def WithTweakListOptions_def
        WithCustomResyncConfig_def defaultInformer_def NewFilteredKubeClusterInformer_def Let_def)
  obtain s2 where s2: "StartInformers s1 = Ret () s2" "length (runs s2) = 1"
    using s1 by (simp add: StartInformers_def start_informer_def go_run)
  have "factory_reachable s0" by (rule factory_reachable.init) (simp_all add: s0_def)
  then have "factory_reachable s2"
    using factory_step.asked [OF new s1(1) [unfolded Informer_def]] factory_step.started [OF s2(1)] factory_reachable.step by metis
  with informers_run_once [OF this] s2 show ?thesis by blast
qed

end
