(* ===== verification/Rounds.thy ===== *)
theory Rounds
  imports Plans
begin

text \<open>
  Rounds. Pods and services are reconciled in the same way: the objects of a replica type are listed, sorted into one slice per index, and the
  slices worked through. An index without an object gets one; an object out of range, or one to be renewed, is deleted. This theory says what
  such rounds do to the objects, index by index, for any kind of object, and when they come to rest.
\<close>

section \<open>Partial correctness\<close>

text \<open>\<open>wlp m Q s\<close>: if the program returns from \<open>s\<close>, its result satisfies \<open>Q\<close>. That it returns is shown with \<open>wp\<close>.\<close>

definition wlp :: "('s, 'a) go \<Rightarrow> ('a \<Rightarrow> 's \<Rightarrow> bool) \<Rightarrow> 's \<Rightarrow> bool" where
  "wlp m Q s = (case m s of Ret a s' \<Rightarrow> Q a s' | Panic _ _ \<Rightarrow> True)"

lemma wlp_simps:
  "wlp (go_return a) Q s = Q a s" "wlp (go_panic p) Q' s" "wlp (go_gets f) P s = P (f s) s"
  "wlp (go_bind m k) R s = wlp m (\<lambda>a. wlp (k a) R) s" "wlp (go_seq m' n') R' s = wlp m' (\<lambda>_. wlp n' R') s"
  "wlp (go_try m'' n) O' s = wlp m'' (\<lambda>r t. case r of Some e \<Rightarrow> O' (Some e) t | None \<Rightarrow> wlp n O' t) s"
  "wlp (go_lift r) P' s = (case r of Inl _ \<Rightarrow> True | Inr a \<Rightarrow> P' a s)"
  by (simp_all add: wlp_def go_run split: outcome.splits sum.splits option.splits)

lemma wlp_ctl:
  "wlp (call f) P s = (case f (world s) of (r, w) \<Rightarrow> P r (s\<lparr>world := w\<rparr>))"
  "wlp (api f' eff) P' s = (case f' (world s) of (r, w) \<Rightarrow> P' r (s\<lparr>world := w, trace := trace s @ [eff r]\<rparr>))"
  "wlp (Event a b c) Q s = Q () (s\<lparr>trace := trace s @ [EventCall a b c]\<rparr>)"
  "wlp (Inc n) Q s = Q () (s\<lparr>trace := trace s @ [MetricInc n]\<rparr>)" "wlp get_cluster R s = R (kcl s) s"
  by (simp_all add: wlp_def ctl_defs go_run split: prod.splits)

lemma wlp_mono: "wlp m Q s \<Longrightarrow> (\<And>a t. Q a t \<Longrightarrow> R a t) \<Longrightarrow> wlp m R s"
  by (auto simp: wlp_def split: outcome.splits)

lemma wlp_keeps: "keeps R m \<Longrightarrow> (\<And>a t. R s t \<Longrightarrow> Q a t) \<Longrightarrow> wlp m Q s"
  unfolding keeps_def wlp_def by (cases "m s") (auto dest!: spec [of _ s])

lemma wp_wlp: "wp m Q s \<Longrightarrow> wlp m R s \<Longrightarrow> wp m (\<lambda>a t. Q a t \<and> R a t) s"
  by (auto simp: wp_def wlp_def split: outcome.splits)

lemma wp_frame: "wp m Q s \<Longrightarrow> keeps R m \<Longrightarrow> wp m (\<lambda>a t. Q a t \<and> R s t) s"
  by (rule wp_wlp) (auto intro: wlp_keeps)

lemma wlp_of_wp: "wp m Q s \<Longrightarrow> wlp m Q s"
  by (auto simp: wp_def wlp_def split: outcome.splits)

lemma wlp_conj: "wlp m Q s \<Longrightarrow> wlp m R s \<Longrightarrow> wlp m (\<lambda>a t. Q a t \<and> R a t) s"
  by (auto simp: wlp_def split: outcome.splits)

section \<open>Slices\<close>

definition slice_of :: "'o option \<Rightarrow> 'o list" where
  "slice_of x = (case x of None \<Rightarrow> [] | Some p \<Rightarrow> [p])"

lemma distinct_slice: "distinct xs \<Longrightarrow> set xs = set_option x \<Longrightarrow> xs = slice_of x"
proof (cases x)
  case (Some p)
  assume "distinct xs" "set xs = set_option x"
  with Some have "set xs = {p}" "length xs = 1" using distinct_card [of xs] by auto
  with Some show ?thesis by (cases xs) (auto simp: slice_of_def)
qed (auto simp: slice_of_def)

text \<open>Objects that are all at their index: the slices hold them one by one.\<close>

lemma slices_indexed:
  fixes at :: "nat \<Rightarrow> 'o option"
  assumes qs: "distinct qs" "set qs = {p. \<exists>i. at i = Some p}" and label: "\<And>i p. at i = Some p \<Longrightarrow> ReplicaIndex (lab p) = Inr (int i)"
    and bound: "\<And>i. at i \<noteq> None \<Longrightarrow> int i < maxlen" and n: "n \<le> maxlen" "0 < maxlen" "maxlen < 2 ^ 63"
  obtains L where "slices_of lab maxlen qs n = Inr (map (\<lambda>i. slice_of (at i)) [0..<L])"
    "n \<le> int L" "1 \<le> L" "int L \<le> maxlen" "\<forall>i. at i \<noteq> None \<longrightarrow> i < L" "int L = max n 1 \<or> at (L - 1) \<noteq> None"
proof -
  have index: "ReplicaIndex (lab p) = Inr j \<longleftrightarrow> j = int i" if "at i = Some p" for p i j
    using label [OF that] by auto
  have "indices_ok lab maxlen qs"
    using bound by (auto simp: indices_ok_def list_all_iff qs(2) index split: sum.splits)
  from slices_of_ok [OF this n] obtain slices where sl: "slices_of lab maxlen qs n = Inr slices" "n \<le> int (length slices)"
      "\<forall>i < length slices. slices ! i = filter (\<lambda>p. ReplicaIndex (lab p) = Inr (int i)) qs"
      "\<forall>p \<in> set qs. \<forall>i. ReplicaIndex (lab p) = Inr i \<longrightarrow> 0 \<le> i \<and> i < int (length slices)"
      "int (length slices) = max n 1 \<or> (\<exists>p \<in> set qs. ReplicaIndex (lab p) = Inr (int (length slices) - 1))"
    by (auto simp: indexed_def)
  let ?L = "length slices"
  have "filter (\<lambda>p. ReplicaIndex (lab p) = Inr (int i)) qs = slice_of (at i)" for i
    by (rule distinct_slice) (use qs index in auto)
  with sl(3) have "slices = map (\<lambda>i. slice_of (at i)) [0..<?L]" by (intro nth_equalityI) auto
  moreover have inside: "i < ?L" if "at i \<noteq> None" for i using that sl(4) index by (fastforce simp: qs(2))
  moreover have top: "int ?L = max n 1 \<or> at (?L - 1) \<noteq> None \<and> 1 \<le> ?L"
  proof (rule disjE [OF sl(5)])
    assume "\<exists>p \<in> set qs. ReplicaIndex (lab p) = Inr (int ?L - 1)"
    then obtain p i where p: "at i = Some p" "int ?L - 1 = int i" using index by (auto simp: qs(2))
    then have "?L = Suc i" by linarith
    with p(1) show ?thesis by simp
  qed simp
  then have "int ?L = max n 1 \<or> at (?L - 1) \<noteq> None" "1 \<le> ?L" by (auto simp: max_def split: if_splits)
  moreover from this have "int ?L \<le> maxlen" using n bound [of "?L - 1"] by (auto simp: max_def split: if_splits)
  ultimately show thesis using that [of ?L] sl(1,2) by metis
qed

section \<open>What a round does\<close>

text \<open>What a round is about: the objects of the indices and the other ones, which objects are new for an index, which are renewed, the calls made so far, what
  holds while the slices are worked through, and how many objects are wanted.\<close>

record ('s, 'o, 'p) view =
  v_at :: "'s \<Rightarrow> nat \<Rightarrow> 'o option"
  v_beside :: "'s \<Rightarrow> string \<rightharpoonup> 'o"
  v_new :: "nat \<Rightarrow> 'o \<Rightarrow> bool"
  v_renew :: "'o \<Rightarrow> bool"
  v_ops :: "'s \<Rightarrow> 'p list"
  v_inv :: "'s \<Rightarrow> bool"
  v_want :: int

definition index_step :: "('s, 'o, 'p) view \<Rightarrow> nat \<Rightarrow> 'o option \<Rightarrow> 'o option \<Rightarrow> bool" where
  "index_step V i before after \<longleftrightarrow> (case before of
       None \<Rightarrow> \<exists>q. after = Some q \<and> v_new V i q
     | Some p \<Rightarrow> after = (if int i \<ge> v_want V \<or> v_renew V p then None else Some p))"

definition settled :: "('s, 'o, 'p) view \<Rightarrow> 's \<Rightarrow> nat \<Rightarrow> bool" where
  "settled V s i \<longleftrightarrow> int i < v_want V \<and> (\<exists>p. v_at V s i = Some p \<and> \<not> v_renew V p)"

text \<open>One slice worked through, the slices from \<open>m\<close> up to \<open>l\<close>, and a round over \<open>L\<close> slices.\<close>

definition slice_done :: "('s, 'o, 'p) view \<Rightarrow> nat \<Rightarrow> 's \<Rightarrow> 's \<Rightarrow> bool" where
  "slice_done V i s t \<longleftrightarrow> v_inv V t \<and> v_beside V t = v_beside V s \<and> index_step V i (v_at V s i) (v_at V t i) \<and>
     (\<forall>j. j \<noteq> i \<longrightarrow> v_at V t j = v_at V s j) \<and> (settled V s i \<longrightarrow> v_ops V t = v_ops V s)"

definition worked :: "('s, 'o, 'p) view \<Rightarrow> nat \<Rightarrow> nat \<Rightarrow> 's \<Rightarrow> 's \<Rightarrow> bool" where
  "worked V m l s t \<longleftrightarrow> v_inv V t \<and> v_beside V t = v_beside V s \<and>
     (\<forall>i. if m \<le> i \<and> i < l then index_step V i (v_at V s i) (v_at V t i) else v_at V t i = v_at V s i) \<and>
     ((\<forall>i. m \<le> i \<and> i < l \<longrightarrow> settled V s i) \<longrightarrow> v_ops V t = v_ops V s)"

definition one_round :: "('s, 'o, 'p) view \<Rightarrow> 's \<Rightarrow> 's \<Rightarrow> bool" where
  "one_round V s t \<longleftrightarrow> (\<exists>L. v_want V \<le> int L \<and> 1 \<le> L \<and> (\<forall>i. v_at V s i \<noteq> None \<longrightarrow> i < L) \<and>
     (int L = max (v_want V) 1 \<or> v_at V s (L - 1) \<noteq> None) \<and> worked V 0 L s t)"

definition within :: "('s, 'o, 'p) view \<Rightarrow> nat \<Rightarrow> 's \<Rightarrow> bool" where
  "within V M s \<longleftrightarrow> (\<forall>i. v_at V s i \<noteq> None \<longrightarrow> i < M)"

definition at_rest :: "('s, 'o, 'p) view \<Rightarrow> 's \<Rightarrow> bool" where
  "at_rest V s \<longleftrightarrow> (\<forall>i. if int i < v_want V then settled V s i else v_at V s i = None)"

text \<open>Rounds one after the other, until one returns an error.\<close>

primrec repeat_round :: "nat \<Rightarrow> ('s, 'e option) go \<Rightarrow> ('s, 'e option) go" where
  "repeat_round 0 r = go_return None"
| "repeat_round (Suc m) r = go_try r (repeat_round m r)"

lemma workedD:
  assumes "worked V 0 L s t"
  shows "i < L \<Longrightarrow> index_step V i (v_at V s i) (v_at V t i)" "L \<le> i \<Longrightarrow> v_at V t i = v_at V s i"
  using assms unfolding worked_def by (metis le0, metis not_less)

lemma worked_step:
  assumes st: "slice_done V m s t" and w: "worked V (Suc m) l t u" and l: "m < l"
  shows "worked V m l s u"
proof -
  from st have at: "v_at V t j = v_at V s j" if "j \<noteq> m" for j using that by (simp add: slice_done_def)
  have um: "v_at V u m = v_at V t m" using w by (auto simp: worked_def split: if_splits)
  have rest: "if Suc m \<le> i \<and> i < l then index_step V i (v_at V s i) (v_at V u i) else v_at V u i = v_at V s i" if "i \<noteq> m" for i
    using w at [OF that] unfolding worked_def by metis
  have "if m \<le> i \<and> i < l then index_step V i (v_at V s i) (v_at V u i) else v_at V u i = v_at V s i" for i
    using rest [of i] um st l by (cases "i = m") (auto simp: Suc_le_eq slice_done_def)
  moreover have "v_ops V u = v_ops V s" if all: "\<forall>i. m \<le> i \<and> i < l \<longrightarrow> settled V s i"
  proof -
    have "\<forall>i. Suc m \<le> i \<and> i < l \<longrightarrow> settled V t i" using all at by (auto simp: settled_def)
    with w have "v_ops V u = v_ops V t" by (simp add: worked_def)
    with all l st show ?thesis by (simp add: slice_done_def)
  qed
  ultimately show ?thesis using w st by (simp add: worked_def slice_done_def)
qed

text \<open>A loop whose body does what it should on every slice.\<close>

lemma wp_slices:
  assumes slice: "\<And>i s. int i < 2 ^ 63 \<Longrightarrow> v_inv V s \<Longrightarrow> wp (f (i, slice_of (v_at V s i))) (\<lambda>r t. r = None \<and> slice_done V i s t) s"
    and l: "int (m + length xs) < 2 ^ 63" and inv: "v_inv V s" and xs: "xs = map (\<lambda>i. slice_of (v_at V s i)) [m..<m + length xs]"
  shows "wp (go_forE f (enumerate m xs)) (\<lambda>r t. r = None \<and> worked V m (m + length xs) s t) s"
  using l inv xs
proof (induction xs arbitrary: m s)
  case Nil
  then show ?case by (auto simp: wp worked_def)
next
  case (Cons x xs)
  have upt: "[m..<m + length (x # xs)] = m # [Suc m..<Suc m + length xs]"
    using upt_conv_Cons [of m "m + length (x # xs)"] by (simp del: upt_Suc)
  from Cons.prems(3) have x: "x = slice_of (v_at V s m)" and xs: "xs = map (\<lambda>i. slice_of (v_at V s i)) [Suc m..<Suc m + length xs]"
    unfolding upt list.map list.inject by blast+
  have m: "int m < 2 ^ 63" using Cons.prems(1) by simp
  show ?case
    unfolding enumerate_simps go_forE.simps wp_try x
  proof (rule wp_mono [OF slice [OF m Cons.prems(2)]], elim conjE)
    fix r t
    assume r: "r = None" and st: "slice_done V m s t"
    have "map (\<lambda>i. slice_of (v_at V s i)) [Suc m..<Suc m + length xs] = map (\<lambda>i. slice_of (v_at V t i)) [Suc m..<Suc m + length xs]"
      by (rule map_cong [OF refl]) (use st in \<open>auto simp: slice_done_def simp del: upt_Suc\<close>)
    with xs have "xs = map (\<lambda>i. slice_of (v_at V t i)) [Suc m..<Suc m + length xs]" by simp
    from Cons.IH [OF _ _ this] Cons.prems(1) st
    have "wp (go_forE f (enumerate (Suc m) xs)) (\<lambda>r u. r = None \<and> worked V (Suc m) (Suc m + length xs) t u) t" by (simp add: slice_done_def)
    moreover have "worked V m (Suc m + length xs) s u" if "worked V (Suc m) (Suc m + length xs) t u" for u
      by (rule worked_step [OF st that]) simp
    ultimately show "case r of None \<Rightarrow> wp (go_forE f (enumerate (Suc m) xs)) (\<lambda>r t. r = None \<and> worked V m (m + length (slice_of (v_at V s m) # xs)) s t) t
      | Some e \<Rightarrow> Some e = None \<and> worked V m (m + length (slice_of (v_at V s m) # xs)) s t"
      using r by (auto elim!: wp_mono)
  qed
qed

text \<open>A round depends on the objects and the calls at its start, and on these and the invariant at its end.\<close>

lemma one_round_from:
  "v_at V s' = v_at V s \<Longrightarrow> v_beside V s' = v_beside V s \<Longrightarrow> v_ops V s' = v_ops V s \<Longrightarrow> one_round V s' t = one_round V s t"
  by (simp add: one_round_def worked_def settled_def)

lemma one_round_to:
  "v_at V t' = v_at V t \<Longrightarrow> v_beside V t' = v_beside V t \<Longrightarrow> v_ops V t' = v_ops V t \<Longrightarrow> v_inv V t' = v_inv V t \<Longrightarrow> one_round V s t' = one_round V s t"
  by (simp add: one_round_def worked_def)

text \<open>The view of the indices alone. With it a round is seen where other rounds go on beside it.\<close>

definition bare :: "('s, 'o, 'p) view \<Rightarrow> ('s, 'o, 'p) view" where
  "bare V = V\<lparr>v_beside := \<lambda>_. Map.empty, v_ops := \<lambda>_. [], v_inv := \<lambda>_. True\<rparr>"

lemma bare_simps [simp]: "v_at (bare V) = v_at V" "v_new (bare V) = v_new V" "v_renew (bare V) = v_renew V" "v_want (bare V) = v_want V"
  "within (bare V) M s = within V M s" "at_rest (bare V) s = at_rest V s"
  by (simp_all add: bare_def within_def at_rest_def settled_def)

lemma worked_bare: "worked (bare V) m l s t \<longleftrightarrow> (\<forall>i. if m \<le> i \<and> i < l then index_step V i (v_at V s i) (v_at V t i) else v_at V t i = v_at V s i)"
proof -
  have "index_step (bare V) = index_step V" by (rule ext)+ (unfold index_step_def bare_simps, rule refl)
  moreover have "v_inv (bare V) t" "v_beside (bare V) = (\<lambda>_. Map.empty)" "v_ops (bare V) = (\<lambda>_. [])" by (simp_all add: bare_def)
  ultimately show ?thesis by (simp add: worked_def)
qed

lemma one_round_bare: "one_round V s t \<Longrightarrow> one_round (bare V) s t"
proof -
  have "worked V 0 L s t \<Longrightarrow> worked (bare V) 0 L s t" for L unfolding worked_bare by (simp add: worked_def)
  then show "one_round V s t \<Longrightarrow> one_round (bare V) s t" unfolding one_round_def bare_simps by blast
qed

lemma one_round_bare_cong: "v_at V s' = v_at V s \<Longrightarrow> v_at V t' = v_at V t \<Longrightarrow> one_round (bare V) s' t' = one_round (bare V) s t"
  unfolding one_round_def worked_bare bare_simps by simp

lemma at_rest_cong: "v_at V t = v_at V s \<Longrightarrow> at_rest V t = at_rest V s"
  by (simp add: at_rest_def settled_def)

text \<open>A program that does what \<open>R\<close> says in every calm state, and keeps it calm, does it as often as it is repeated.\<close>

lemma wp_repeat:
  assumes "\<And>s. calm s \<Longrightarrow> wp rnd (\<lambda>r t. r = None \<and> calm t \<and> R s t) s" "calm s"
  shows "wp (repeat_round m rnd) (\<lambda>r t. r = None \<and> calm t \<and> (R ^^ m) s t) s"
  using assms(2)
proof (induction m arbitrary: s)
  case (Suc m)
  show ?case
    unfolding repeat_round.simps wp_try
  proof (rule wp_mono [OF assms(1) [OF Suc.prems]], elim conjE)
    fix r t
    assume r: "r = None" and calm: "calm t" and one: "R s t"
    from one have "(R ^^ Suc m) s u" if "(R ^^ m) t u" for u
      using that by (metis relpowp_Suc_I2)
    with r Suc.IH [OF calm] show "case r of None \<Rightarrow> wp (repeat_round m rnd) (\<lambda>r t. r = None \<and> calm t \<and> (R ^^ Suc m) s t) t
      | Some e \<Rightarrow> Some e = None \<and> calm t \<and> (R ^^ Suc m) s t"
      by (auto elim!: wp_mono)
  qed
qed (simp add: wp)

section \<open>Coming to rest\<close>

text \<open>The interface: a new object is not one to be renewed.\<close>

locale rounds =
  fixes V :: "('s, 'o, 'p) view"
  assumes new_stays: "v_new V i p \<Longrightarrow> \<not> v_renew V p"
begin

lemma within_round:
  assumes "one_round V s t" "within V M s" "1 \<le> v_want V"
  shows "within V (max (nat (v_want V)) (M - 1)) t"
proof -
  from assms(1) obtain L where L: "v_want V \<le> int L" "\<forall>i. v_at V s i \<noteq> None \<longrightarrow> i < L" "int L = max (v_want V) 1 \<or> v_at V s (L - 1) \<noteq> None"
      and w: "worked V 0 L s t" by (auto simp: one_round_def)
  have "i < max (nat (v_want V)) (M - 1)" if i: "v_at V t i \<noteq> None" for i
  proof -
    have "i < L" using i L(2) workedD(2) [OF w, of i] by (metis not_less)
    show ?thesis
    proof (cases "int L = v_want V")
      case True
      with \<open>i < L\<close> show ?thesis by simp
    next
      case False
      with L(1,3) assms(3) have top: "v_at V s (L - 1) \<noteq> None" by auto
      with assms(2) have "L \<le> M" by (force simp: within_def)
      have "index_step V (L - 1) (v_at V s (L - 1)) (v_at V t (L - 1))" using workedD(1) [OF w] \<open>i < L\<close> by simp
      with top False L(1) have "v_at V t (L - 1) = None" by (auto simp: index_step_def)
      with i have "i \<noteq> L - 1" by metis
      with \<open>i < L\<close> \<open>L \<le> M\<close> show ?thesis by linarith
    qed
  qed
  then show ?thesis by (simp add: within_def)
qed

lemma within_rounds:
  assumes "(one_round V ^^ m) s t" "within V M s" "1 \<le> v_want V"
  shows "within V (max (nat (v_want V)) (M - m)) t"
  using assms(1)
proof (induction m arbitrary: t)
  case 0
  with assms(2) show ?case by (auto simp: within_def)
next
  case (Suc m)
  then obtain u where u: "(one_round V ^^ m) s u" "one_round V u t" by auto
  from within_round [OF u(2) Suc.IH [OF u(1)] assms(3)] have "within V (max (nat (v_want V)) (max (nat (v_want V)) (M - m) - 1)) t" .
  moreover have "max (nat (v_want V)) (max (nat (v_want V)) (M - m) - 1) = max (nat (v_want V)) (M - Suc m)" by (auto simp: max_def)
  ultimately show ?case by simp
qed

lemma in_range_step:
  assumes "one_round V s t" "int i < v_want V"
  shows "v_at V s i = None \<Longrightarrow> settled V t i" "settled V s i \<Longrightarrow> v_at V t i = v_at V s i"
    "v_at V s i \<noteq> None \<Longrightarrow> \<not> settled V s i \<Longrightarrow> v_at V t i = None"
proof -
  from assms(1) obtain L where "v_want V \<le> int L" "worked V 0 L s t" by (auto simp: one_round_def)
  with assms(2) have "i < L" "worked V 0 L s t" by auto
  from workedD(1) [OF this(2,1)] have st: "index_step V i (v_at V s i) (v_at V t i)" .
  from st assms(2) show "v_at V s i = None \<Longrightarrow> settled V t i"
    by (auto simp: index_step_def settled_def dest: new_stays)
  from st assms(2) show "settled V s i \<Longrightarrow> v_at V t i = v_at V s i" "v_at V s i \<noteq> None \<Longrightarrow> \<not> settled V s i \<Longrightarrow> v_at V t i = None"
    by (auto simp: index_step_def settled_def)
qed

lemma settled_round: "one_round V s t \<Longrightarrow> settled V s i \<Longrightarrow> settled V t i"
  using in_range_step(2) [of s t i] by (simp add: settled_def)

lemma in_range_rounds:
  assumes "(one_round V ^^ m) s t" "2 \<le> m" "int i < v_want V"
  shows "settled V t i"
proof -
  note step = in_range_step [OF _ assms(3)]
  have "settled V t i" if "(one_round V ^^ Suc (Suc m)) s t" for m t
    using that
  proof (induction m arbitrary: t)
    case 0
    then obtain u where "one_round V s u" "one_round V u t" by auto
    then show ?case using step settled_round by metis
  next
    case (Suc m)
    then obtain u where u: "(one_round V ^^ Suc (Suc m)) s u" "one_round V u t" by (metis relpowp_Suc_E)
    from settled_round [OF u(2) Suc.IH [OF u(1)]] show ?case .
  qed
  from this [of "m - 2"] assms(1,2) show ?thesis by (simp add: numeral_2_eq_2 Suc_diff_Suc)
qed

lemma rest_round:
  assumes "one_round V s t" "at_rest V s" "1 \<le> v_want V"
  shows "v_at V t = v_at V s \<and> v_beside V t = v_beside V s \<and> v_ops V t = v_ops V s"
proof -
  from assms(1) obtain L where L: "v_want V \<le> int L" "int L = max (v_want V) 1 \<or> v_at V s (L - 1) \<noteq> None" "1 \<le> L"
      and w: "worked V 0 L s t" by (auto simp: one_round_def)
  have "int (L - 1) < v_want V" if "v_at V s (L - 1) \<noteq> None" using that assms(2) unfolding at_rest_def by metis
  with L assms(3) have n: "v_want V = int L" by auto
  then have st: "settled V s i" if "i < L" for i using assms(2) that by (simp add: at_rest_def)
  have "v_at V t i = v_at V s i" for i
    using in_range_step(2) [OF assms(1)] st n workedD(2) [OF w] by (cases "i < L") auto
  with w st show ?thesis by (auto simp: worked_def)
qed

lemma rest_rounds:
  assumes "(one_round V ^^ m) s t" "at_rest V s" "1 \<le> v_want V"
  shows "v_at V t = v_at V s \<and> v_beside V t = v_beside V s \<and> v_ops V t = v_ops V s"
  using assms(1)
proof (induction m arbitrary: t)
  case (Suc m)
  then obtain u where u: "(one_round V ^^ m) s u" "one_round V u t" by auto
  from Suc.IH [OF u(1)] have "v_at V u = v_at V s" "settled V u = settled V s" by (auto simp: settled_def fun_eq_iff)
  with assms(2) have "at_rest V u" by (simp add: at_rest_def)
  with rest_round [OF u(2) this assms(3)] Suc.IH [OF u(1)] show ?case by simp
qed simp

lemma flap_rounds:
  assumes "(one_round V ^^ m) s t" "within V 0 s" "v_want V \<le> 0"
  shows "v_at V t i \<noteq> None \<longleftrightarrow> i = 0 \<and> odd m"
proof -
  have step: "v_at V t i \<noteq> None \<longleftrightarrow> i = 0 \<and> v_at V u 0 = None" if "one_round V u t" "\<forall>i. v_at V u i \<noteq> None \<longrightarrow> i = 0" for t u i
  proof -
    from that assms(3) obtain L where L: "L = 1" and w: "worked V 0 L u t" by (fastforce simp: one_round_def)
    show ?thesis
      using workedD [OF w, of i] that(2) assms(3) by (cases "v_at V u 0"; cases "i = 0") (auto simp: index_step_def L)
  qed
  have "\<forall>i. v_at V t i \<noteq> None \<longleftrightarrow> i = 0 \<and> odd m"
    using assms(1)
  proof (induction m arbitrary: t)
    case 0
    with assms(2) show ?case by (auto simp: within_def)
  next
    case (Suc m)
    then obtain u where u: "(one_round V ^^ m) s u" "one_round V u t" by auto
    from Suc.IH [OF u(1)] have "\<forall>i. v_at V u i \<noteq> None \<longrightarrow> i = 0" "v_at V u 0 = None \<longleftrightarrow> even m" by blast+
    with step [OF u(2)] show ?case by simp
  qed
  then show ?thesis by blast
qed

lemma rest_after:
  assumes "(one_round V ^^ m) s t" "within V M s" "1 \<le> v_want V" "2 \<le> m" "M \<le> nat (v_want V) + m"
  shows "at_rest V t"
proof -
  from within_rounds [OF assms(1,2,3)] assms(5) have "within V (nat (v_want V)) t" by (force simp: within_def)
  with in_range_rounds [OF assms(1,4)] show ?thesis by (force simp: at_rest_def within_def)
qed

text \<open>A program that carries out a round in every calm state, and keeps it calm.\<close>

lemma converges:
  assumes rnd: "\<And>s. calm s \<Longrightarrow> wp rnd (\<lambda>r t. r = None \<and> calm t \<and> one_round V s t) s" and calm: "calm s"
    and n: "1 \<le> v_want V" "within V M s" "2 \<le> m" "M \<le> nat (v_want V) + m"
  shows "wp (repeat_round m rnd) (\<lambda>r t. r = None \<and> at_rest V t \<and>
     (\<forall>more. wp (repeat_round more rnd) (\<lambda>r u. r = None \<and> v_at V u = v_at V t \<and> v_beside V u = v_beside V t \<and> v_ops V u = v_ops V t) t)) s"
proof (rule wp_mono [OF wp_repeat [OF rnd calm]], assumption, elim conjE)
  fix r t
  assume r: "r = None" and calm: "calm t" and many: "(one_round V ^^ m) s t"
  from rest_after [OF many n(2,1,3,4)] have rest: "at_rest V t" .
  have "wp (repeat_round more rnd) (\<lambda>r u. r = None \<and> v_at V u = v_at V t \<and> v_beside V u = v_beside V t \<and> v_ops V u = v_ops V t) t" for more
    by (rule wp_mono [OF wp_repeat [OF rnd calm]], assumption) (use rest_rounds [OF _ rest n(1)] in blast)
  with r rest show "r = None \<and> at_rest V t \<and>
     (\<forall>more. wp (repeat_round more rnd) (\<lambda>r u. r = None \<and> v_at V u = v_at V t \<and> v_beside V u = v_beside V t \<and> v_ops V u = v_ops V t) t)" by blast
qed

end

end
