(* ===== verification/QuietServer.thy ===== *)
theory QuietServer
  imports Rounds
begin

text \<open>
  A server on which nobody else works: it keeps the objects of a kind in a namespace by their names, and carries out every call at once and without
  errors. On such a server a round of a replica type is the relation \<open>one_round\<close> of the theory \<open>Rounds\<close>.
\<close>

section \<open>The server\<close>

text \<open>What the server makes of an object it is given: the same object in the namespace, not being deleted, with labels and owners untouched.\<close>

definition kept :: "string \<Rightarrow> ObjectMeta \<Rightarrow> ObjectMeta \<Rightarrow> bool" where
  "kept ns m m' \<longleftrightarrow> om_Name m' = om_Name m \<and> om_Namespace m' = ns \<and> om_Labels m' = om_Labels m \<and>
     om_OwnerReferences m' = om_OwnerReferences m \<and> om_DeletionTimestamp m' = None"

text \<open>Creation, reading and deletion in one namespace act on a map from names to objects. An object read back after its creation satisfies \<open>ok\<close>.\<close>

definition quiet_client :: "('w, 'o) client \<Rightarrow> ('o \<Rightarrow> ObjectMeta) \<Rightarrow> ('o \<Rightarrow> bool) \<Rightarrow> (smap \<Rightarrow> smap \<Rightarrow> bool) \<Rightarrow> string \<Rightarrow> ('w \<Rightarrow> string \<rightharpoonup> 'o) \<Rightarrow> bool" where
  "quiet_client cl meta ok matches ns objs \<longleftrightarrow>
     (\<forall>w n p. objs w n = Some p \<longrightarrow> om_Name (meta p) = n \<and> om_Namespace (meta p) = ns \<and> om_DeletionTimestamp (meta p) = None) \<and>
     (\<forall>w n r w'. cl_Get cl ns n w = (r, w') \<longrightarrow> objs w' = objs w \<and> (\<forall>p. objs w n = Some p \<longrightarrow> r = Inr p) \<and>
        (objs w n = None \<longrightarrow> (\<exists>msg. r = Inl (StatusErr NotFound msg)))) \<and>
     (\<forall>w n p r w'. objs w n = Some p \<longrightarrow> cl_Delete cl ns n w = (r, w') \<longrightarrow> r = None \<and> objs w' = (objs w)(n := None)) \<and>
     (\<forall>w p r w'. objs w (om_Name (meta p)) = None \<longrightarrow> cl_Create cl ns p w = (r, w') \<longrightarrow>
        (\<exists>q. r = Inr q \<and> kept ns (meta p) (meta q) \<and> ok q \<and> objs w' = (objs w)(om_Name (meta p) \<mapsto> q))) \<and>
     (\<forall>w ls r w'. cl_List cl ns ls w = (r, w') \<longrightarrow> objs w' = objs w \<and>
        (\<exists>ps. r = Inr ps \<and> distinct ps \<and> set ps = {p \<in> ran (objs w). matches ls (om_Labels (meta p))}))"

lemmas client_object = quiet_client_def [THEN iffD1, THEN conjunct1, rule_format]
lemmas client_get = quiet_client_def [THEN iffD1, THEN conjunct2, THEN conjunct1, rule_format]
lemmas client_delete = quiet_client_def [THEN iffD1, THEN conjunct2, THEN conjunct2, THEN conjunct1, rule_format]
lemmas client_create = quiet_client_def [THEN iffD1, THEN conjunct2, THEN conjunct2, THEN conjunct2, THEN conjunct1, rule_format]
lemmas client_list = quiet_client_def [THEN iffD1, THEN conjunct2, THEN conjunct2, THEN conjunct2, THEN conjunct2, rule_format]

abbreviation objs_now :: "('w \<Rightarrow> string \<rightharpoonup> 'o) \<Rightarrow> ('w, 'st) cstate \<Rightarrow> string \<rightharpoonup> 'o" where
  "objs_now objs s \<equiv> objs (world s)"

text \<open>Expectations, events, counters and the status in memory have nothing to do with the objects on the server.\<close>

lemma quiet_parts:
  "keeps (unchanged (objs_now objs)) (expect ct sr m)" "keeps (unchanged (objs_now objs)) (Event a b c)" "keeps (unchanged (objs_now objs)) (Inc n)"
  "keeps (unchanged (objs_now objs)) (update_status f)"
proof -
  show "keeps (unchanged (objs_now objs)) (expect ct sr m)"
    unfolding expect_def sr_call_def
    by (intro unchanged_rules) (auto simp: keeps_def unchanged_def with_exp_def split: outcome.splits)
qed (auto simp: keeps_def unchanged_def ctl_defs go_run)

text \<open>A program that returns no error and changes the objects in a fixed way. Deleting an object leaves its name free, whether or not it was there.\<close>

definition turns :: "('w \<Rightarrow> string \<rightharpoonup> 'o) \<Rightarrow> ((string \<rightharpoonup> 'o) \<Rightarrow> (string \<rightharpoonup> 'o)) \<Rightarrow> ('w, 'st, gerr option) ctl \<Rightarrow> bool" where
  "turns objs f m \<longleftrightarrow> (\<forall>s. wlp m (\<lambda>r t. r = None \<and> objs_now objs t = f (objs_now objs s)) s)"

abbreviation free :: "string \<Rightarrow> (string \<rightharpoonup> 'o) \<Rightarrow> (string \<rightharpoonup> 'o)" where
  "free nm m \<equiv> m(nm := None)"

lemma turns_return: "turns objs id (go_return None)"
  by (simp add: turns_def wlp_simps)

lemma turns_seq: "keeps (unchanged (objs_now objs)) q \<Longrightarrow> turns objs f m \<Longrightarrow> turns objs f (go_seq q m)"
  unfolding turns_def wlp_simps
proof
  fix s
  assume q: "keeps (unchanged (objs_now objs)) q" and m: "\<forall>s. wlp m (\<lambda>r t. r = None \<and> objs_now objs t = f (objs_now objs s)) s"
  show "wlp q (\<lambda>_. wlp m (\<lambda>r t. r = None \<and> objs_now objs t = f (objs_now objs s))) s"
    by (rule wlp_keeps [OF q]) (use m in \<open>simp add: unchanged_def, metis\<close>)
qed

lemma turns_try: "turns objs f m \<Longrightarrow> turns objs g n \<Longrightarrow> turns objs (g \<circ> f) (go_try m n)"
  unfolding turns_def wlp_simps
proof
  fix s
  assume m: "\<forall>s. wlp m (\<lambda>r t. r = None \<and> objs_now objs t = f (objs_now objs s)) s" and n: "\<forall>s. wlp n (\<lambda>r t. r = None \<and> objs_now objs t = g (objs_now objs s)) s"
  show "wlp m (\<lambda>r t. case r of Some e \<Rightarrow> Some e = None \<and> objs_now objs t = (g \<circ> f) (objs_now objs s)
      | None \<Rightarrow> wlp n (\<lambda>r t. r = None \<and> objs_now objs t = (g \<circ> f) (objs_now objs s)) t) s"
    by (rule wlp_mono [OF spec [OF m]]) (use n in \<open>clarsimp, metis\<close>)
qed

lemma turns_if: "(b \<Longrightarrow> turns objs f m) \<Longrightarrow> (\<not> b \<Longrightarrow> turns objs g n) \<Longrightarrow> turns objs (if b then f else g) (if b then m else n)"
  by simp

text \<open>What both deletions consist of.\<close>

lemma turns_delete:
  assumes q: "quiet_client cl meta ok matches ns objs"
    and gone: "\<And>err. IsNotFound err \<Longrightarrow> absent err = go_return None"
    and waits: "\<And>p. om_DeletionTimestamp (meta p) = None \<Longrightarrow> present p = go_bind (api (cl_Delete cl ns nm) eff) deleted"
    and deleted: "turns objs id (deleted None)"
  shows "turns objs (free nm) (go_bind (call (cl_Get cl ns nm)) (\<lambda>r. case r of Inl err \<Rightarrow> absent err | Inr p \<Rightarrow> present p))"
  unfolding turns_def
proof
  fix s :: "('a, 'c) cstate"
  obtain r w where w: "cl_Get cl ns nm (world s) = (r, w)" by fastforce
  show "wlp (go_bind (call (cl_Get cl ns nm)) (\<lambda>r. case r of Inl err \<Rightarrow> absent err | Inr p \<Rightarrow> present p)) (\<lambda>r t. r = None \<and> objs_now objs t = free nm (objs_now objs s)) s"
  proof (cases "objs (world s) nm")
    case None
    then have "free nm (objs (world s)) = objs (world s)" by auto
    with None client_get [OF q w] w gone show ?thesis
      by (auto simp: wlp_simps wlp_ctl IsNotFound_def)
  next
    case (Some p)
    then have p: "present p = go_bind (api (cl_Delete cl ns nm) eff) deleted" using client_object [OF q] waits by blast
    from client_get [OF q w] Some have r: "r = Inr p" "objs w = objs (world s)" by auto
    obtain d w' where w': "cl_Delete cl ns nm w = (d, w')" by fastforce
    have "objs w nm = Some p" using r Some by simp
    from client_delete [OF q this w'] r have d: "d = None" "objs w' = free nm (objs (world s))" by auto
    let ?u = "s\<lparr>world := w', trace := trace s @ [eff None]\<rparr>"
    from deleted have "wlp (deleted None) (\<lambda>r t. r = None \<and> objs_now objs t = id (objs_now objs ?u)) ?u" unfolding turns_def by blast
    with d r w w' p show ?thesis by (simp add: wlp_simps wlp_ctl)
  qed
qed

section \<open>Order on the server\<close>

text \<open>The objects found for the replica type are the ones with the names of its indices, and each has the label of its index.\<close>

definition tidy :: "(string \<rightharpoonup> 'o) \<Rightarrow> (nat \<Rightarrow> string) \<Rightarrow> ('o \<Rightarrow> bool) \<Rightarrow> ('o \<Rightarrow> smap) \<Rightarrow> bool" where
  "tidy m nm found lab \<longleftrightarrow> (\<forall>a p. m a = Some p \<longrightarrow> (found p \<longleftrightarrow> a \<in> range nm)) \<and> (\<forall>i p. m (nm i) = Some p \<longrightarrow> ReplicaIndex (lab p) = Inr (int i))"

text \<open>Between two rounds.\<close>

definition calm :: "'st ClusterController \<Rightarrow> KubeCluster \<Rightarrow> ('w \<Rightarrow> string \<rightharpoonup> 'o) \<Rightarrow> (nat \<Rightarrow> string) \<Rightarrow> ('o \<Rightarrow> bool) \<Rightarrow> ('o \<Rightarrow> smap) \<Rightarrow> ('w, 'st) cstate \<Rightarrow> bool" where
  "calm C k objs nm found lab s \<longleftrightarrow> same_object k (kcl s) \<and> exps_ok (cc_store C) (exps s (s_ClusterType (kc_Spec k))) \<and>
     tidy (objs_now objs s) nm found lab \<and> (\<forall>i. objs_now objs s (nm i) \<noteq> None \<longrightarrow> int i < cc_maxlen C)"

definition object_view :: "('w \<Rightarrow> string \<rightharpoonup> 'o) \<Rightarrow> (nat \<Rightarrow> string) \<Rightarrow> (nat \<Rightarrow> 'o \<Rightarrow> bool) \<Rightarrow> ('o \<Rightarrow> bool) \<Rightarrow> (effect list \<Rightarrow> 'p list) \<Rightarrow>
    (('w, 'st) cstate \<Rightarrow> bool) \<Rightarrow> int \<Rightarrow> (('w, 'st) cstate, 'o, 'p) view" where
  "object_view objs nm new renew ops mid n = \<lparr>v_at = (\<lambda>s i. objs_now objs s (nm i)), v_beside = (\<lambda>s a. if a \<in> range nm then None else objs_now objs s a),
     v_new = new, v_renew = renew, v_ops = (\<lambda>s. ops (trace s)), v_inv = mid, v_want = n\<rparr>"

lemma object_view_simps [simp]:
  "v_at (object_view objs nm new renew ops mid n) s i = objs_now objs s (nm i)" "v_new (object_view objs nm new renew ops mid n) = new"
  "v_renew (object_view objs nm new renew ops mid n) = renew" "v_ops (object_view objs nm new renew ops mid n) s = ops (trace s)"
  "v_inv (object_view objs nm new renew ops mid n) = mid" "v_want (object_view objs nm new renew ops mid n) = n"
  by (simp_all add: object_view_def)

lemma object_view_beside:
  "(\<And>a. a \<notin> range nm \<Longrightarrow> objs_now objs t a = objs_now objs s a) \<Longrightarrow>
    v_beside (object_view objs nm new renew ops mid n) t = v_beside (object_view objs nm new renew ops mid n) s"
  by (auto simp: object_view_def fun_eq_iff)

lemma object_view_whole:
  assumes "v_at (object_view objs nm new renew ops mid n) t = v_at (object_view objs nm new renew ops mid n) s"
    "v_beside (object_view objs nm new renew ops mid n) t = v_beside (object_view objs nm new renew ops mid n) s"
  shows "objs_now objs t = objs_now objs s"
proof
  fix a
  show "objs_now objs t a = objs_now objs s a"
    using fun_cong [OF assms(1)] fun_cong [OF assms(2), of a] by (cases "a \<in> range nm") (auto simp: object_view_def)
qed

lemma tidy_found: "tidy m nm found lab \<Longrightarrow> {p \<in> ran m. found p} = {p. \<exists>i. m (nm i) = Some p}"
  by (auto simp: tidy_def ran_def)

lemma tidy_worked:
  assumes "tidy (objs_now objs s) nm found lab" "worked (object_view objs nm new renew ops mid n) 0 l s t"
    and new: "\<And>i q. new i q \<Longrightarrow> found q \<and> ReplicaIndex (lab q) = Inr (int i)"
  shows "tidy (objs_now objs t) nm found lab"
proof -
  let ?V = "object_view objs nm new renew ops mid n"
  have at: "found p \<and> ReplicaIndex (lab p) = Inr (int i)" if p: "objs_now objs t (nm i) = Some p" for i p
  proof (cases "objs_now objs s (nm i) = Some p")
    case True
    with assms(1) show ?thesis by (auto simp: tidy_def)
  next
    case False
    with p workedD [OF assms(2), of i] have "index_step ?V i (objs_now objs s (nm i)) (Some p)" by (cases "i < l") auto
    with False new show ?thesis by (auto simp: index_step_def split: option.splits if_splits)
  qed
  have "found p \<longleftrightarrow> a \<in> range nm" if p: "objs_now objs t a = Some p" for a p
  proof (cases "a \<in> range nm")
    case True
    with p at show ?thesis by auto
  next
    case False
    have "v_beside ?V t a = v_beside ?V s a" using assms(2) by (simp add: worked_def)
    with False p have "objs_now objs s a = Some p" by (simp add: object_view_def)
    with False assms(1) show ?thesis by (auto simp: tidy_def)
  qed
  with at show ?thesis by (auto simp: tidy_def)
qed

text \<open>The round, from the list of the objects found.\<close>

lemma round_of_objects:
  fixes s s1 :: "('w, 'st) cstate"
  assumes V: "V = object_view objs nm new renew ops mid n" and calm: "calm C k objs nm found lab s" and qs: "distinct qs" "set qs = {p \<in> ran (objs_now objs s). found p}"
    and n: "n \<le> cc_maxlen C" "0 < cc_maxlen C" "cc_maxlen C < 2 ^ 63"
    and new: "\<And>i q. new i q \<Longrightarrow> found q \<and> ReplicaIndex (lab q) = Inr (int i)"
    and mid: "\<And>t. mid t \<Longrightarrow> same_object k (kcl t) \<and> exps_ok (cc_store C) (exps t (s_ClusterType (kc_Spec k)))"
    and slice: "\<And>i s. int i < 2 ^ 63 \<Longrightarrow> mid s \<Longrightarrow> wp (f (i, slice_of (objs_now objs s (nm i)))) (\<lambda>r t. r = None \<and> slice_done V i s t) s"
    and s1: "objs_now objs s1 = objs_now objs s" "trace s1 = trace s" "mid s1"
  shows "\<exists>slices. slices_of lab (cc_maxlen C) qs n = Inr slices \<and>
    wp (go_forE f (enumerate 0 slices)) (\<lambda>r t. r = None \<and> calm C k objs nm found lab t \<and> one_round V s t) s1"
proof -
  from calm have tidy: "tidy (objs_now objs s) nm found lab" and bound: "\<And>i. objs_now objs s (nm i) \<noteq> None \<Longrightarrow> int i < cc_maxlen C"
    by (auto simp: calm_def)
  obtain L where L: "slices_of lab (cc_maxlen C) qs n = Inr (map (\<lambda>i. slice_of (objs_now objs s (nm i))) [0..<L])"
    "n \<le> int L" "1 \<le> L" "int L \<le> cc_maxlen C" "\<forall>i. objs_now objs s (nm i) \<noteq> None \<longrightarrow> i < L" "int L = max n 1 \<or> objs_now objs s (nm (L - 1)) \<noteq> None"
  proof (rule slices_indexed [where at = "\<lambda>i. objs_now objs s (nm i)" and lab = lab, OF qs(1) _ _ bound n])
    show "set qs = {p. \<exists>i. objs_now objs s (nm i) = Some p}" using qs(2) tidy_found [OF tidy] by simp
    show "ReplicaIndex (lab p) = Inr (int i)" if "objs_now objs s (nm i) = Some p" for i p using tidy that by (simp add: tidy_def)
  qed blast
  have at: "v_at V s1 = v_at V s" "v_beside V s1 = v_beside V s" "v_ops V s1 = v_ops V s" using s1 by (auto simp: V object_view_def)
  have "wp (go_forE f (enumerate 0 (map (\<lambda>i. slice_of (objs_now objs s (nm i))) [0..<L]))) (\<lambda>r t. r = None \<and> worked V 0 L s1 t) s1"
    using wp_slices [of V f 0 "map (\<lambda>i. slice_of (objs_now objs s (nm i))) [0..<L]" s1] slice s1 L(4) n(3) by (simp add: V)
  moreover have "calm C k objs nm found lab t \<and> one_round V s t" if w1: "worked V 0 L s1 t" for t
  proof -
    from w1 have w: "worked V 0 L s t" unfolding worked_def settled_def at .
    have "int i < cc_maxlen C" if "objs_now objs t (nm i) \<noteq> None" for i
      using workedD(2) [OF w, of i] that bound [of i] L(4) by (cases "i < L") (auto simp: V)
    moreover have "tidy (objs_now objs t) nm found lab" using tidy_worked [OF tidy w [unfolded V] new] .
    moreover have "same_object k (kcl t) \<and> exps_ok (cc_store C) (exps t (s_ClusterType (kc_Spec k)))" using mid w by (simp add: worked_def V)
    moreover have "one_round V s t" using w L by (auto simp: one_round_def V)
    ultimately show ?thesis by (simp add: calm_def)
  qed
  ultimately show ?thesis using L(1) by (auto elim!: wp_mono)
qed

text \<open>A round of some names leaves order in others, when no object is found for both.\<close>

lemma calm_other:
  assumes "one_round (object_view objs nm new renew ops mid n) s t" "calm C k objs nm found lab t" "calm C k objs nm' found' lab s"
    and apart: "range nm \<inter> range nm' = {}" "\<And>p. \<not> (found p \<and> found' p)"
  shows "calm C k objs nm' found' lab t" "objs_now objs t (nm' i) = objs_now objs s (nm' i)"
proof -
  let ?V = "object_view objs nm new renew ops mid n"
  from assms(1) have "v_beside ?V t = v_beside ?V s" by (auto simp: one_round_def worked_def)
  then have out: "objs_now objs t a = objs_now objs s a" if "a \<notin> range nm" for a using that by (auto simp: object_view_def fun_eq_iff split: if_splits)
  with apart(1) show at: "objs_now objs t (nm' i) = objs_now objs s (nm' i)" for i by blast
  have "found' p \<longleftrightarrow> a \<in> range nm'" if p: "objs_now objs t a = Some p" for a p
  proof (cases "a \<in> range nm")
    case True
    with p assms(2) have "found p" by (auto simp: calm_def tidy_def)
    with True apart show ?thesis by blast
  next
    case False
    with p out assms(3) show ?thesis by (auto simp: calm_def tidy_def)
  qed
  with assms(2,3) at show "calm C k objs nm' found' lab t" by (auto simp: calm_def tidy_def)
qed

lemma calm_still: "calm C k objs nm found lab s \<Longrightarrow> objs_now objs t = objs_now objs s \<Longrightarrow> same_object k (kcl t) \<Longrightarrow>
    exps_ok (cc_store C) (exps t (s_ClusterType (kc_Spec k))) \<Longrightarrow> calm C k objs nm found lab t"
  by (simp add: calm_def)

section \<open>A concrete quiet server\<close>

text \<open>Objects in one namespace, by name, out of a list of the world: a new object is made by \<open>admit\<close>, and no object waits for its deletion.\<close>

definition kept_objs :: "('w \<Rightarrow> 'o list) \<Rightarrow> ('o \<Rightarrow> ObjectMeta) \<Rightarrow> ('o \<Rightarrow> 'o) \<Rightarrow> 'w \<Rightarrow> string \<rightharpoonup> 'o" where
  "kept_objs items meta norm w a = map_option norm (List.find (\<lambda>p. om_Name (meta p) = a) (items w))"

definition kept_client :: "('w, 'o) client \<Rightarrow> ('w \<Rightarrow> 'o list) \<Rightarrow> (('o list \<Rightarrow> 'o list) \<Rightarrow> 'w \<Rightarrow> 'w) \<Rightarrow> ('o \<Rightarrow> ObjectMeta) \<Rightarrow> ('o \<Rightarrow> 'o) \<Rightarrow> ('o \<Rightarrow> 'o) \<Rightarrow> ('w, 'o) client" where
  "kept_client base items upd meta norm admit = base\<lparr>
     cl_Create := (\<lambda>ns p w. let q = norm (admit p) in (Inr q, upd (\<lambda>l. q # l) w)),
     cl_Get := (\<lambda>ns a w. (case kept_objs items meta norm w a of None \<Rightarrow> Inl (StatusErr NotFound ''not found'') | Some p \<Rightarrow> Inr p, w)),
     cl_Delete := (\<lambda>ns a w. (None, upd (filter (\<lambda>p. om_Name (meta p) \<noteq> a)) w)),
     cl_List := (\<lambda>ns ls w. (Inr (filter (\<lambda>p. labels_match ls (om_Labels (meta p)))
        (map (\<lambda>a. the (kept_objs items meta norm w a)) (remdups (map (\<lambda>p. om_Name (meta p)) (items w))))), w))\<rparr>"

lemma kept_listed:
  assumes norm: "\<And>p. om_Name (meta (norm p)) = om_Name (meta p)"
  shows "distinct (map (\<lambda>a. the (kept_objs items meta norm w a)) (remdups (map (\<lambda>p. om_Name (meta p)) (items w))))"
    "set (map (\<lambda>a. the (kept_objs items meta norm w a)) (remdups (map (\<lambda>p. om_Name (meta p)) (items w)))) = ran (kept_objs items meta norm w)"
proof -
  let ?m = "kept_objs items meta norm w"
  have dom: "dom ?m = set (map (\<lambda>p. om_Name (meta p)) (items w))"
    by (auto simp: kept_objs_def dom_def find_None_iff image_iff)
  have "inj_on (\<lambda>a. the (?m a)) (dom ?m)"
  proof (rule inj_onI)
    fix a b
    assume ab: "a \<in> dom ?m" "b \<in> dom ?m" "the (?m a) = the (?m b)"
    have "om_Name (meta (the (?m c))) = c" if "c \<in> dom ?m" for c
    proof -
      from that obtain p where p: "List.find (\<lambda>p. om_Name (meta p) = c) (items w) = Some p" by (auto simp: kept_objs_def dom_def)
      then have "om_Name (meta p) = c" by (auto simp: find_Some_iff)
      with p norm show ?thesis by (simp add: kept_objs_def)
    qed
    from this [OF ab(1), symmetric] this [OF ab(2)] show "a = b" unfolding ab(3) by (rule trans)
  qed
  then show "distinct (map (\<lambda>a. the (?m a)) (remdups (map (\<lambda>p. om_Name (meta p)) (items w))))"
    unfolding distinct_map by (simp add: dom)
  show "set (map (\<lambda>a. the (?m a)) (remdups (map (\<lambda>p. om_Name (meta p)) (items w)))) = ran ?m"
    unfolding set_map [of "\<lambda>a. the (?m a)"] set_remdups dom [symmetric] by (force simp: ran_def dom_def image_iff)
qed

lemma kept_client_quiet:
  assumes norm: "\<And>p. meta (norm p) = (meta p)\<lparr>om_Namespace := ns, om_DeletionTimestamp := None\<rparr>" "\<And>p. norm (norm p) = norm p"
    and upd: "\<And>f w. items (upd f w) = f (items w)" and admit: "\<And>p. meta (admit p) = meta p" "\<And>p. ok (norm (admit p))"
  shows "quiet_client (kept_client base items upd meta norm admit) meta ok labels_match ns (kept_objs items meta norm)"
proof -
  let ?m = "kept_objs items meta norm"
  have obj: "om_Name (meta p) = a \<and> om_Namespace (meta p) = ns \<and> om_DeletionTimestamp (meta p) = None" if "?m w a = Some p" for w a p
    using that by (auto simp: kept_objs_def norm find_Some_iff)
  have del: "?m (upd (filter (\<lambda>p. om_Name (meta p) \<noteq> a)) w) = (?m w)(a := None)" for w a
  proof -
    have "List.find (\<lambda>p. om_Name (meta p) = b) (filter (\<lambda>p. om_Name (meta p) \<noteq> a) ps) =
        (if b = a then None else List.find (\<lambda>p. om_Name (meta p) = b) ps)" for b ps
      by (induction ps) auto
    then show ?thesis by (auto simp: kept_objs_def upd)
  qed
  have add: "?m (upd (\<lambda>l. norm (admit p) # l) w) = (?m w)(om_Name (meta p) \<mapsto> norm (admit p))" for w p
    by (auto simp: kept_objs_def upd norm admit)
  have new: "kept ns (meta p) (meta (norm (admit p)))" for p by (simp add: kept_def norm admit)
  have listed: "distinct (filter P (map (\<lambda>a. the (?m w a)) (remdups (map (\<lambda>p. om_Name (meta p)) (items w)))))"
      "set (filter P (map (\<lambda>a. the (?m w a)) (remdups (map (\<lambda>p. om_Name (meta p)) (items w))))) = {p \<in> ran (?m w). P p}" for w P
    using kept_listed [where meta = meta and norm = norm and items = items and w = w] norm by (auto simp: distinct_filter simp del: set_map)
  show ?thesis
    unfolding quiet_client_def kept_client_def client.simps
    by (intro conjI allI impI) (use obj del add new listed admit(2) in \<open>auto simp: Let_def split: option.splits\<close>)
qed

end
