(* ===== verification/Convergence.thy ===== *)
theory Convergence
  imports PodPlan QuietServer
begin

text \<open>
  The pods of a replica type, listed and reconciled again and again while nobody else changes them, as rounds of the theory \<open>Rounds\<close>: with at least one
  replica they come to rest, with none they do not.
\<close>

section \<open>The server and the labels\<close>

text \<open>A quiet server for pods: a pod just created has not failed, and asking for the time changes nothing.\<close>

definition quiet_server :: "'w kenv \<Rightarrow> string \<Rightarrow> ('w \<Rightarrow> string \<rightharpoonup> Pod) \<Rightarrow> bool" where
  "quiet_server E ns pods \<longleftrightarrow> quiet_client (ke_pods E) pod_Meta (\<lambda>p. pst_Phase (pod_Status p) \<noteq> PodFailed) (ke_SelectorMatches E) ns pods \<and>
     (\<forall>w t w'. ke_Now E w = (t, w') \<longrightarrow> pods w' = pods w)"

text \<open>What is relied on of the helpers of apimachinery: a selector of labels matches where the labels are, an owner reference with the object's
  identity makes it the controller, and labels are not refused or taken for none. The label of the scheduler is not one of the controller's.\<close>

definition plain_labels :: "'w kenv \<Rightarrow> KubeCluster \<Rightarrow> bool" where
  "plain_labels E k \<longleftrightarrow> (\<forall>ls ms. ke_SelectorMatches E ls ms \<longleftrightarrow> list_all (\<lambda>(l, v). map_of ms l = Some v) ls) \<and>
     (\<forall>m. om_OwnerReferences m = [GenOwnerReference E (kc_Meta k)] \<longrightarrow> ke_IsControlledBy E m (kc_Meta k)) \<and>
     (\<forall>ls. ls \<noteq> [] \<longrightarrow> \<not> ke_SelectorEmpty E ls) \<and> ke_LabelSelectorAsSelector E (GenLabels ControllerName (kc_Name k)) = None \<and>
     ke_PodGroupLabel E \<notin> {ControllerNameLabel, ClusterNameLabel, ReplicaTypeLabel, ReplicaIndexLabel, ClusterTypeLabel}"

section \<open>What the parts of a round do to the pods\<close>

lemma still_quiet:
  assumes "quiet_server E ns pods"
  shows "keeps (unchanged (objs_now pods)) (expect ct sr m)" "keeps (unchanged (objs_now pods)) (Event a b c)" "keeps (unchanged (objs_now pods)) (Inc n)"
    "keeps (unchanged (objs_now pods)) (set_condition E x y z v)" "keeps (unchanged (objs_now pods)) (update_status f)"
    "keeps (unchanged (objs_now pods)) (record_exit_code pod)" "keeps (unchanged (objs_now pods)) (updateClusterReplicaStatuses rt pod)"
    "keeps (unchanged (objs_now pods)) (RestartedClustersCounterInc p q)"
    "keeps (unchanged (objs_now pods)) (gang_template E C k rt specs t)"
proof -
  note parts = quiet_parts [where objs = pods]
  show "keeps (unchanged (objs_now pods)) (expect ct sr m)" "keeps (unchanged (objs_now pods)) (Event a b c)" "keeps (unchanged (objs_now pods)) (Inc n)"
    "keeps (unchanged (objs_now pods)) (update_status f)" by (rule parts)+
  have now: "keeps (unchanged (objs_now pods)) (call (ke_Now E))"
    using assms by (auto simp: quiet_server_def keeps_def unchanged_def call_def split: prod.splits)
  show "keeps (unchanged (objs_now pods)) (set_condition E x y z v)"
    unfolding set_condition_def by (intro unchanged_rules now parts)
  show "keeps (unchanged (objs_now pods)) (record_exit_code pod)" "keeps (unchanged (objs_now pods)) (updateClusterReplicaStatuses rt pod)"
    "keeps (unchanged (objs_now pods)) (RestartedClustersCounterInc p q)"
    unfolding record_exit_code_def updateClusterReplicaStatuses_def RestartedClustersCounterInc_def get_cluster_def
    by ((intro unchanged_rules parts)+)
  show "keeps (unchanged (objs_now pods)) (gang_template E C k rt specs t)"
    unfolding gang_template_def by (intro unchanged_rules parts)
qed

lemma turns_DeletePod:
  assumes "quiet_server E ns pods"
  shows "turns pods (free nm) (DeletePod E ns nm)"
  unfolding DeletePod_def
proof (rule turns_delete)
  show "quiet_client (ke_pods E) pod_Meta (\<lambda>p. pst_Phase (pod_Status p) \<noteq> PodFailed) (ke_SelectorMatches E) ns pods"
    using assms by (simp add: quiet_server_def)
qed (auto simp: turns_def wlp_simps wlp_ctl)

lemma turns_delete_expected:
  assumes "quiet_server E ns pods" "om_Namespace (pod_Meta pod) = ns"
  shows "turns pods (free (om_Name (pod_Meta pod))) (delete_expected_pod E C ct sr key pod)"
  unfolding delete_expected_pod_def assms(2)
  using turns_try [OF turns_DeletePod [OF assms(1)] turns_seq [OF still_quiet(1) [OF assms(1)] turns_return]] by simp

lemma turns_restart:
  assumes "quiet_server E ns pods" "om_Namespace (pod_Meta pod) = ns"
  shows "turns pods (free (om_Name (pod_Meta pod))) (restart_pod E C k sr key rt pod)"
proof -
  note q = still_quiet [OF assms(1)]
  have "turns pods (id \<circ> free (om_Name (pod_Meta pod))) (restart_pod E C k sr key rt pod)"
    unfolding restart_pod_def Let_def
    by (intro turns_seq turns_try turns_delete_expected [OF assms] q turns_return)
  then show ?thesis by simp
qed

lemma turns_present:
  assumes "quiet_server E ns pods" "om_Namespace (pod_Meta pod) = ns"
  shows "turns pods (if i < 0 \<or> i \<ge> n \<or> restarted sp pod then free (om_Name (pod_Meta pod)) else id) (reconcile_present_pod E C k sr key rt sp n i pod)"
proof -
  note q = still_quiet [OF assms(1)]
  let ?f = "free (om_Name (pod_Meta pod)) :: (string \<rightharpoonup> Pod) \<Rightarrow> (string \<rightharpoonup> Pod)"
  have "turns pods ((id \<circ> (if restarted sp pod then ?f else id)) \<circ> (if i < 0 \<or> i \<ge> n then ?f else id)) (reconcile_present_pod E C k sr key rt sp n i pod)"
    unfolding reconcile_present_pod_def needs_restart_iff
    by (intro turns_try turns_seq turns_if turns_delete_expected [OF assms] turns_restart [OF assms] q turns_return)
  moreover have "(id \<circ> (if restarted sp pod then ?f else id)) \<circ> (if i < 0 \<or> i \<ge> n then ?f else id) =
      (if i < 0 \<or> i \<ge> n \<or> restarted sp pod then ?f else id)" by (auto simp: fun_eq_iff)
  ultimately show ?thesis by simp
qed

section \<open>Creating a pod\<close>

text \<open>The pods the controller finds for a replica type of a cluster.\<close>

definition found :: "'w kenv \<Rightarrow> KubeCluster \<Rightarrow> string \<Rightarrow> Pod \<Rightarrow> bool" where
  "found E k rt p \<longleftrightarrow> ke_SelectorMatches E (GenLabels ControllerName (kc_Name k)) (om_Labels (pod_Meta p)) \<and> ke_IsControlledBy E (pod_Meta p) (kc_Meta k) \<and>
     ke_SelectorMatches E [(ReplicaTypeLabel, GenReplicaTypeLabel rt)] (om_Labels (pod_Meta p))"

definition new_pod :: "'w kenv \<Rightarrow> KubeCluster \<Rightarrow> string \<Rightarrow> int \<Rightarrow> Pod \<Rightarrow> bool" where
  "new_pod E k rt i p \<longleftrightarrow> found E k rt p \<and> ReplicaIndex (om_Labels (pod_Meta p)) = Inr i \<and> pst_Phase (pod_Status p) \<noteq> PodFailed"

abbreviation pod_name :: "KubeCluster \<Rightarrow> string \<Rightarrow> int \<Rightarrow> string" where
  "pod_name k rt i \<equiv> GenGeneralName (kc_Name k) rt (Itoa i)"

lemma right_pod_new:
  assumes "right_pod E k rt i sp ctl p" "plain_labels E k" "in_int64 i" "kept ns (pod_Meta p) (pod_Meta q)" "pst_Phase (pod_Status q) \<noteq> PodFailed"
  shows "new_pod E k rt i q"
proof -
  have l: "map_of (om_Labels (pod_Meta q)) l = Some v" if "(l, v) \<in> set (finding_labels k rt i ctl)" "l \<noteq> ke_PodGroupLabel E" for l v
    using assms(1,4) that by (auto simp: right_pod_def list_all_iff kept_def)
  have "ke_IsControlledBy E (pod_Meta q) (kc_Meta k)" using assms(1,2,4) by (auto simp: right_pod_def plain_labels_def kept_def)
  moreover have "map_of (om_Labels (pod_Meta q)) ControllerNameLabel = Some ControllerName"
      "map_of (om_Labels (pod_Meta q)) ClusterNameLabel = Some (ReplaceAll ''/'' ''-'' (kc_Name k))"
      "map_of (om_Labels (pod_Meta q)) ReplicaTypeLabel = Some (ToLower rt)" "map_of (om_Labels (pod_Meta q)) ReplicaIndexLabel = Some (Itoa i)"
    using assms(2) by (auto intro!: l simp: finding_labels_def plain_labels_def)
  ultimately show ?thesis
    using assms(2,3,5) by (simp add: new_pod_def found_def plain_labels_def GenLabels_def GenReplicaTypeLabel_def ReplicaIndex_def kept_def)
qed

lemma wlp_create_expected:
  assumes q: "quiet_server E (kc_Namespace k) pods" and gv: "ke_GroupVersion E \<noteq> []" and k: "plain_labels E k"
    and p: "right_pod E k rt i sp ctl (owned_pod E k t)" "in_int64 i" and fresh: "objs_now pods s (pod_name k rt i) = None"
  shows "wlp (create_expected_pod E C k sr key t) (\<lambda>r u. r = None \<and> (\<exists>q. objs_now pods u = (objs_now pods s)(pod_name k rt i \<mapsto> q) \<and> new_pod E k rt i q)) s"
proof -
  let ?pod = "owned_pod E k t"
  from q have client: "quiet_client (ke_pods E) pod_Meta (\<lambda>p. pst_Phase (pod_Status p) \<noteq> PodFailed) (ke_SelectorMatches E) (kc_Namespace k) pods"
    by (simp add: quiet_server_def)
  have nm: "om_Name (pod_Meta ?pod) = pod_name k rt i" using p(1) by (simp add: right_pod_def)
  have "om_Labels (pod_Meta ?pod) \<noteq> []" using p(1) k by (auto simp: right_pod_def finding_labels_def plain_labels_def)
  then have labels: "\<not> ke_SelectorEmpty E (om_Labels (pod_Meta ?pod))" using k by (auto simp: plain_labels_def)
  have "wlp (CreatePodsWithControllerRef E (kc_Namespace k) t (Some (GenOwnerReference E (kc_Meta k))))
      (\<lambda>r u. r = None \<and> (\<exists>q. objs_now pods u = (objs_now pods v)(pod_name k rt i \<mapsto> q) \<and> new_pod E k rt i q)) v"
    if "objs_now pods v = objs_now pods s" for v :: "('a, 'b) cstate"
  proof -
    obtain r w where w: "cl_Create (ke_pods E) (kc_Namespace k) ?pod (world v) = (r, w)" by fastforce
    from client_create [OF client _ w] fresh that nm obtain q' where q': "r = Inr q'" "kept (kc_Namespace k) (pod_Meta ?pod) (pod_Meta q')"
        "pst_Phase (pod_Status q') \<noteq> PodFailed" "pods w = (pods (world v))(pod_name k rt i \<mapsto> q')" by auto
    with right_pod_new [OF p(1) k p(2)] w labels GenOwnerReference_valid [OF gv] show ?thesis
      by (auto simp: CreatePodsWithControllerRef_def createPods_def Let_def wlp_simps wlp_ctl)
  qed
  note create = this
  show ?thesis
    unfolding create_expected_pod_def wlp_simps(4,5)
    by (rule wlp_keeps [OF still_quiet(1) [OF q]], rule wlp_mono [OF create]) (auto simp: unchanged_def wlp_simps wlp_ctl)
qed

text \<open>The schema accepts the template of every replica.\<close>

definition spec_succeeds :: "'w kenv \<Rightarrow> 'st ClusterController \<Rightarrow> schema \<Rightarrow> KubeCluster \<Rightarrow> string \<Rightarrow> ReplicaSpec \<Rightarrow> ConfigMap \<Rightarrow> bool" where
  "spec_succeeds E C sr k rt sp cm \<longleftrightarrow> spec_returns E C sr k rt cm \<and> distinct (map fst (om_Labels (pt_Meta (r_Template sp)))) \<and>
     (\<forall>i ctl. \<exists>t. sr_SetClusterSpec E C sr k (named_template k rt i sp ctl) rt (Itoa i) cm = Inr (Inr t))"

lemma wlp_CreateNewPod:
  fixes s :: "('w, 'st) cstate"
  assumes q: "quiet_server E (kc_Namespace (kcl s)) pods" and ready: "ready E C sr key (kcl s)" and k: "plain_labels E (kcl s)"
    and spec: "spec_succeeds E C sr (kcl s) rt sp cm" and i: "in_int64 i" and fresh: "objs_now pods s (pod_name (kcl s) rt i) = None"
  shows "wlp (CreateNewPod E C rt i sp ctl (kc_Specs (kcl s)) cm) (\<lambda>r u. r = None \<and>
     (\<exists>q. objs_now pods u = (objs_now pods s)(pod_name (kcl s) rt i \<mapsto> q) \<and> new_pod E (kcl s) rt i q)) s"
proof -
  let ?k = "kcl s"
  obtain t0 where t0: "sr_SetClusterSpec E C sr ?k (named_template ?k rt i sp ctl) rt (Itoa i) cm = Inr (Inr t0)"
    using spec by (auto simp: spec_succeeds_def)
  from ready have gv: "ke_GroupVersion E \<noteq> []" and gang: "gang_ok C" and specs: "list_all (\<lambda>(_, v). v \<noteq> None) (kc_Specs ?k)" by (auto simp: ready_def)
  have create: "wlp (go_bind (gang_template E C ?k rt (kc_Specs ?k) (SetRestartPolicy t0 sp)) (\<lambda>t.
      create_expected_pod E C ?k (Some sr) (GenExpectationPodsKey key rt) t)) (\<lambda>r u. r = None \<and>
     (\<exists>q. objs_now pods u = (objs_now pods s)(pod_name ?k rt i \<mapsto> q) \<and> new_pod E ?k rt i q)) v"
    if v: "objs_now pods v = objs_now pods s" for v :: "('w, 'st) cstate"
    unfolding wlp_simps(4)
  proof (rule wlp_mono [OF wlp_conj [OF wlp_of_wp [OF gang_template_effect [OF gang specs]]
          wlp_keeps [OF still_quiet(9) [OF q], where Q = "\<lambda>_ t. unchanged (objs_now pods) v t"]]])
    fix t and u :: "('w, 'st) cstate"
    assume t: "(kcl u = kcl v \<and> exps u = exps v \<and> calls u = calls v \<and> decorated E ?k rt (SetRestartPolicy t0 sp) t) \<and> unchanged (objs_now pods) v u"
    then have "final_template E C sr ?k rt i sp ctl cm t" using t0 by (auto simp: final_template_def)
    from final_template_right [OF this] spec have "right_pod E ?k rt i sp ctl (owned_pod E ?k t)" by (simp add: spec_succeeds_def)
    from wlp_create_expected [OF q gv k this i, where s = u] t v fresh
    show "wlp (create_expected_pod E C ?k (Some sr) (GenExpectationPodsKey key rt) t) (\<lambda>r u. r = None \<and>
     (\<exists>q. objs_now pods u = (objs_now pods s)(pod_name ?k rt i \<mapsto> q) \<and> new_pod E ?k rt i q)) u"
      by (simp add: unchanged_def)
  qed simp
  from ready have "GetSchemaReconciler C (s_ClusterType (kc_Spec ?k)) = Some sr" "ke_KeyFunc E (kc_Meta ?k) = Inr key" by (auto simp: ready_def)
  with t0 create show ?thesis
    by (simp add: CreateNewPod_def wlp_simps wlp_ctl Let_def sr_call_def)
qed

section \<open>A slice\<close>

text \<open>What holds while the slices are worked through.\<close>

definition midway :: "'st ClusterController \<Rightarrow> KubeCluster \<Rightarrow> string \<Rightarrow> ('w, 'st) cstate \<Rightarrow> bool" where
  "midway C k rt s \<longleftrightarrow> same_object k (kcl s) \<and> exps_ok (cc_store C) (exps s (s_ClusterType (kc_Spec k))) \<and> replica_status (kc_Status (kcl s)) rt \<noteq> None"

lemma plain_labels_same: "same_object k k' \<Longrightarrow> plain_labels E k' = plain_labels E k"
  by (simp add: plain_labels_def same_object_def)

lemma new_pod_same: "same_object k k' \<Longrightarrow> new_pod E k' = new_pod E k"
  by (rule ext)+ (simp add: new_pod_def found_def same_object_def)

lemma spec_succeeds_same: "same_object k k' \<Longrightarrow> spec_succeeds E C sr k' rt sp cm = spec_succeeds E C sr k rt sp cm"
proof -
  assume same: "same_object k k'"
  have "named_template k' = named_template k"
    by (rule ext)+ (use same in \<open>simp add: named_template_def pod_labels_finding finding_labels_def same_object_def\<close>)
  with same show ?thesis by (simp add: spec_succeeds_def spec_returns_same set_spec_same)
qed

abbreviation nth_name :: "KubeCluster \<Rightarrow> string \<Rightarrow> nat \<Rightarrow> string" where
  "nth_name k rt i \<equiv> pod_name k rt (int i)"

definition pod_view :: "'w kenv \<Rightarrow> 'st ClusterController \<Rightarrow> ('w \<Rightarrow> string \<rightharpoonup> Pod) \<Rightarrow> KubeCluster \<Rightarrow> string \<Rightarrow> ReplicaSpec \<Rightarrow> int \<Rightarrow>
    (('w, 'st) cstate, Pod, pod_op) view" where
  "pod_view E C pods k rt sp n = object_view pods (nth_name k rt) (\<lambda>i. new_pod E k rt (int i)) (restarted sp) pod_ops (midway C k rt) n"

interpretation pod_rounds: rounds "pod_view E C pods k rt sp n" for E C pods k rt sp n
  by unfold_locales (simp add: pod_view_def new_pod_def restarted_def)

lemma wlp_slice:
  fixes s :: "('w, 'st) cstate"
  assumes q: "quiet_server E (kc_Namespace k) pods" and ready: "ready E C sr key k" and labels: "plain_labels E k"
    and spec: "spec_succeeds E C sr k rt sp cm" and i: "in_int64 (int i)" and same: "same_object k (kcl s)"
  shows "wlp (reconcile_pod_slice E C k (GenExpectationPodsKey key rt) rt sp n cm (i, slice_of (objs_now pods s (pod_name k rt (int i)))))
    (\<lambda>r t. r = None \<and> index_step (pod_view E C pods k rt sp n) i (objs_now pods s (pod_name k rt (int i))) (objs_now pods t (pod_name k rt (int i))) \<and>
       (\<forall>m. m \<noteq> pod_name k rt (int i) \<longrightarrow> objs_now pods t m = objs_now pods s m)) s"
proof (cases "objs_now pods s (pod_name k rt (int i))")
  case None
  have eq: "kc_Namespace (kcl s) = kc_Namespace k" "kc_Name (kcl s) = kc_Name k" "kc_Specs (kcl s) = kc_Specs k" using same by (simp_all add: same_object_def)
  have "wlp (CreateNewPod E C rt (int i) sp (sr_IsController sr rt) (kc_Specs (kcl s)) cm) (\<lambda>r u. r = None \<and>
     (\<exists>q. objs_now pods u = (objs_now pods s)(pod_name (kcl s) rt (int i) \<mapsto> q) \<and> new_pod E (kcl s) rt (int i) q)) s"
    by (rule wlp_CreateNewPod) (use q ready labels spec i None same in \<open>simp_all add: eq ready_same plain_labels_same spec_succeeds_same\<close>)
  moreover have "GetSchemaReconciler C (s_ClusterType (kc_Spec k)) = Some sr" using ready by (simp add: ready_def)
  ultimately show ?thesis
    using None by (simp add: eq new_pod_same [OF same] reconcile_pod_slice_def slice_of_def sr_call_def index_step_def pod_view_def) (erule wlp_mono, auto)
next
  case (Some p)
  then have p: "om_Name (pod_Meta p) = pod_name k rt (int i)" "om_Namespace (pod_Meta p) = kc_Namespace k" using client_object [OF q [unfolded quiet_server_def, THEN conjunct1]] by blast+
  from turns_present [OF q p(2)] have "wlp (reconcile_present_pod E C k (GetSchemaReconciler C (s_ClusterType (kc_Spec k))) (GenExpectationPodsKey key rt) rt sp n (int i) p)
      (\<lambda>r t. r = None \<and> objs_now pods t = (if int i < 0 \<or> n \<le> int i \<or> restarted sp p then free (om_Name (pod_Meta p)) else id) (objs_now pods s)) s"
    unfolding turns_def by blast
  then show ?thesis
    using Some unfolding p(1) by (simp add: reconcile_pod_slice_def slice_of_def) (erule wlp_mono, auto simp: index_step_def pod_view_def)
qed

lemma pod_name_inj: "0 \<le> i \<Longrightarrow> 0 \<le> j \<Longrightarrow> pod_name k rt i = pod_name k rt j \<longleftrightarrow> i = j"
  using Itoa_inj_nonneg [of i j] Itoa_no_char [of _ "CHR ''/''"] by (auto simp: GenGeneralName_eq slash_to_dash_id)

lemma wp_slice:
  fixes s :: "('w, 'st) cstate"
  assumes q: "quiet_server E (kc_Namespace k) pods" and ready: "ready E C sr key k" and labels: "plain_labels E k"
    and spec: "spec_succeeds E C sr k rt sp cm" and i: "int i < 2 ^ 63" and mid: "midway C k rt s"
  shows "wp (reconcile_pod_slice E C k (GenExpectationPodsKey key rt) rt sp n cm (i, slice_of (objs_now pods s (nth_name k rt i))))
    (\<lambda>r t. r = None \<and> slice_done (pod_view E C pods k rt sp n) i s t) s"
proof -
  let ?x = "objs_now pods s (nth_name k rt i)" and ?V = "pod_view E C pods k rt sp n"
  from mid have same: "same_object k (kcl s)" and ok: "exps_ok (cc_store C) (exps s (s_ClusterType (kc_Spec k)))"
    and rs: "replica_status (kc_Status (kcl s)) rt \<noteq> None" by (auto simp: midway_def)
  have i64: "in_int64 (int i)" using i by (simp add: in_int64_def)
  have "spec_returns E C sr k rt cm" using spec by (simp add: spec_succeeds_def)
  note does = does_slice [OF ready this same ok rs, of sp n "(i, slice_of ?x)", unfolded pods.does_def]
  show ?thesis
  proof (rule wp_mono [OF wp_wlp [OF does wlp_slice [OF q ready labels spec i64 same, of n]]], elim conjE)
    fix r and t :: "('w, 'st) cstate"
    let ?plan = "slice_plan (kc_Name k) rt sp n (i, slice_of ?x)"
    assume r: "r = None" and step: "index_step ?V i ?x (objs_now pods t (nth_name k rt i))"
      and frame: "\<forall>m. m \<noteq> nth_name k rt i \<longrightarrow> objs_now pods t m = objs_now pods s m"
      and c: "if r = None then pods.carried_out (cc_store C) (s_ClusterType (kc_Spec k)) (GenExpectationPodsKey key rt) rt ?plan (slice_counted (i, slice_of ?x)) s t
        else pods.cut_short (cc_store C) (s_ClusterType (kc_Spec k)) ?plan s t"
    from r c have c: "pods.carried_out (cc_store C) (s_ClusterType (kc_Spec k)) (GenExpectationPodsKey key rt) rt ?plan (slice_counted (i, slice_of ?x)) s t" by simp
    have "midway C k rt t" using pods.carried_out_ok [OF c] c rs same by (auto simp: midway_def pods.carried_out_def intro: same_object_trans)
    moreover have "pod_ops (trace t) = pod_ops (trace s)" if "settled ?V s i"
    proof -
      from that have "?plan = []" by (auto simp: settled_def pod_view_def slice_plan_def slice_of_def)
      with c have "pod_ops (calls t) = pod_ops (calls s)" by (auto simp: pods.carried_out_def)
      then show ?thesis by (simp add: pods.ops_calls)
    qed
    moreover have "v_beside ?V t = v_beside ?V s" using frame unfolding pod_view_def by (intro object_view_beside) auto
    moreover have "objs_now pods t (nth_name k rt j) = objs_now pods s (nth_name k rt j)" if "j \<noteq> i" for j using frame that by (simp add: pod_name_inj)
    ultimately show "r = None \<and> slice_done ?V i s t" using r step by (simp add: slice_done_def pod_view_def)
  qed
qed

section \<open>A round\<close>

text \<open>The pods of the cluster are listed and those of the replica type reconciled, as \<open>ReconcileKubeCluster\<close> does.\<close>

definition pod_round :: "'w kenv \<Rightarrow> 'st ClusterController \<Rightarrow> string \<Rightarrow> ReplicaSpec \<Rightarrow> ConfigMap \<Rightarrow> ('w, 'st, gerr option) ctl" where
  "pod_round E C rt sp cm = go_bind get_cluster (\<lambda>kcluster. go_try_val (GetPodsForCluster E kcluster) (\<lambda>pods. ReconcilePods E C rt (Some sp) pods cm))"

definition pods_calm :: "'w kenv \<Rightarrow> 'st ClusterController \<Rightarrow> ('w \<Rightarrow> string \<rightharpoonup> Pod) \<Rightarrow> KubeCluster \<Rightarrow> string \<Rightarrow> ('w, 'st) cstate \<Rightarrow> bool" where
  "pods_calm E C pods k rt = calm C k pods (nth_name k rt) (found E k rt) (\<lambda>p. om_Labels (pod_Meta p))"

text \<open>A quiet server, and a cluster whose pods the controller can make.\<close>

definition setting :: "'w kenv \<Rightarrow> 'st ClusterController \<Rightarrow> schema \<Rightarrow> string \<Rightarrow> KubeCluster \<Rightarrow> string \<Rightarrow> ReplicaSpec \<Rightarrow> ConfigMap \<Rightarrow>
    ('w \<Rightarrow> string \<rightharpoonup> Pod) \<Rightarrow> int32 \<Rightarrow> bool" where
  "setting E C sr key k rt sp cm pods n \<longleftrightarrow> quiet_server E (kc_Namespace k) pods \<and> ready E C sr key k \<and> plain_labels E k \<and>
     spec_succeeds E C sr k rt sp cm \<and> r_Replicas sp = Some n \<and> sint n \<le> cc_maxlen C \<and> 0 < cc_maxlen C \<and> cc_maxlen C < 2 ^ 63"

lemma pods_same:
  assumes "same_object k k'"
  shows "pods_calm E C pods k' rt = pods_calm E C pods k rt" "pod_view E C pods k' rt sp n = pod_view E C pods k rt sp n"
proof -
  have nm: "nth_name k' rt = nth_name k rt" "found E k' rt = found E k rt" "midway C k' rt = midway C k rt"
    by (rule ext, use assms in \<open>simp add: same_object_def found_def midway_def\<close>)+
  show "pods_calm E C pods k' rt = pods_calm E C pods k rt"
    by (rule ext) (use assms in \<open>simp add: pods_calm_def calm_def nm same_object_def\<close>)
  show "pod_view E C pods k' rt sp n = pod_view E C pods k rt sp n" unfolding pod_view_def nm new_pod_same [OF assms] ..
qed

text \<open>The reconciliation with any list that holds the pods found.\<close>

lemma ReconcilePods_kcl:
  fixes s :: "('w, 'st) cstate"
  assumes set: "setting E C sr key (kcl s) rt sp cm pods n" and calm: "pods_calm E C pods (kcl s) rt s"
    and ps: "distinct ps" "{p \<in> set ps. ke_SelectorMatches E [(ReplicaTypeLabel, GenReplicaTypeLabel rt)] (om_Labels (pod_Meta p))} = {p \<in> ran (objs_now pods s). found E (kcl s) rt p}"
  shows "wp (ReconcilePods E C rt (Some sp) ps cm) (\<lambda>r t. r = None \<and> pods_calm E C pods (kcl s) rt t \<and> one_round (pod_view E C pods (kcl s) rt sp (sint n)) s t) s"
proof -
  let ?k = "kcl s" and ?qs = "FilterPodsForReplicaType E ps (GenReplicaTypeLabel rt)"
  from set have q: "quiet_server E (kc_Namespace ?k) pods" and ready: "ready E C sr key ?k" and labels: "plain_labels E ?k"
    and spec: "spec_succeeds E C sr ?k rt sp cm" and n: "r_Replicas sp = Some n" "sint n \<le> cc_maxlen C" "0 < cc_maxlen C" "cc_maxlen C < 2 ^ 63"
    by (simp_all add: setting_def)
  let ?s1 = "s\<lparr>kcl := ?k\<lparr>kc_Status := InitializeReplicaStatuses (kc_Status ?k) rt\<rparr>\<rparr>"
  have "\<exists>slices. slices_of (\<lambda>p. om_Labels (pod_Meta p)) (cc_maxlen C) ?qs (sint n) = Inr slices \<and>
      wp (go_forE (reconcile_pod_slice E C ?k (GenExpectationPodsKey key rt) rt sp (sint n) cm) (enumerate 0 slices))
        (\<lambda>r t. r = None \<and> calm C ?k pods (nth_name ?k rt) (found E ?k rt) (\<lambda>p. om_Labels (pod_Meta p)) t \<and> one_round (pod_view E C pods ?k rt sp (sint n)) s t) ?s1"
  proof (rule round_of_objects [OF pod_view_def calm [unfolded pods_calm_def] _ _ n(2-4)])
    show "distinct ?qs" using ps(1) by (simp add: FilterPodsForReplicaType_def)
    show "set ?qs = {p \<in> ran (objs_now pods s). found E ?k rt p}" using ps(2) by (simp add: FilterPodsForReplicaType_def)
    show "wp (reconcile_pod_slice E C ?k (GenExpectationPodsKey key rt) rt sp (sint n) cm (i, slice_of (objs_now pods t (nth_name ?k rt i))))
        (\<lambda>r u. r = None \<and> slice_done (pod_view E C pods ?k rt sp (sint n)) i t u) t" if "int i < 2 ^ 63" "midway C ?k rt t" for i t
      using that by (rule wp_slice [OF q ready labels spec])
    show "midway C ?k rt ?s1" using calm by (simp add: midway_def same_object_def pods_calm_def calm_def)
  qed (auto simp: new_pod_def midway_def)
  then obtain slices where sl: "GetPodSlices (cc_maxlen C) ?qs (sint n) = Inr slices"
      "wp (go_forE (reconcile_pod_slice E C ?k (GenExpectationPodsKey key rt) rt sp (sint n) cm) (enumerate 0 slices))
        (\<lambda>r t. r = None \<and> pods_calm E C pods ?k rt t \<and> one_round (pod_view E C pods ?k rt sp (sint n)) s t) ?s1"
    by (auto simp: GetPodSlices_def pods_calm_def)
  moreover have "ke_KeyFunc E (kc_Meta ?k) = Inr key" using ready by (auto simp: ready_def)
  ultimately show ?thesis
    using n(1) by (simp add: ReconcilePods_def wp initializeReplicaStatuses_def Let_def)
qed

lemma setting_same: "same_object k k' \<Longrightarrow> setting E C sr key k' rt sp cm pods n = setting E C sr key k rt sp cm pods n"
  by (simp add: setting_def ready_same plain_labels_same spec_succeeds_same) (simp add: same_object_def)

lemma wp_ReconcilePods:
  assumes "setting E C sr key k rt sp cm pods n" "pods_calm E C pods k rt s" "distinct ps"
    "{p \<in> set ps. ke_SelectorMatches E [(ReplicaTypeLabel, GenReplicaTypeLabel rt)] (om_Labels (pod_Meta p))} = {p \<in> ran (objs_now pods s). found E k rt p}"
  shows "wp (ReconcilePods E C rt (Some sp) ps cm) (\<lambda>r t. r = None \<and> pods_calm E C pods k rt t \<and> one_round (pod_view E C pods k rt sp (sint n)) s t) s"
proof -
  from assms(2) have same: "same_object k (kcl s)" by (simp add: pods_calm_def calm_def)
  have "found E (kcl s) rt = found E k rt" by (rule ext) (use same in \<open>simp add: same_object_def found_def\<close>)
  with assms ReconcilePods_kcl [of E C sr key s rt sp cm pods n ps] show ?thesis
    by (simp add: setting_same [OF same] pods_same [OF same])
qed

text \<open>The list of the pods of the cluster holds the ones found, and taking it changes nothing.\<close>

lemma wp_GetPodsForCluster:
  fixes s :: "('w, 'st) cstate"
  assumes q: "quiet_server E (kc_Namespace k) pods" and labels: "plain_labels E k" and same: "same_object k k'"
    and f: "\<And>ps w. distinct ps \<Longrightarrow> (\<And>rt. {p \<in> set ps. ke_SelectorMatches E [(ReplicaTypeLabel, GenReplicaTypeLabel rt)] (om_Labels (pod_Meta p))} =
       {p \<in> ran (objs_now pods s). found E k rt p}) \<Longrightarrow> w = snd (cl_List (ke_pods E) (kc_Namespace k) (GenLabels ControllerName (kc_Name k)) (world s)) \<Longrightarrow>
       pods w = objs_now pods s \<Longrightarrow> wp (f ps) Q (s\<lparr>world := w\<rparr>)"
  shows "wp (go_try_val (GetPodsForCluster E k') f) Q s"
proof -
  obtain r w where w: "cl_List (ke_pods E) (kc_Namespace k) (GenLabels ControllerName (kc_Name k)) (world s) = (r, w)" by fastforce
  from client_list [OF q [unfolded quiet_server_def, THEN conjunct1] w] obtain ps where ps: "r = Inr ps" "distinct ps" "pods w = objs_now pods s"
      "set ps = {p \<in> ran (objs_now pods s). ke_SelectorMatches E (GenLabels ControllerName (kc_Name k)) (om_Labels (pod_Meta p))}" by auto
  have "distinct (KubeClusterControlledPodList E ps (kc_Meta k))" using ps(2) by (simp add: KubeClusterControlledPodList_def)
  moreover have "{p \<in> set (KubeClusterControlledPodList E ps (kc_Meta k)). ke_SelectorMatches E [(ReplicaTypeLabel, GenReplicaTypeLabel rt)] (om_Labels (pod_Meta p))} =
       {p \<in> ran (objs_now pods s). found E k rt p}" for rt
    using ps(4) by (auto simp: KubeClusterControlledPodList_def found_def)
  ultimately have "wp (f (KubeClusterControlledPodList E ps (kc_Meta k))) Q (s\<lparr>world := w\<rparr>)" using f w ps(3) by simp
  then show ?thesis
    using w ps(1) same labels by (simp add: GetPodsForCluster_def go_try_val_def wp plain_labels_def same_object_def Let_def)
qed

lemma wp_pod_round:
  fixes s :: "('w, 'st) cstate"
  assumes set: "setting E C sr key k rt sp cm pods n" and calm: "pods_calm E C pods k rt s"
  shows "wp (pod_round E C rt sp cm) (\<lambda>r t. r = None \<and> pods_calm E C pods k rt t \<and> one_round (pod_view E C pods k rt sp (sint n)) s t) s"
proof -
  from set have q: "quiet_server E (kc_Namespace k) pods" "plain_labels E k" by (simp_all add: setting_def)
  from calm have same: "same_object k (kcl s)" by (simp add: pods_calm_def calm_def)
  show ?thesis
    unfolding pod_round_def wp_bind wp_get_cluster
  proof (rule wp_GetPodsForCluster [OF q same])
    fix ps w
    assume ps: "distinct ps" "\<And>rt. {p \<in> set ps. ke_SelectorMatches E [(ReplicaTypeLabel, GenReplicaTypeLabel rt)] (om_Labels (pod_Meta p))} =
       {p \<in> ran (objs_now pods s). found E k rt p}" and w: "pods w = objs_now pods s"
    let ?V = "pod_view E C pods k rt sp (sint n) :: (('w, 'st) cstate, Pod, pod_op) view"
    have "one_round ?V (s\<lparr>world := w\<rparr>) t = one_round ?V s t" for t by (rule one_round_from) (use w in \<open>auto simp: pod_view_def object_view_def\<close>)
    moreover have "pods_calm E C pods k rt (s\<lparr>world := w\<rparr>)" using calm w by (simp add: pods_calm_def calm_def)
    ultimately show "wp (ReconcilePods E C rt (Some sp) ps cm) (\<lambda>r t. r = None \<and> pods_calm E C pods k rt t \<and> one_round ?V s t) (s\<lparr>world := w\<rparr>)"
      using wp_ReconcilePods [OF set _ ps(1), of "s\<lparr>world := w\<rparr>"] ps(2) w by simp
  qed
qed

section \<open>Rest\<close>

text \<open>The pod of an index.\<close>

definition pod_at :: "('w \<Rightarrow> string \<rightharpoonup> Pod) \<Rightarrow> KubeCluster \<Rightarrow> string \<Rightarrow> ('w, 'st) cstate \<Rightarrow> nat \<Rightarrow> Pod option" where
  "pod_at pods k rt s i = objs_now pods s (nth_name k rt i)"

lemma pod_view_at: "v_at (pod_view E C pods k rt sp n) s i = pod_at pods k rt s i"
  by (simp add: pod_view_def pod_at_def)

text \<open>C4: The reconciliation of pods comes to rest. On a server that carries out every call at once, where nobody else changes pods and
  the pods found for the replica type are the ones with the names of its indices, all of them under \<open>M\<close>, a replica type with
  \<open>n \<ge> 1\<close> replicas is reconciled \<open>m\<close> times, with \<open>m \<ge> 2\<close> and \<open>m \<ge> M - n\<close>. Every round returns without an error and
  without a panic; after them there is a pod exactly for each of the indices under \<open>n\<close>, none is one that the restart policy
  restarts, and however many rounds follow, they return no error, create and delete no pod and leave all pods as they are.\<close>

theorem pods_converge:
  fixes C :: "'st ClusterController" and s :: "('w, 'st) cstate"
  assumes "setting E C sr key k rt sp cm pods n" "pods_calm E C pods k rt s" "1 \<le> sint n"
    and "\<forall>i. pod_at pods k rt s i \<noteq> None \<longrightarrow> i < M" "2 \<le> m" "M \<le> nat (sint n) + m"
  shows "wp (repeat_round m (pod_round E C rt sp cm)) (\<lambda>r t. r = None \<and> (\<forall>i. pod_at pods k rt t i \<noteq> None \<longleftrightarrow> int i < sint n) \<and>
     (\<forall>i p. pod_at pods k rt t i = Some p \<longrightarrow> \<not> restarted sp p) \<and>
     (\<forall>more. wp (repeat_round more (pod_round E C rt sp cm))
        (\<lambda>r u. r = None \<and> objs_now pods u = objs_now pods t \<and> pod_ops (trace u) = pod_ops (trace t)) t)) s"
proof -
  let ?V = "pod_view E C pods k rt sp (sint n) :: (('w, 'st) cstate, Pod, pod_op) view"
  have want: "v_want ?V = sint n" "v_renew ?V = restarted sp" "\<And>s. v_ops ?V s = pod_ops (trace s)" by (simp_all add: pod_view_def)
  have "within ?V M s" using assms(4) by (simp add: within_def pod_view_at)
  from pod_rounds.converges [OF wp_pod_round [OF assms(1)] assms(2) _ this assms(5)] assms(3,6)
  have *: "wp (repeat_round m (pod_round E C rt sp cm)) (\<lambda>r t. r = None \<and> at_rest ?V t \<and> (\<forall>more. wp (repeat_round more (pod_round E C rt sp cm))
      (\<lambda>r u. r = None \<and> v_at ?V u = v_at ?V t \<and> v_beside ?V u = v_beside ?V t \<and> v_ops ?V u = v_ops ?V t) t)) s"
    by (simp add: want)
  show ?thesis
  proof (rule wp_mono [OF *], elim conjE, intro conjI allI impI)
    fix r t i p more
    assume rest: "at_rest ?V t" and later: "\<forall>more. wp (repeat_round more (pod_round E C rt sp cm))
      (\<lambda>r u. r = None \<and> v_at ?V u = v_at ?V t \<and> v_beside ?V u = v_beside ?V t \<and> v_ops ?V u = v_ops ?V t) t"
    from rest have at: "if int i < sint n then settled ?V t i else pod_at pods k rt t i = None" for i unfolding at_rest_def want pod_view_at by blast
    show "pod_at pods k rt t i \<noteq> None \<longleftrightarrow> int i < sint n" "pod_at pods k rt t i = Some p \<Longrightarrow> \<not> restarted sp p"
      using at [of i] by (auto simp: settled_def pod_view_at want split: if_splits)
    show "wp (repeat_round more (pod_round E C rt sp cm)) (\<lambda>r u. r = None \<and> objs_now pods u = objs_now pods t \<and> pod_ops (trace u) = pod_ops (trace t)) t"
      by (rule wp_mono [OF spec [OF later]]) (use object_view_whole in \<open>auto simp: pod_view_def\<close>)
  qed
qed

text \<open>C30: A replica type with no replicas does not come to rest. Under the same conditions, with a number of replicas of zero or less and
  no pod at first, index 0 has a pod after every odd number of rounds and none after every even one, although no round returns an error: there
  is always at least one slice, and an empty slice gets a pod before its index is compared with the number of replicas.\<close>

theorem zero_replicas_flap:
  fixes C :: "'st ClusterController" and s :: "('w, 'st) cstate"
  assumes "setting E C sr key k rt sp cm pods n" "pods_calm E C pods k rt s" "sint n \<le> 0" "\<forall>i. pod_at pods k rt s i = None"
  shows "wp (repeat_round m (pod_round E C rt sp cm)) (\<lambda>r t. r = None \<and> (\<forall>i. pod_at pods k rt t i \<noteq> None \<longleftrightarrow> i = 0 \<and> odd m)) s"
proof -
  let ?V = "pod_view E C pods k rt sp (sint n) :: (('w, 'st) cstate, Pod, pod_op) view"
  have "within ?V 0 s" "v_want ?V \<le> 0" using assms(3,4) by (simp_all add: within_def pod_view_at, simp add: pod_view_def)
  note flap = pod_rounds.flap_rounds [OF _ this, unfolded pod_view_at]
  show ?thesis
    by (rule wp_mono [OF wp_repeat [OF wp_pod_round [OF assms(1)] assms(2)]], assumption) (use flap in blast)
qed

section \<open>A concrete quiet server\<close>

text \<open>The server of \<open>sample_env\<close>, with quiet clients for pods and services.\<close>

definition norm_pod :: "Pod \<Rightarrow> Pod" where
  "norm_pod p = p\<lparr>pod_Meta := (pod_Meta p)\<lparr>om_Namespace := ''ns'', om_DeletionTimestamp := None\<rparr>\<rparr>"

definition norm_service :: "Service \<Rightarrow> Service" where
  "norm_service s = s\<lparr>svc_Meta := (svc_Meta s)\<lparr>om_Namespace := ''ns'', om_DeletionTimestamp := None\<rparr>\<rparr>"

definition quiet_env :: "sworld kenv" where
  "quiet_env = sample_env\<lparr>ke_pods := kept_client (ke_pods sample_env) w_pods w_pods_update pod_Meta norm_pod (\<lambda>p. p\<lparr>pod_Status := empty_pod_status\<rparr>),
     ke_services := kept_client (ke_services sample_env) w_services w_services_update svc_Meta norm_service id\<rparr>"

abbreviation kept_pods :: "sworld \<Rightarrow> string \<rightharpoonup> Pod" where
  "kept_pods \<equiv> kept_objs w_pods pod_Meta norm_pod"

abbreviation kept_services :: "sworld \<Rightarrow> string \<rightharpoonup> Service" where
  "kept_services \<equiv> kept_objs w_services svc_Meta norm_service"

lemma quiet_env_server: "quiet_server quiet_env ''ns'' kept_pods"
proof -
  have "quiet_client (kept_client (ke_pods sample_env) w_pods w_pods_update pod_Meta norm_pod (\<lambda>p. p\<lparr>pod_Status := empty_pod_status\<rparr>)) pod_Meta
      (\<lambda>p. pst_Phase (pod_Status p) \<noteq> PodFailed) labels_match ''ns'' kept_pods"
    by (rule kept_client_quiet) (simp_all add: norm_pod_def empty_pod_status_def PodFailed_def)
  then show ?thesis by (simp add: quiet_server_def quiet_env_def sample_env_def)
qed

lemma quiet_setting:
  assumes "sint n \<le> 2 ^ 40"
  shows "setting quiet_env sample_controller PbsProSchema ''ns/demo'' (sample_cluster ''pbspro'') rt (sample_replica n) sample_pbs_cm kept_pods n"
proof -
  have ready: "ready quiet_env sample_controller PbsProSchema ''ns/demo'' (sample_cluster ''pbspro'')"
    using sample_ready by (simp add: ready_def quiet_env_def)
  moreover have "ke_PodGroupLabel sample_env \<notin> {ControllerNameLabel, ClusterNameLabel, ReplicaTypeLabel, ReplicaIndexLabel, ClusterTypeLabel}"
    by code_simp
  then have "plain_labels quiet_env (sample_cluster ''pbspro'')"
    by (auto simp: plain_labels_def quiet_env_def sample_env_def labels_match_def controller_of_def GenOwnerReference_def)
  moreover have "spec_succeeds quiet_env sample_controller PbsProSchema (sample_cluster ''pbspro'') rt (sample_replica n) sample_pbs_cm"
    by (simp add: spec_succeeds_def spec_returns_def pbs_SetClusterSpec_def Let_def pbs_setInitContainer_def append_init_def GetInitContainer_def
        quiet_env_def sample_env_def sample_controller_def sample_generator_def sample_replica_def sample_template_def empty_meta_def)
  moreover have "kc_Namespace (sample_cluster ''pbspro'') = ''ns''" by (simp add: sample_cluster_def sample_meta_def)
  ultimately show ?thesis
    using quiet_env_server assms by (simp add: setting_def sample_replica_def sample_controller_def)
qed

lemma quiet_start:
  "pods_calm quiet_env sample_controller kept_pods (sample_cluster ''pbspro'') rt (sample_state empty_world (sample_cluster ''pbspro''))"
  "pod_at kept_pods (sample_cluster ''pbspro'') rt (sample_state empty_world (sample_cluster ''pbspro'')) i = None"
  using sample_exps_ok [of empty_world "sample_cluster ''pbspro''"]
  by (simp_all add: pods_calm_def calm_def tidy_def pod_at_def kept_objs_def sample_state_def empty_world_def same_object_def sample_controller_def)

lemma pods_converge_witness:
  "wp (repeat_round 2 (pod_round quiet_env sample_controller ''Worker'' (sample_replica 2) sample_pbs_cm))
     (\<lambda>r t. r = None \<and> (\<forall>i. pod_at kept_pods (sample_cluster ''pbspro'') ''Worker'' t i \<noteq> None \<longleftrightarrow> i < 2))
     (sample_state empty_world (sample_cluster ''pbspro''))"
  by (rule wp_mono [OF pods_converge [where M = 0, OF quiet_setting quiet_start(1)]]) (auto simp: quiet_start(2))

lemma zero_replicas_flap_witness:
  "wp (repeat_round 5 (pod_round quiet_env sample_controller ''Worker'' (sample_replica 0) sample_pbs_cm))
     (\<lambda>r t. r = None \<and> pod_at kept_pods (sample_cluster ''pbspro'') ''Worker'' t 0 \<noteq> None)
     (sample_state empty_world (sample_cluster ''pbspro''))"
  by (rule wp_mono [OF zero_replicas_flap [OF quiet_setting quiet_start(1)]]) (auto simp: quiet_start(2))

end
