(* ===== verification/ServiceConvergence.thy ===== *)
theory ServiceConvergence
  imports Convergence ServicePlan
begin

text \<open>
  The services of a replica type, listed and reconciled again and again: the rounds of the theory \<open>Rounds\<close> with services for objects. They differ from the pods in that
  no service is renewed, that the list is not filtered by owner, and that deletions are not expected.
\<close>

definition quiet_services :: "'w kenv \<Rightarrow> string \<Rightarrow> ('w \<Rightarrow> string \<rightharpoonup> Service) \<Rightarrow> bool" where
  "quiet_services E ns svcs \<longleftrightarrow> quiet_client (ke_services E) svc_Meta (\<lambda>_. True) (ke_SelectorMatches E) ns svcs"

text \<open>The services the controller finds for a replica type of a cluster, and the one it makes for an index.\<close>

definition found_service :: "'w kenv \<Rightarrow> KubeCluster \<Rightarrow> string \<Rightarrow> Service \<Rightarrow> bool" where
  "found_service E k rt s \<longleftrightarrow> ke_SelectorMatches E (GenLabels ControllerName (kc_Name k)) (om_Labels (svc_Meta s)) \<and>
     ke_SelectorMatches E [(ReplicaTypeLabel, GenReplicaTypeLabel rt)] (om_Labels (svc_Meta s))"

definition made_service :: "'w kenv \<Rightarrow> KubeCluster \<Rightarrow> string \<Rightarrow> int \<Rightarrow> Service \<Rightarrow> bool" where
  "made_service E k rt i s \<longleftrightarrow> found_service E k rt s \<and> ReplicaIndex (om_Labels (svc_Meta s)) = Inr i"

definition service_midway :: "'st ClusterController \<Rightarrow> KubeCluster \<Rightarrow> ('w, 'st) cstate \<Rightarrow> bool" where
  "service_midway C k s \<longleftrightarrow> same_object k (kcl s) \<and> exps_ok (cc_store C) (exps s (s_ClusterType (kc_Spec k)))"

abbreviation svc_ops :: "effect list \<Rightarrow> svc_op list" where
  "svc_ops \<equiv> svcs.ops"

definition service_view :: "'w kenv \<Rightarrow> 'st ClusterController \<Rightarrow> ('w \<Rightarrow> string \<rightharpoonup> Service) \<Rightarrow> KubeCluster \<Rightarrow> string \<Rightarrow> int \<Rightarrow>
    (('w, 'st) cstate, Service, svc_op) view" where
  "service_view E C svcs k rt n = object_view svcs (nth_name k rt) (\<lambda>i. made_service E k rt (int i)) (\<lambda>_. False) svc_ops (service_midway C k) n"

interpretation service_rounds: rounds "service_view E C svcs k rt n" for E C svcs k rt n
  by unfold_locales (simp add: service_view_def)

lemma turns_DeleteService:
  assumes "quiet_services E ns svcs"
  shows "turns svcs (free nm) (DeleteService E ns nm)"
  unfolding DeleteService_def
  by (rule turns_delete [OF assms [unfolded quiet_services_def]]) (auto simp: turns_def wlp_simps wlp_ctl)

lemma made_service_kept:
  assumes "plain_labels E k" "in_int64 i" "kept ns (svc_Meta (owned_service E k rt i ports)) (svc_Meta q)"
  shows "made_service E k rt i q"
proof -
  have l: "om_Labels (svc_Meta q) = service_labels k rt (Itoa i)"
    using assms(3) by (simp add: kept_def owned_service_def GetServiceFromTemplate_def new_service_def add_owner_def split: option.splits)
  show ?thesis
    using assms(1,2) by (simp add: made_service_def found_service_def l plain_labels_def service_labels_def Let_def label_defs ReplicaIndex_def GenReplicaTypeLabel_def)
qed

lemma wlp_CreateNewService:
  fixes s :: "('w, 'st) cstate"
  assumes q: "quiet_services E (kc_Namespace (kcl s)) svcs" and ready: "ready E C sr key (kcl s)" and k: "plain_labels E (kcl s)"
    and ports: "GetPortsFromCluster sp container = Inr ports" and i: "in_int64 i" and fresh: "objs_now svcs s (pod_name (kcl s) rt i) = None"
  shows "wlp (CreateNewService E C rt sp (Itoa i) container (Some sr)) (\<lambda>r u. r = None \<and>
     (\<exists>q. objs_now svcs u = (objs_now svcs s)(pod_name (kcl s) rt i \<mapsto> q) \<and> made_service E (kcl s) rt i q)) s"
proof -
  let ?k = "kcl s" and ?svc = "owned_service E (kcl s) rt i ports"
  from ready have gv: "ke_GroupVersion E \<noteq> []" and key: "ke_KeyFunc E (kc_Meta ?k) = Inr key" by (auto simp: ready_def)
  have nm: "om_Name (svc_Meta ?svc) = pod_name ?k rt i"
    by (simp add: owned_service_def GetServiceFromTemplate_def new_service_def add_owner_def)
  have labels: "\<not> ke_SelectorEmpty E (om_Labels (svc_Meta (new_service ?k rt (Itoa i) ports)))"
    using k by (auto simp: plain_labels_def new_service_def service_labels_def Let_def label_defs)
  have create: "wlp (CreateServicesWithControllerRef E (kc_Namespace ?k) (new_service ?k rt (Itoa i) ports) (Some (GenOwnerReference E (kc_Meta ?k))))
      (\<lambda>r u. r = None \<and> (\<exists>q. objs_now svcs u = (objs_now svcs s)(pod_name ?k rt i \<mapsto> q) \<and> made_service E ?k rt i q)) v"
    if v: "objs_now svcs v = objs_now svcs s" for v :: "('w, 'st) cstate"
  proof -
    obtain r w where w: "cl_Create (ke_services E) (kc_Namespace ?k) ?svc (world v) = (r, w)" by fastforce
    from client_create [OF q [unfolded quiet_services_def] _ w] fresh v nm obtain q' where q': "r = Inr q'" "kept (kc_Namespace ?k) (svc_Meta ?svc) (svc_Meta q')"
        "svcs w = (svcs (world v))(pod_name ?k rt i \<mapsto> q')" by auto
    with made_service_kept [OF k i q'(2)] w v labels GenOwnerReference_valid [OF gv] show ?thesis
      by (auto simp: CreateServicesWithControllerRef_def createServices_def Let_def wlp_simps wlp_ctl owned_service_def)
  qed
  have "wlp (go_seq (expect ct sr' m) (go_bind (CreateServicesWithControllerRef E (kc_Namespace ?k) (new_service ?k rt (Itoa i) ports) (Some (GenOwnerReference E (kc_Meta ?k)))) f))
      (\<lambda>r u. r = None \<and> (\<exists>q. objs_now svcs u = (objs_now svcs s)(pod_name ?k rt i \<mapsto> q) \<and> made_service E ?k rt i q)) s"
    if "f None = go_seq (Inc c) (go_return None)" for ct sr' m c and f :: "gerr option \<Rightarrow> ('w, 'st, gerr option) ctl"
    unfolding wlp_simps(4,5)
    by (rule wlp_keeps [OF quiet_parts(1) [where objs = svcs]], rule wlp_mono [OF create]) (auto simp: unchanged_def wlp_simps wlp_ctl that)
  with key ports show ?thesis by (simp add: CreateNewService_def Let_def wlp_simps(4) wlp_ctl(5))
qed

lemma made_service_same: "same_object k k' \<Longrightarrow> made_service E k' = made_service E k"
  by (rule ext)+ (simp add: made_service_def found_service_def same_object_def)

lemma wlp_service_slice:
  fixes s :: "('w, 'st) cstate"
  assumes q: "quiet_services E (kc_Namespace k) svcs" and ready: "ready E C sr key k" and labels: "plain_labels E k"
    and ports: "GetPortsFromCluster sp (sr_GetDefaultContainerName sr) = Inr ports" and i: "in_int64 (int i)" and same: "same_object k (kcl s)"
  shows "wlp (reconcile_service_slice E C (Some sr) rt sp n (i, slice_of (objs_now svcs s (nth_name k rt i))))
    (\<lambda>r t. r = None \<and> index_step (service_view E C svcs k rt n) i (objs_now svcs s (nth_name k rt i)) (objs_now svcs t (nth_name k rt i)) \<and>
       (\<forall>m. m \<noteq> nth_name k rt i \<longrightarrow> objs_now svcs t m = objs_now svcs s m)) s"
proof (cases "objs_now svcs s (nth_name k rt i)")
  case None
  have eq: "kc_Namespace (kcl s) = kc_Namespace k" "kc_Name (kcl s) = kc_Name k" using same by (simp_all add: same_object_def)
  have "wlp (CreateNewService E C rt sp (Itoa (int i)) (sr_GetDefaultContainerName sr) (Some sr)) (\<lambda>r u. r = None \<and>
     (\<exists>q. objs_now svcs u = (objs_now svcs s)(pod_name (kcl s) rt (int i) \<mapsto> q) \<and> made_service E (kcl s) rt (int i) q)) s"
    by (rule wlp_CreateNewService) (use q ready labels ports i None same in \<open>simp_all add: eq ready_same plain_labels_same\<close>)
  then show ?thesis
    using None by (simp add: eq made_service_same [OF same] reconcile_service_slice_def slice_of_def sr_call_def index_step_def service_view_def) (erule wlp_mono, auto)
next
  case (Some p)
  then have p: "om_Name (svc_Meta p) = nth_name k rt i" "om_Namespace (svc_Meta p) = kc_Namespace k"
    using client_object [OF q [unfolded quiet_services_def]] by blast+
  from turns_if [of "int i < 0 \<or> n \<le> int i", OF turns_DeleteService [OF q, of "nth_name k rt i"] turns_return]
  have "wlp (if int i < 0 \<or> n \<le> int i then DeleteService E (kc_Namespace k) (nth_name k rt i) else go_return None)
      (\<lambda>r t. r = None \<and> objs_now svcs t = (if int i < 0 \<or> n \<le> int i then free (nth_name k rt i) else id) (objs_now svcs s)) s"
    unfolding turns_def by blast
  then show ?thesis
    using Some by (cases "n \<le> int i") (auto simp: reconcile_service_slice_def slice_of_def p index_step_def service_view_def elim!: wlp_mono)
qed

lemma wp_service_slice:
  fixes s :: "('w, 'st) cstate"
  assumes q: "quiet_services E (kc_Namespace k) svcs" and ready: "ready E C sr key k" and labels: "plain_labels E k"
    and ports: "GetPortsFromCluster sp (sr_GetDefaultContainerName sr) = Inr ports" and i: "int i < 2 ^ 63" and mid: "service_midway C k s"
  shows "wp (reconcile_service_slice E C (Some sr) rt sp n (i, slice_of (objs_now svcs s (nth_name k rt i))))
    (\<lambda>r t. r = None \<and> slice_done (service_view E C svcs k rt n) i s t) s"
proof -
  let ?x = "objs_now svcs s (nth_name k rt i)" and ?V = "service_view E C svcs k rt n"
  from mid have same: "same_object k (kcl s)" and ok: "exps_ok (cc_store C) (exps s (s_ClusterType (kc_Spec k)))" by (auto simp: service_midway_def)
  have i64: "in_int64 (int i)" using i by (simp add: in_int64_def)
  note does = svc_does_slice [OF ready same ok, of rt sp n "(i, slice_of ?x)", unfolded svcs.does_def]
  show ?thesis
  proof (rule wp_mono [OF wp_wlp [OF does wlp_service_slice [OF q ready labels ports i64 same, of rt n]]], elim conjE)
    fix r and t :: "('w, 'st) cstate"
    let ?plan = "svc_plan E k rt sp n (sr_GetDefaultContainerName sr) (i, slice_of ?x)"
    assume r: "r = None" and step: "index_step ?V i ?x (objs_now svcs t (nth_name k rt i))"
      and frame: "\<forall>m. m \<noteq> nth_name k rt i \<longrightarrow> objs_now svcs t m = objs_now svcs s m"
      and c: "if r = None then svcs.carried_out (cc_store C) (s_ClusterType (kc_Spec k)) (GenExpectationServicesKey key rt) rt ?plan [] s t
        else svcs.cut_short (cc_store C) (s_ClusterType (kc_Spec k)) ?plan s t"
    from r c have c: "svcs.carried_out (cc_store C) (s_ClusterType (kc_Spec k)) (GenExpectationServicesKey key rt) rt ?plan [] s t" by simp
    have "service_midway C k t" using svcs.carried_out_ok [OF c] c same by (auto simp: service_midway_def svcs.carried_out_def intro: same_object_trans)
    moreover have "svc_ops (trace t) = svc_ops (trace s)" if "settled ?V s i"
    proof -
      from that have "?plan = []" by (auto simp: settled_def service_view_def svc_plan_def slice_of_def)
      with c have "svc_ops (calls t) = svc_ops (calls s)" by (auto simp: svcs.carried_out_def)
      then show ?thesis by (simp add: svcs.ops_calls)
    qed
    moreover have "v_beside ?V t = v_beside ?V s" using frame unfolding service_view_def by (intro object_view_beside) auto
    moreover have "objs_now svcs t (nth_name k rt j) = objs_now svcs s (nth_name k rt j)" if "j \<noteq> i" for j using frame that by (simp add: pod_name_inj)
    ultimately show "r = None \<and> slice_done ?V i s t" using r step by (simp add: slice_done_def service_view_def)
  qed
qed

text \<open>The services of the cluster are listed and those of the replica type reconciled, as \<open>ReconcileKubeCluster\<close> does.\<close>

definition service_round :: "'w kenv \<Rightarrow> 'st ClusterController \<Rightarrow> string \<Rightarrow> ReplicaSpec \<Rightarrow> ('w, 'st, gerr option) ctl" where
  "service_round E C rt sp = go_bind get_cluster (\<lambda>kcluster. go_try_val (GetServicesForCluster E kcluster) (\<lambda>services. ReconcileServices E C rt (Some sp) services))"

definition services_calm :: "'w kenv \<Rightarrow> 'st ClusterController \<Rightarrow> ('w \<Rightarrow> string \<rightharpoonup> Service) \<Rightarrow> KubeCluster \<Rightarrow> string \<Rightarrow> ('w, 'st) cstate \<Rightarrow> bool" where
  "services_calm E C svcs k rt = calm C k svcs (nth_name k rt) (found_service E k rt) (\<lambda>p. om_Labels (svc_Meta p))"

definition service_setting :: "'w kenv \<Rightarrow> 'st ClusterController \<Rightarrow> schema \<Rightarrow> string \<Rightarrow> KubeCluster \<Rightarrow> ReplicaSpec \<Rightarrow>
    ('w \<Rightarrow> string \<rightharpoonup> Service) \<Rightarrow> int32 \<Rightarrow> bool" where
  "service_setting E C sr key k sp svcs n \<longleftrightarrow> quiet_services E (kc_Namespace k) svcs \<and> ready E C sr key k \<and> plain_labels E k \<and>
     (\<exists>ports. GetPortsFromCluster sp (sr_GetDefaultContainerName sr) = Inr ports) \<and>
     r_Replicas sp = Some n \<and> sint n \<le> cc_maxlen C \<and> 0 < cc_maxlen C \<and> cc_maxlen C < 2 ^ 63"

lemma services_same:
  assumes "same_object k k'"
  shows "services_calm E C svcs k' rt = services_calm E C svcs k rt" "service_view E C svcs k' rt n = service_view E C svcs k rt n"
proof -
  have nm: "nth_name k' rt = nth_name k rt" "found_service E k' rt = found_service E k rt" "service_midway C k' = service_midway C k"
    by (rule ext, use assms in \<open>simp add: same_object_def found_service_def service_midway_def\<close>)+
  show "services_calm E C svcs k' rt = services_calm E C svcs k rt"
    by (rule ext) (use assms in \<open>simp add: services_calm_def calm_def nm same_object_def\<close>)
  show "service_view E C svcs k' rt n = service_view E C svcs k rt n" unfolding service_view_def nm made_service_same [OF assms] ..
qed

lemma ReconcileServices_kcl:
  fixes s :: "('w, 'st) cstate"
  assumes set: "service_setting E C sr key (kcl s) sp svcs n" and calm: "services_calm E C svcs (kcl s) rt s"
    and ps: "distinct ps" "{p \<in> set ps. ke_SelectorMatches E [(ReplicaTypeLabel, GenReplicaTypeLabel rt)] (om_Labels (svc_Meta p))} = {p \<in> ran (objs_now svcs s). found_service E (kcl s) rt p}"
  shows "wp (ReconcileServices E C rt (Some sp) ps) (\<lambda>r t. r = None \<and> services_calm E C svcs (kcl s) rt t \<and> one_round (service_view E C svcs (kcl s) rt (sint n)) s t) s"
proof -
  let ?k = "kcl s" and ?qs = "FilterServicesForReplicaType E ps (GenReplicaTypeLabel rt)"
  from set obtain ports where q: "quiet_services E (kc_Namespace ?k) svcs" and ready: "ready E C sr key ?k" and labels: "plain_labels E ?k"
    and ports: "GetPortsFromCluster sp (sr_GetDefaultContainerName sr) = Inr ports"
    and n: "r_Replicas sp = Some n" "sint n \<le> cc_maxlen C" "0 < cc_maxlen C" "cc_maxlen C < 2 ^ 63" by (auto simp: service_setting_def)
  have "\<exists>slices. slices_of (\<lambda>p. om_Labels (svc_Meta p)) (cc_maxlen C) ?qs (sint n) = Inr slices \<and>
      wp (go_forE (reconcile_service_slice E C (Some sr) rt sp (sint n)) (enumerate 0 slices))
        (\<lambda>r t. r = None \<and> calm C ?k svcs (nth_name ?k rt) (found_service E ?k rt) (\<lambda>p. om_Labels (svc_Meta p)) t \<and> one_round (service_view E C svcs ?k rt (sint n)) s t) s"
  proof (rule round_of_objects [OF service_view_def calm [unfolded services_calm_def] _ _ n(2-4)])
    show "distinct ?qs" using ps(1) by (simp add: FilterServicesForReplicaType_def)
    show "set ?qs = {p \<in> ran (objs_now svcs s). found_service E ?k rt p}" using ps(2) by (simp add: FilterServicesForReplicaType_def)
    show "wp (reconcile_service_slice E C (Some sr) rt sp (sint n) (i, slice_of (objs_now svcs t (nth_name ?k rt i))))
        (\<lambda>r u. r = None \<and> slice_done (service_view E C svcs ?k rt (sint n)) i t u) t" if "int i < 2 ^ 63" "service_midway C ?k t" for i t
      using that by (rule wp_service_slice [OF q ready labels ports])
    show "service_midway C ?k s" using calm by (simp add: service_midway_def services_calm_def calm_def)
  qed (auto simp: made_service_def service_midway_def)
  then obtain slices where sl: "GetServiceSlices (cc_maxlen C) ?qs (sint n) = Inr slices"
      "wp (go_forE (reconcile_service_slice E C (Some sr) rt sp (sint n)) (enumerate 0 slices))
        (\<lambda>r t. r = None \<and> services_calm E C svcs ?k rt t \<and> one_round (service_view E C svcs ?k rt (sint n)) s t) s"
    by (auto simp: GetServiceSlices_def services_calm_def)
  moreover have "GetSchemaReconciler C (s_ClusterType (kc_Spec ?k)) = Some sr" using ready by (auto simp: ready_def)
  ultimately show ?thesis
    using n(1) by (simp add: ReconcileServices_def wp Let_def)
qed

lemma service_setting_same: "same_object k k' \<Longrightarrow> service_setting E C sr key k' sp svcs n = service_setting E C sr key k sp svcs n"
  by (simp add: service_setting_def ready_same plain_labels_same) (simp add: same_object_def)

lemma wp_ReconcileServices:
  assumes "service_setting E C sr key k sp svcs n" "services_calm E C svcs k rt s" "distinct ps"
    "{p \<in> set ps. ke_SelectorMatches E [(ReplicaTypeLabel, GenReplicaTypeLabel rt)] (om_Labels (svc_Meta p))} = {p \<in> ran (objs_now svcs s). found_service E k rt p}"
  shows "wp (ReconcileServices E C rt (Some sp) ps) (\<lambda>r t. r = None \<and> services_calm E C svcs k rt t \<and> one_round (service_view E C svcs k rt (sint n)) s t) s"
proof -
  from assms(2) have same: "same_object k (kcl s)" by (simp add: services_calm_def calm_def)
  have "found_service E (kcl s) rt = found_service E k rt" by (rule ext) (use same in \<open>simp add: same_object_def found_service_def\<close>)
  with assms ReconcileServices_kcl [of E C sr key s sp svcs n rt ps] show ?thesis
    by (simp add: service_setting_same [OF same] services_same [OF same])
qed

text \<open>The list of the services of the cluster.\<close>

lemma wp_GetServicesForCluster:
  fixes s :: "('w, 'st) cstate"
  assumes q: "quiet_services E (kc_Namespace k) svcs" and labels: "plain_labels E k" and same: "same_object k k'"
    and f: "\<And>ps w. distinct ps \<Longrightarrow> (\<And>rt. {p \<in> set ps. ke_SelectorMatches E [(ReplicaTypeLabel, GenReplicaTypeLabel rt)] (om_Labels (svc_Meta p))} =
       {p \<in> ran (objs_now svcs s). found_service E k rt p}) \<Longrightarrow> w = snd (cl_List (ke_services E) (kc_Namespace k) (GenLabels ControllerName (kc_Name k)) (world s)) \<Longrightarrow>
       svcs w = objs_now svcs s \<Longrightarrow> wp (f ps) Q (s\<lparr>world := w\<rparr>)"
  shows "wp (go_try_val (GetServicesForCluster E k') f) Q s"
proof -
  obtain r w where w: "cl_List (ke_services E) (kc_Namespace k) (GenLabels ControllerName (kc_Name k)) (world s) = (r, w)" by fastforce
  from client_list [OF q [unfolded quiet_services_def] w] obtain ps where ps: "r = Inr ps" "distinct ps" "svcs w = objs_now svcs s"
      "set ps = {p \<in> ran (objs_now svcs s). ke_SelectorMatches E (GenLabels ControllerName (kc_Name k)) (om_Labels (svc_Meta p))}" by auto
  have "distinct (ConvertServiceList ps)" using ps(2) by (simp add: ConvertServiceList_def)
  moreover have "{p \<in> set (ConvertServiceList ps). ke_SelectorMatches E [(ReplicaTypeLabel, GenReplicaTypeLabel rt)] (om_Labels (svc_Meta p))} =
       {p \<in> ran (objs_now svcs s). found_service E k rt p}" for rt
    using ps(4) by (auto simp: ConvertServiceList_def found_service_def)
  ultimately have "wp (f (ConvertServiceList ps)) Q (s\<lparr>world := w\<rparr>)" using f w ps(3) by simp
  then show ?thesis
    using w ps(1) same labels by (simp add: GetServicesForCluster_def go_try_val_def wp plain_labels_def same_object_def Let_def)
qed

lemma wp_service_round:
  fixes s :: "('w, 'st) cstate"
  assumes set: "service_setting E C sr key k sp svcs n" and calm: "services_calm E C svcs k rt s"
  shows "wp (service_round E C rt sp) (\<lambda>r t. r = None \<and> services_calm E C svcs k rt t \<and> one_round (service_view E C svcs k rt (sint n)) s t) s"
proof -
  from set have q: "quiet_services E (kc_Namespace k) svcs" "plain_labels E k" by (simp_all add: service_setting_def)
  from calm have same: "same_object k (kcl s)" by (simp add: services_calm_def calm_def)
  show ?thesis
    unfolding service_round_def wp_bind wp_get_cluster
  proof (rule wp_GetServicesForCluster [OF q same])
    fix ps w
    assume ps: "distinct ps" "\<And>rt. {p \<in> set ps. ke_SelectorMatches E [(ReplicaTypeLabel, GenReplicaTypeLabel rt)] (om_Labels (svc_Meta p))} =
       {p \<in> ran (objs_now svcs s). found_service E k rt p}" and w: "svcs w = objs_now svcs s"
    let ?V = "service_view E C svcs k rt (sint n) :: (('w, 'st) cstate, Service, svc_op) view"
    have "one_round ?V (s\<lparr>world := w\<rparr>) t = one_round ?V s t" for t by (rule one_round_from) (use w in \<open>auto simp: service_view_def object_view_def\<close>)
    moreover have "services_calm E C svcs k rt (s\<lparr>world := w\<rparr>)" using calm w by (simp add: services_calm_def calm_def)
    ultimately show "wp (ReconcileServices E C rt (Some sp) ps) (\<lambda>r t. r = None \<and> services_calm E C svcs k rt t \<and> one_round ?V s t) (s\<lparr>world := w\<rparr>)"
      using wp_ReconcileServices [OF set _ ps(1), where rt = rt and s = "s\<lparr>world := w\<rparr>"] ps(2) w by simp
  qed
qed

text \<open>The reconciliation of services comes to rest. On a server that carries out every call at once, where nobody else changes services and the services found
  for the replica type are the ones with the names of its indices, all of them under \<open>M\<close>, a replica type with \<open>n \<ge> 1\<close> replicas whose main container has its
  ports is reconciled \<open>m\<close> times, with \<open>m \<ge> 2\<close> and \<open>m \<ge> M - n\<close>. Every round returns without an error and without a panic; after them there is a service exactly
  for each of the indices under \<open>n\<close>, and however many rounds follow, they create and delete no service and leave all services as they are.\<close>

lemma services_converge:
  fixes C :: "'st ClusterController" and s :: "('w, 'st) cstate"
  assumes "service_setting E C sr key k sp svcs n" "services_calm E C svcs k rt s" "1 \<le> sint n"
    and "\<forall>i. objs_now svcs s (nth_name k rt i) \<noteq> None \<longrightarrow> i < M" "2 \<le> m" "M \<le> nat (sint n) + m"
  shows "wp (repeat_round m (service_round E C rt sp)) (\<lambda>r t. r = None \<and> (\<forall>i. objs_now svcs t (nth_name k rt i) \<noteq> None \<longleftrightarrow> int i < sint n) \<and>
     (\<forall>more. wp (repeat_round more (service_round E C rt sp))
        (\<lambda>r u. r = None \<and> objs_now svcs u = objs_now svcs t \<and> svc_ops (trace u) = svc_ops (trace t)) t)) s"
proof -
  let ?V = "service_view E C svcs k rt (sint n) :: (('w, 'st) cstate, Service, svc_op) view"
  have V: "v_want ?V = sint n" "v_at ?V s i = objs_now svcs s (nth_name k rt i)" for s i by (simp_all add: service_view_def)
  have "within ?V M s" using assms(4) by (simp add: within_def V)
  from service_rounds.converges [OF wp_service_round [OF assms(1)] assms(2) _ this assms(5)] assms(3,6)
  have *: "wp (repeat_round m (service_round E C rt sp)) (\<lambda>r t. r = None \<and> at_rest ?V t \<and> (\<forall>more. wp (repeat_round more (service_round E C rt sp))
      (\<lambda>r u. r = None \<and> v_at ?V u = v_at ?V t \<and> v_beside ?V u = v_beside ?V t \<and> v_ops ?V u = v_ops ?V t) t)) s"
    by (simp add: V)
  show ?thesis
  proof (rule wp_mono [OF *], elim conjE, intro conjI allI)
    fix r t i more
    assume rest: "at_rest ?V t" and later: "\<forall>more. wp (repeat_round more (service_round E C rt sp))
      (\<lambda>r u. r = None \<and> v_at ?V u = v_at ?V t \<and> v_beside ?V u = v_beside ?V t \<and> v_ops ?V u = v_ops ?V t) t"
    from rest have "if int i < sint n then settled ?V t i else objs_now svcs t (nth_name k rt i) = None" unfolding at_rest_def V by blast
    then show "objs_now svcs t (nth_name k rt i) \<noteq> None \<longleftrightarrow> int i < sint n" by (auto simp: settled_def V split: if_splits)
    show "wp (repeat_round more (service_round E C rt sp)) (\<lambda>r u. r = None \<and> objs_now svcs u = objs_now svcs t \<and> svc_ops (trace u) = svc_ops (trace t)) t"
      by (rule wp_mono [OF spec [OF later]]) (use object_view_whole in \<open>auto simp: service_view_def\<close>)
  qed
qed

lemma quiet_service_setting:
  assumes "sint n \<le> 2 ^ 40"
  shows "service_setting quiet_env sample_controller PbsProSchema ''ns/demo'' (sample_cluster ''pbspro'') (sample_replica n) kept_services n"
proof -
  have "quiet_client (kept_client (ke_services sample_env) w_services w_services_update svc_Meta norm_service id) svc_Meta (\<lambda>_. True) labels_match ''ns'' kept_services"
    by (rule kept_client_quiet) (simp_all add: norm_service_def)
  then have "quiet_services quiet_env (kc_Namespace (sample_cluster ''pbspro'')) kept_services"
    by (simp add: quiet_services_def quiet_env_def sample_env_def sample_cluster_def sample_meta_def)
  moreover have "GetPortsFromCluster (sample_replica n) (sr_GetDefaultContainerName PbsProSchema) =
      GetPortsFromCluster (sample_replica 0) (sr_GetDefaultContainerName PbsProSchema)" by (simp add: GetPortsFromCluster_def sample_replica_def)
  moreover have "GetPortsFromCluster (sample_replica 0) (sr_GetDefaultContainerName PbsProSchema) = Inr []" by code_simp
  moreover have "ready quiet_env sample_controller PbsProSchema ''ns/demo'' (sample_cluster ''pbspro'')" "plain_labels quiet_env (sample_cluster ''pbspro'')"
    using quiet_setting [OF assms] by (simp_all add: setting_def)
  ultimately show ?thesis
    using assms by (simp add: service_setting_def sample_replica_def sample_controller_def)
qed

lemma quiet_service_start:
  "services_calm quiet_env sample_controller kept_services (sample_cluster ''pbspro'') rt (sample_state empty_world (sample_cluster ''pbspro''))"
  "objs_now kept_services (sample_state empty_world (sample_cluster ''pbspro'')) a = None"
  using sample_exps_ok [of empty_world "sample_cluster ''pbspro''"]
  by (simp_all add: services_calm_def calm_def tidy_def kept_objs_def sample_state_def empty_world_def same_object_def sample_controller_def)

end
