(* ===== verification/ClusterConvergence.thy ===== *)
theory ClusterConvergence
  imports ServiceConvergence ReconcileCluster
begin

text \<open>
  A whole cluster, reconciled again and again: \<open>reconcile_replicas\<close>, the loop of \<open>ReconcileKubeCluster\<close> over the replica types, works on the pods and the services of every
  type with lists taken once, before the loop. The types do not get in each other's way, nor do pods and services, and all of them come to rest.
\<close>

section \<open>Pods and services beside each other\<close>

text \<open>The calls for objects of one kind leave the objects \<open>f\<close> reads off the world alone.\<close>

definition leaves_alone :: "('w, 'o) client \<Rightarrow> ('w \<Rightarrow> 'f) \<Rightarrow> bool" where
  "leaves_alone cl f \<longleftrightarrow> (\<forall>ns x w. f (snd (cl_Create cl ns x w)) = f w) \<and> (\<forall>ns n w. f (snd (cl_Get cl ns n w)) = f w) \<and>
     (\<forall>ns n w. f (snd (cl_Delete cl ns n w)) = f w) \<and> (\<forall>ns ls w. f (snd (cl_List cl ns ls w)) = f w)"

text \<open>A part of the state that events, counters and expectations leave alone.\<close>

locale bystander =
  fixes part :: "('w, 'st) cstate \<Rightarrow> 'f"
  assumes part_note: "is_note e \<Longrightarrow> part (s\<lparr>trace := trace s @ [e]\<rparr>) = part s"
    and part_exps: "part (s\<lparr>exps := x\<rparr>) = part s"
begin

lemma part_intros:
  "keeps (unchanged part) (Event a b c)" "keeps (unchanged part) (Inc n)" "keeps (unchanged part) (expect ct sr m)"
proof -
  show "keeps (unchanged part) (Event a b c)" "keeps (unchanged part) (Inc n)"
    by (simp_all add: keeps_def unchanged_def ctl_defs go_run part_note)
  show "keeps (unchanged part) (expect ct sr m)"
    unfolding expect_def sr_call_def
    by (intro unchanged_rules) (auto simp: keeps_def unchanged_def with_exp_def part_exps split: outcome.splits)
qed

lemma part_call: "(\<And>s. part (s\<lparr>world := snd (f (world s))\<rparr>) = part s) \<Longrightarrow> keeps (unchanged part) (call f)"
  by (simp add: keeps_def unchanged_def call_def split_def)

lemma part_api:
  "(\<And>s. part (s\<lparr>world := snd (f (world s))\<rparr>) = part s) \<Longrightarrow> (\<And>r s. part (s\<lparr>trace := trace s @ [eff r]\<rparr>) = part s) \<Longrightarrow> keeps (unchanged part) (api f eff)"
  unfolding api_def emit_def by (intro unchanged_rules part_call) (simp_all add: keeps_def unchanged_def go_run)

end

definition service_side :: "('w \<Rightarrow> string \<rightharpoonup> Service) \<Rightarrow> ('w, 'st) cstate \<Rightarrow> (string \<rightharpoonup> Service) \<times> svc_op list" where
  "service_side svcs s = (objs_now svcs s, svc_ops (trace s))"

definition pod_side :: "('w \<Rightarrow> string \<rightharpoonup> Pod) \<Rightarrow> ('w, 'st) cstate \<Rightarrow> (string \<rightharpoonup> Pod) \<times> pod_op list \<times> KubeCluster" where
  "pod_side pods s = (objs_now pods s, pod_ops (trace s), kcl s)"

interpretation service_side: bystander "service_side svcs" for svcs
  by unfold_locales (auto simp: service_side_def svcs.note_no_op)

interpretation pod_side: bystander "pod_side pods" for pods
  by unfold_locales (auto simp: pod_side_def pods.note_no_op)

lemma service_side_spared:
  assumes "leaves_alone (ke_pods E) svcs" "\<And>w. svcs (snd (ke_Now E w)) = svcs w"
  shows "keeps (unchanged (service_side svcs)) (ReconcilePods E C rt sp ps cm)"
proof -
  let ?u = "unchanged (service_side svcs)"
  note parts = service_side.part_intros
  have status: "keeps ?u (update_status f)" for f
    by (simp add: keeps_def unchanged_def update_status_def go_run service_side_def)
  note cl = assms(1) [unfolded leaves_alone_def]
  have del: "keeps ?u (DeletePod E ns nm)" for ns nm
    unfolding DeletePod_def by (intro unchanged_rules parts service_side.part_call service_side.part_api) (use cl in \<open>auto simp: service_side_def\<close>)
  have add: "keeps ?u (CreatePodsWithControllerRef E ns t ref)" for ns t ref
    unfolding CreatePodsWithControllerRef_def createPods_def Let_def by (intro unchanged_rules parts service_side.part_call service_side.part_api) (use cl in \<open>auto simp: service_side_def\<close>)
  have present: "keeps ?u (reconcile_present_pod E C k x key rt sp n i pod)" for k x key sp n i pod
    unfolding reconcile_present_pod_def delete_expected_pod_def restart_pod_def record_exit_code_def updateClusterReplicaStatuses_def get_cluster_def
      set_condition_def RestartedClustersCounterInc_def Let_def
    by (intro unchanged_rules parts del status service_side.part_call) (simp_all add: service_side_def assms(2))
  have new: "keeps ?u (CreateNewPod E C rt i sp ctl specs cm)" for i sp ctl specs
    unfolding CreateNewPod_def create_expected_pod_def gang_template_def sr_call_def get_cluster_def Let_def
    by (intro unchanged_rules parts add)
  have "keeps ?u (reconcile_pod_slice E C k key rt sp n cm y)" for k key sp n y
    unfolding reconcile_pod_slice_def sr_call_def Let_def by (intro unchanged_rules present new)
  then show ?thesis
    unfolding ReconcilePods_def initializeReplicaStatuses_def get_cluster_def Let_def by (intro unchanged_rules status)
qed

lemma pod_side_spared:
  assumes "leaves_alone (ke_services E) pods"
  shows "keeps (unchanged (pod_side pods)) (ReconcileServices E C rt sp ss)"
proof -
  let ?u = "unchanged (pod_side pods)"
  note parts = pod_side.part_intros
  note cl = assms(1) [unfolded leaves_alone_def]
  have del: "keeps ?u (DeleteService E ns nm)" for ns nm
    unfolding DeleteService_def by (intro unchanged_rules parts pod_side.part_call pod_side.part_api) (use cl in \<open>auto simp: pod_side_def\<close>)
  have add: "keeps ?u (CreateServicesWithControllerRef E ns t ref)" for ns t ref
    unfolding CreateServicesWithControllerRef_def createServices_def Let_def by (intro unchanged_rules parts pod_side.part_call pod_side.part_api) (use cl in \<open>auto simp: pod_side_def\<close>)
  have "keeps ?u (CreateNewService E C rt sp i cn x)" for sp i cn x
    unfolding CreateNewService_def get_cluster_def Let_def by (intro unchanged_rules parts add)
  then have "keeps ?u (reconcile_service_slice E C x rt sp n y)" for x sp n y
    unfolding reconcile_service_slice_def sr_call_def Let_def by (intro unchanged_rules del)
  then show ?thesis
    unfolding ReconcileServices_def get_cluster_def Let_def by (intro unchanged_rules)
qed


section \<open>The replica types beside each other\<close>

text \<open>The number of replicas a spec asks for.\<close>

definition wanted :: "ReplicaSpec \<Rightarrow> int" where
  "wanted sp = (case r_Replicas sp of None \<Rightarrow> 0 | Some n \<Rightarrow> sint n)"

text \<open>A quiet server for pods and services, and a cluster with replica types that the labels tell apart and whose pods and services the controller can make.\<close>

definition cluster_setting :: "'w kenv \<Rightarrow> 'st ClusterController \<Rightarrow> schema \<Rightarrow> string \<Rightarrow> KubeCluster \<Rightarrow> ConfigMap \<Rightarrow>
    ('w \<Rightarrow> string \<rightharpoonup> Pod) \<Rightarrow> ('w \<Rightarrow> string \<rightharpoonup> Service) \<Rightarrow> bool" where
  "cluster_setting E C sr key k cm pods svcs \<longleftrightarrow> quiet_server E (kc_Namespace k) pods \<and> quiet_services E (kc_Namespace k) svcs \<and>
     leaves_alone (ke_pods E) svcs \<and> leaves_alone (ke_services E) pods \<and> (\<forall>w. svcs (snd (ke_Now E w)) = svcs w) \<and> plain_labels E k \<and>
     distinct (map (\<lambda>x. ToLower (fst x)) (kc_Specs k)) \<and>
     (\<forall>(rt, x) \<in> set (kc_Specs k). CHR ''/'' \<notin> set (ToLower rt) \<and>
        (\<exists>sp n. x = Some sp \<and> setting E C sr key k rt sp cm pods n \<and> service_setting E C sr key k sp svcs n))"

definition cluster_calm :: "'w kenv \<Rightarrow> 'st ClusterController \<Rightarrow> ('w \<Rightarrow> string \<rightharpoonup> Pod) \<Rightarrow> ('w \<Rightarrow> string \<rightharpoonup> Service) \<Rightarrow> KubeCluster \<Rightarrow> ('w, 'st) cstate \<Rightarrow> bool" where
  "cluster_calm E C pods svcs k s \<longleftrightarrow> same_object k (kcl s) \<and> exps_ok (cc_store C) (exps s (s_ClusterType (kc_Spec k))) \<and>
     (\<forall>(rt, x) \<in> set (kc_Specs k). pods_calm E C pods k rt s \<and> services_calm E C svcs k rt s)"

lemma setting_type:
  assumes "cluster_setting E C sr key k cm pods svcs" "(rt, x) \<in> set (kc_Specs k)"
  obtains sp n where "x = Some sp" "setting E C sr key k rt sp cm pods n" "service_setting E C sr key k sp svcs n" "wanted sp = sint n"
proof -
  from assms obtain sp n where "x = Some sp" "setting E C sr key k rt sp cm pods n" "service_setting E C sr key k sp svcs n"
    by (fastforce simp: cluster_setting_def)
  moreover from this have "wanted sp = sint n" by (simp add: wanted_def setting_def)
  ultimately show thesis using that by blast
qed

lemma types_apart:
  assumes "cluster_setting E C sr key k cm pods svcs" "(rt, x) \<in> set (kc_Specs k)" "(rt', x') \<in> set (kc_Specs k)" "ToLower rt \<noteq> ToLower rt'"
  shows "range (nth_name k rt) \<inter> range (nth_name k rt') = {}" "\<not> (found E k rt p \<and> found E k rt' p)" "\<not> (found_service E k rt q \<and> found_service E k rt' q)"
proof -
  have "CHR ''/'' \<notin> set (ToLower rt)" "CHR ''/'' \<notin> set (ToLower rt')" using assms(1-3) by (auto simp: cluster_setting_def)
  with assms(4) GenGeneralName_inj [of "kc_Name k" rt "int i" rt' "int j" for i j]
  have "nth_name k rt i \<noteq> nth_name k rt' j" for i j by (force simp: GenReplicaTypeLabel_def)
  then show "range (nth_name k rt) \<inter> range (nth_name k rt') = {}" by blast
  have "plain_labels E k" using assms(1) by (simp add: cluster_setting_def)
  with assms(4) show "\<not> (found E k rt p \<and> found E k rt' p)" "\<not> (found_service E k rt q \<and> found_service E k rt' q)"
    by (auto simp: plain_labels_def found_def found_service_def GenReplicaTypeLabel_def)
qed

text \<open>One replica type: its pods and its services, with lists that hold the ones found.\<close>

definition listed :: "'w kenv \<Rightarrow> KubeCluster \<Rightarrow> ('w \<Rightarrow> string \<rightharpoonup> Pod) \<Rightarrow> ('w \<Rightarrow> string \<rightharpoonup> Service) \<Rightarrow> Pod list \<Rightarrow> Service list \<Rightarrow> string \<Rightarrow> ('w, 'st) cstate \<Rightarrow> bool" where
  "listed E k pods svcs ps ss rt s \<longleftrightarrow>
     {p \<in> set ps. ke_SelectorMatches E [(ReplicaTypeLabel, GenReplicaTypeLabel rt)] (om_Labels (pod_Meta p))} = {p \<in> ran (objs_now pods s). found E k rt p} \<and>
     {p \<in> set ss. ke_SelectorMatches E [(ReplicaTypeLabel, GenReplicaTypeLabel rt)] (om_Labels (svc_Meta p))} = {p \<in> ran (objs_now svcs s). found_service E k rt p}"

text \<open>The list stays right as long as the objects of the type stay.\<close>

definition untouched :: "KubeCluster \<Rightarrow> ('w \<Rightarrow> string \<rightharpoonup> Pod) \<Rightarrow> ('w \<Rightarrow> string \<rightharpoonup> Service) \<Rightarrow> string \<Rightarrow> ('w, 'st) cstate \<Rightarrow> ('w, 'st) cstate \<Rightarrow> bool" where
  "untouched k pods svcs rt s t \<longleftrightarrow> (\<forall>i. objs_now pods t (nth_name k rt i) = objs_now pods s (nth_name k rt i) \<and>
     objs_now svcs t (nth_name k rt i) = objs_now svcs s (nth_name k rt i))"

lemma listed_untouched:
  assumes "cluster_calm E C pods svcs k s" "cluster_calm E C pods svcs k t" "(rt, x) \<in> set (kc_Specs k)" "untouched k pods svcs rt s t"
  shows "listed E k pods svcs ps ss rt t = listed E k pods svcs ps ss rt s"
proof -
  from assms(1-3) have "tidy (objs_now pods u) (nth_name k rt) (found E k rt) (\<lambda>p. om_Labels (pod_Meta p))"
      "tidy (objs_now svcs u) (nth_name k rt) (found_service E k rt) (\<lambda>p. om_Labels (svc_Meta p))" if "u = s \<or> u = t" for u
    using that by (auto simp: cluster_calm_def pods_calm_def services_calm_def calm_def)
  from this [THEN tidy_found] assms(4) show ?thesis by (simp add: listed_def untouched_def)
qed

lemma untouched_views:
  assumes "untouched k pods svcs rt s t"
  shows "v_at (pod_view E C pods k rt sp n) t = v_at (pod_view E C pods k rt sp n) s" "v_at (service_view E C svcs k rt n) t = v_at (service_view E C svcs k rt n) s"
  using assms by (auto simp: untouched_def pod_view_def service_view_def)


lemma calm_others:
  assumes "cluster_setting E C sr key k cm pods svcs" "(rt, x) \<in> set (kc_Specs k)" "(rt', x') \<in> set (kc_Specs k)" "ToLower rt \<noteq> ToLower rt'"
    and "one_round (pod_view E C pods k rt sp n) s t" "pods_calm E C pods k rt t" "pods_calm E C pods k rt' s"
    and "one_round (service_view E C svcs k rt n') s t" "services_calm E C svcs k rt t" "services_calm E C svcs k rt' s"
  shows "pods_calm E C pods k rt' t" "services_calm E C svcs k rt' t" "untouched k pods svcs rt' s t"
proof -
  note apart = types_apart [OF assms(1-4)]
  note pod = calm_other [OF assms(5) [unfolded pod_view_def] assms(6,7) [unfolded pods_calm_def] apart(1,2)]
  note svc = calm_other [OF assms(8) [unfolded service_view_def] assms(9,10) [unfolded services_calm_def] apart(1,3)]
  show "pods_calm E C pods k rt' t" "services_calm E C svcs k rt' t" using pod(1) svc(1) by (simp_all add: pods_calm_def services_calm_def)
  show "untouched k pods svcs rt' s t" using pod(2) svc(2) by (simp add: untouched_def)
qed

abbreviation reconcile_type :: "'w kenv \<Rightarrow> 'st ClusterController \<Rightarrow> Pod list \<Rightarrow> Service list \<Rightarrow> ConfigMap \<Rightarrow> string \<times> ReplicaSpec option \<Rightarrow> ('w, 'st, gerr option) ctl" where
  "reconcile_type E C ps ss cm \<equiv> (\<lambda>(rt, sp). go_try (ReconcilePods E C rt sp ps cm) (ReconcileServices E C rt sp ss))"

lemma wp_type:
  fixes s :: "('w, 'st) cstate"
  assumes set: "cluster_setting E C sr key k cm pods svcs" and rt: "(rt, Some sp) \<in> set (kc_Specs k)" and calm: "cluster_calm E C pods svcs k s"
    and lists: "distinct ps" "distinct ss" "listed E k pods svcs ps ss rt s"
  shows "wp (reconcile_type E C ps ss cm (rt, Some sp)) (\<lambda>r t. r = None \<and> pods_calm E C pods k rt t \<and> services_calm E C svcs k rt t \<and>
     one_round (pod_view E C pods k rt sp (wanted sp)) s t \<and> one_round (service_view E C svcs k rt (wanted sp)) s t) s"
proof -
  let ?V = "pod_view E C pods k rt sp (wanted sp) :: (('w, 'st) cstate, Pod, pod_op) view"
  let ?W = "service_view E C svcs k rt (wanted sp) :: (('w, 'st) cstate, Service, svc_op) view"
  from set rt obtain n where n: "setting E C sr key k rt sp cm pods n" "service_setting E C sr key k sp svcs n" "wanted sp = sint n"
    by (rule setting_type) auto
  from calm rt have calm: "pods_calm E C pods k rt s" "services_calm E C svcs k rt s" by (auto simp: cluster_calm_def)
  from set have spared: "leaves_alone (ke_pods E) svcs" "\<And>w. svcs (snd (ke_Now E w)) = svcs w" "leaves_alone (ke_services E) pods" by (auto simp: cluster_setting_def)
  have second: "wp (ReconcileServices E C rt (Some sp) ss) (\<lambda>r t. r = None \<and> pods_calm E C pods k rt t \<and> services_calm E C svcs k rt t \<and>
     one_round ?V s t \<and> one_round ?W s t) u"
    if pod: "pods_calm E C pods k rt u" "one_round ?V s u" and side: "service_side svcs u = service_side svcs s" for u :: "('w, 'st) cstate"
  proof -
    have same: "objs_now svcs u = objs_now svcs s" "svc_ops (trace u) = svc_ops (trace s)" using side by (simp_all add: service_side_def)
    have calm_u: "services_calm E C svcs k rt u"
      using calm_still [OF calm(2) [unfolded services_calm_def]] same(1) pod(1) by (simp add: services_calm_def pods_calm_def calm_def)
    have "wp (ReconcileServices E C rt (Some sp) ss) (\<lambda>r t. r = None \<and> services_calm E C svcs k rt t \<and> one_round ?W u t) u"
      using wp_ReconcileServices [OF n(2) calm_u lists(2)] lists(3) same(1) n(3) by (simp add: listed_def)
    from wp_frame [OF this pod_side_spared [OF spared(3)]] show ?thesis
    proof (rule wp_mono, elim conjE, intro conjI)
      fix r and t :: "('w, 'st) cstate"
      assume r: "r = None" and svc: "services_calm E C svcs k rt t" "one_round ?W u t" and side: "unchanged (pod_side pods) u t"
      from side have same': "objs_now pods t = objs_now pods u" "pod_ops (trace t) = pod_ops (trace u)" "kcl t = kcl u"
        by (simp_all add: unchanged_def pod_side_def)
      have inv: "midway C k rt t = midway C k rt u" using svc(1) pod(1) by (simp add: midway_def same' services_calm_def pods_calm_def calm_def)
      show "r = None" "services_calm E C svcs k rt t" by fact+
      show "pods_calm E C pods k rt t"
        using calm_still [OF pod(1) [unfolded pods_calm_def] same'(1)] svc(1) by (simp add: services_calm_def pods_calm_def calm_def)
      have "one_round ?V s t = one_round ?V s u" by (rule one_round_to) (use same' inv in \<open>auto simp: pod_view_def object_view_def\<close>)
      with pod(2) show "one_round ?V s t" by simp
      have "one_round ?W u t = one_round ?W s t" by (rule one_round_from) (use same in \<open>auto simp: service_view_def object_view_def\<close>)
      with svc(2) show "one_round ?W s t" by simp
    qed
  qed
  have "wp (ReconcilePods E C rt (Some sp) ps cm) (\<lambda>r t. r = None \<and> pods_calm E C pods k rt t \<and> one_round ?V s t) s"
    using wp_ReconcilePods [OF n(1) calm(1) lists(1)] lists(3) n(3) by (simp add: listed_def)
  from wp_frame [OF this service_side_spared [OF spared(1,2)]] show ?thesis
    unfolding prod.case wp_try
    by (rule wp_mono) (use second in \<open>auto simp: unchanged_def\<close>)
qed


section \<open>The loop over the replica types\<close>

definition types_stepped :: "'w kenv \<Rightarrow> 'st ClusterController \<Rightarrow> ('w \<Rightarrow> string \<rightharpoonup> Pod) \<Rightarrow> ('w \<Rightarrow> string \<rightharpoonup> Service) \<Rightarrow> KubeCluster \<Rightarrow>
    ReplicaSpecs \<Rightarrow> ('w, 'st) cstate \<Rightarrow> ('w, 'st) cstate \<Rightarrow> bool" where
  "types_stepped E C pods svcs k xs s t \<longleftrightarrow> (\<forall>(rt, x) \<in> set xs. \<forall>sp. x = Some sp \<longrightarrow>
     one_round (bare (pod_view E C pods k rt sp (wanted sp))) s t \<and> one_round (bare (service_view E C svcs k rt (wanted sp))) s t)"

definition cluster_rest :: "'w kenv \<Rightarrow> 'st ClusterController \<Rightarrow> ('w \<Rightarrow> string \<rightharpoonup> Pod) \<Rightarrow> ('w \<Rightarrow> string \<rightharpoonup> Service) \<Rightarrow> KubeCluster \<Rightarrow> ('w, 'st) cstate \<Rightarrow> bool" where
  "cluster_rest E C pods svcs k s \<longleftrightarrow> (\<forall>(rt, x) \<in> set (kc_Specs k). \<forall>sp. x = Some sp \<longrightarrow> 1 \<le> wanted sp \<and>
     at_rest (pod_view E C pods k rt sp (wanted sp)) s \<and> at_rest (service_view E C svcs k rt (wanted sp)) s)"

definition still :: "('w \<Rightarrow> string \<rightharpoonup> Pod) \<Rightarrow> ('w \<Rightarrow> string \<rightharpoonup> Service) \<Rightarrow> ('w, 'st) cstate \<Rightarrow> ('w, 'st) cstate \<Rightarrow> bool" where
  "still pods svcs s t \<longleftrightarrow> objs_now pods t = objs_now pods s \<and> objs_now svcs t = objs_now svcs s \<and>
     pod_ops (trace t) = pod_ops (trace s) \<and> svc_ops (trace t) = svc_ops (trace s)"

lemma still_trans: "still pods svcs s t \<Longrightarrow> still pods svcs t u \<Longrightarrow> still pods svcs s u"
  by (simp add: still_def)

lemma rest_still:
  assumes "still pods svcs s t"
  shows "cluster_rest E C pods svcs k t = cluster_rest E C pods svcs k s"
proof -
  have "v_at (pod_view E C pods k rt sp n) t = v_at (pod_view E C pods k rt sp n) s" "v_at (service_view E C svcs k rt n) t = v_at (service_view E C svcs k rt n) s"
    for rt sp n using assms by (auto simp: still_def pod_view_def service_view_def)
  from this [THEN at_rest_cong] show ?thesis by (simp add: cluster_rest_def)
qed

lemma types_stepped_still:
  assumes "still pods svcs s s'"
  shows "types_stepped E C pods svcs k xs s' t = types_stepped E C pods svcs k xs s t"
proof -
  have "untouched k pods svcs rt s s'" for rt using assms by (simp add: untouched_def still_def)
  note same = untouched_views [OF this, THEN one_round_bare_cong, OF refl]
  show ?thesis unfolding types_stepped_def same ..
qed

text \<open>What one type does to the whole: the others are untouched, and nothing happens at rest.\<close>

lemma type_in_cluster:
  assumes set: "cluster_setting E C sr key k cm pods svcs" and rt: "(rt, Some sp) \<in> set (kc_Specs k)" and calm: "cluster_calm E C pods svcs k s"
    and t: "pods_calm E C pods k rt t" "services_calm E C svcs k rt t"
      "one_round (pod_view E C pods k rt sp (wanted sp)) s t" "one_round (service_view E C svcs k rt (wanted sp)) s t"
  shows "cluster_calm E C pods svcs k t" "(rt', x') \<in> set (kc_Specs k) \<Longrightarrow> ToLower rt \<noteq> ToLower rt' \<Longrightarrow> untouched k pods svcs rt' s t"
    "cluster_rest E C pods svcs k s \<Longrightarrow> still pods svcs s t"
proof -
  have others: "pods_calm E C pods k rt' t" "services_calm E C svcs k rt' t" "untouched k pods svcs rt' s t"
    if "(rt', x') \<in> set (kc_Specs k)" "ToLower rt \<noteq> ToLower rt'" for rt' x'
    using calm_others [OF set rt that t(3,1) _ t(4,2)] calm that(1) by (auto simp: cluster_calm_def)
  show "untouched k pods svcs rt' s t" if "(rt', x') \<in> set (kc_Specs k)" "ToLower rt \<noteq> ToLower rt'" by (rule others(3) [OF that])
  have "pods_calm E C pods k rt' t \<and> services_calm E C svcs k rt' t" if x: "(rt', x') \<in> set (kc_Specs k)" for rt' x'
  proof (cases "ToLower rt = ToLower rt'")
    case True
    have "inj_on (\<lambda>x. ToLower (fst x)) (set (kc_Specs k))" using set by (simp add: cluster_setting_def distinct_map)
    from inj_onD [OF this _ rt x] True have "rt' = rt" by simp
    with t show ?thesis by simp
  qed (use others [OF x] in blast)
  with t(1) show "cluster_calm E C pods svcs k t" by (auto simp: cluster_calm_def pods_calm_def calm_def)
  assume "cluster_rest E C pods svcs k s"
  with rt have rest: "1 \<le> wanted sp" "at_rest (pod_view E C pods k rt sp (wanted sp)) s" "at_rest (service_view E C svcs k rt (wanted sp)) s"
    by (auto simp: cluster_rest_def)
  have "v_want (pod_view E C pods k rt sp (wanted sp)) = wanted sp" "v_want (service_view E C svcs k rt (wanted sp)) = wanted sp"
    by (simp_all add: pod_view_def service_view_def)
  with rest have pod: "v_at (pod_view E C pods k rt sp (wanted sp)) t = v_at (pod_view E C pods k rt sp (wanted sp)) s"
      "v_beside (pod_view E C pods k rt sp (wanted sp)) t = v_beside (pod_view E C pods k rt sp (wanted sp)) s"
      "v_ops (pod_view E C pods k rt sp (wanted sp)) t = v_ops (pod_view E C pods k rt sp (wanted sp)) s"
    and svc: "v_at (service_view E C svcs k rt (wanted sp)) t = v_at (service_view E C svcs k rt (wanted sp)) s"
      "v_beside (service_view E C svcs k rt (wanted sp)) t = v_beside (service_view E C svcs k rt (wanted sp)) s"
      "v_ops (service_view E C svcs k rt (wanted sp)) t = v_ops (service_view E C svcs k rt (wanted sp)) s"
    using pod_rounds.rest_round [OF t(3)] service_rounds.rest_round [OF t(4)] by metis+
  have "objs_now pods t = objs_now pods s" by (rule object_view_whole) (rule pod(1,2) [unfolded pod_view_def])+
  moreover have "objs_now svcs t = objs_now svcs s" by (rule object_view_whole) (rule svc(1,2) [unfolded service_view_def])+
  ultimately show "still pods svcs s t" using pod(3) svc(3) by (simp add: still_def pod_view_def service_view_def)
qed

text \<open>The types of a list done, one after the other.\<close>

definition types_worked :: "'w kenv \<Rightarrow> 'st ClusterController \<Rightarrow> ('w \<Rightarrow> string \<rightharpoonup> Pod) \<Rightarrow> ('w \<Rightarrow> string \<rightharpoonup> Service) \<Rightarrow> KubeCluster \<Rightarrow>
    ReplicaSpecs \<Rightarrow> ('w, 'st) cstate \<Rightarrow> ('w, 'st) cstate \<Rightarrow> bool" where
  "types_worked E C pods svcs k xs s t \<longleftrightarrow> cluster_calm E C pods svcs k t \<and> types_stepped E C pods svcs k xs s t \<and>
     (\<forall>(rt, x) \<in> set (kc_Specs k). ToLower rt \<notin> (\<lambda>x. ToLower (fst x)) ` set xs \<longrightarrow> untouched k pods svcs rt s t) \<and>
     (cluster_rest E C pods svcs k s \<longrightarrow> still pods svcs s t)"

lemma types_worked_Cons:
  assumes set: "cluster_setting E C sr key k cm pods svcs" and rt: "(rt, Some sp) \<in> set (kc_Specs k)" and calm: "cluster_calm E C pods svcs k s"
    and xs: "set xs \<subseteq> set (kc_Specs k)" "ToLower rt \<notin> (\<lambda>x. ToLower (fst x)) ` set xs"
    and t: "pods_calm E C pods k rt t" "services_calm E C svcs k rt t"
      "one_round (pod_view E C pods k rt sp (wanted sp)) s t" "one_round (service_view E C svcs k rt (wanted sp)) s t"
    and u: "types_worked E C pods svcs k xs t u"
  shows "types_worked E C pods svcs k ((rt, Some sp) # xs) s u"
proof -
  note type = type_in_cluster [OF set rt calm t]
  from u have "untouched k pods svcs rt t u" using rt xs(2) by (auto simp: types_worked_def)
  note own = one_round_bare_cong [OF refl untouched_views(1) [OF this]] one_round_bare_cong [OF refl untouched_views(2) [OF this]]
  have before: "one_round (bare (pod_view E C pods k rt' sp' n)) s u \<and> one_round (bare (service_view E C svcs k rt' n)) s u"
    if z: "(rt', z) \<in> set xs" "one_round (bare (pod_view E C pods k rt' sp' n)) t u" "one_round (bare (service_view E C svcs k rt' n)) t u" for rt' z sp' n
  proof -
    have "(rt', z) \<in> set (kc_Specs k)" "ToLower rt \<noteq> ToLower rt'" using z(1) xs by force+
    note same = untouched_views [OF type(2) [OF this]]
    from z(2,3) one_round_bare_cong [OF same(1) refl] one_round_bare_cong [OF same(2) refl] show ?thesis by metis
  qed
  have "types_stepped E C pods svcs k ((rt, Some sp) # xs) s u"
    using u before own one_round_bare [OF t(3)] one_round_bare [OF t(4)] by (fastforce simp: types_worked_def types_stepped_def)
  moreover have "untouched k pods svcs rt' s u" if "(rt', z) \<in> set (kc_Specs k)" "ToLower rt' \<notin> (\<lambda>x. ToLower (fst x)) ` set ((rt, Some sp) # xs)" for rt' z
    using u type(2) [OF that(1)] that by (fastforce simp: types_worked_def untouched_def)
  moreover have "cluster_rest E C pods svcs k s \<longrightarrow> still pods svcs s u"
    using type(3) u rest_still still_trans by (metis types_worked_def)
  ultimately show ?thesis using u unfolding types_worked_def by blast
qed

lemma wp_types:
  fixes s :: "('w, 'st) cstate"
  assumes set: "cluster_setting E C sr key k cm pods svcs" and lists: "distinct ps" "distinct ss"
    and calm: "cluster_calm E C pods svcs k s" and xs: "set xs \<subseteq> set (kc_Specs k)" "distinct (map (\<lambda>x. ToLower (fst x)) xs)"
    and found: "\<And>rt x. (rt, x) \<in> set xs \<Longrightarrow> listed E k pods svcs ps ss rt s"
  shows "wp (go_forE (reconcile_type E C ps ss cm) xs) (\<lambda>r t. r = None \<and> types_worked E C pods svcs k xs s t) s"
  using calm xs found
proof (induction xs arbitrary: s)
  case Nil
  then show ?case by (simp add: wp types_worked_def types_stepped_def untouched_def still_def split_def)
next
  case (Cons x xs)
  obtain rt y where x: "x = (rt, y)" by fastforce
  with Cons.prems(2) have y: "(rt, y) \<in> set (kc_Specs k)" by simp
  from set y obtain sp where sp: "y = Some sp" by (rule setting_type)
  have rt: "(rt, Some sp) \<in> set (kc_Specs k)" using y sp by simp
  have xs: "set xs \<subseteq> set (kc_Specs k)" "ToLower rt \<notin> (\<lambda>x. ToLower (fst x)) ` set xs" using Cons.prems(2,3) by (auto simp: x)
  have "listed E k pods svcs ps ss rt s" by (rule Cons.prems(4) [where x = y]) (simp add: x)
  from wp_type [OF set rt Cons.prems(1) lists this] show ?case
    unfolding go_forE.simps wp_try x sp
  proof (rule wp_mono, elim conjE)
    fix r and t :: "('w, 'st) cstate"
    assume r: "r = None" and t: "pods_calm E C pods k rt t" "services_calm E C svcs k rt t"
      "one_round (pod_view E C pods k rt sp (wanted sp)) s t" "one_round (service_view E C svcs k rt (wanted sp)) s t"
    note type = type_in_cluster [OF set rt Cons.prems(1) t]
    have "wp (go_forE (reconcile_type E C ps ss cm) xs) (\<lambda>r u. r = None \<and> types_worked E C pods svcs k xs t u) t"
    proof (rule Cons.IH [OF type(1) xs(1)])
      fix rt' z
      assume z: "(rt', z) \<in> set xs"
      then have z': "(rt', z) \<in> set (kc_Specs k)" "ToLower rt \<noteq> ToLower rt'" using xs by force+
      from listed_untouched [OF Cons.prems(1) type(1) z'(1) type(2) [OF z']] Cons.prems(4) z
      show "listed E k pods svcs ps ss rt' t" by auto
    qed (use Cons.prems(3) in simp)
    then show "case r of None \<Rightarrow> wp (go_forE (reconcile_type E C ps ss cm) xs) (\<lambda>r t. r = None \<and> types_worked E C pods svcs k ((rt, Some sp) # xs) s t) t
      | Some e \<Rightarrow> Some e = None \<and> types_worked E C pods svcs k ((rt, Some sp) # xs) s t"
      unfolding r option.case by (rule wp_mono) (use types_worked_Cons [OF set rt Cons.prems(1) xs t] in blast)
  qed
qed


section \<open>Rounds of the cluster\<close>

text \<open>The pods and the services of the cluster are listed, and then the replica types reconciled, as \<open>ReconcileKubeCluster\<close> does.\<close>

definition cluster_round :: "'w kenv \<Rightarrow> 'st ClusterController \<Rightarrow> ConfigMap \<Rightarrow> ('w, 'st, gerr option) ctl" where
  "cluster_round E C cm = go_bind get_cluster (\<lambda>kcluster. go_try_val (GetPodsForCluster E kcluster) (\<lambda>pods.
     go_try_val (GetServicesForCluster E kcluster) (\<lambda>services. reconcile_replicas E C pods services cm)))"

lemma wp_cluster_round:
  fixes s :: "('w, 'st) cstate"
  assumes set: "cluster_setting E C sr key k cm pods svcs" and calm: "cluster_calm E C pods svcs k s"
  shows "wp (cluster_round E C cm) (\<lambda>r t. r = None \<and> cluster_calm E C pods svcs k t \<and> types_stepped E C pods svcs k (kc_Specs k) s t \<and>
     (cluster_rest E C pods svcs k s \<longrightarrow> still pods svcs s t)) s"
proof -
  from set have q: "quiet_server E (kc_Namespace k) pods" "quiet_services E (kc_Namespace k) svcs" "plain_labels E k"
      "leaves_alone (ke_pods E) svcs" "leaves_alone (ke_services E) pods" "distinct (map (\<lambda>x. ToLower (fst x)) (kc_Specs k))"
    by (simp_all add: cluster_setting_def)
  from calm have same: "same_object k (kcl s)" by (simp add: cluster_calm_def)
  show ?thesis
    unfolding cluster_round_def wp_bind wp_get_cluster
  proof (rule wp_GetPodsForCluster [OF q(1,3) same], rule wp_GetServicesForCluster [OF q(2,3) same])
    fix ps w ss w'
    let ?s = "s\<lparr>world := w\<rparr>\<lparr>world := w'\<rparr>"
    assume ps: "distinct ps" "\<And>rt. {p \<in> set ps. ke_SelectorMatches E [(ReplicaTypeLabel, GenReplicaTypeLabel rt)] (om_Labels (pod_Meta p))} =
         {p \<in> ran (objs_now pods s). found E k rt p}"
      and w: "w = snd (cl_List (ke_pods E) (kc_Namespace k) (GenLabels ControllerName (kc_Name k)) (world s))" "pods w = objs_now pods s"
      and ss: "distinct ss" "\<And>rt. {p \<in> set ss. ke_SelectorMatches E [(ReplicaTypeLabel, GenReplicaTypeLabel rt)] (om_Labels (svc_Meta p))} =
         {p \<in> ran (objs_now svcs (s\<lparr>world := w\<rparr>)). found_service E k rt p}"
      and w': "w' = snd (cl_List (ke_services E) (kc_Namespace k) (GenLabels ControllerName (kc_Name k)) (world (s\<lparr>world := w\<rparr>)))"
        "svcs w' = objs_now svcs (s\<lparr>world := w\<rparr>)"
    have now: "objs_now pods ?s = objs_now pods s" "objs_now svcs ?s = objs_now svcs s"
      using w w' q(4,5) by (simp_all add: leaves_alone_def)
    have start: "still pods svcs s ?s" using now by (simp add: still_def)
    have calm': "cluster_calm E C pods svcs k ?s"
      using calm now by (auto simp: cluster_calm_def pods_calm_def services_calm_def calm_def)
    have "wp (go_forE (reconcile_type E C ps ss cm) (kc_Specs k)) (\<lambda>r t. r = None \<and> types_worked E C pods svcs k (kc_Specs k) ?s t) ?s"
      by (rule wp_types [OF set ps(1) ss(1) calm' subset_refl q(6)]) (use ps(2) ss(2) now w(2) w'(2) in \<open>simp add: listed_def\<close>)
    moreover have "kc_Specs (kcl ?s) = kc_Specs k" using same by (simp add: same_object_def)
    moreover have "cluster_calm E C pods svcs k t \<and> types_stepped E C pods svcs k (kc_Specs k) s t \<and> (cluster_rest E C pods svcs k s \<longrightarrow> still pods svcs s t)"
      if "types_worked E C pods svcs k (kc_Specs k) ?s t" for t
      using that still_trans [OF start] unfolding types_worked_def types_stepped_still [OF start] rest_still [OF start] by blast
    ultimately show "wp (reconcile_replicas E C ps ss cm) (\<lambda>r t. r = None \<and> cluster_calm E C pods svcs k t \<and>
        types_stepped E C pods svcs k (kc_Specs k) s t \<and> (cluster_rest E C pods svcs k s \<longrightarrow> still pods svcs s t)) ?s"
      unfolding reconcile_replicas_def wp_bind wp_get_cluster
      by (auto elim!: wp_mono)
  qed
qed

interpretation bare_pods: rounds "bare (pod_view E C pods k rt sp n)" for E C pods k rt sp n
  by unfold_locales (simp add: pod_rounds.new_stays)

interpretation bare_services: rounds "bare (service_view E C svcs k rt n)" for E C svcs k rt n
  by unfold_locales (simp add: service_rounds.new_stays)

lemma cluster_rests:
  fixes s t :: "('w, 'st) cstate"
  assumes many: "(types_stepped E C pods svcs k (kc_Specs k) ^^ m) s t" and m: "2 \<le> m"
    and n: "\<And>rt sp. (rt, Some sp) \<in> set (kc_Specs k) \<Longrightarrow> 1 \<le> wanted sp \<and> M \<le> nat (wanted sp) + m"
    and M: "\<And>rt sp i. (rt, Some sp) \<in> set (kc_Specs k) \<Longrightarrow> objs_now pods s (nth_name k rt i) \<noteq> None \<or> objs_now svcs s (nth_name k rt i) \<noteq> None \<Longrightarrow> i < M"
  shows "cluster_rest E C pods svcs k t"
proof -
  have "at_rest (pod_view E C pods k rt sp (wanted sp)) t \<and> at_rest (service_view E C svcs k rt (wanted sp)) t" if rt: "(rt, Some sp) \<in> set (kc_Specs k)" for rt sp
  proof -
    let ?V = "pod_view E C pods k rt sp (wanted sp) :: (('w, 'st) cstate, Pod, pod_op) view"
    let ?W = "service_view E C svcs k rt (wanted sp) :: (('w, 'st) cstate, Service, svc_op) view"
    have "(one_round (bare ?V) ^^ m) s t" "(one_round (bare ?W) ^^ m) s t"
      by (rule relpowp_mono [OF _ many], use rt in \<open>fastforce simp: types_stepped_def\<close>)+
    moreover have "within (bare ?V) M s" "within (bare ?W) M s" using M [OF rt] by (auto simp: within_def pod_view_def service_view_def)
    moreover have "v_want (bare ?V) = wanted sp" "v_want (bare ?W) = wanted sp" by (simp_all add: pod_view_def service_view_def)
    ultimately show ?thesis
      using bare_pods.rest_after [of m E C pods k rt sp "wanted sp" s t M] bare_services.rest_after [of m E C svcs k rt "wanted sp" s t M] n [OF rt] m by simp
  qed
  with n show ?thesis by (auto simp: cluster_rest_def)
qed


text \<open>C3: A whole cluster comes to rest. On a server that carries out every call at once, where nobody else changes pods and services and calls for pods leave services
  alone and the other way round, every replica type of the cluster asks for at least one replica, and the names of the types differ beyond upper and lower case. At
  first the objects found for a type are the ones with the names of its indices, all of them under \<open>M\<close>. The lists are taken and the loop over the replica
  types is run \<open>m\<close> times, with \<open>m \<ge> 2\<close> and \<open>m \<ge> M - n\<close> for every number \<open>n\<close> of replicas. No round returns an error or panics; after them every type
  has a pod and a service exactly for each of its indices and no pod that its restart policy restarts, and however many rounds follow, they
  return no error, create and delete no pod and no service, and leave all of them as they are.\<close>

theorem cluster_converges:
  fixes C :: "'st ClusterController" and s :: "('w, 'st) cstate"
  assumes set: "cluster_setting E C sr key k cm pods svcs" and calm: "cluster_calm E C pods svcs k s" and m: "2 \<le> m"
    and n: "\<forall>(rt, sp) \<in> set (kc_Specs k). 1 \<le> wanted (the sp) \<and> M \<le> nat (wanted (the sp)) + m"
    and M: "\<forall>(rt, sp) \<in> set (kc_Specs k). \<forall>i. objs_now pods s (nth_name k rt i) \<noteq> None \<or> objs_now svcs s (nth_name k rt i) \<noteq> None \<longrightarrow> i < M"
  shows "wp (repeat_round m (cluster_round E C cm)) (\<lambda>r t. r = None \<and>
     (\<forall>(rt, sp) \<in> set (kc_Specs k). \<forall>i. (objs_now pods t (nth_name k rt i) \<noteq> None \<longleftrightarrow> int i < wanted (the sp)) \<and>
        (objs_now svcs t (nth_name k rt i) \<noteq> None \<longleftrightarrow> int i < wanted (the sp)) \<and>
        (\<forall>p. objs_now pods t (nth_name k rt i) = Some p \<longrightarrow> \<not> restarted (the sp) p)) \<and>
     (\<forall>more. wp (repeat_round more (cluster_round E C cm)) (\<lambda>r u. r = None \<and> still pods svcs t u) t)) s"
proof -
  let ?calm = "cluster_calm E C pods svcs k" and ?rest = "cluster_rest E C pods svcs k" and ?R = "\<lambda>s t. types_stepped E C pods svcs k (kc_Specs k) s t"
  have round: "wp (cluster_round E C cm) (\<lambda>r v. r = None \<and> ?calm v \<and> ?R u v) u" if "?calm u" for u :: "('w, 'st) cstate"
    by (rule wp_mono [OF wp_cluster_round [OF set that]]) simp
  have step: "wp (cluster_round E C cm) (\<lambda>r v. r = None \<and> (?calm v \<and> ?rest v) \<and> still pods svcs u v) u" if "?calm u \<and> ?rest u" for u :: "('w, 'st) cstate"
    by (rule wp_mono [OF wp_cluster_round [OF set]]) (use that rest_still in blast)+
  have stays: "still pods svcs u v" if "(still pods svcs ^^ more) u v" for more and u v :: "('w, 'st) cstate"
    using that by (induction more arbitrary: v) (auto simp: still_def)
  show ?thesis
  proof (rule wp_mono [OF wp_repeat [where calm = ?calm and R = ?R, OF round calm]], assumption, elim conjE, intro conjI)
    fix r and t :: "('w, 'st) cstate"
    assume r: "r = None" and calm_t: "?calm t" and many: "(?R ^^ m) s t"
    show "r = None" by fact
    from cluster_rests [OF many m] n M have rest: "?rest t" by fastforce
    show "\<forall>(rt, sp) \<in> set (kc_Specs k). \<forall>i. (objs_now pods t (nth_name k rt i) \<noteq> None \<longleftrightarrow> int i < wanted (the sp)) \<and>
        (objs_now svcs t (nth_name k rt i) \<noteq> None \<longleftrightarrow> int i < wanted (the sp)) \<and> (\<forall>p. objs_now pods t (nth_name k rt i) = Some p \<longrightarrow> \<not> restarted (the sp) p)"
    proof (clarify)
      fix rt x i
      assume x: "(rt, x) \<in> set (kc_Specs k)"
      from set x obtain sp where sp: "x = Some sp" by (rule setting_type)
      with rest x have "at_rest (pod_view E C pods k rt sp (wanted sp)) t" "at_rest (service_view E C svcs k rt (wanted sp)) t" by (auto simp: cluster_rest_def)
      from this [unfolded at_rest_def, THEN spec [of _ i]] sp
      show "(objs_now pods t (nth_name k rt i) \<noteq> None \<longleftrightarrow> int i < wanted (the x)) \<and> (objs_now svcs t (nth_name k rt i) \<noteq> None \<longleftrightarrow> int i < wanted (the x)) \<and>
          (\<forall>p. objs_now pods t (nth_name k rt i) = Some p \<longrightarrow> \<not> restarted (the x) p)"
        by (auto simp: settled_def pod_view_def service_view_def split: if_splits)
    qed
    show "\<forall>more. wp (repeat_round more (cluster_round E C cm)) (\<lambda>r u. r = None \<and> still pods svcs t u) t"
      by (intro allI, rule wp_mono [OF wp_repeat [where calm = "\<lambda>u. ?calm u \<and> ?rest u", OF step]]) (use calm_t rest stays in auto)
  qed
qed

lemma quiet_cluster_setting:
  "cluster_setting quiet_env sample_controller PbsProSchema ''ns/demo'' (sample_cluster ''pbspro'') sample_pbs_cm kept_pods kept_services"
proof -
  let ?k = "sample_cluster ''pbspro''"
  have specs: "kc_Specs ?k = [(''Controller'', Some (sample_replica 1)), (''Worker'', Some (sample_replica 2))]" by (simp add: sample_cluster_def)
  have "leaves_alone (ke_pods quiet_env) kept_services" "leaves_alone (ke_services quiet_env) kept_pods"
    by (simp_all add: leaves_alone_def quiet_env_def kept_client_def kept_objs_def Let_def fun_eq_iff)
  moreover have "ToLower ''Controller'' = ''controller'' \<and> ToLower ''Worker'' = ''worker''" by code_simp
  moreover have "kept_services (snd (ke_Now quiet_env w)) = kept_services w" for w by (simp add: quiet_env_def sample_env_def)
  moreover have "\<exists>sp n. Some (sample_replica n') = Some sp \<and> setting quiet_env sample_controller PbsProSchema ''ns/demo'' ?k rt sp sample_pbs_cm kept_pods n \<and>
      service_setting quiet_env sample_controller PbsProSchema ''ns/demo'' ?k sp kept_services n" if "n' = 1 \<or> n' = 2" for rt n'
    using that by (intro exI [of _ "sample_replica n'"] exI [of _ n']) (auto intro!: quiet_setting quiet_service_setting)
  moreover have "quiet_server quiet_env (kc_Namespace ?k) kept_pods" "quiet_services quiet_env (kc_Namespace ?k) kept_services" "plain_labels quiet_env ?k"
    using quiet_setting [of 1] quiet_service_setting [of 1] by (simp_all add: setting_def service_setting_def)
  ultimately show ?thesis
    unfolding cluster_setting_def specs by simp
qed

lemma cluster_converges_witness:
  "wp (repeat_round 2 (cluster_round quiet_env sample_controller sample_pbs_cm))
     (\<lambda>r t. r = None \<and> (\<forall>i. objs_now kept_pods t (nth_name (sample_cluster ''pbspro'') ''Controller'' i) \<noteq> None \<longleftrightarrow> i < 1) \<and>
        (\<forall>i. objs_now kept_services t (nth_name (sample_cluster ''pbspro'') ''Worker'' i) \<noteq> None \<longleftrightarrow> i < 2))
     (sample_state empty_world (sample_cluster ''pbspro''))"
proof -
  let ?k = "sample_cluster ''pbspro''" and ?s = "sample_state empty_world (sample_cluster ''pbspro'')"
  have specs: "kc_Specs ?k = [(''Controller'', Some (sample_replica 1)), (''Worker'', Some (sample_replica 2))]" by (simp add: sample_cluster_def)
  have calm: "cluster_calm quiet_env sample_controller kept_pods kept_services ?k ?s"
    using quiet_start(1) quiet_service_start(1) by (auto simp: cluster_calm_def pods_calm_def calm_def)
  have none: "objs_now kept_pods ?s (nth_name ?k rt i) = None" for rt i using quiet_start(2) by (simp add: pod_at_def)
  have want: "wanted (sample_replica 1) = 1" "wanted (sample_replica 2) = 2" by (simp_all add: wanted_def sample_replica_def)
  show ?thesis
    by (rule wp_mono [OF cluster_converges [where M = 0, OF quiet_cluster_setting calm]]) (auto simp: specs want none quiet_service_start(2))
qed

end
