(* ===== verification/InitContainers.thy ===== *)
theory InitContainers
  imports Schema
begin

text \<open>
  The generators of init containers, \<open>slurm_schema/initcontainer.go\<close> and \<open>pbspro_schema/initcontainer.go\<close>: each package keeps one, made on first use under a
  \<open>sync.Once\<close>. The controller's fields \<open>cc_slurm_icGenerator\<close> and \<open>cc_pbs_icGenerator\<close> stand for the generators that this theory makes.
\<close>

section \<open>One generator per package\<close>

text \<open>The variables of a package: \<open>onceInitContainer\<close>, which has run or not, and \<open>icGenerator\<close>, nil at first.\<close>

record package_state =
  pk_once :: bool
  pk_icGenerator :: "initContainerGenerator option"

definition initial_package :: package_state where
  "initial_package = \<lparr>pk_once = False, pk_icGenerator = None\<rparr>"

text \<open>\<open>Once.Do\<close> runs its argument on the first call only.\<close>

definition Once_Do :: "(package_state, unit) go \<Rightarrow> (package_state, unit) go" where
  "Once_Do f = go_bind (go_gets pk_once) (\<lambda>ran. if ran then go_return () else go_seq f (go_modify (\<lambda>s. s\<lparr>pk_once := True\<rparr>)))"

text \<open>\<open>config\<close> is a variable of the package that the flags write: it is the one of the moment of the call.\<close>

definition slurm_getInitContainerGenerator :: "(string \<Rightarrow> gerr + string) \<Rightarrow> schema_config \<Rightarrow> (package_state, initContainerGenerator option) go" where
  "slurm_getInitContainerGenerator readFile config =
     go_seq (Once_Do (go_modify (\<lambda>s. s\<lparr>pk_icGenerator := Some \<lparr>
       icg_template = getInitContainerTemplateOrDefault readFile slurm_initContainerTemplate (scf_TemplateFile config),
       icg_image = scf_Image config, icg_maxTries = scf_MaxTries config\<rparr>\<rparr>))) (go_gets pk_icGenerator)"

definition pbs_getInitContainerTemplateOrDefault :: "(string \<Rightarrow> gerr + string) \<Rightarrow> string \<Rightarrow> string" where
  "pbs_getInitContainerTemplateOrDefault readFile file = (case readFile file of Inr b \<Rightarrow> b | Inl err \<Rightarrow> pbs_initContainerTemplate)"

definition pbs_getInitContainerGenerator :: "(string \<Rightarrow> gerr + string) \<Rightarrow> schema_config \<Rightarrow> (package_state, initContainerGenerator option) go" where
  "pbs_getInitContainerGenerator readFile config =
     go_seq (Once_Do (go_modify (\<lambda>s. s\<lparr>pk_icGenerator := Some \<lparr>
       icg_template = pbs_getInitContainerTemplateOrDefault readFile (scf_TemplateFile config),
       icg_image = scf_Image config, icg_maxTries = scf_MaxTries config\<rparr>\<rparr>))) (go_gets pk_icGenerator)"

definition pbs_GetInitContainer :: "'w kenv \<Rightarrow> initContainerGenerator \<Rightarrow> string \<Rightarrow> gerr + Container list" where
  "pbs_GetInitContainer E i masterAddr =
     (case ke_InitContainer E (icg_template i) masterAddr (icg_image i) (icg_maxTries i) of
        Inl err \<Rightarrow> Inl err
      | Inr result \<Rightarrow> Inr (if length result > 1 then take 1 result else result))"

section \<open>The first configuration stays\<close>

text \<open>The contract both generators keep: what the first call makes is what every call returns, whatever the flags and the template file say later.\<close>

locale once_generator =
  fixes get :: "(string \<Rightarrow> gerr + string) \<Rightarrow> schema_config \<Rightarrow> (package_state, initContainerGenerator option) go"
    and make :: "(string \<Rightarrow> gerr + string) \<Rightarrow> schema_config \<Rightarrow> initContainerGenerator"
  assumes first: "get readFile config initial_package = Ret (Some (make readFile config)) \<lparr>pk_once = True, pk_icGenerator = Some (make readFile config)\<rparr>"
    and later: "get readFile config \<lparr>pk_once = True, pk_icGenerator = g\<rparr> = Ret g \<lparr>pk_once = True, pk_icGenerator = g\<rparr>"
begin

text \<open>The calls made so far, each with what it saw of the files and the flags, and what each returned.\<close>

primrec results :: "((string \<Rightarrow> gerr + string) \<times> schema_config) list \<Rightarrow> (package_state, initContainerGenerator option list) go" where
  "results [] = go_return []"
| "results (x # xs) = go_bind (get (fst x) (snd x)) (\<lambda>g. go_bind (results xs) (\<lambda>gs. go_return (g # gs)))"

lemma results_later: "results xs \<lparr>pk_once = True, pk_icGenerator = g\<rparr> = Ret (replicate (length xs) g) \<lparr>pk_once = True, pk_icGenerator = g\<rparr>"
  by (induction xs) (simp_all add: go_run later)

lemma results_same:
  "\<exists>t. results (x # xs) initial_package = Ret (replicate (Suc (length xs)) (Some (make (fst x) (snd x)))) t"
  by (simp add: go_run first results_later)

end

interpretation slurm_generator: once_generator slurm_getInitContainerGenerator "\<lambda>readFile. getInitContainerGenerator readFile slurm_initContainerTemplate"
  by unfold_locales (simp_all add: slurm_getInitContainerGenerator_def getInitContainerGenerator_def Once_Do_def initial_package_def go_run)

interpretation pbs_generator: once_generator pbs_getInitContainerGenerator "\<lambda>readFile. getInitContainerGenerator readFile pbs_initContainerTemplate"
  by unfold_locales (simp_all add: pbs_getInitContainerGenerator_def getInitContainerGenerator_def pbs_getInitContainerTemplateOrDefault_def
    getInitContainerTemplateOrDefault_def Once_Do_def initial_package_def go_run)

text \<open>Both packages make the same containers out of the same generator, at most one each.\<close>

lemma pbs_GetInitContainer_same: "pbs_GetInitContainer = GetInitContainer"
  by (intro ext) (simp add: pbs_GetInitContainer_def GetInitContainer_def)

lemma GetInitContainer_one: "pbs_GetInitContainer E g addr = Inr cs \<Longrightarrow> length cs \<le> 1"
  by (auto simp: pbs_GetInitContainer_def split: sum.splits if_splits)

end
