(* ===== verification/Clients.thy ===== *)
theory Clients
  imports GoStrings ApiTypes
begin

text \<open>
  The clients of the custom resource: \<open>pkg/client/clientset/versioned\<close> (the typed client, the set of clients and its fake), the listers of
  \<open>pkg/client/listers\<close>, and the client for unstructured objects of \<open>pkg/util/k8sutil/client.go\<close>.

  The REST client of client-go is a parameter. A request is kept as it is built: its HTTP method and the calls made on it, with their arguments. In
  the same way an action of the fake is the call that makes it. Options, list metadata and contents of unstructured objects that this code only passes on are
  values of a type variable.
\<close>

section \<open>Requests\<close>

record 'o ListOptions =
  lo_TimeoutSeconds :: "int64 option"
  lo_Watch :: bool
  lo_other :: 'o

record 'o Unstructured =
  us_Namespace :: string
  us_Name :: string
  us_Kind :: string
  us_UID :: string
  us_Content :: 'o

record 'o KubeClusterList =
  li_ListMeta :: 'o
  li_Items :: "KubeCluster list"

datatype http_method = GET | POST | PUT | DELETE | PATCH string

datatype 'o params = Options 'o | ListParams "'o ListOptions"

datatype 'o body = ClusterBody KubeCluster | OptionsBody 'o | DataBody string | UnstructuredBody "'o Unstructured"

datatype 'o build = Namespace string | Resource string | Name string | SubResource "string list"
  | VersionedParams "'o params" | Timeout int64 | Body "'o body"

type_synonym 'o request = "http_method \<times> 'o build list"

text \<open>What \<open>Do(ctx).Into(result)\<close> makes of the object it is given, \<open>Do(ctx).Error()\<close>, \<open>DoRaw\<close> and \<open>Watch(ctx)\<close>. The last field is the zero value of list metadata.\<close>

record ('w, 'o, 'x) rest =
  rs_IntoCluster :: "'o request \<Rightarrow> KubeCluster \<Rightarrow> 'w \<Rightarrow> (KubeCluster \<times> gerr option) \<times> 'w"
  rs_IntoList :: "'o request \<Rightarrow> 'o KubeClusterList \<Rightarrow> 'w \<Rightarrow> ('o KubeClusterList \<times> gerr option) \<times> 'w"
  rs_Error :: "'o request \<Rightarrow> 'w \<Rightarrow> gerr option \<times> 'w"
  rs_DoRaw :: "'o request \<Rightarrow> 'w \<Rightarrow> gerr option \<times> 'w"
  rs_Watch :: "'o request \<Rightarrow> 'w \<Rightarrow> (gerr + 'x) \<times> 'w"
  rs_zero :: 'o

definition outside :: "('w \<Rightarrow> 'a \<times> 'w) \<Rightarrow> ('w, 'a) go" where
  "outside f = (\<lambda>w. case f w of (r, w') \<Rightarrow> Ret r w')"

definition zero_KubeCluster :: KubeCluster where
  "zero_KubeCluster = \<lparr>kc_Meta = empty_meta, kc_Spec = \<lparr>s_ClusterType = [], s_ClusterReplicaSpec = [], s_MainContainer = [],
     s_RunPolicy = empty_run_policy\<rparr>, kc_Status = empty_status\<rparr>"

section \<open>typed/kubecluster.org/v1alpha1/kubecluster.go\<close>

text \<open>The list options' timeout as a duration: the product of two 64-bit integers.\<close>

definition list_timeout :: "'o ListOptions \<Rightarrow> int64" where
  "list_timeout opts = (case lo_TimeoutSeconds opts of None \<Rightarrow> 0 | Some s \<Rightarrow> s * 1000000000)"

record ('w, 'o, 'x) kubeClusters =
  kcs_client :: "('w, 'o, 'x) rest"
  kcs_ns :: string

definition kubeClusters_Get :: "('w, 'o, 'x) kubeClusters \<Rightarrow> string \<Rightarrow> 'o \<Rightarrow> ('w, KubeCluster \<times> gerr option) go" where
  "kubeClusters_Get c name options = outside (rs_IntoCluster (kcs_client c)
     (GET, [Namespace (kcs_ns c), Resource ''kubeclusters'', Name name, VersionedParams (Options options)]) zero_KubeCluster)"

definition kubeClusters_List :: "('w, 'o, 'x) kubeClusters \<Rightarrow> 'o ListOptions \<Rightarrow> ('w, 'o KubeClusterList \<times> gerr option) go" where
  "kubeClusters_List c opts = outside (rs_IntoList (kcs_client c)
     (GET, [Namespace (kcs_ns c), Resource ''kubeclusters'', VersionedParams (ListParams opts), Timeout (list_timeout opts)])
     \<lparr>li_ListMeta = rs_zero (kcs_client c), li_Items = []\<rparr>)"

definition kubeClusters_Watch :: "('w, 'o, 'x) kubeClusters \<Rightarrow> 'o ListOptions \<Rightarrow> ('w, gerr + 'x) go" where
  "kubeClusters_Watch c opts = outside (rs_Watch (kcs_client c)
     (GET, [Namespace (kcs_ns c), Resource ''kubeclusters'', VersionedParams (ListParams (opts\<lparr>lo_Watch := True\<rparr>)), Timeout (list_timeout opts)]))"

definition kubeClusters_Create :: "('w, 'o, 'x) kubeClusters \<Rightarrow> KubeCluster \<Rightarrow> 'o \<Rightarrow> ('w, KubeCluster \<times> gerr option) go" where
  "kubeClusters_Create c kubeCluster opts = outside (rs_IntoCluster (kcs_client c)
     (POST, [Namespace (kcs_ns c), Resource ''kubeclusters'', VersionedParams (Options opts), Body (ClusterBody kubeCluster)]) zero_KubeCluster)"

definition kubeClusters_Update :: "('w, 'o, 'x) kubeClusters \<Rightarrow> KubeCluster \<Rightarrow> 'o \<Rightarrow> ('w, KubeCluster \<times> gerr option) go" where
  "kubeClusters_Update c kubeCluster opts = outside (rs_IntoCluster (kcs_client c)
     (PUT, [Namespace (kcs_ns c), Resource ''kubeclusters'', Name (kc_Name kubeCluster), VersionedParams (Options opts), Body (ClusterBody kubeCluster)])
     zero_KubeCluster)"

definition kubeClusters_UpdateStatus :: "('w, 'o, 'x) kubeClusters \<Rightarrow> KubeCluster \<Rightarrow> 'o \<Rightarrow> ('w, KubeCluster \<times> gerr option) go" where
  "kubeClusters_UpdateStatus c kubeCluster opts = outside (rs_IntoCluster (kcs_client c)
     (PUT, [Namespace (kcs_ns c), Resource ''kubeclusters'', Name (kc_Name kubeCluster), SubResource [''status''], VersionedParams (Options opts),
       Body (ClusterBody kubeCluster)]) zero_KubeCluster)"

definition kubeClusters_Delete :: "('w, 'o, 'x) kubeClusters \<Rightarrow> string \<Rightarrow> 'o \<Rightarrow> ('w, gerr option) go" where
  "kubeClusters_Delete c name opts = outside (rs_Error (kcs_client c)
     (DELETE, [Namespace (kcs_ns c), Resource ''kubeclusters'', Name name, Body (OptionsBody opts)]))"

definition kubeClusters_DeleteCollection :: "('w, 'o, 'x) kubeClusters \<Rightarrow> 'o \<Rightarrow> 'o ListOptions \<Rightarrow> ('w, gerr option) go" where
  "kubeClusters_DeleteCollection c opts listOpts = outside (rs_Error (kcs_client c)
     (DELETE, [Namespace (kcs_ns c), Resource ''kubeclusters'', VersionedParams (ListParams listOpts), Timeout (list_timeout listOpts), Body (OptionsBody opts)]))"

definition kubeClusters_Patch ::
  "('w, 'o, 'x) kubeClusters \<Rightarrow> string \<Rightarrow> string \<Rightarrow> string \<Rightarrow> 'o \<Rightarrow> string list \<Rightarrow> ('w, KubeCluster \<times> gerr option) go" where
  "kubeClusters_Patch c name pt data opts subresources = outside (rs_IntoCluster (kcs_client c)
     (PATCH pt, [Namespace (kcs_ns c), Resource ''kubeclusters'', Name name, SubResource subresources, VersionedParams (Options opts), Body (DataBody data)])
     zero_KubeCluster)"

section \<open>The fake: typed/kubecluster.org/v1alpha1/fake/fake_kubecluster.go\<close>

type_synonym gvr = "string \<times> string \<times> string"

definition SchemeGroupVersion :: "string \<times> string" where
  "SchemeGroupVersion = (''kubecluster.org'', ''v1alpha1'')"

definition kubeclustersResource :: gvr where
  "kubeclustersResource = (fst SchemeGroupVersion, snd SchemeGroupVersion, ''kubeclusters'')"

definition kubeclustersKind :: gvr where
  "kubeclustersKind = (fst SchemeGroupVersion, snd SchemeGroupVersion, ''KubeCluster'')"

datatype 'o action = GetAction gvr string string | ListAction gvr gvr string "'o ListOptions" | WatchAction gvr string "'o ListOptions"
  | CreateAction gvr string KubeCluster | UpdateAction gvr string KubeCluster | UpdateSubresourceAction gvr string string KubeCluster
  | DeleteAction gvr string string 'o | DeleteCollectionAction gvr string "'o ListOptions"
  | PatchSubresourceAction gvr string string string string "string list"

text \<open>Objects behind \<open>runtime.Object\<close>: clusters, lists of clusters, and objects of other types.\<close>

datatype 'o robject = RCluster KubeCluster | RList "'o KubeClusterList" | ROther

text \<open>\<open>testing.Fake\<close>, and what is used of label selectors: \<open>ExtractFromListOptions\<close> and \<open>labels.Everything\<close>.\<close>

record ('w, 'o, 'x) fake =
  fk_Invokes :: "'o action \<Rightarrow> 'o robject \<Rightarrow> 'w \<Rightarrow> ('o robject option \<times> gerr option) \<times> 'w"
  fk_InvokesWatch :: "'o action \<Rightarrow> 'w \<Rightarrow> (gerr + 'x) \<times> 'w"
  fk_label :: "'o ListOptions \<Rightarrow> (smap \<Rightarrow> bool) option"
  fk_Everything :: "smap \<Rightarrow> bool"
  fk_zero :: 'o

record ('w, 'o, 'x) FakeKubeClusters =
  fkc_Fake :: "('w, 'o, 'x) fake"
  fkc_ns :: string

text \<open>\<open>if obj == nil { return nil, err }; return obj.(*v1alpha1.KubeCluster), err\<close>: the assertion panics on other types.\<close>

definition as_cluster :: "'o robject option \<times> gerr option \<Rightarrow> ('w, KubeCluster option \<times> gerr option) go" where
  "as_cluster r = (case r of (None, err) \<Rightarrow> go_return (None, err)
     | (Some (RCluster k), err) \<Rightarrow> go_return (Some k, err)
     | (Some _, err) \<Rightarrow> go_panic ''interface conversion'')"

definition FakeKubeClusters_Get :: "('w, 'o, 'x) FakeKubeClusters \<Rightarrow> string \<Rightarrow> 'o \<Rightarrow> ('w, KubeCluster option \<times> gerr option) go" where
  "FakeKubeClusters_Get c name options =
     go_bind (outside (fk_Invokes (fkc_Fake c) (GetAction kubeclustersResource (fkc_ns c) name) (RCluster zero_KubeCluster))) as_cluster"

definition FakeKubeClusters_List :: "('w, 'o, 'x) FakeKubeClusters \<Rightarrow> 'o ListOptions \<Rightarrow> ('w, 'o KubeClusterList option \<times> gerr option) go" where
  "FakeKubeClusters_List c opts =
     go_bind (outside (fk_Invokes (fkc_Fake c) (ListAction kubeclustersResource kubeclustersKind (fkc_ns c) opts)
       (RList \<lparr>li_ListMeta = fk_zero (fkc_Fake c), li_Items = []\<rparr>))) (\<lambda>(obj, err).
     case obj of
       None \<Rightarrow> go_return (None, err)
     | Some (RList l) \<Rightarrow>
         let label = (case fk_label (fkc_Fake c) opts of None \<Rightarrow> fk_Everything (fkc_Fake c) | Some s \<Rightarrow> s) in
         go_return (Some \<lparr>li_ListMeta = li_ListMeta l, li_Items = filter (\<lambda>item. label (om_Labels (kc_Meta item))) (li_Items l)\<rparr>, err)
     | Some _ \<Rightarrow> go_panic ''interface conversion'')"

definition FakeKubeClusters_Watch :: "('w, 'o, 'x) FakeKubeClusters \<Rightarrow> 'o ListOptions \<Rightarrow> ('w, gerr + 'x) go" where
  "FakeKubeClusters_Watch c opts = outside (fk_InvokesWatch (fkc_Fake c) (WatchAction kubeclustersResource (fkc_ns c) opts))"

definition FakeKubeClusters_Create :: "('w, 'o, 'x) FakeKubeClusters \<Rightarrow> KubeCluster \<Rightarrow> 'o \<Rightarrow> ('w, KubeCluster option \<times> gerr option) go" where
  "FakeKubeClusters_Create c kubeCluster opts =
     go_bind (outside (fk_Invokes (fkc_Fake c) (CreateAction kubeclustersResource (fkc_ns c) kubeCluster) (RCluster zero_KubeCluster))) as_cluster"

definition FakeKubeClusters_Update :: "('w, 'o, 'x) FakeKubeClusters \<Rightarrow> KubeCluster \<Rightarrow> 'o \<Rightarrow> ('w, KubeCluster option \<times> gerr option) go" where
  "FakeKubeClusters_Update c kubeCluster opts =
     go_bind (outside (fk_Invokes (fkc_Fake c) (UpdateAction kubeclustersResource (fkc_ns c) kubeCluster) (RCluster zero_KubeCluster))) as_cluster"

definition FakeKubeClusters_UpdateStatus :: "('w, 'o, 'x) FakeKubeClusters \<Rightarrow> KubeCluster \<Rightarrow> 'o \<Rightarrow> ('w, KubeCluster option \<times> gerr option) go" where
  "FakeKubeClusters_UpdateStatus c kubeCluster opts =
     go_bind (outside (fk_Invokes (fkc_Fake c) (UpdateSubresourceAction kubeclustersResource ''status'' (fkc_ns c) kubeCluster) (RCluster zero_KubeCluster))) as_cluster"

definition FakeKubeClusters_Delete :: "('w, 'o, 'x) FakeKubeClusters \<Rightarrow> string \<Rightarrow> 'o \<Rightarrow> ('w, gerr option) go" where
  "FakeKubeClusters_Delete c name opts =
     go_bind (outside (fk_Invokes (fkc_Fake c) (DeleteAction kubeclustersResource (fkc_ns c) name opts) (RCluster zero_KubeCluster))) (\<lambda>(_, err). go_return err)"

definition FakeKubeClusters_DeleteCollection :: "('w, 'o, 'x) FakeKubeClusters \<Rightarrow> 'o \<Rightarrow> 'o ListOptions \<Rightarrow> ('w, gerr option) go" where
  "FakeKubeClusters_DeleteCollection c opts listOpts =
     go_bind (outside (fk_Invokes (fkc_Fake c) (DeleteCollectionAction kubeclustersResource (fkc_ns c) listOpts)
       (RList \<lparr>li_ListMeta = fk_zero (fkc_Fake c), li_Items = []\<rparr>))) (\<lambda>(_, err). go_return err)"

definition FakeKubeClusters_Patch ::
  "('w, 'o, 'x) FakeKubeClusters \<Rightarrow> string \<Rightarrow> string \<Rightarrow> string \<Rightarrow> 'o \<Rightarrow> string list \<Rightarrow> ('w, KubeCluster option \<times> gerr option) go" where
  "FakeKubeClusters_Patch c name pt data opts subresources =
     go_bind (outside (fk_Invokes (fkc_Fake c) (PatchSubresourceAction kubeclustersResource (fkc_ns c) name pt data subresources) (RCluster zero_KubeCluster))) as_cluster"

section \<open>k8sutil/client.go: unstructured objects\<close>

definition plural_unset :: gerr where "plural_unset = PlainErr ''plural must be set''"

definition CRD_Update :: "('w, 'o, 'x) rest \<Rightarrow> 'o Unstructured \<Rightarrow> string \<Rightarrow> ('w, gerr option) go" where
  "CRD_Update c obj plural =
     (if plural = [] then go_return (Some plural_unset)
      else outside (rs_DoRaw c (PUT, [Resource plural, Namespace (us_Namespace obj), Name (us_Name obj), Body (UnstructuredBody obj)])))"

definition CRD_UpdateStatus :: "('w, 'o, 'x) rest \<Rightarrow> 'o Unstructured \<Rightarrow> string \<Rightarrow> ('w, gerr option) go" where
  "CRD_UpdateStatus c obj plural =
     (if plural = [] then go_return (Some plural_unset)
      else outside (rs_DoRaw c (PUT, [Resource plural, Namespace (us_Namespace obj), Name (us_Name obj), SubResource [''status''], Body (UnstructuredBody obj)])))"

section \<open>What the server sees\<close>

text \<open>An access as the API server and its authorisation name it: a verb, a resource, and the object or patch sent.\<close>

record access =
  ac_Verb :: string
  ac_Resource :: gvr
  ac_Namespace :: string
  ac_Name :: "string option"
  ac_Subresources :: "string list"
  ac_Object :: "KubeCluster option"
  ac_Patch :: "(string \<times> string) option"

text \<open>Reading a request: the last call of a kind counts. A \<open>GET\<close> without a name lists, or watches if its parameters say so; a \<open>DELETE\<close> without a name
  deletes a collection. The group and version are those of the REST client.\<close>

fun built :: "('o build \<Rightarrow> 'a option) \<Rightarrow> 'o build list \<Rightarrow> 'a option" where
  "built f [] = None"
| "built f (b # bs) = (case built f bs of None \<Rightarrow> f b | Some a \<Rightarrow> Some a)"

definition request_verb :: "http_method \<Rightarrow> bool \<Rightarrow> bool \<Rightarrow> string" where
  "request_verb m named watch = (case m of
     GET \<Rightarrow> if named then ''get'' else if watch then ''watch'' else ''list''
   | POST \<Rightarrow> ''create'' | PUT \<Rightarrow> ''update'' | DELETE \<Rightarrow> if named then ''delete'' else ''deletecollection'' | PATCH _ \<Rightarrow> ''patch'')"

definition request_access :: "string \<times> string \<Rightarrow> 'o request \<Rightarrow> access" where
  "request_access gv r = (case r of (m, bs) \<Rightarrow>
     let named = built (\<lambda>b. case b of Name n \<Rightarrow> Some n | _ \<Rightarrow> None) bs;
         body = built (\<lambda>b. case b of Body x \<Rightarrow> Some x | _ \<Rightarrow> None) bs;
         watch = built (\<lambda>b. case b of VersionedParams (ListParams l) \<Rightarrow> Some (lo_Watch l) | _ \<Rightarrow> None) bs in
     \<lparr> ac_Verb = request_verb m (named \<noteq> None) (watch = Some True),
       ac_Resource = (fst gv, snd gv, case built (\<lambda>b. case b of Resource x \<Rightarrow> Some x | _ \<Rightarrow> None) bs of None \<Rightarrow> [] | Some x \<Rightarrow> x),
       ac_Namespace = (case built (\<lambda>b. case b of Namespace x \<Rightarrow> Some x | _ \<Rightarrow> None) bs of None \<Rightarrow> [] | Some x \<Rightarrow> x),
       ac_Name = named,
       ac_Subresources = (case built (\<lambda>b. case b of SubResource x \<Rightarrow> Some x | _ \<Rightarrow> None) bs of None \<Rightarrow> [] | Some x \<Rightarrow> x),
       ac_Object = (case body of Some (ClusterBody k) \<Rightarrow> Some k | _ \<Rightarrow> None),
       ac_Patch = (case (m, body) of (PATCH pt, Some (DataBody d)) \<Rightarrow> Some (pt, d) | _ \<Rightarrow> None) \<rparr>)"

definition plain_access :: "string \<Rightarrow> gvr \<Rightarrow> string \<Rightarrow> access" where
  "plain_access verb res ns = \<lparr>ac_Verb = verb, ac_Resource = res, ac_Namespace = ns, ac_Name = None, ac_Subresources = [], ac_Object = None, ac_Patch = None\<rparr>"

text \<open>Reading an action of the fake; the name of an updated object is the one in its metadata.\<close>

fun action_access :: "'o action \<Rightarrow> access" where
  "action_access (GetAction res ns name) = (plain_access ''get'' res ns)\<lparr>ac_Name := Some name\<rparr>"
| "action_access (ListAction res kind ns opts) = plain_access ''list'' res ns"
| "action_access (WatchAction res ns opts) = plain_access ''watch'' res ns"
| "action_access (CreateAction res ns k) = (plain_access ''create'' res ns)\<lparr>ac_Object := Some k\<rparr>"
| "action_access (UpdateAction res ns k) = (plain_access ''update'' res ns)\<lparr>ac_Name := Some (kc_Name k), ac_Object := Some k\<rparr>"
| "action_access (UpdateSubresourceAction res sub ns k) =
     (plain_access ''update'' res ns)\<lparr>ac_Name := Some (kc_Name k), ac_Subresources := [sub], ac_Object := Some k\<rparr>"
| "action_access (DeleteAction res ns name opts) = (plain_access ''delete'' res ns)\<lparr>ac_Name := Some name\<rparr>"
| "action_access (DeleteCollectionAction res ns opts) = plain_access ''deletecollection'' res ns"
| "action_access (PatchSubresourceAction res ns name pt data subs) =
     (plain_access ''patch'' res ns)\<lparr>ac_Name := Some name, ac_Subresources := subs, ac_Patch := Some (pt, data)\<rparr>"

text \<open>A REST client, and a fake, that note what they are asked and answer whatever they like.\<close>

definition rest_notes :: "('o request list, 'o, 'x) rest \<Rightarrow> bool" where
  "rest_notes R \<longleftrightarrow> (\<forall>r k w. snd (rs_IntoCluster R r k w) = w @ [r]) \<and> (\<forall>r l w. snd (rs_IntoList R r l w) = w @ [r]) \<and>
     (\<forall>r w. snd (rs_Error R r w) = w @ [r]) \<and> (\<forall>r w. snd (rs_DoRaw R r w) = w @ [r]) \<and> (\<forall>r w. snd (rs_Watch R r w) = w @ [r])"

definition fake_notes :: "('o action list, 'o, 'x) fake \<Rightarrow> bool" where
  "fake_notes F \<longleftrightarrow> (\<forall>a x w. snd (fk_Invokes F a x w) = w @ [a]) \<and> (\<forall>a w. snd (fk_InvokesWatch F a w) = w @ [a])"

definition accesses :: "('q \<Rightarrow> access) \<Rightarrow> access \<Rightarrow> ('q list, 'a) go \<Rightarrow> bool" where
  "accesses read a m \<longleftrightarrow> (\<forall>w. \<exists>q. final_state (m w) = w @ [q] \<and> read q = a)"

lemma accesses_outside: "(\<And>w. snd (f w) = w @ [q]) \<Longrightarrow> read q = a \<Longrightarrow> accesses read a (outside f)"
  by (auto simp: accesses_def outside_def split: prod.splits) (metis snd_conv)

lemma accesses_bind:
  assumes "accesses read a m" "\<And>r w. final_state (f r w) = w"
  shows "accesses read a (go_bind m f)"
  unfolding accesses_def
proof
  fix w
  from assms(1) obtain q where "final_state (m w) = w @ [q]" "read q = a" by (auto simp: accesses_def)
  with assms(2) show "\<exists>q. final_state (go_bind m f w) = w @ [q] \<and> read q = a" by (cases "m w") (auto simp: go_bind_def)
qed

lemma as_cluster_quiet: "final_state (as_cluster r w) = w"
  by (auto simp: as_cluster_def go_run split: prod.splits option.splits robject.splits)

lemmas access_simps = request_access_def request_verb_def plain_access_def kubeclustersResource_def

lemma real_accesses:
  fixes R :: "('o request list, 'o, 'x) rest" and ns :: string
  assumes "rest_notes R"
  defines "c \<equiv> \<lparr>kcs_client = R, kcs_ns = ns\<rparr>" and "acc \<equiv> \<lambda>verb. plain_access verb kubeclustersResource ns" and "rd \<equiv> request_access SchemeGroupVersion"
  shows "accesses rd ((acc ''get'')\<lparr>ac_Name := Some name\<rparr>) (kubeClusters_Get c name opt)"
    "accesses rd (acc (if lo_Watch lo then ''watch'' else ''list'')) (kubeClusters_List c lo)"
    "accesses rd (acc ''watch'') (kubeClusters_Watch c lo)"
    "accesses rd ((acc ''create'')\<lparr>ac_Object := Some k\<rparr>) (kubeClusters_Create c k opt)"
    "accesses rd ((acc ''update'')\<lparr>ac_Name := Some (kc_Name k), ac_Object := Some k\<rparr>) (kubeClusters_Update c k opt)"
    "accesses rd ((acc ''update'')\<lparr>ac_Name := Some (kc_Name k), ac_Subresources := [''status''], ac_Object := Some k\<rparr>) (kubeClusters_UpdateStatus c k opt)"
    "accesses rd ((acc ''delete'')\<lparr>ac_Name := Some name\<rparr>) (kubeClusters_Delete c name opt)"
    "accesses rd (acc ''deletecollection'') (kubeClusters_DeleteCollection c opt lo)"
    "accesses rd ((acc ''patch'')\<lparr>ac_Name := Some name, ac_Subresources := subs, ac_Patch := Some (pt, data)\<rparr>) (kubeClusters_Patch c name pt data opt subs)"
proof -
  have R: "snd (rs_IntoCluster R r z w) = w @ [r]" "snd (rs_IntoList R r l w) = w @ [r]" "snd (rs_Error R r w) = w @ [r]" "snd (rs_Watch R r w) = w @ [r]"
    for r z l w using assms(1) unfolding rest_notes_def by blast+
  note sent = accesses_outside [OF R(1)] accesses_outside [OF R(2)] accesses_outside [OF R(3)] accesses_outside [OF R(4)]
  show "accesses rd ((acc ''get'')\<lparr>ac_Name := Some name\<rparr>) (kubeClusters_Get c name opt)"
    "accesses rd (acc (if lo_Watch lo then ''watch'' else ''list'')) (kubeClusters_List c lo)"
    "accesses rd (acc ''watch'') (kubeClusters_Watch c lo)"
    "accesses rd ((acc ''create'')\<lparr>ac_Object := Some k\<rparr>) (kubeClusters_Create c k opt)"
    "accesses rd ((acc ''update'')\<lparr>ac_Name := Some (kc_Name k), ac_Object := Some k\<rparr>) (kubeClusters_Update c k opt)"
    "accesses rd ((acc ''update'')\<lparr>ac_Name := Some (kc_Name k), ac_Subresources := [''status''], ac_Object := Some k\<rparr>) (kubeClusters_UpdateStatus c k opt)"
    "accesses rd ((acc ''delete'')\<lparr>ac_Name := Some name\<rparr>) (kubeClusters_Delete c name opt)"
    "accesses rd (acc ''deletecollection'') (kubeClusters_DeleteCollection c opt lo)"
    "accesses rd ((acc ''patch'')\<lparr>ac_Name := Some name, ac_Subresources := subs, ac_Patch := Some (pt, data)\<rparr>) (kubeClusters_Patch c name pt data opt subs)"
    unfolding kubeClusters_Get_def kubeClusters_List_def kubeClusters_Watch_def kubeClusters_Create_def kubeClusters_Update_def
      kubeClusters_UpdateStatus_def kubeClusters_Delete_def kubeClusters_DeleteCollection_def kubeClusters_Patch_def c_def kubeClusters.simps
    by (rule sent, simp add: access_simps acc_def rd_def)+
qed

lemma fake_accesses:
  fixes F :: "('o action list, 'o, 'x) fake" and ns :: string
  assumes "fake_notes F"
  defines "f \<equiv> \<lparr>fkc_Fake = F, fkc_ns = ns\<rparr>" and "acc \<equiv> \<lambda>verb. plain_access verb kubeclustersResource ns"
  shows "accesses action_access ((acc ''get'')\<lparr>ac_Name := Some name\<rparr>) (FakeKubeClusters_Get f name opt)"
    "accesses action_access (acc ''list'') (FakeKubeClusters_List f lo)"
    "accesses action_access (acc ''watch'') (FakeKubeClusters_Watch f lo)"
    "accesses action_access ((acc ''create'')\<lparr>ac_Object := Some k\<rparr>) (FakeKubeClusters_Create f k opt)"
    "accesses action_access ((acc ''update'')\<lparr>ac_Name := Some (kc_Name k), ac_Object := Some k\<rparr>) (FakeKubeClusters_Update f k opt)"
    "accesses action_access ((acc ''update'')\<lparr>ac_Name := Some (kc_Name k), ac_Subresources := [''status''], ac_Object := Some k\<rparr>) (FakeKubeClusters_UpdateStatus f k opt)"
    "accesses action_access ((acc ''delete'')\<lparr>ac_Name := Some name\<rparr>) (FakeKubeClusters_Delete f name opt)"
    "accesses action_access (acc ''deletecollection'') (FakeKubeClusters_DeleteCollection f opt lo)"
    "accesses action_access ((acc ''patch'')\<lparr>ac_Name := Some name, ac_Subresources := subs, ac_Patch := Some (pt, data)\<rparr>) (FakeKubeClusters_Patch f name pt data opt subs)"
proof -
  have F: "snd (fk_Invokes F a x w) = w @ [a]" "snd (fk_InvokesWatch F a w) = w @ [a]" for a x w using assms(1) unfolding fake_notes_def by blast+
  show "accesses action_access (acc ''watch'') (FakeKubeClusters_Watch f lo)"
    unfolding FakeKubeClusters_Watch_def f_def FakeKubeClusters.simps by (rule accesses_outside [OF F(2)]) (simp add: acc_def)
  note made = accesses_bind [OF accesses_outside [OF F(1)]]
  show "accesses action_access ((acc ''get'')\<lparr>ac_Name := Some name\<rparr>) (FakeKubeClusters_Get f name opt)"
    "accesses action_access (acc ''list'') (FakeKubeClusters_List f lo)"
    "accesses action_access ((acc ''create'')\<lparr>ac_Object := Some k\<rparr>) (FakeKubeClusters_Create f k opt)"
    "accesses action_access ((acc ''update'')\<lparr>ac_Name := Some (kc_Name k), ac_Object := Some k\<rparr>) (FakeKubeClusters_Update f k opt)"
    "accesses action_access ((acc ''update'')\<lparr>ac_Name := Some (kc_Name k), ac_Subresources := [''status''], ac_Object := Some k\<rparr>) (FakeKubeClusters_UpdateStatus f k opt)"
    "accesses action_access ((acc ''delete'')\<lparr>ac_Name := Some name\<rparr>) (FakeKubeClusters_Delete f name opt)"
    "accesses action_access (acc ''deletecollection'') (FakeKubeClusters_DeleteCollection f opt lo)"
    "accesses action_access ((acc ''patch'')\<lparr>ac_Name := Some name, ac_Subresources := subs, ac_Patch := Some (pt, data)\<rparr>) (FakeKubeClusters_Patch f name pt data opt subs)"
    unfolding FakeKubeClusters_Get_def FakeKubeClusters_List_def FakeKubeClusters_Create_def FakeKubeClusters_Update_def
      FakeKubeClusters_UpdateStatus_def FakeKubeClusters_Delete_def FakeKubeClusters_DeleteCollection_def FakeKubeClusters_Patch_def f_def FakeKubeClusters.simps
    by (rule made; simp add: acc_def as_cluster_quiet go_run Let_def split: prod.splits option.splits robject.splits)+
qed

definition same_access :: "('o request list, 'a) go \<Rightarrow> ('o action list, 'b) go \<Rightarrow> bool" where
  "same_access real fake \<longleftrightarrow> (\<exists>a. accesses (request_access SchemeGroupVersion) a real \<and> accesses action_access a fake)"

lemma same_accessI: "accesses (request_access SchemeGroupVersion) a real \<Longrightarrow> accesses action_access a fake \<Longrightarrow> same_access real fake"
  by (auto simp: same_access_def)


definition notepad_rest :: "(unit request list, unit, unit) rest" where
  "notepad_rest = \<lparr>rs_IntoCluster = (\<lambda>r k w. ((k, None), w @ [r])), rs_IntoList = (\<lambda>r l w. ((l, None), w @ [r])), rs_Error = (\<lambda>r w. (None, w @ [r])),
     rs_DoRaw = (\<lambda>r w. (None, w @ [r])), rs_Watch = (\<lambda>r w. (Inr (), w @ [r])), rs_zero = ()\<rparr>"

definition notepad_fake :: "(unit action list, unit, unit) fake" where
  "notepad_fake = \<lparr>fk_Invokes = (\<lambda>a x w. ((Some x, None), w @ [a])), fk_InvokesWatch = (\<lambda>a w. (Inr (), w @ [a])), fk_label = (\<lambda>_. None),
     fk_Everything = (\<lambda>_. True), fk_zero = ()\<rparr>"


lemma crd_same_object:
  fixes R :: "('o request list, 'o, 'x) rest" and obj :: "'o Unstructured"
  assumes "rest_notes R"
  defines "rd \<equiv> request_access SchemeGroupVersion :: 'o request \<Rightarrow> access" and "upd \<equiv> (plain_access ''update'' kubeclustersResource (us_Namespace obj))\<lparr>ac_Name := Some (us_Name obj)\<rparr>"
  shows "accesses rd upd (CRD_Update R obj ''kubeclusters'')" "accesses rd (upd\<lparr>ac_Subresources := [''status'']\<rparr>) (CRD_UpdateStatus R obj ''kubeclusters'')"
    "CRD_Update R obj [] w = Ret (Some plural_unset) w" "CRD_UpdateStatus R obj [] w = Ret (Some plural_unset) w"
proof -
  have R: "snd (rs_DoRaw R r w) = w @ [r]" for r w using assms(1) unfolding rest_notes_def by blast
  show "accesses rd upd (CRD_Update R obj ''kubeclusters'')" "accesses rd (upd\<lparr>ac_Subresources := [''status'']\<rparr>) (CRD_UpdateStatus R obj ''kubeclusters'')"
    unfolding CRD_Update_def CRD_UpdateStatus_def by (simp, rule accesses_outside [OF R], simp add: access_simps rd_def upd_def)+
qed (simp_all add: CRD_Update_def CRD_UpdateStatus_def go_run)

end
