(* ===== verification/Loggers.thy ===== *)
theory Loggers
  imports Events Clients
begin

text \<open>
  \<open>pkg/util/logger.go\<close>: the fields with which log entries are made. All entries about a cluster are meant to carry the same value under the key \<open>cluster\<close>, so that
  they can be found together.
\<close>

type_synonym log_fields = smap

section \<open>The loggers\<close>

definition LoggerForReplica :: "ObjectMeta \<Rightarrow> string \<Rightarrow> log_fields" where
  "LoggerForReplica cluster rtype = [(''cluster'', om_Namespace cluster @ ''.'' @ om_Name cluster), (''uid'', om_UID cluster), (''replica-type'', rtype)]"

definition LoggerForCluster :: "ObjectMeta \<Rightarrow> log_fields" where
  "LoggerForCluster cluster = [(''cluster'', om_Namespace cluster @ ''.'' @ om_Name cluster), (''uid'', om_UID cluster)]"

text \<open>The cluster of an object: its controller, if it is of the kind asked for.\<close>

definition controlling_cluster :: "'w kenv \<Rightarrow> ObjectMeta \<Rightarrow> string \<Rightarrow> string" where
  "controlling_cluster E m kind = (case ke_GetControllerOf E m of
     None \<Rightarrow> [] | Some controllerRef \<Rightarrow> if or_Kind controllerRef = kind then om_Namespace m @ ''.'' @ or_Name controllerRef else [])"

definition LoggerForPod :: "'w kenv \<Rightarrow> Pod \<Rightarrow> string \<Rightarrow> log_fields" where
  "LoggerForPod E pod kind = (let m = pod_Meta pod in
     [(''cluster'', controlling_cluster E m kind), (''pod'', om_Namespace m @ ''.'' @ om_Name m), (''uid'', om_UID m)])"

definition LoggerForService :: "'w kenv \<Rightarrow> Service \<Rightarrow> string \<Rightarrow> log_fields" where
  "LoggerForService E svc kind = (let m = svc_Meta svc in
     [(''cluster'', controlling_cluster E m kind), (''service'', om_Namespace m @ ''.'' @ om_Name m), (''uid'', om_UID m)])"

definition LoggerForConfigMap :: "'w kenv \<Rightarrow> ConfigMap \<Rightarrow> string \<Rightarrow> log_fields" where
  "LoggerForConfigMap E cm kind = (let m = cm_Meta cm in
     [(''kcluster'', controlling_cluster E m kind), (''configMap'', om_Namespace m @ ''.'' @ om_Name m), (''uid'', om_UID m)])"

definition LoggerForKey :: "string \<Rightarrow> log_fields" where
  "LoggerForKey key = [(''cluster'', ReplaceAll ''/'' ''.'' key)]"

definition LoggerForUnstructured :: "'o Unstructured \<Rightarrow> string \<Rightarrow> log_fields" where
  "LoggerForUnstructured obj kind =
     [(''cluster'', if us_Kind obj = kind then us_Namespace obj @ ''.'' @ us_Name obj else []), (''uid'', us_UID obj)]"

section \<open>Finding the entries of a cluster\<close>

abbreviation cluster_field :: "log_fields \<Rightarrow> string option" where
  "cluster_field f \<equiv> map_of f ''cluster''"

text \<open>What belongs to a cluster: it is in its namespace and its only owner is the reference the controller makes.\<close>

definition belongs :: "'w kenv \<Rightarrow> KubeCluster \<Rightarrow> ObjectMeta \<Rightarrow> bool" where
  "belongs E k m \<longleftrightarrow> om_Namespace m = kc_Namespace k \<and> om_OwnerReferences m = [GenOwnerReference E (kc_Meta k)]"

lemma controlling_cluster_belongs:
  "finds_controller E \<Longrightarrow> belongs E k m \<Longrightarrow> controlling_cluster E m KubeClusterKind = kc_Namespace k @ ''.'' @ kc_Name k"
proof -
  assume "finds_controller E" and own: "belongs E k m"
  then have "ke_GetControllerOf E m = Some (GenOwnerReference E (kc_Meta k))"
    unfolding finds_controller_def belongs_def by (metis GenOwnerReference_def OwnerReference.select_convs(6))
  with own show "controlling_cluster E m KubeClusterKind = kc_Namespace k @ ''.'' @ kc_Name k"
    by (simp add: controlling_cluster_def belongs_def GenOwnerReference_def)
qed

text \<open>The key of a cluster in the work queue is read back as it was written when neither name has a slash, as the names of Kubernetes have not.\<close>

lemma key_field:
  assumes "CHR ''/'' \<notin> set ns" "CHR ''/'' \<notin> set nm"
  shows "ReplaceAll ''/'' ''.'' (ns @ ''/'' @ nm) = ns @ ''.'' @ nm"
proof -
  have "map (\<lambda>x. if x = CHR ''/'' then CHR ''.'' else x) xs = xs" if "CHR ''/'' \<notin> set xs" for xs
    using that by (induction xs) auto
  with assms show ?thesis by (simp add: ReplaceAll_char)
qed

text \<open>The entries about a cluster are found together. An entry about the cluster, one of its replica types, its key in the work queue, a pod or a service that belongs to it
  carries the same value in the field \<open>cluster\<close>; an entry about a config map has no such field, but one called \<open>kcluster\<close> with that value.\<close>

lemma entries_together:
  assumes E: "finds_controller E" and k: "CHR ''/'' \<notin> set (kc_Namespace k)" "CHR ''/'' \<notin> set (kc_Name k)"
    and own: "belongs E k (pod_Meta pod)" "belongs E k (svc_Meta svc)" "belongs E k (cm_Meta cm)"
  defines "field \<equiv> Some (kc_Namespace k @ ''.'' @ kc_Name k)"
  shows "cluster_field (LoggerForCluster (kc_Meta k)) = field" "cluster_field (LoggerForReplica (kc_Meta k) rt) = field"
    "cluster_field (LoggerForKey (kc_Namespace k @ ''/'' @ kc_Name k)) = field"
    "cluster_field (LoggerForPod E pod KubeClusterKind) = field" "cluster_field (LoggerForService E svc KubeClusterKind) = field"
    "cluster_field (LoggerForConfigMap E cm KubeClusterKind) = None" "map_of (LoggerForConfigMap E cm KubeClusterKind) ''kcluster'' = field"
  using controlling_cluster_belongs [OF E own(1)] controlling_cluster_belongs [OF E own(2)] controlling_cluster_belongs [OF E own(3)] key_field [OF k]
  by (simp_all add: field_def LoggerForCluster_def LoggerForReplica_def LoggerForKey_def LoggerForPod_def LoggerForService_def LoggerForConfigMap_def Let_def)

text \<open>An object whose controller is of another kind, or that has none, is logged with an empty cluster.\<close>

lemma entries_of_strangers:
  assumes "case ke_GetControllerOf E (pod_Meta pod) of None \<Rightarrow> True | Some r \<Rightarrow> or_Kind r \<noteq> kind"
  shows "cluster_field (LoggerForPod E pod kind) = Some []"
  using assms by (auto simp: LoggerForPod_def controlling_cluster_def Let_def split: option.splits)

end
