(* ===== verification/ClientSet.thy ===== *)
theory ClientSet
  imports Complex_Main Clients
begin

text \<open>
  Making the clients, \<open>clientset.go\<close> and \<open>kubecluster.org_client.go\<close>, and reading from the cache, \<open>listers/kubecluster.org/v1alpha1\<close>. What client-go makes
  of a configuration is a parameter, with the indexer of a cache.
\<close>

section \<open>Configurations\<close>

text \<open>Of \<open>rest.Config\<close>, the fields that are read or written; \<open>QPS\<close>, a 32-bit float, is only compared with zero and passed on.\<close>

record ('l, 'o) rest_config =
  cf_GroupVersion :: "(string \<times> string) option"
  cf_APIPath :: string
  cf_ContentType :: string
  cf_NegotiatedSerializer :: "'o option"
  cf_UserAgent :: string
  cf_RateLimiter :: "'l option"
  cf_QPS :: rat
  cf_Burst :: int
  cf_other :: 'o

text \<open>\<open>HTTPClientFor\<close>, \<open>RESTClientForConfigAndClient\<close>, the two constructors of discovery clients, \<open>DefaultKubernetesUserAgent\<close>, \<open>NewTokenBucketRateLimiter\<close> and
  the codecs of the scheme.\<close>

record ('l, 'o, 'h, 'c, 'd) client_go =
  cg_HTTPClientFor :: "('l, 'o) rest_config \<Rightarrow> gerr + 'h"
  cg_RESTClient :: "('l, 'o) rest_config \<Rightarrow> 'h \<Rightarrow> gerr + 'c"
  cg_DiscoveryClientForConfig :: "('l, 'o) rest_config \<Rightarrow> 'h \<Rightarrow> gerr + 'd"
  cg_DiscoveryClient :: "'c \<Rightarrow> 'd"
  cg_UserAgent :: string
  cg_RateLimiter :: "rat \<Rightarrow> int \<Rightarrow> 'l"
  cg_Codecs :: 'o

section \<open>typed/kubecluster.org/v1alpha1/kubecluster.org\_client.go\<close>

record 'c KubeclusterV1alpha1Client =
  kv_restClient :: 'c

definition setConfigDefaults :: "('l, 'o, 'h, 'c, 'd) client_go \<Rightarrow> ('l, 'o) rest_config \<Rightarrow> gerr option \<times> ('l, 'o) rest_config" where
  "setConfigDefaults L config =
     (let config = config\<lparr>cf_GroupVersion := Some SchemeGroupVersion, cf_APIPath := ''/apis'', cf_NegotiatedSerializer := Some (cg_Codecs L)\<rparr>;
          config = (if cf_UserAgent config = [] then config\<lparr>cf_UserAgent := cg_UserAgent L\<rparr> else config)
      in (None, config))"

definition v1alpha1_NewForConfigAndClient :: "('l, 'o, 'h, 'c, 'd) client_go \<Rightarrow> ('l, 'o) rest_config \<Rightarrow> 'h \<Rightarrow> gerr + 'c KubeclusterV1alpha1Client" where
  "v1alpha1_NewForConfigAndClient L c h = (case setConfigDefaults L c of
       (Some err, _) \<Rightarrow> Inl err
     | (None, config) \<Rightarrow> (case cg_RESTClient L config h of Inl err \<Rightarrow> Inl err | Inr client \<Rightarrow> Inr \<lparr>kv_restClient = client\<rparr>))"

definition v1alpha1_NewForConfig :: "('l, 'o, 'h, 'c, 'd) client_go \<Rightarrow> ('l, 'o) rest_config \<Rightarrow> gerr + 'c KubeclusterV1alpha1Client" where
  "v1alpha1_NewForConfig L c = (case setConfigDefaults L c of
       (Some err, _) \<Rightarrow> Inl err
     | (None, config) \<Rightarrow> (case cg_HTTPClientFor L config of Inl err \<Rightarrow> Inl err | Inr h \<Rightarrow> v1alpha1_NewForConfigAndClient L config h))"

definition v1alpha1_NewForConfigOrDie :: "('l, 'o, 'h, 'c, 'd) client_go \<Rightarrow> ('l, 'o) rest_config \<Rightarrow> string + 'c KubeclusterV1alpha1Client" where
  "v1alpha1_NewForConfigOrDie L c = (case v1alpha1_NewForConfig L c of Inl err \<Rightarrow> Inl (err_text err) | Inr client \<Rightarrow> Inr client)"

definition v1alpha1_New :: "'c \<Rightarrow> 'c KubeclusterV1alpha1Client" where
  "v1alpha1_New c = \<lparr>kv_restClient = c\<rparr>"

text \<open>A nil client has no REST client.\<close>

definition RESTClient :: "'c KubeclusterV1alpha1Client option \<Rightarrow> 'c option" where
  "RESTClient c = (case c of None \<Rightarrow> None | Some k \<Rightarrow> Some (kv_restClient k))"

definition KubeClusters_of :: "('w, 'o, 'x) rest KubeclusterV1alpha1Client \<Rightarrow> string \<Rightarrow> ('w, 'o, 'x) kubeClusters" where
  "KubeClusters_of c namespace = \<lparr>kcs_client = kv_restClient c, kcs_ns = namespace\<rparr>"

section \<open>clientset.go\<close>

record ('c, 'd) Clientset =
  cs_DiscoveryClient :: 'd
  cs_kubeclusterV1alpha1 :: "'c KubeclusterV1alpha1Client"

definition burst_required :: gerr where
  "burst_required = PlainErr ''burst is required to be greater than 0 when RateLimiter is not set and QPS is set to greater than 0''"

definition limited :: "('l, 'o, 'h, 'c, 'd) client_go \<Rightarrow> ('l, 'o) rest_config \<Rightarrow> gerr + ('l, 'o) rest_config" where
  "limited L c =
     (if cf_RateLimiter c = None \<and> cf_QPS c > 0
      then if cf_Burst c \<le> 0 then Inl burst_required else Inr (c\<lparr>cf_RateLimiter := Some (cg_RateLimiter L (cf_QPS c) (cf_Burst c))\<rparr>)
      else Inr c)"

definition NewForConfigAndClient :: "('l, 'o, 'h, 'c, 'd) client_go \<Rightarrow> ('l, 'o) rest_config \<Rightarrow> 'h \<Rightarrow> gerr + ('c, 'd) Clientset" where
  "NewForConfigAndClient L c httpClient = (case limited L c of
       Inl err \<Rightarrow> Inl err
     | Inr config \<Rightarrow> (case v1alpha1_NewForConfigAndClient L config httpClient of
         Inl err \<Rightarrow> Inl err
       | Inr k \<Rightarrow> (case cg_DiscoveryClientForConfig L config httpClient of
           Inl err \<Rightarrow> Inl err
         | Inr d \<Rightarrow> Inr \<lparr>cs_DiscoveryClient = d, cs_kubeclusterV1alpha1 = k\<rparr>)))"

definition NewForConfig :: "('l, 'o, 'h, 'c, 'd) client_go \<Rightarrow> ('l, 'o) rest_config \<Rightarrow> gerr + ('c, 'd) Clientset" where
  "NewForConfig L c =
     (let config = (if cf_UserAgent c = [] then c\<lparr>cf_UserAgent := cg_UserAgent L\<rparr> else c) in
      case cg_HTTPClientFor L config of Inl err \<Rightarrow> Inl err | Inr httpClient \<Rightarrow> NewForConfigAndClient L config httpClient)"

definition NewForConfigOrDie :: "('l, 'o, 'h, 'c, 'd) client_go \<Rightarrow> ('l, 'o) rest_config \<Rightarrow> string + ('c, 'd) Clientset" where
  "NewForConfigOrDie L c = (case NewForConfig L c of Inl err \<Rightarrow> Inl (err_text err) | Inr cs \<Rightarrow> Inr cs)"

definition New :: "('l, 'o, 'h, 'c, 'd) client_go \<Rightarrow> 'c \<Rightarrow> ('c, 'd) Clientset" where
  "New L c = \<lparr>cs_DiscoveryClient = cg_DiscoveryClient L c, cs_kubeclusterV1alpha1 = v1alpha1_New c\<rparr>"

text \<open>What a set of clients is made from: one HTTP client and one rate limiter for both, the group, version and path of the API for
  the typed client, and a user agent.\<close>

definition typed_config :: "('l, 'o, 'h, 'c, 'd) client_go \<Rightarrow> ('l, 'o) rest_config \<Rightarrow> ('l, 'o) rest_config" where
  "typed_config L c = c\<lparr>cf_GroupVersion := Some (''kubecluster.org'', ''v1alpha1''), cf_APIPath := ''/apis'', cf_NegotiatedSerializer := Some (cg_Codecs L)\<rparr>"

definition filled :: "('l, 'o, 'h, 'c, 'd) client_go \<Rightarrow> ('l, 'o) rest_config \<Rightarrow> ('l, 'o) rest_config" where
  "filled L c = c\<lparr>cf_UserAgent := if cf_UserAgent c = [] then cg_UserAgent L else cf_UserAgent c,
     cf_RateLimiter := if cf_RateLimiter c = None \<and> 0 < cf_QPS c then Some (cg_RateLimiter L (cf_QPS c) (cf_Burst c)) else cf_RateLimiter c\<rparr>"

lemma clientset_made:
  assumes "NewForConfig L c = Inr cs" "cg_UserAgent L \<noteq> []"
  shows "\<exists>h. cg_HTTPClientFor L (c\<lparr>cf_UserAgent := cf_UserAgent (filled L c)\<rparr>) = Inr h \<and>
    cg_RESTClient L (typed_config L (filled L c)) h = Inr (kv_restClient (cs_kubeclusterV1alpha1 cs)) \<and>
    cg_DiscoveryClientForConfig L (filled L c) h = Inr (cs_DiscoveryClient cs) \<and> cf_UserAgent (filled L c) \<noteq> [] \<and>
    (cf_RateLimiter c = None \<and> 0 < cf_QPS c \<longrightarrow> 0 < cf_Burst c)"
  using assms
  by (cases "cf_UserAgent c = []"; cases "cf_RateLimiter c = None \<and> 0 < cf_QPS c")
    (auto simp: NewForConfig_def NewForConfigAndClient_def v1alpha1_NewForConfigAndClient_def limited_def setConfigDefaults_def filled_def typed_config_def
      Let_def SchemeGroupVersion_def split: sum.splits if_splits)

lemma clientset_refuses_burst:
  "cg_HTTPClientFor L (c\<lparr>cf_UserAgent := cf_UserAgent (filled L c)\<rparr>) = Inr h \<Longrightarrow> cf_RateLimiter c = None \<Longrightarrow> 0 < cf_QPS c \<Longrightarrow> cf_Burst c \<le> 0 \<Longrightarrow>
   NewForConfig L c = Inl burst_required"
  by (cases "cf_UserAgent c = []") (auto simp: NewForConfig_def NewForConfigAndClient_def limited_def filled_def Let_def)

section \<open>listers/kubecluster.org/v1alpha1/kubecluster.go\<close>

text \<open>What is in a cache is a cluster or something else, on which the type assertions panic. \<open>ListAll\<close> and \<open>ListAllByNamespace\<close> hand over the
  objects one by one; their error comes after that.\<close>

datatype indexed = IndexedCluster KubeCluster | IndexedOther

record 'sel indexer =
  ix_ListAll :: "'sel \<Rightarrow> indexed list \<times> gerr option"
  ix_ListAllByNamespace :: "string \<Rightarrow> 'sel \<Rightarrow> indexed list \<times> gerr option"
  ix_GetByKey :: "string \<Rightarrow> gerr + indexed option"
  ix_NewNotFound :: "string \<times> string \<Rightarrow> string \<Rightarrow> gerr"

fun append_clusters :: "indexed list \<Rightarrow> string + KubeCluster list" where
  "append_clusters [] = Inr []"
| "append_clusters (IndexedOther # xs) = Inl ''interface conversion''"
| "append_clusters (IndexedCluster k # xs) = (case append_clusters xs of Inl p \<Rightarrow> Inl p | Inr ks \<Rightarrow> Inr (k # ks))"

definition lister_List :: "'sel indexer \<Rightarrow> 'sel \<Rightarrow> string + KubeCluster list \<times> gerr option" where
  "lister_List ix selector = (case ix_ListAll ix selector of (xs, err) \<Rightarrow> (case append_clusters xs of Inl p \<Rightarrow> Inl p | Inr ret \<Rightarrow> Inr (ret, err)))"

definition namespace_List :: "'sel indexer \<Rightarrow> string \<Rightarrow> 'sel \<Rightarrow> string + KubeCluster list \<times> gerr option" where
  "namespace_List ix ns selector = (case ix_ListAllByNamespace ix ns selector of (xs, err) \<Rightarrow> (case append_clusters xs of Inl p \<Rightarrow> Inl p | Inr ret \<Rightarrow> Inr (ret, err)))"

definition GroupResource :: "string \<Rightarrow> string \<times> string" where
  "GroupResource resource = (fst SchemeGroupVersion, resource)"

definition namespace_Get :: "'sel indexer \<Rightarrow> string \<Rightarrow> string \<Rightarrow> string + gerr + KubeCluster" where
  "namespace_Get ix ns name = (case ix_GetByKey ix (ns @ ''/'' @ name) of
       Inl err \<Rightarrow> Inr (Inl err)
     | Inr None \<Rightarrow> Inr (Inl (ix_NewNotFound ix (GroupResource ''kubecluster'') name))
     | Inr (Some (IndexedCluster k)) \<Rightarrow> Inr (Inr k)
     | Inr (Some IndexedOther) \<Rightarrow> Inl ''interface conversion'')"

text \<open>A cache of clusters, keyed by namespace and name, with an index of namespaces.\<close>

definition cluster_cache :: "'sel indexer \<Rightarrow> ('sel \<Rightarrow> smap \<Rightarrow> bool) \<Rightarrow> KubeCluster list \<Rightarrow> bool" where
  "cluster_cache ix matches ks \<longleftrightarrow> distinct (map (\<lambda>k. (kc_Namespace k, kc_Name k)) ks) \<and> (\<forall>k \<in> set ks. CHR ''/'' \<notin> set (kc_Namespace k)) \<and>
     (\<forall>sel. ix_ListAll ix sel = (map IndexedCluster (filter (\<lambda>k. matches sel (om_Labels (kc_Meta k))) ks), None)) \<and>
     (\<forall>ns sel. ix_ListAllByNamespace ix ns sel = (map IndexedCluster (filter (\<lambda>k. kc_Namespace k = ns \<and> matches sel (om_Labels (kc_Meta k))) ks), None)) \<and>
     (\<forall>key. ix_GetByKey ix key = Inr (map_option IndexedCluster (List.find (\<lambda>k. kc_Namespace k @ ''/'' @ kc_Name k = key) ks)))"

lemma append_clusters_map: "append_clusters (map IndexedCluster ks) = Inr ks"
  by (induction ks) auto

lemma first_split: "x \<notin> set a \<Longrightarrow> x \<notin> set c \<Longrightarrow> a @ x # b = c @ x # d \<longleftrightarrow> a = c \<and> b = d"
  by (induction a arbitrary: c) (case_tac c; auto)+

text \<open>The lister of a namespace gives the part of the whole list that is in the namespace, and \<open>Get\<close> finds an object exactly if it is listed there.\<close>

lemma lister_agrees:
  assumes "cluster_cache ix matches ks" "CHR ''/'' \<notin> set ns"
  shows "lister_List ix sel = Inr (filter (\<lambda>k. matches sel (om_Labels (kc_Meta k))) ks, None)"
    "namespace_List ix ns sel = Inr (filter (\<lambda>k. kc_Namespace k = ns) (filter (\<lambda>k. matches sel (om_Labels (kc_Meta k))) ks), None)"
    "namespace_Get ix ns name = Inr (Inr k) \<longleftrightarrow> k \<in> set ks \<and> kc_Namespace k = ns \<and> kc_Name k = name"
    "(\<forall>k. namespace_Get ix ns name \<noteq> Inr (Inr k)) \<longrightarrow> namespace_Get ix ns name = Inr (Inl (ix_NewNotFound ix (''kubecluster.org'', ''kubecluster'') name))"
proof -
  from assms(1) have d: "distinct (map (\<lambda>k. (kc_Namespace k, kc_Name k)) ks)" and slash: "\<And>k. k \<in> set ks \<Longrightarrow> CHR ''/'' \<notin> set (kc_Namespace k)"
    and get: "\<And>key. ix_GetByKey ix key = Inr (map_option IndexedCluster (List.find (\<lambda>k. kc_Namespace k @ ''/'' @ kc_Name k = key) ks))"
    and all: "\<And>sel. ix_ListAll ix sel = (map IndexedCluster (filter (\<lambda>k. matches sel (om_Labels (kc_Meta k))) ks), None)"
    and by_ns: "\<And>ns sel. ix_ListAllByNamespace ix ns sel = (map IndexedCluster (filter (\<lambda>k. kc_Namespace k = ns \<and> matches sel (om_Labels (kc_Meta k))) ks), None)"
    by (auto simp: cluster_cache_def)
  show "lister_List ix sel = Inr (filter (\<lambda>k. matches sel (om_Labels (kc_Meta k))) ks, None)"
    "namespace_List ix ns sel = Inr (filter (\<lambda>k. kc_Namespace k = ns) (filter (\<lambda>k. matches sel (om_Labels (kc_Meta k))) ks), None)"
    by (simp_all add: lister_List_def namespace_List_def all by_ns append_clusters_map conj_commute)
  have key: "kc_Namespace k @ ''/'' @ kc_Name k = ns @ ''/'' @ name \<longleftrightarrow> kc_Namespace k = ns \<and> kc_Name k = name" if "k \<in> set ks" for k
    using slash [OF that] assms(2) by (simp add: first_split)
  have found: "List.find (\<lambda>k. kc_Namespace k @ ''/'' @ kc_Name k = ns @ ''/'' @ name) ks = Some k \<longleftrightarrow> k \<in> set ks \<and> kc_Namespace k = ns \<and> kc_Name k = name"
    using d key by (induction ks) (auto simp: image_iff)
  show "namespace_Get ix ns name = Inr (Inr k) \<longleftrightarrow> k \<in> set ks \<and> kc_Namespace k = ns \<and> kc_Name k = name"
    unfolding found [symmetric] by (auto simp: namespace_Get_def get split: option.splits)
  show "(\<forall>k. namespace_Get ix ns name \<noteq> Inr (Inr k)) \<longrightarrow> namespace_Get ix ns name = Inr (Inl (ix_NewNotFound ix (''kubecluster.org'', ''kubecluster'') name))"
    by (auto simp: namespace_Get_def get GroupResource_def SchemeGroupVersion_def split: option.splits)
qed

end
