(* ===== verification/ClusterConfig.thy ===== *)
theory ClusterConfig
  imports ClientSet
begin

text \<open>
  How the operator finds its API server: \<open>GetClusterConfig\<close> and its callers, \<open>pkg/util/k8sutil/k8sutil.go\<close> and \<open>client.go\<close>, as programs on the variables of
  the environment of the process.
\<close>

section \<open>The environment\<close>

type_synonym variables = "string \<rightharpoonup> string"

text \<open>\<open>os.Getenv\<close> does not tell an empty variable from one that is not set.\<close>

definition Getenv :: "variables \<Rightarrow> string \<Rightarrow> string" where
  "Getenv e n = (case e n of None \<Rightarrow> [] | Some v \<Rightarrow> v)"

text \<open>\<open>net.LookupHost\<close>, \<open>os.Setenv\<close> (which sets the variable or returns an error), \<open>clientcmd.BuildConfigFromFlags\<close>, \<open>rest.InClusterConfig\<close>, which reads the
  variables, \<open>rest.RESTClientFor\<close>, and \<open>kubernetes.NewForConfigOrDie\<close>, which panics with a message.\<close>

record ('l, 'o, 'c, 'k) surroundings =
  sd_LookupHost :: "string \<Rightarrow> gerr + string list"
  sd_Setenv :: "string \<Rightarrow> string \<Rightarrow> gerr option"
  sd_BuildConfigFromFlags :: "string \<Rightarrow> string \<Rightarrow> gerr + ('l, 'o) rest_config"
  sd_InClusterConfig :: "variables \<Rightarrow> gerr + ('l, 'o) rest_config"
  sd_RESTClientFor :: "('l, 'o) rest_config \<Rightarrow> gerr + 'c"
  sd_NewForConfigOrDie :: "('l, 'o) rest_config \<Rightarrow> string + 'k"
  sd_Codecs :: 'o

definition Setenv :: "('l, 'o, 'c, 'k) surroundings \<Rightarrow> string \<Rightarrow> string \<Rightarrow> (variables, gerr option) go" where
  "Setenv D n v = (\<lambda>e. case sd_Setenv D n v of Some err \<Rightarrow> Ret (Some err) e | None \<Rightarrow> Ret None (e(n \<mapsto> v)))"

section \<open>k8sutil.go\<close>

definition RecommendedConfigPathEnvVar :: string where "RecommendedConfigPathEnvVar = ''KUBECONFIG''"
definition service_host :: string where "service_host = ''KUBERNETES_SERVICE_HOST''"
definition service_port :: string where "service_port = ''KUBERNETES_SERVICE_PORT''"

text \<open>The work around: the address of the API server is looked up where the variables do not give it. \<open>addrs[0]\<close> panics on an empty list.\<close>

definition find_host :: "('l, 'o, 'c, 'k) surroundings \<Rightarrow> (variables, gerr option) go" where
  "find_host D = go_bind (go_gets (\<lambda>e. Getenv e service_host)) (\<lambda>host.
     if length host = 0
     then (case sd_LookupHost D ''kubernetes.default.svc'' of
         Inl err \<Rightarrow> go_panic (err_text err)
       | Inr [] \<Rightarrow> go_panic ''index out of range''
       | Inr (addr # _) \<Rightarrow> Setenv D service_host addr)
     else go_return None)"

definition find_port :: "('l, 'o, 'c, 'k) surroundings \<Rightarrow> (variables, unit) go" where
  "find_port D = go_bind (go_gets (\<lambda>e. Getenv e service_port)) (\<lambda>port.
     if length port = 0
     then go_bind (Setenv D service_port ''443'') (\<lambda>err. case err of Some e \<Rightarrow> go_panic (err_text e) | None \<Rightarrow> go_return ())
     else go_return ())"

definition GetClusterConfig :: "('l, 'o, 'c, 'k) surroundings \<Rightarrow> (variables, gerr + ('l, 'o) rest_config) go" where
  "GetClusterConfig D = go_bind (go_gets (\<lambda>e. Getenv e RecommendedConfigPathEnvVar)) (\<lambda>path.
     if length path > 0 then go_return (sd_BuildConfigFromFlags D [] path)
     else go_bind (find_host D) (\<lambda>err.
       case err of
         Some e \<Rightarrow> go_return (Inl e)
       | None \<Rightarrow> go_seq (find_port D) (go_gets (sd_InClusterConfig D))))"

text \<open>\<open>log.Fatal\<close> ends the process: the result is then the message.\<close>

datatype 'k must = Fatal string | Made 'k

definition MustNewKubeClient :: "('l, 'o, 'c, 'k) surroundings \<Rightarrow> (variables, 'k must) go" where
  "MustNewKubeClient D = go_bind (GetClusterConfig D) (\<lambda>r. case r of
     Inl err \<Rightarrow> go_return (Fatal (err_text err))
   | Inr cfg \<Rightarrow> go_bind (go_lift (sd_NewForConfigOrDie D cfg)) (\<lambda>k. go_return (Made k)))"

record delete_options =
  do_GracePeriodSeconds :: "int64 option"
  do_PropagationPolicy :: "string option"

definition CascadeDeleteOptions :: "int64 \<Rightarrow> delete_options" where
  "CascadeDeleteOptions gracePeriodSeconds = \<lparr>do_GracePeriodSeconds = Some gracePeriodSeconds, do_PropagationPolicy = Some ''Foreground''\<rparr>"

section \<open>client.go\<close>

definition NewCRDRestClient :: "('l, 'o, 'c, 'k) surroundings \<Rightarrow> (string \<times> string) option \<Rightarrow> (variables, gerr + 'c) go" where
  "NewCRDRestClient D version = go_bind (GetClusterConfig D) (\<lambda>r. case r of
     Inl err \<Rightarrow> go_return (Inl err)
   | Inr config \<Rightarrow> go_return (sd_RESTClientFor D (config\<lparr>cf_GroupVersion := version, cf_APIPath := ''/apis'', cf_ContentType := ''application/json'',
       cf_NegotiatedSerializer := Some (sd_Codecs D)\<rparr>)))"

section \<open>Where the server is found\<close>

text \<open>The variables with which the configuration of the cluster is read: the given ones, completed by the first address looked up and port 443.\<close>

definition completed :: "string \<Rightarrow> variables \<Rightarrow> variables" where
  "completed addr e = (let e = (if Getenv e service_host = [] then e(service_host \<mapsto> addr) else e)
     in if Getenv e service_port = [] then e(service_port \<mapsto> ''443'') else e)"

lemma Getenv_upd [simp]: "Getenv (e(n \<mapsto> v)) m = (if m = n then v else Getenv e m)"
  by (simp add: Getenv_def)

lemma service_names [simp]: "service_host \<noteq> service_port" "service_port \<noteq> service_host"
  "RecommendedConfigPathEnvVar \<noteq> service_host" "RecommendedConfigPathEnvVar \<noteq> service_port"
  by (simp_all add: service_host_def service_port_def RecommendedConfigPathEnvVar_def)

text \<open>A named file decides, and nothing is set. Otherwise, if the host is known or its name has an address and the variables can be set, the configuration is read with the
  completed variables; variables that were not empty keep their values.\<close>

lemma GetClusterConfig_file:
  "Getenv e RecommendedConfigPathEnvVar \<noteq> [] \<Longrightarrow> GetClusterConfig D e = Ret (sd_BuildConfigFromFlags D [] (Getenv e RecommendedConfigPathEnvVar)) e"
  by (simp add: GetClusterConfig_def go_run)

lemma GetClusterConfig_inside:
  assumes "Getenv e RecommendedConfigPathEnvVar = []" "\<forall>n v. sd_Setenv D n v = None"
    and "Getenv e service_host = [] \<longrightarrow> sd_LookupHost D ''kubernetes.default.svc'' = Inr (addr # addrs)"
  shows "GetClusterConfig D e = Ret (sd_InClusterConfig D (completed addr e)) (completed addr e)"
  using assms by (simp add: GetClusterConfig_def find_host_def find_port_def Setenv_def completed_def go_run Let_def)

text \<open>It panics exactly if neither a file nor the host is given and the host has no address, or if the port is to be set and cannot be.\<close>

lemma GetClusterConfig_panics:
  "(\<exists>msg t. GetClusterConfig D e = Panic msg t) \<longleftrightarrow> Getenv e RecommendedConfigPathEnvVar = [] \<and>
     (Getenv e service_host = [] \<and> (case sd_LookupHost D ''kubernetes.default.svc'' of Inl _ \<Rightarrow> True | Inr addrs \<Rightarrow> addrs = []) \<or>
      (Getenv e service_host = [] \<longrightarrow> (\<exists>a as. sd_LookupHost D ''kubernetes.default.svc'' = Inr (a # as) \<and> sd_Setenv D service_host a = None)) \<and>
      Getenv e service_port = [] \<and> sd_Setenv D service_port ''443'' \<noteq> None)"
  by (auto simp: GetClusterConfig_def find_host_def find_port_def Setenv_def go_run Let_def split: sum.splits list.splits option.splits)

lemma find_host_found:
  assumes "find_host D e = Ret None t" "\<forall>a as. sd_LookupHost D ''kubernetes.default.svc'' = Inr (a # as) \<longrightarrow> a \<noteq> []"
  shows "Getenv t service_host \<noteq> []" "n \<noteq> service_host \<Longrightarrow> Getenv t n = Getenv e n"
  using assms by (auto simp: find_host_def Setenv_def go_run split: if_splits sum.splits list.splits option.splits)

lemma find_port_found:
  assumes "find_port D e = Ret () t"
  shows "Getenv t service_port \<noteq> []" "n \<noteq> service_port \<Longrightarrow> Getenv t n = Getenv e n"
  using assms by (auto simp: find_port_def Setenv_def go_run split: if_splits option.splits)

text \<open>Once it has returned a configuration, the variables are complete: asking again looks nothing up and changes nothing.\<close>

lemma GetClusterConfig_again:
  assumes ret: "GetClusterConfig D e = Ret (Inr c) t" and addr: "\<forall>a as. sd_LookupHost D ''kubernetes.default.svc'' = Inr (a # as) \<longrightarrow> a \<noteq> []"
  shows "GetClusterConfig (D\<lparr>sd_LookupHost := look, sd_Setenv := sets\<rparr>) t = Ret (Inr c) t"
proof (cases "Getenv e RecommendedConfigPathEnvVar = []")
  case False
  with ret show ?thesis by (auto simp: GetClusterConfig_file)
next
  case True
  with ret obtain u where u: "find_host D e = Ret None u" "find_port D u = Ret () t" "sd_InClusterConfig D t = Inr c"
    by (auto simp: GetClusterConfig_def go_run split: outcome.splits option.splits)
  from find_host_found [OF u(1) addr] find_port_found [OF u(2)] True
  have "Getenv t service_host \<noteq> []" "Getenv t service_port \<noteq> []" "Getenv t RecommendedConfigPathEnvVar = []" by simp_all
  with u(3) show ?thesis by (simp add: GetClusterConfig_def find_host_def find_port_def go_run)
qed

end
