(* ===== verification/FakeClientset.thy ===== *)
theory FakeClientset
  imports ClientSet
begin

text \<open>
  The set of fake clients, \<open>clientset/versioned/fake/clientset_generated.go\<close> and \<open>fake_kubecluster.org_client.go\<close>. The object tracker and the chains of reactors
  are those of \<open>client-go/testing\<close> and are parameters; a tracker is a handle, and what is behind it is part of the world.
\<close>

section \<open>What client-go provides\<close>

text \<open>\<open>NewObjectTracker\<close>, \<open>Add\<close> and \<open>Watch\<close> of a tracker, \<open>ObjectReaction\<close>, and \<open>AddReactor\<close> and \<open>AddWatchReactor\<close> of a \<open>Fake\<close>. A reactor says whether it has
  handled the action.\<close>

type_synonym ('w, 'o) reaction = "'o action \<Rightarrow> ('w, bool \<times> 'o robject option \<times> gerr option) go"
type_synonym ('w, 'o, 'x) watch_reaction = "'o action \<Rightarrow> ('w, bool \<times> 'x option \<times> gerr option) go"

record ('w, 'o, 'x, 't, 'f) testing =
  te_NewObjectTracker :: "'w \<Rightarrow> 't \<times> 'w"
  te_Add :: "'t \<Rightarrow> 'o robject \<Rightarrow> 'w \<Rightarrow> gerr option \<times> 'w"
  te_Watch :: "'t \<Rightarrow> gvr \<Rightarrow> string \<Rightarrow> 'w \<Rightarrow> (gerr + 'x) \<times> 'w"
  te_ObjectReaction :: "'t \<Rightarrow> ('w, 'o) reaction"
  te_zero :: 'f
  te_AddReactor :: "string \<Rightarrow> string \<Rightarrow> ('w, 'o) reaction \<Rightarrow> 'f \<Rightarrow> 'f"
  te_AddWatchReactor :: "string \<Rightarrow> ('w, 'o, 'x) watch_reaction \<Rightarrow> 'f \<Rightarrow> 'f"

section \<open>clientset\_generated.go\<close>

text \<open>The discovery client and the typed client both point to the \<open>Fake\<close> inside the set.\<close>

record ('t, 'f) fake_Clientset =
  fc_Fake :: 'f
  fc_tracker :: 't

definition watch_tracker :: "('w, 'o, 'x, 't, 'f) testing \<Rightarrow> 't \<Rightarrow> ('w, 'o, 'x) watch_reaction" where
  "watch_tracker T tr action =
     (let gvr = ac_Resource (action_access action); ns = ac_Namespace (action_access action) in
      go_bind (outside (te_Watch T tr gvr ns)) (\<lambda>r. case r of
        Inl err \<Rightarrow> go_return (False, None, Some err)
      | Inr watch \<Rightarrow> go_return (True, Some watch, None)))"

fun add_objects :: "('w, 'o, 'x, 't, 'f) testing \<Rightarrow> 't \<Rightarrow> 'o robject list \<Rightarrow> ('w, unit) go" where
  "add_objects T tr [] = go_return ()"
| "add_objects T tr (obj # objects) = go_bind (outside (te_Add T tr obj)) (\<lambda>err.
     case err of Some e \<Rightarrow> go_panic (err_text e) | None \<Rightarrow> add_objects T tr objects)"

definition NewSimpleClientset :: "('w, 'o, 'x, 't, 'f) testing \<Rightarrow> 'o robject list \<Rightarrow> ('w, ('t, 'f) fake_Clientset) go" where
  "NewSimpleClientset T objects = go_bind (outside (te_NewObjectTracker T)) (\<lambda>tr.
     go_seq (add_objects T tr objects) (
     let cs = \<lparr>fc_Fake = te_zero T, fc_tracker = tr\<rparr>;
         cs = cs\<lparr>fc_Fake := te_AddReactor T ''*'' ''*'' (te_ObjectReaction T tr) (fc_Fake cs)\<rparr>;
         cs = cs\<lparr>fc_Fake := te_AddWatchReactor T ''*'' (watch_tracker T tr) (fc_Fake cs)\<rparr> in
     go_return cs))"

definition fake_Discovery :: "('t, 'f) fake_Clientset \<Rightarrow> 'f" where
  "fake_Discovery c = fc_Fake c"

definition Tracker :: "('t, 'f) fake_Clientset \<Rightarrow> 't" where
  "Tracker c = fc_tracker c"

definition fake_KubeclusterV1alpha1 :: "('t, 'f) fake_Clientset \<Rightarrow> 'f" where
  "fake_KubeclusterV1alpha1 c = fc_Fake c"

text \<open>\<open>FakeKubeclusterV1alpha1.KubeClusters\<close>, and its REST client, which is always nil.\<close>

definition fake_KubeClusters :: "('w, 'o, 'x) fake \<Rightarrow> string \<Rightarrow> ('w, 'o, 'x) FakeKubeClusters" where
  "fake_KubeClusters c namespace = \<lparr>fkc_Fake = c, fkc_ns = namespace\<rparr>"

definition fake_RESTClient :: "'f \<Rightarrow> 'c option" where
  "fake_RESTClient c = None"

section \<open>A new set\<close>

text \<open>The world after the objects have been added, one after the other, if all could be.\<close>

fun added :: "('w, 'o, 'x, 't, 'f) testing \<Rightarrow> 't \<Rightarrow> 'o robject list \<Rightarrow> 'w \<Rightarrow> 'w option" where
  "added T tr [] w = Some w"
| "added T tr (obj # objects) w = (case te_Add T tr obj w of (None, w') \<Rightarrow> added T tr objects w' | (Some _, _) \<Rightarrow> None)"

lemma add_objects_added:
  "add_objects T tr objects w = Ret () w' \<longleftrightarrow> added T tr objects w = Some w'"
  "(\<exists>msg t. add_objects T tr objects w = Panic msg t) \<longleftrightarrow> added T tr objects w = None"
  by (induction objects arbitrary: w) (auto simp: go_run outside_def split: prod.splits option.splits)

text \<open>A new set panics exactly if an object cannot be added. Otherwise everything was added to the one tracker that answers its calls and its watches, and the typed client and
  discovery work on the same chains of reactors.\<close>

lemma NewSimpleClientset_correct:
  assumes "te_NewObjectTracker T w = (tr, w1)"
  shows "(\<exists>msg t. NewSimpleClientset T objects w = Panic msg t) \<longleftrightarrow> added T tr objects w1 = None"
    "NewSimpleClientset T objects w = Ret cs w2 \<Longrightarrow> added T tr objects w1 = Some w2 \<and> Tracker cs = tr \<and> fake_Discovery cs = fake_KubeclusterV1alpha1 cs \<and>
       fake_KubeclusterV1alpha1 cs = te_AddWatchReactor T ''*'' (watch_tracker T tr) (te_AddReactor T ''*'' ''*'' (te_ObjectReaction T tr) (te_zero T))"
proof -
  note parts = add_objects_added [of T tr objects w1]
  show "(\<exists>msg t. NewSimpleClientset T objects w = Panic msg t) \<longleftrightarrow> added T tr objects w1 = None"
    unfolding parts(2) [symmetric] by (auto simp: NewSimpleClientset_def outside_def go_run assms Let_def split: outcome.splits)
  assume "NewSimpleClientset T objects w = Ret cs w2"
  then obtain "add_objects T tr objects w1 = Ret () w2" and
    "cs = \<lparr>fc_Fake = te_AddWatchReactor T ''*'' (watch_tracker T tr) (te_AddReactor T ''*'' ''*'' (te_ObjectReaction T tr) (te_zero T)), fc_tracker = tr\<rparr>"
    by (auto simp: NewSimpleClientset_def outside_def go_run assms Let_def split: outcome.splits)
  with parts(1) [of w2] show "added T tr objects w1 = Some w2 \<and> Tracker cs = tr \<and> fake_Discovery cs = fake_KubeclusterV1alpha1 cs \<and>
       fake_KubeclusterV1alpha1 cs = te_AddWatchReactor T ''*'' (watch_tracker T tr) (te_AddReactor T ''*'' ''*'' (te_ObjectReaction T tr) (te_zero T))"
    by (simp add: Tracker_def fake_Discovery_def fake_KubeclusterV1alpha1_def)
qed

text \<open>A watch on the tracker is handled exactly if the tracker can be watched for the resource and the namespace of the action.\<close>

lemma watch_tracker_handles:
  "watch_tracker T tr action w = Ret (handled, x, err) w' \<Longrightarrow> handled \<longleftrightarrow> err = None"
  "\<exists>r. watch_tracker T tr action w = Ret r (snd (te_Watch T tr (ac_Resource (action_access action)) (ac_Namespace (action_access action)) w))"
  by (auto simp: watch_tracker_def outside_def go_run Let_def split: prod.splits sum.splits)

end
