(* ===== verification/Spec2Isabelle.thy ===== *)
theory Spec2Isabelle
  imports Execution RefManager Quota RandomSource DeepCopy Manager Informers ClusterConvergence InitContainers Loggers ClusterConfig FakeClientset
begin

text \<open>
  A verification of the \<^bold>\<open>kubecluster\<close> operator: a Kubernetes controller that runs batch-scheduling clusters
  (slurm, PBS Pro) as custom resources. It watches \<open>KubeCluster\<close> objects and creates, for every replica, a pod and a headless
  service, and for every cluster a config map and, with gang scheduling, a pod group; it restarts, counts and cleans up the pods and
  derives the conditions of the cluster from them.

  \<^bold>\<open>How the parts interact.\<close> \<open>Reconcile\<close> (\<open>pkg/controller/cluster_controller.go\<close>) reads the cluster, validates it, sets its defaults
  and hands it to \<open>ReconcileKubeCluster\<close> (\<open>pkg/controller/ctrlcommon\<close>). That function resets the expectations, lists the pods and
  services of the cluster, and either cleans up (finished), suspends, fails (back-off limit or deadline), waits for the pod group, or
  reconciles config map, pods, services and status. What differs between slurm and PBS Pro is behind an interface, the schema
  reconciler. Everything reaches the API server through the pod, service, config map and pod group controls. The event handlers lower the
  expectations when the created objects show up.

  \<^bold>\<open>State and effects.\<close> Stateful Go code is a program of the monad of \<open>Prelude\<close>: it returns a value and a state, or panics with the
  state reached (\<open>outcome\<close>); \<open>err != nil\<close> is a value of type \<open>gerr option\<close>. The state \<open>cstate\<close> (\<open>Kenv\<close>) holds an abstract world,
  the trace of calls that reach outside the controller with the answers they got, the expectations of every cluster type, and the one cluster object a
  reconciliation mutates through its pointers. The API server, its caches, the clock, the random source, label selectors and the helpers
  of apimachinery are the record \<open>'w kenv\<close>: each call may change the world arbitrarily and may fail, so the theorems hold for every interleaving
  with other clients. Integers keep their width (\<open>int32\<close>, \<open>int64\<close> words) where the code computes with them; strings are byte strings;
  Go maps are association lists.

  \<^bold>\<open>Theories, in the order they build on each other.\<close>
  \<^item> \<open>Prelude\<close>: the monad, weakest preconditions (\<open>wp\<close>), the locale \<open>frame\<close> from which the rules for untouched fields and for
    emitted calls follow, panic freedom (\<open>total\<close>). \<open>GoStrings\<close>: the used parts of \<open>strings\<close>, \<open>strconv\<close>, \<open>fmt\<close> and API errors.
  \<^item> \<open>ApiTypes\<close>, \<open>ClusterDefaults\<close>, \<open>Status\<close>: \<open>apis/kubecluster.org/v1alpha1\<close>, \<open>pkg/util/status.go\<close>, \<open>pkg/core/status.go\<close>. Validation is
    characterised, defaulting is idempotent and complete, every reachable condition list is well formed, and \<open>Failed\<close> is terminal.
  \<^item> \<open>Labels\<close>, \<open>Expectation\<close>: \<open>pkg/util/labels\<close>, \<open>pkg/controller/expectation\<close>. The store of client-go is the locale
    \<open>thread_safe_store\<close>; names are injective, and creations raise and lower the counters as meant.
  \<^item> \<open>Kenv\<close>, \<open>SampleEnv\<close>: the environment, and a concrete in-memory one on which the hypotheses of the theorems are met.
  \<^item> \<open>Control\<close>, \<open>PodGroupControl\<close>, \<open>RefManager\<close>: \<open>pkg/controller/control\<close>. The contracts are the locales \<open>object_control\<close> (the real
    and the fake controls), \<open>pod_group_control\<close> (volcano and scheduler-plugins), \<open>claimer\<close> and \<open>can_adopt\<close> (adoption and release).
  \<^item> \<open>Core\<close>, \<open>Quota\<close>, \<open>RandomSource\<close>: \<open>pkg/core\<close>, \<open>pkg/util/quota\<close>, the minimal resources of a pod group, \<open>pkg/util/random.go\<close>. Slices
    hold exactly the pods of their index, limits are exact including wrap-around, resource arithmetic is pointwise, the random loops end.
  \<^item> \<open>SchemaCommon\<close>, \<open>SlurmConf\<close>, \<open>Slurm\<close>, \<open>PbsPro\<close>, \<open>Schema\<close>: \<open>pkg/controller/cluster_schema\<close>, \<open>pkg/common/schema.go\<close> and \<open>cmd/main.go\<close>. Generated
    configurations, their round trip (ports written to \<open>slurm.conf\<close> are read back), pod templates and status updates of both schemas, which interpret the
    locale \<open>schema_reconciler\<close>; what start-up registers.
  \<^item> \<open>ClusterAccess\<close>, \<open>Replicas\<close>, \<open>ReconcileCluster\<close>, \<open>Operator\<close>: the rest of \<open>cluster_controller.go\<close>, all of \<open>ctrlcommon\<close>, and
    \<open>pkg/common/util\<close>: definitions, one per function, long functions cut into the blocks they consist of.
  \<^item> \<open>Plans\<close>, \<open>PodPlan\<close>, \<open>ServicePlan\<close>: the abstract specification of a replica type. The locale \<open>plan_calls\<close> says what it means that
    a program carries out a plan, a list of creations and deletions, or a part of it before an error; \<open>ReconcilePods\<close> and \<open>ReconcileServices\<close> refine
    the plan read off the slices.
  \<^item> \<open>Lifecycle\<close>, \<open>Events\<close>: finished and suspended clusters get nothing created, the clean policy is kept, a cluster over its limits is marked
    failed, pods wait for the admission of their pod group, refused clusters are left alone, and the events of the created pods satisfy the expectations.
  \<^item> \<open>Execution\<close>: the whole operator as a step relation on the state: reconciliations, events and changes by others in any order. Every reachable
    state has only made sound calls (objects owned by their cluster and named after it, well-formed statuses) and keeps the expectations consistent,
    which discharges that hypothesis of the theorems on single reconciliations.
  \<^item> \<open>Rounds\<close>, \<open>QuietServer\<close>, \<open>Convergence\<close>, \<open>ServiceConvergence\<close>: the objects of a replica type reconciled again and again on a server that carries out every call at
    once. The locale \<open>rounds\<close>, interpreted for pods and for services, shows that with at least one replica the objects come to rest after a number of rounds that is
    given, with exactly one object per index, and that with no replica they never do.
  \<^item> \<open>ClusterConvergence\<close>: the composition. The loop of \<open>ReconcileKubeCluster\<close> over the replica types works with lists taken before it; a type touches only its own
    objects, and the locale \<open>bystander\<close> shows that the reconciliation of pods leaves services alone and the other way round. So a whole cluster comes to rest.
  \<^item> \<open>Manager\<close>: \<open>main\<close> and \<open>SetupWithManager\<close> as the calls they make to controller-runtime. The manager is started last, and only when everything
    intended is watched and both health checks are installed.
  \<^item> \<open>GoHeap\<close>, \<open>DeepCopy\<close>: \<open>zz_generated.deepcopy.go\<close> on a heap of cells, where sharing is visible. The contract of a copy is the locale \<open>deep_copy\<close>; a copied
    cluster has the same value, shares no cell with the original but one, and writes to either do not show in the other; the one cell is shown to be shared.
  \<^item> \<open>Informers\<close>: \<open>pkg/client/informers\<close>, the shared informer factory as a step relation: every informer runs at most once, none is started after shutdown, and
    shutdown returns when all have ended.
  \<^item> \<open>Clients\<close>, \<open>ClientSet\<close>, \<open>FakeClientset\<close>: \<open>pkg/client/clientset\<close>, \<open>pkg/client/listers\<close>, \<open>pkg/util/k8sutil/client.go\<close>. Every method of the fake client makes the
    access that the real one requests, what the clients are made from, when a fake set can be made, and the listers agree with each other.
  \<^item> \<open>InitContainers\<close>, \<open>Loggers\<close>, \<open>ClusterConfig\<close>: \<open>initcontainer.go\<close> of both schemas, whose generators are made once (locale \<open>once_generator\<close>), \<open>pkg/util/logger.go\<close>,
    whose entries about a cluster share a field, and \<open>pkg/util/k8sutil/k8sutil.go\<close>, which finds the API server from the variables of the process.

  \<^bold>\<open>Bounds and termination.\<close> There is no fuel. Loops over lists are structural recursions. The two loops that draw random numbers are
  \<open>partial_function (option)\<close> and are proved to return when the source eventually draws a usable number. The length at which \<open>make\<close> panics is the parameter
  \<open>cc_maxlen\<close>. A range loop over a Go map visits the association list in its order, which is arbitrary.

  \<^bold>\<open>Assumptions.\<close> The theorems on reconciliation assume what start-up and defaulting establish (\<open>ready\<close>, \<open>gang_ok\<close>, the clean policy is set),
  that the schema's template function does not panic (\<open>spec_returns\<close>), for executions that the API server gives back the
  statuses it was given (\<open>serves_ok\<close>), and for \<open>DeletePodAndServices_correct\<close> that a deleted object stays
  deleted (\<open>deletes_stick\<close>). Each is met by the in-memory server of \<open>SampleEnv\<close>. The theories on convergence assume more: nobody else changes the objects, and the server
  creates, lists and deletes them at once (\<open>quiet_client\<close>), as the concrete server \<open>quiet_env\<close> does. Deep copies of the types of apimachinery are assumed to be
  copies (\<open>library_copies\<close>); a slice is its backing array from the first element to the last.

  \<^bold>\<open>Not modelled.\<close> Log lines, of which only the fields of their loggers are; registration of types and defaulting functions in a scheme, which are calls of apimachinery at
  package initialisation; OpenAPI; test utilities. Case conversion is that of ASCII. The real time between
  two calls is not bounded: liveness is stated over the sequence of events or of reconciliations, not over time.
\<close>

end
